(* ===== verification/Prelude.thy ===== *)
theory Prelude
  imports Complex_Main "HOL-Library.Multiset" "HOL-Library.AList"
begin

text \<open>
  Shared vocabulary of the development.

  An \<^verbatim>\<open>async\<close> function of the program runs against the shared state (the database) and either
  returns a value or throws. What it wrote before it threw stays written, so a computation is a
  function from a state to a state \<^emph>\<open>and\<close> a sum: \<open>Inl\<close> is the thrown value, \<open>Inr\<close> the returned
  one (\<open>io\<close>). \<open>bind_io\<close> is \<^verbatim>\<open>await\<close> followed by the rest of the function, \<open>catch_io\<close> is
  \<^verbatim>\<open>try/catch\<close>, \<open>for_io\<close> is a \<^verbatim>\<open>for ... of\<close> loop whose body may throw.
  \<open>hoare\<close> is the Hoare triple for such computations and \<open>keeps\<close> the special case of an invariant;
  the rules in the collections \<open>hoare_rules\<close> and \<open>keeps_rules\<close> carry the component proofs.
  The second half holds the lemmas on lists of documents that the components share, and the locale
  \<open>invariant_system\<close>: a transition function with an invariant that its steps keep.
\<close>

named_theorems io_defs "definitions of the computation combinators"
named_theorems hoare_rules "Hoare rules for the computation combinators"
named_theorems keeps_rules "invariant rules for the computation combinators"
named_theorems doc_simps "document-level rewrite rules"

type_synonym ('s, 'e, 'a) io = "'s \<Rightarrow> 's \<times> ('e + 'a)"

definition ret :: "'a \<Rightarrow> ('s, 'e, 'a) io" where
  "ret x = (\<lambda>s. (s, Inr x))"

definition throw :: "'e \<Rightarrow> ('s, 'e, 'a) io" where
  "throw e = (\<lambda>s. (s, Inl e))"

definition bind_io :: "('s, 'e, 'a) io \<Rightarrow> ('a \<Rightarrow> ('s, 'e, 'b) io) \<Rightarrow> ('s, 'e, 'b) io" where
  "bind_io m f = (\<lambda>s. case m s of (s', Inl e) \<Rightarrow> (s', Inl e) | (s', Inr x) \<Rightarrow> f x s')"

definition catch_io :: "('s, 'e, 'a) io \<Rightarrow> ('e \<Rightarrow> ('s, 'e, 'a) io) \<Rightarrow> ('s, 'e, 'a) io" where
  "catch_io m h = (\<lambda>s. case m s of (s', Inl e) \<Rightarrow> h e s' | (s', Inr x) \<Rightarrow> (s', Inr x))"

text \<open>\<open>for_io body acc xs\<close> threads the loop's local variables \<open>acc\<close> through the body.\<close>

fun for_io :: "('acc \<Rightarrow> 'x \<Rightarrow> ('s, 'e, 'acc) io) \<Rightarrow> 'acc \<Rightarrow> 'x list \<Rightarrow> ('s, 'e, 'acc) io" where
  "for_io body acc [] = ret acc"
| "for_io body acc (x # xs) = bind_io (body acc x) (\<lambda>acc'. for_io body acc' xs)"

declare ret_def [io_defs] throw_def [io_defs] bind_io_def [io_defs] catch_io_def [io_defs]

lemma bind_io_ret [simp]: "bind_io (ret x) f = f x"
  by (simp add: io_defs)

lemma bind_io_throw [simp]: "bind_io (throw e) f = throw e"
  by (simp add: io_defs)

lemma ret_apply [simp]: "ret x s = (s, Inr x)"
  by (simp add: ret_def)

lemma throw_apply [simp]: "throw e s = (s, Inl e)"
  by (simp add: throw_def)

lemma bind_io_Inr:
  "bind_io m f s = (s', Inr y) \<longleftrightarrow> (\<exists>s1 x. m s = (s1, Inr x) \<and> f x s1 = (s', Inr y))"
  by (auto simp: bind_io_def split: prod.splits sum.splits)

lemma bind_io_Inl:
  "bind_io m f s = (s', Inl e) \<longleftrightarrow>
     m s = (s', Inl e) \<or> (\<exists>s1 x. m s = (s1, Inr x) \<and> f x s1 = (s', Inl e))"
  by (auto simp: bind_io_def split: prod.splits sum.splits)

lemma bind_io_step: "m s = (s1, Inr x) \<Longrightarrow> bind_io m f s = f x s1"
  by (simp add: bind_io_def)

lemma bind_io_fail: "m s = (s1, Inl e) \<Longrightarrow> bind_io m f s = (s1, Inl e)"
  by (simp add: bind_io_def)

lemma bind_io_assoc: "bind_io (bind_io m f) g = bind_io m (\<lambda>x. bind_io (f x) g)"
  by (rule ext) (auto simp: bind_io_def split: prod.splits sum.splits)


section \<open>Hoare triples\<close>

definition hoare ::
  "('s \<Rightarrow> bool) \<Rightarrow> ('s, 'e, 'a) io \<Rightarrow> ('a \<Rightarrow> 's \<Rightarrow> bool) \<Rightarrow> ('e \<Rightarrow> 's \<Rightarrow> bool) \<Rightarrow> bool" where
  "hoare P m Q E \<longleftrightarrow>
     (\<forall>s. P s \<longrightarrow> (case m s of (s', Inl e) \<Rightarrow> E e s' | (s', Inr x) \<Rightarrow> Q x s'))"

definition keeps :: "('s \<Rightarrow> bool) \<Rightarrow> ('s, 'e, 'a) io \<Rightarrow> bool" where
  "keeps I m \<longleftrightarrow> hoare I m (\<lambda>_. I) (\<lambda>_. I)"

lemma hoareI:
  assumes "\<And>s s' x. P s \<Longrightarrow> m s = (s', Inr x) \<Longrightarrow> Q x s'"
    and "\<And>s s' e. P s \<Longrightarrow> m s = (s', Inl e) \<Longrightarrow> E e s'"
  shows "hoare P m Q E"
  using assms by (auto simp: hoare_def split: prod.splits sum.splits)

lemma hoare_Inr: "hoare P m Q E \<Longrightarrow> P s \<Longrightarrow> m s = (s', Inr x) \<Longrightarrow> Q x s'"
  by (auto simp: hoare_def split: prod.splits sum.splits)

lemma hoare_Inl: "hoare P m Q E \<Longrightarrow> P s \<Longrightarrow> m s = (s', Inl e) \<Longrightarrow> E e s'"
  by (auto simp: hoare_def split: prod.splits sum.splits)

text \<open>A triple that admits no thrown value: the call returns.\<close>

lemma hoare_returns:
  assumes "hoare P m Q (\<lambda>_ _. False)" "P s"
  obtains s' x where "m s = (s', Inr x)" "Q x s'"
proof (cases "m s")
  case (Pair s' r)
  with assms that show ?thesis by (cases r) (auto dest: hoare_Inr hoare_Inl)
qed

lemma hoare_ret [hoare_rules]: "(\<And>s. P s \<Longrightarrow> Q x s) \<Longrightarrow> hoare P (ret x) Q E"
  by (simp add: hoare_def)

lemma hoare_throw [hoare_rules]: "(\<And>s. P s \<Longrightarrow> E e s) \<Longrightarrow> hoare P (throw e) Q E"
  by (simp add: hoare_def)

lemma hoare_bind [hoare_rules]:
  "hoare P m R E \<Longrightarrow> (\<And>x. hoare (R x) (f x) Q E) \<Longrightarrow> hoare P (bind_io m f) Q E"
  by (fastforce simp: hoare_def bind_io_def split: prod.splits sum.splits)

lemma hoare_if [hoare_rules]:
  "(b \<Longrightarrow> hoare P m Q E) \<Longrightarrow> (\<not> b \<Longrightarrow> hoare P n Q E) \<Longrightarrow> hoare P (if b then m else n) Q E"
  by simp

lemma hoare_case_option [hoare_rules]:
  "(v = None \<Longrightarrow> hoare P m Q E) \<Longrightarrow> (\<And>x. v = Some x \<Longrightarrow> hoare P (f x) Q E) \<Longrightarrow>
    hoare P (case v of None \<Rightarrow> m | Some x \<Rightarrow> f x) Q E"
  by (cases v) auto

lemma hoare_case_sum [hoare_rules]:
  "(\<And>e. v = Inl e \<Longrightarrow> hoare P (m e) Q E) \<Longrightarrow> (\<And>x. v = Inr x \<Longrightarrow> hoare P (f x) Q E) \<Longrightarrow>
    hoare P (case v of Inl e \<Rightarrow> m e | Inr x \<Rightarrow> f x) Q E"
  by (cases v) auto

lemma hoare_keeps: "keeps P m \<Longrightarrow> (\<And>x s. P s \<Longrightarrow> Q x s) \<Longrightarrow> (\<And>e s. P s \<Longrightarrow> E e s) \<Longrightarrow> hoare P m Q E"
  by (fastforce simp: keeps_def hoare_def split: prod.splits sum.splits)

lemma hoare_keepsI: "hoare I m (\<lambda>_. I) (\<lambda>_. I) \<Longrightarrow> keeps I m"
  by (simp add: keeps_def)

lemma hoare_pre: "(\<And>s. P s \<Longrightarrow> P' s) \<Longrightarrow> hoare P' m Q E \<Longrightarrow> hoare P m Q E"
  by (auto simp: hoare_def)

lemma hoare_conseq:
  assumes "hoare P' m Q' E'"
    and "\<And>s. P s \<Longrightarrow> P' s" "\<And>x s. Q' x s \<Longrightarrow> Q x s" "\<And>e s. E' e s \<Longrightarrow> E e s"
  shows "hoare P m Q E"
  using assms by (fastforce simp: hoare_def split: prod.splits sum.splits)

text \<open>The loop rule: the invariant speaks of the elements done so far and of the loop variables.\<close>

lemma hoare_for:
  assumes "\<And>ys x acc. hoare (I ys acc) (body acc x) (\<lambda>acc'. I (ys @ [x]) acc') E"
  shows "hoare (I ys acc) (for_io body acc xs) (\<lambda>acc'. I (ys @ xs) acc') E"
proof (induction xs arbitrary: ys acc)
  case Nil
  show ?case unfolding for_io.simps append_Nil2 by (rule hoare_ret)
next
  case (Cons x xs)
  have "hoare (I (ys @ [x]) acc') (for_io body acc' xs) (\<lambda>acc''. I ((ys @ [x]) @ xs) acc'') E" for acc'
    by (rule Cons.IH)
  with assms [of ys acc x] show ?case by (auto intro: hoare_bind)
qed

lemma keeps_ret [keeps_rules]: "keeps I (ret x)"
  by (simp add: keeps_def hoare_def)

lemma keeps_throw [keeps_rules]: "keeps I (throw e)"
  by (simp add: keeps_def hoare_def)

lemma keeps_bind [keeps_rules]:
  "keeps I m \<Longrightarrow> (\<And>x. keeps I (f x)) \<Longrightarrow> keeps I (bind_io m f)"
  unfolding keeps_def by (rule hoare_bind)

lemma keeps_catch [keeps_rules]:
  "keeps I m \<Longrightarrow> (\<And>e. keeps I (h e)) \<Longrightarrow> keeps I (catch_io m h)"
  by (fastforce simp: keeps_def hoare_def catch_io_def split: prod.splits sum.splits)

lemma keeps_if [keeps_rules]:
  "(b \<Longrightarrow> keeps I m) \<Longrightarrow> (\<not> b \<Longrightarrow> keeps I n) \<Longrightarrow> keeps I (if b then m else n)"
  by simp

lemma keeps_case_option [keeps_rules]:
  "(v = None \<Longrightarrow> keeps I m) \<Longrightarrow> (\<And>x. v = Some x \<Longrightarrow> keeps I (f x)) \<Longrightarrow>
    keeps I (case v of None \<Rightarrow> m | Some x \<Rightarrow> f x)"
  by (cases v) auto

lemma keeps_case_sum [keeps_rules]:
  "(\<And>e. v = Inl e \<Longrightarrow> keeps I (m e)) \<Longrightarrow> (\<And>x. v = Inr x \<Longrightarrow> keeps I (f x)) \<Longrightarrow>
    keeps I (case v of Inl e \<Rightarrow> m e | Inr x \<Rightarrow> f x)"
  by (cases v) auto

lemma keeps_case_prod [keeps_rules]:
  "(\<And>x y. keeps I (f x y)) \<Longrightarrow> keeps I (case v of (x, y) \<Rightarrow> f x y)"
  by (cases v) auto

lemma keeps_for [keeps_rules]:
  "(\<And>acc x. keeps I (body acc x)) \<Longrightarrow> keeps I (for_io body acc xs)"
  by (induction xs arbitrary: acc) (auto intro: keeps_rules)

lemma keeps_for_in:
  "(\<And>acc x. x \<in> set xs \<Longrightarrow> keeps I (body acc x)) \<Longrightarrow> keeps I (for_io body acc xs)"
  by (induction xs arbitrary: acc) (auto intro: keeps_rules)

lemma keepsD: "keeps I m \<Longrightarrow> I s \<Longrightarrow> I (fst (m s))"
  by (cases "m s"; cases "snd (m s)") (auto simp: keeps_def dest: hoare_Inr hoare_Inl)

lemma keepsI:
  assumes "\<And>s. I s \<Longrightarrow> I (fst (m s))"
  shows "keeps I m"
  unfolding keeps_def by (rule hoareI) (metis assms fst_conv)+


section \<open>Lists of documents\<close>

text \<open>Exactly one document that satisfies \<open>p\<close> was replaced by its image under \<open>f\<close>.\<close>

definition one_updated :: "('d \<Rightarrow> bool) \<Rightarrow> ('d \<Rightarrow> 'd) \<Rightarrow> 'd list \<Rightarrow> 'd list \<Rightarrow> 'd \<Rightarrow> bool" where
  "one_updated p f s s' d' \<longleftrightarrow>
     (\<exists>xs d ys. s = xs @ d # ys \<and> p d \<and> s' = xs @ f d # ys \<and> d' = f d)"

lemma one_updatedE:
  assumes "one_updated p f s s' d'"
  obtains xs d ys where "s = xs @ d # ys" "p d" "s' = xs @ f d # ys" "d' = f d"
  using assms by (auto simp: one_updated_def)

lemma one_updated_member: "one_updated p f s s' d' \<Longrightarrow> d' \<in> set s'"
  by (auto simp: one_updated_def)

lemma one_updated_source: "one_updated p f s s' d' \<Longrightarrow> \<exists>d \<in> set s. p d \<and> d' = f d"
  by (auto simp: one_updated_def)

lemma one_updated_all:
  assumes "one_updated p f s s' d'" "\<forall>d \<in> set s. I d" "\<And>d. I d \<Longrightarrow> p d \<Longrightarrow> I (f d)"
  shows "\<forall>d \<in> set s'. I d"
  using assms by (auto elim!: one_updatedE)

lemma one_updated_map:
  assumes "one_updated p f s s' d'" "\<And>d. k (f d) = k d"
  shows "map k s' = map k s"
  using assms by (auto elim!: one_updatedE)

lemma one_updated_length: "one_updated p f s s' d' \<Longrightarrow> length s' = length s"
  by (auto elim!: one_updatedE)

lemma one_updated_others:
  assumes "one_updated p f s s' d'" "d \<in> set s" "\<not> p d"
  shows "d \<in> set s'"
  using assms by (auto elim!: one_updatedE)

lemma one_updated_same:
  assumes "one_updated p f s s' d'" "\<And>d. d \<in> set s \<Longrightarrow> p d \<Longrightarrow> f d = d"
  shows "s' = s" "d' \<in> set s" "p d'"
  using assms by (auto elim!: one_updatedE)

text \<open>Where the filter pins a unique key, the update is a \<open>map\<close>.\<close>

lemma one_updated_by_key:
  assumes "one_updated p f s s' d'" "distinct (map k s)" "\<And>d. p d \<Longrightarrow> k d = i"
  shows "s' = map (\<lambda>d. if k d = i then f d else d) s \<and> (\<exists>d \<in> set s. k d = i \<and> d' = f d)"
proof -
  from assms(1) obtain xs d ys where
    s: "s = xs @ d # ys" and "p d" and s': "s' = xs @ f d # ys" and d': "d' = f d"
    by (rule one_updatedE)
  from \<open>p d\<close> assms(3) have "k d = i" by blast
  with assms(2) s have "\<forall>e \<in> set xs \<union> set ys. k e \<noteq> i" by (auto simp: rev_image_eqI)
  then have "map (\<lambda>d. if k d = i then f d else d) xs = xs"
    and "map (\<lambda>d. if k d = i then f d else d) ys = ys"
    by (auto intro: map_idI)
  with s s' d' \<open>k d = i\<close> show ?thesis by auto
qed

text \<open>Two documents of a collection with distinct keys and equal key are the same document.\<close>

lemma distinct_key_unique:
  "distinct (map k s) \<Longrightarrow> d \<in> set s \<Longrightarrow> e \<in> set s \<Longrightarrow> k d = k e \<Longrightarrow> d = e"
  by (auto simp: distinct_map inj_on_def)

lemma map_key_absent: "i \<notin> k ` set s \<Longrightarrow> map (\<lambda>d. if k d = i then f d else d) s = s"
  by (induction s) auto

lemma map_key_image:
  "d \<in> set s \<Longrightarrow> (if k d = i then f d else d) \<in> set (map (\<lambda>d. if k d = i then f d else d) s)"
  unfolding set_map by (rule imageI)

lemma filter_mset_mem: "mset ds = filter_mset p (mset s) \<Longrightarrow> d \<in> set ds \<longleftrightarrow> d \<in> set s \<and> p d"
  by (metis mem_Collect_eq set_mset_filter set_mset_mset)

lemma filter_mset_length: "mset ds = filter_mset p (mset s) \<Longrightarrow> length ds = length (filter p s)"
  by (metis mset_filter size_mset)


section \<open>Runs of a transition function and their invariants\<close>

fun run :: "('s \<Rightarrow> 'ev \<Rightarrow> 's) \<Rightarrow> 's \<Rightarrow> 'ev list \<Rightarrow> 's" where
  "run step s [] = s"
| "run step s (e # es) = run step (step s e) es"

lemma run_append: "run step s (es @ fs) = run step (run step s es) fs"
  by (induction es arbitrary: s) auto

locale invariant_system =
  fixes step :: "'s \<Rightarrow> 'ev \<Rightarrow> 's"
    and allowed :: "'ev \<Rightarrow> bool"
    and inv :: "'s \<Rightarrow> bool"
  assumes inv_step: "allowed e \<Longrightarrow> inv s \<Longrightarrow> inv (step s e)"
begin

lemma inv_run: "\<forall>e \<in> set es. allowed e \<Longrightarrow> inv s \<Longrightarrow> inv (run step s es)"
  by (induction es arbitrary: s) (auto intro: inv_step)

lemma inv_prefix:
  "\<forall>e \<in> set es. allowed e \<Longrightarrow> inv s \<Longrightarrow> inv (run step s (take n es))"
  by (rule inv_run) (auto dest: in_set_takeD)

end

end
