(* ===== verification/Mongo_Driver.thy ===== *)
theory Mongo_Driver
  imports Prelude
begin

text \<open>
  The interface of the program to MongoDB. Mongoose and the server are not part of the repository,
  so the operations the code calls are parameters: a \<open>driver\<close> for each collection. A collection is
  the list of its documents; every operation either fails (\<open>Inl\<close>, leaving the collection as it was)
  or answers. The locale \<open>mongo\<close> states what the code relies on in an answer: which documents
  \<^verbatim>\<open>findOne\<close>, \<^verbatim>\<open>find\<close>, \<^verbatim>\<open>findOneAndUpdate\<close>, \<^verbatim>\<open>updateMany\<close>, \<^verbatim>\<open>countDocuments\<close>
  and \<^verbatim>\<open>create\<close> may return and what they do to the collection. Which of several matching documents is
  chosen, and in which order an unsorted query lists them, is left open. An upsert whose filter is the
  unique index fails on a duplicate only where no document matches (the server retries it otherwise).
  \<open>reliable_mongo\<close>
  adds that the server answers every call, so that \<^verbatim>\<open>create\<close> fails only on a unique index.
  \<open>mem_driver\<close> is an executable in-memory driver that satisfies both; it shows that the
  contracts can hold and is what closed examples run on.
\<close>

type_synonym oid = string

datatype db_error = DuplicateKey | CastFailed | ValidationFailed | Unavailable

record 'd driver =
  drv_findOne :: "('d \<Rightarrow> bool) \<Rightarrow> 'd list \<Rightarrow> db_error + 'd option"
  drv_find :: "('d \<Rightarrow> bool) \<Rightarrow> 'd list \<Rightarrow> db_error + 'd list"
  drv_findPage :: "('d \<Rightarrow> bool) \<Rightarrow> ('d \<Rightarrow> 'd \<Rightarrow> bool) \<Rightarrow> int \<Rightarrow> int \<Rightarrow> 'd list \<Rightarrow> db_error + 'd list"
  drv_count :: "('d \<Rightarrow> bool) \<Rightarrow> 'd list \<Rightarrow> db_error + nat"
  drv_updateOne :: "('d \<Rightarrow> bool) \<Rightarrow> ('d \<Rightarrow> 'd) \<Rightarrow> 'd list \<Rightarrow> db_error + 'd list \<times> 'd option"
  drv_updateMany :: "('d \<Rightarrow> bool) \<Rightarrow> ('d \<Rightarrow> 'd) \<Rightarrow> 'd list \<Rightarrow> db_error + 'd list \<times> nat"
  drv_create :: "(oid \<Rightarrow> 'd) \<Rightarrow> 'd list \<Rightarrow> db_error + 'd list \<times> 'd"
  drv_upsert :: "('d \<Rightarrow> bool) \<Rightarrow> ('d \<Rightarrow> 'd) \<Rightarrow> (oid \<Rightarrow> 'd) \<Rightarrow> 'd list \<Rightarrow> db_error + 'd list \<times> 'd"

text \<open>A sort key: a total preorder on the documents.\<close>

definition sort_order :: "('d \<Rightarrow> 'd \<Rightarrow> bool) \<Rightarrow> bool" where
  "sort_order le \<longleftrightarrow> (\<forall>x y. le x y \<or> le y x) \<and> (\<forall>x y z. le x y \<longrightarrow> le y z \<longrightarrow> le x z)"

lemma sort_order_key: "sort_order (\<lambda>x y. (f x :: 'k::linorder) \<le> f y)"
  "sort_order (\<lambda>x y. (f y :: 'k::linorder) \<le> f x)"
  by (auto simp: sort_order_def)


section \<open>The contract\<close>

locale mongo =
  fixes drv :: "'d driver"
    and key :: "'d \<Rightarrow> oid"
    and clash :: "'d \<Rightarrow> 'd \<Rightarrow> bool"
  assumes findOne_None: "drv_findOne drv p s = Inr None \<Longrightarrow> d \<in> set s \<Longrightarrow> \<not> p d"
    and findOne_Some: "drv_findOne drv p s = Inr (Some d) \<Longrightarrow> d \<in> set s \<and> p d"
    and find_Inr: "drv_find drv p s = Inr ds \<Longrightarrow> mset ds = filter_mset p (mset s)"
    and findPage_Inr: "drv_findPage drv p le sk lm s = Inr ds \<Longrightarrow> sort_order le \<Longrightarrow>
        0 \<le> sk \<Longrightarrow> 0 < lm \<Longrightarrow>
        \<exists>all. mset all = filter_mset p (mset s) \<and> sorted_wrt le all \<and>
          ds = take (nat lm) (drop (nat sk) all)"
    and count_Inr: "drv_count drv p s = Inr n \<Longrightarrow> n = length (filter p s)"
    and updateOne_None: "drv_updateOne drv p f s = Inr (s', None) \<Longrightarrow>
        s' = s \<and> (\<forall>d \<in> set s. \<not> p d)"
    and updateOne_Some: "drv_updateOne drv p f s = Inr (s', Some d) \<Longrightarrow> one_updated p f s s' d"
    and updateMany_Inr: "drv_updateMany drv p f s = Inr (s', n) \<Longrightarrow>
        s' = map (\<lambda>d. if p d then f d else d) s \<and> n = length (filter (\<lambda>d. p d \<and> f d \<noteq> d) s)"
    and create_Inr: "drv_create drv mk s = Inr (s', d) \<Longrightarrow> (\<And>i. key (mk i) = i) \<Longrightarrow>
        s' = s @ [d] \<and> key d \<notin> key ` set s \<and> d = mk (key d) \<and> (\<forall>e \<in> set s. \<not> clash d e)"
    and create_Dup: "drv_create drv mk s = Inl DuplicateKey \<Longrightarrow> (\<And>i. key (mk i) = i) \<Longrightarrow>
        \<exists>i. \<exists>e \<in> set s. clash (mk i) e"
    and upsert_Inr: "drv_upsert drv p f mk s = Inr (s', d) \<Longrightarrow> (\<And>i. key (mk i) = i) \<Longrightarrow>
        one_updated p f s s' d \<or>
        (\<forall>e \<in> set s. \<not> p e) \<and> s' = s @ [d] \<and> key d \<notin> key ` set s \<and> d = mk (key d) \<and>
          (\<forall>e \<in> set s. \<not> clash d e)"
    and upsert_Dup: "drv_upsert drv p f mk s = Inl DuplicateKey \<Longrightarrow> (\<And>i. key (mk i) = i) \<Longrightarrow>
        (\<forall>d \<in> set s. \<not> p d) \<and> (\<exists>i. \<exists>e \<in> set s. clash (mk i) e)"
    and create_id: "drv_create drv mk s = Inr (s', d) \<Longrightarrow> (\<And>i. key (mk i) = i) \<Longrightarrow> key d \<noteq> []"
    and upsert_id: "drv_upsert drv p f mk s = Inr (s', d) \<Longrightarrow> (\<And>i. key (mk i) = i) \<Longrightarrow>
        (\<forall>e \<in> set s. \<not> p e) \<Longrightarrow> key d \<noteq> []"
begin

lemma find_mem: "drv_find drv p s = Inr ds \<Longrightarrow> d \<in> set ds \<longleftrightarrow> d \<in> set s \<and> p d"
  by (rule filter_mset_mem) (rule find_Inr)

lemma find_distinct:
  assumes "drv_find drv p s = Inr ds" "distinct (map key s)"
  shows "distinct (map key ds)"
proof -
  have "mset (map key ds) = mset (map key (filter p s))"
    using find_Inr [OF assms(1)] by simp
  moreover have "distinct (map key (filter p s))"
    using assms(2) by (rule distinct_map_filter)
  ultimately show ?thesis by (metis mset_eq_imp_distinct_iff)
qed

lemma findPage_mem:
  assumes "drv_findPage drv p le sk lm s = Inr ds" "sort_order le" "0 \<le> sk" "0 < lm"
  shows "(\<forall>d \<in> set ds. d \<in> set s \<and> p d) \<and> length ds \<le> nat lm \<and> sorted_wrt le ds"
proof -
  obtain ys where ys: "mset ys = filter_mset p (mset s)" "sorted_wrt le ys"
    "ds = take (nat lm) (drop (nat sk) ys)"
    using findPage_Inr [OF assms] by blast
  have "d \<in> set s \<and> p d" if "d \<in> set ds" for d
    using that ys(3) filter_mset_mem [OF ys(1)] by (metis in_set_dropD in_set_takeD)
  moreover have "length ds \<le> nat lm" "sorted_wrt le ds"
    using ys(2,3) by (simp_all add: sorted_wrt_take sorted_wrt_drop)
  ultimately show ?thesis by blast
qed

lemma updateOne_by_key:
  assumes "drv_updateOne drv (\<lambda>d. key d = i) f s = Inr (s', r)" "distinct (map key s)"
  shows "s' = map (\<lambda>d. if key d = i then f d else d) s \<and>
    (case r of None \<Rightarrow> i \<notin> key ` set s | Some d' \<Rightarrow> \<exists>d \<in> set s. key d = i \<and> d' = f d)"
proof (cases r)
  case None
  with assms(1) have "s' = s \<and> (\<forall>d \<in> set s. key d \<noteq> i)"
    using updateOne_None by blast
  with None show ?thesis by (auto intro: map_idI [symmetric])
next
  case (Some d')
  with assms(1) have "one_updated (\<lambda>d. key d = i) f s s' d'"
    using updateOne_Some by blast
  from one_updated_by_key [OF this assms(2)] Some show ?thesis by auto
qed

lemma updateOne_all:
  assumes "drv_updateOne drv p f s = Inr (s', r)" "\<forall>d \<in> set s. I d"
    and "\<And>d. I d \<Longrightarrow> p d \<Longrightarrow> I (f d)"
  shows "\<forall>d \<in> set s'. I d"
proof (cases r)
  case None
  with assms(1,2) updateOne_None show ?thesis by blast
next
  case (Some d)
  with assms(1) have "one_updated p f s s' d" by (simp add: updateOne_Some)
  then show ?thesis using assms(2,3) by (rule one_updated_all)
qed

lemma updateOne_map:
  assumes "drv_updateOne drv p f s = Inr (s', r)" "\<And>d. k (f d) = k d"
  shows "map k s' = map k s"
proof (cases r)
  case None
  with assms(1) updateOne_None show ?thesis by blast
next
  case (Some d)
  with assms(1) have "one_updated p f s s' d" by (simp add: updateOne_Some)
  then show ?thesis using assms(2) by (rule one_updated_map)
qed

end

locale reliable_mongo = mongo +
  assumes findOne_answers: "drv_findOne drv p s \<noteq> Inl e"
    and find_answers: "drv_find drv p s \<noteq> Inl e"
    and findPage_answers: "drv_findPage drv p le sk lm s \<noteq> Inl e"
    and count_answers: "drv_count drv p s \<noteq> Inl e"
    and updateOne_answers: "drv_updateOne drv p f s \<noteq> Inl e"
    and updateMany_answers: "drv_updateMany drv p f s \<noteq> Inl e"
    and create_answers: "drv_create drv mk s = Inl e \<Longrightarrow> e = DuplicateKey"
    and upsert_answers: "drv_upsert drv p f mk s = Inl e \<Longrightarrow> e = DuplicateKey"
begin

lemma findOne_total: obtains r where "drv_findOne drv p s = Inr r"
  using findOne_answers by (metis sum.exhaust)

lemma find_total: obtains ds where "drv_find drv p s = Inr ds"
  using find_answers by (metis sum.exhaust)

lemma count_total: obtains n where "drv_count drv p s = Inr n"
  using count_answers by (metis sum.exhaust)

lemma updateOne_total: obtains s' r where "drv_updateOne drv p f s = Inr (s', r)"
  using updateOne_answers by (metis sum.exhaust surj_pair)

lemma updateMany_total: obtains s' n where "drv_updateMany drv p f s = Inr (s', n)"
  using updateMany_answers by (metis sum.exhaust surj_pair)

lemma findOne_finds:
  assumes "d \<in> set s" "p d"
  obtains d' where "drv_findOne drv p s = Inr (Some d')" "d' \<in> set s" "p d'"
proof -
  obtain r where r: "drv_findOne drv p s = Inr r" by (rule findOne_total)
  show ?thesis
  proof (cases r)
    case None
    with r assms findOne_None show ?thesis by blast
  next
    case (Some d')
    with r findOne_Some that show ?thesis by blast
  qed
qed

lemma updateOne_finds:
  assumes "d \<in> set s" "p d"
  obtains s' d' where "drv_updateOne drv p f s = Inr (s', Some d')" "one_updated p f s s' d'"
proof -
  obtain s' r where r: "drv_updateOne drv p f s = Inr (s', r)" by (rule updateOne_total)
  show ?thesis
  proof (cases r)
    case None
    with r assms updateOne_None show ?thesis by blast
  next
    case (Some d')
    with r updateOne_Some that show ?thesis by blast
  qed
qed

lemma create_fresh:
  assumes "\<And>i. key (mk i) = i" "\<And>i e. e \<in> set s \<Longrightarrow> \<not> clash (mk i) e"
  obtains d where "drv_create drv mk s = Inr (s @ [d], d)" "key d \<notin> key ` set s" "d = mk (key d)"
proof (cases "drv_create drv mk s")
  case (Inl e)
  then show ?thesis using create_answers create_Dup assms by blast
next
  case (Inr r)
  obtain s' d where r: "r = (s', d)" by (cases r)
  with Inr create_Inr [of mk s s' d] assms(1) that [of d] show ?thesis by auto
qed

end


section \<open>An in-memory driver that satisfies the contract\<close>

fun update_first :: "('d \<Rightarrow> bool) \<Rightarrow> ('d \<Rightarrow> 'd) \<Rightarrow> 'd list \<Rightarrow> 'd list \<times> 'd option" where
  "update_first p f [] = ([], None)"
| "update_first p f (d # ds) =
     (if p d then (f d # ds, Some (f d))
      else (case update_first p f ds of (ds', r) \<Rightarrow> (d # ds', r)))"

definition fresh_oid :: "oid list \<Rightarrow> oid" where
  "fresh_oid is = replicate (Suc (foldr max (map length is) 0)) CHR ''0''"

fun insert_by :: "('d \<Rightarrow> 'd \<Rightarrow> bool) \<Rightarrow> 'd \<Rightarrow> 'd list \<Rightarrow> 'd list" where
  "insert_by le x [] = [x]"
| "insert_by le x (y # ys) = (if le x y then x # y # ys else y # insert_by le x ys)"

fun sort_by :: "('d \<Rightarrow> 'd \<Rightarrow> bool) \<Rightarrow> 'd list \<Rightarrow> 'd list" where
  "sort_by le [] = []"
| "sort_by le (x # xs) = insert_by le x (sort_by le xs)"

definition mem_create ::
  "('d \<Rightarrow> oid) \<Rightarrow> ('d \<Rightarrow> 'd \<Rightarrow> bool) \<Rightarrow> (oid \<Rightarrow> 'd) \<Rightarrow> 'd list \<Rightarrow> db_error + 'd list \<times> 'd" where
  "mem_create key clash mk s =
     (let d = mk (fresh_oid (map key s))
      in if list_ex (clash d) s then Inl DuplicateKey else Inr (s @ [d], d))"

definition mem_driver :: "('d \<Rightarrow> oid) \<Rightarrow> ('d \<Rightarrow> 'd \<Rightarrow> bool) \<Rightarrow> 'd driver" where
  "mem_driver key clash =
     \<lparr> drv_findOne = (\<lambda>p s. Inr (List.find p s)),
       drv_find = (\<lambda>p s. Inr (filter p s)),
       drv_findPage = (\<lambda>p le sk lm s. Inr (take (nat lm) (drop (nat sk) (sort_by le (filter p s))))),
       drv_count = (\<lambda>p s. Inr (length (filter p s))),
       drv_updateOne = (\<lambda>p f s. Inr (update_first p f s)),
       drv_updateMany = (\<lambda>p f s. Inr (map (\<lambda>d. if p d then f d else d) s,
                                       length (filter (\<lambda>d. p d \<and> f d \<noteq> d) s))),
       drv_create = mem_create key clash,
       drv_upsert = (\<lambda>p f mk s. case update_first p f s of
                        (s', Some d) \<Rightarrow> Inr (s', d)
                      | (s', None) \<Rightarrow> mem_create key clash mk s) \<rparr>"

lemma update_first_None:
  "update_first p f s = (s', None) \<Longrightarrow> s' = s \<and> (\<forall>d \<in> set s. \<not> p d)"
  by (induction s arbitrary: s') (auto split: if_splits prod.splits)

lemma update_first_Some:
  "update_first p f s = (s', Some d') \<Longrightarrow> one_updated p f s s' d'"
proof (induction s arbitrary: s')
  case Nil
  then show ?case by simp
next
  case (Cons d ds)
  show ?case
  proof (cases "p d")
    case True
    with Cons.prems have "d # ds = [] @ d # ds \<and> p d \<and> s' = [] @ f d # ds \<and> d' = f d" by auto
    then show ?thesis unfolding one_updated_def by blast
  next
    case False
    with Cons.prems obtain ds' where "update_first p f ds = (ds', Some d')" "s' = d # ds'"
      by (auto split: prod.splits)
    with Cons.IH obtain xs e ys where
      "ds = xs @ e # ys" "p e" "ds' = xs @ f e # ys" "d' = f e"
      by (metis one_updatedE)
    with \<open>s' = d # ds'\<close> have
      "d # ds = (d # xs) @ e # ys \<and> p e \<and> s' = (d # xs) @ f e # ys \<and> d' = f e" by simp
    then show ?thesis unfolding one_updated_def by blast
  qed
qed

lemma length_le_foldr_max: "i \<in> set is \<Longrightarrow> length i \<le> foldr max (map length is) 0"
  by (induction "is") (auto simp: max_def)

lemma fresh_oid_new: "fresh_oid is \<notin> set is"
  using length_le_foldr_max [of "fresh_oid is" "is"] by (auto simp: fresh_oid_def)

lemma mset_insert_by: "mset (insert_by le x ys) = {#x#} + mset ys"
  by (induction ys) auto

lemma mset_sort_by: "mset (sort_by le xs) = mset xs"
  by (induction xs) (auto simp: mset_insert_by)

lemma set_insert_by: "set (insert_by le x ys) = insert x (set ys)"
  using mset_insert_by [of le x ys] by (metis set_mset_mset set_mset_add_mset_insert add_mset_add_single
      union_commute)

lemma sorted_insert_by:
  "sort_order le \<Longrightarrow> sorted_wrt le ys \<Longrightarrow> sorted_wrt le (insert_by le x ys)"
  by (induction ys) (auto simp: set_insert_by sort_order_def)

lemma sorted_sort_by: "sort_order le \<Longrightarrow> sorted_wrt le (sort_by le xs)"
  by (induction xs) (auto simp: sorted_insert_by)

lemma mem_create_Inr:
  "mem_create key clash mk s = Inr (s', d) \<Longrightarrow> (\<And>i. key (mk i) = i) \<Longrightarrow>
    s' = s @ [d] \<and> key d \<notin> key ` set s \<and> d = mk (key d) \<and> (\<forall>e \<in> set s. \<not> clash d e)"
  using fresh_oid_new [of "map key s"]
  by (auto simp: mem_create_def Let_def list_ex_iff split: if_splits)

lemma mem_create_id:
  "mem_create key clash mk s = Inr (s', d) \<Longrightarrow> (\<And>i. key (mk i) = i) \<Longrightarrow> key d \<noteq> []"
  by (auto simp: mem_create_def Let_def fresh_oid_def split: if_splits)

lemma mem_create_Inl:
  "mem_create key clash mk s = Inl e \<Longrightarrow> e = DuplicateKey \<and> (\<exists>i. \<exists>e \<in> set s. clash (mk i) e)"
  by (auto simp: mem_create_def Let_def list_ex_iff split: if_splits)

lemma mem_findOne [simp]: "drv_findOne (mem_driver key clash) p s = Inr (List.find p s)"
  by (simp add: mem_driver_def)

lemma mem_find [simp]: "drv_find (mem_driver key clash) p s = Inr (filter p s)"
  by (simp add: mem_driver_def)

lemma mem_findPage [simp]: "drv_findPage (mem_driver key clash) p le sk lm s =
    Inr (take (nat lm) (drop (nat sk) (sort_by le (filter p s))))"
  by (simp add: mem_driver_def)

lemma mem_count [simp]: "drv_count (mem_driver key clash) p s = Inr (length (filter p s))"
  by (simp add: mem_driver_def)

lemma mem_updateOne [simp]: "drv_updateOne (mem_driver key clash) p f s = Inr (update_first p f s)"
  by (simp add: mem_driver_def)

lemma mem_updateMany [simp]: "drv_updateMany (mem_driver key clash) p f s =
    Inr (map (\<lambda>d. if p d then f d else d) s, length (filter (\<lambda>d. p d \<and> f d \<noteq> d) s))"
  by (simp add: mem_driver_def)

lemma mem_drv_create [simp]: "drv_create (mem_driver key clash) = mem_create key clash"
  by (simp add: mem_driver_def)

lemma mem_upsert [simp]: "drv_upsert (mem_driver key clash) p f mk s =
    (case update_first p f s of (s', Some d) \<Rightarrow> Inr (s', d) | (s', None) \<Rightarrow> mem_create key clash mk s)"
  by (simp add: mem_driver_def)

lemma mem_upsert_Inr:
  assumes "drv_upsert (mem_driver key clash) p f mk s = Inr (s', d)" "\<And>i. key (mk i) = i"
  shows "one_updated p f s s' d \<or>
    (\<forall>e \<in> set s. \<not> p e) \<and> s' = s @ [d] \<and> key d \<notin> key ` set s \<and> d = mk (key d) \<and>
      (\<forall>e \<in> set s. \<not> clash d e)"
proof -
  obtain t r where u: "update_first p f s = (t, r)" by (cases "update_first p f s")
  show ?thesis
  proof (cases r)
    case None
    with assms(1) u have "mem_create key clash mk s = Inr (s', d)" by simp
    from mem_create_Inr [OF this assms(2)] u None update_first_None [of p f s t]
    show ?thesis by blast
  next
    case (Some e)
    with assms(1) u have "t = s'" "e = d" by simp_all
    with u Some have "update_first p f s = (s', Some d)" by simp
    then show ?thesis by (simp add: update_first_Some)
  qed
qed

text \<open>Every collection of the program is an instance, with its own key and unique index.\<close>

lemma mem_mongo: "mongo (mem_driver key clash) key clash"
proof (rule mongo.intro, goal_cases)
  case (1 p s d)
  then show ?case by (simp add: find_None_iff)
next
  case (2 p s d)
  then show ?case by (auto simp: find_Some_iff)
next
  case (4 p le sk lm s ds)
  then have "ds = take (nat lm) (drop (nat sk) (sort_by le (filter p s)))" by simp
  with sorted_sort_by [OF 4(2), of "filter p s"] mset_sort_by [of le "filter p s"]
  show ?case by (metis mset_filter)
next
  case (6 p f s s')
  then have "update_first p f s = (s', None)" by simp
  then show ?case by (rule update_first_None)
next
  case (7 p f s s' d)
  then have "update_first p f s = (s', Some d)" by simp
  then show ?case by (rule update_first_Some)
next
  case (9 mk s s' d)
  then have "mem_create key clash mk s = Inr (s', d)" by simp
  then show ?case using 9(2) by (rule mem_create_Inr)
next
  case (10 mk s)
  then show ?case using mem_create_Inl [of key clash mk s DuplicateKey] by simp
next
  case (11 p f mk s s' d)
  then show ?case by (rule mem_upsert_Inr)
next
  case (12 p f mk s)
  then obtain t where "update_first p f s = (t, None)" "mem_create key clash mk s = Inl DuplicateKey"
    by (auto split: prod.splits option.splits)
  then show ?case using update_first_None mem_create_Inl by metis
next
  case (13 mk s s' d)
  then have "mem_create key clash mk s = Inr (s', d)" by simp
  then show ?case using 13(2) by (rule mem_create_id)
next
  case (14 p f mk s s' d)
  obtain t r where u: "update_first p f s = (t, r)" by (cases "update_first p f s")
  have "r = None"
  proof (rule ccontr)
    assume "r \<noteq> None"
    then obtain e where "update_first p f s = (t, Some e)" using u by auto
    with update_first_Some 14(3) show False by (metis one_updated_source)
  qed
  with 14(1) u have "mem_create key clash mk s = Inr (s', d)" by simp
  then show ?case using 14(2) by (rule mem_create_id)
qed auto

lemma mem_reliable: "reliable_mongo (mem_driver key clash) key clash"
proof (rule reliable_mongo.intro [OF mem_mongo], rule reliable_mongo_axioms.intro, goal_cases)
  case (7 mk s e)
  then show ?case using mem_create_Inl [of key clash mk s e] by simp
next
  case (8 p f mk s e)
  then show ?case
    using mem_create_Inl [of key clash mk s e] by (simp split: prod.splits option.splits)
qed simp_all

interpretation mem: reliable_mongo "mem_driver key clash" key clash for key clash
  by (rule mem_reliable)

end
