(* ===== verification/Domain.thy ===== *)
theory Domain
  imports Mongo_Driver
begin

text \<open>
  The data of the program: the constants of \<^verbatim>\<open>packages/shared/src/constants.ts\<close>, the interfaces of
  \<^verbatim>\<open>types/index.ts\<close> as they are stored by the models of \<^verbatim>\<open>db/models\<close> (with the unique indexes as
  \<open>clash\<close> relations), and the errors of \<^verbatim>\<open>errors.ts\<close>. Optional fields are \<open>option\<close>, dates are
  milliseconds (\<open>int\<close>), numbers that need not be whole are \<open>rat\<close>, objects with open keys are
  association lists in insertion order, and values of type \<^verbatim>\<open>unknown\<close> are \<open>json\<close>.
\<close>

section \<open>Constants\<close>

datatype role = Viewer | Operator | Admin

datatype resource_type = Ec2 | S3 | Lambda | Cloudwatch

datatype job_status = Pending | Running | RetryWait | Completed | Failed | DeadLettered | Cancelled

datatype severity = Critical | High | Medium | Low | Info

datatype plan_status = Draft | AwaitingApproval | Approved | Executing | PlanCompleted | PlanFailed | Rejected

datatype exec_status = ExecPending | ExecRunning | Succeeded | PartialFailure | ExecFailed | SkippedDuplicate

fun resource_type_str :: "resource_type \<Rightarrow> string" where
  "resource_type_str Ec2 = ''ec2''"
| "resource_type_str S3 = ''s3''"
| "resource_type_str Lambda = ''lambda''"
| "resource_type_str Cloudwatch = ''cloudwatch''"

fun job_status_str :: "job_status \<Rightarrow> string" where
  "job_status_str Pending = ''pending''"
| "job_status_str Running = ''running''"
| "job_status_str RetryWait = ''retry_wait''"
| "job_status_str Completed = ''completed''"
| "job_status_str Failed = ''failed''"
| "job_status_str DeadLettered = ''dead_lettered''"
| "job_status_str Cancelled = ''cancelled''"

fun plan_status_str :: "plan_status \<Rightarrow> string" where
  "plan_status_str Draft = ''draft''"
| "plan_status_str AwaitingApproval = ''awaiting_approval''"
| "plan_status_str Approved = ''approved''"
| "plan_status_str Executing = ''executing''"
| "plan_status_str PlanCompleted = ''completed''"
| "plan_status_str PlanFailed = ''failed''"
| "plan_status_str Rejected = ''rejected''"

fun exec_status_str :: "exec_status \<Rightarrow> string" where
  "exec_status_str ExecPending = ''pending''"
| "exec_status_str ExecRunning = ''running''"
| "exec_status_str Succeeded = ''succeeded''"
| "exec_status_str PartialFailure = ''partial_failure''"
| "exec_status_str ExecFailed = ''failed''"
| "exec_status_str SkippedDuplicate = ''skipped_duplicate''"

definition ALLOWLISTED_ACTIONS :: "string list" where
  "ALLOWLISTED_ACTIONS =
     [''add_missing_tag'', ''create_alarm'', ''enable_backup_policy'',
      ''restart_unhealthy_service'', ''restrict_public_storage'']"

definition REQUIRED_TAGS :: "string list" where
  "REQUIRED_TAGS = [''Environment'', ''Owner'', ''CostCenter'', ''Service'']"

definition POLICY_RULE_IDS :: "string list" where
  "POLICY_RULE_IDS =
     [''ec2.low_utilization'', ''resource.missing_tags'', ''s3.public_access'',
      ''cloudwatch.missing_alarms'', ''service.unhealthy'', ''resource.missing_backup'',
      ''app.repeated_errors'', ''api.elevated_latency'', ''reliability.failure_rate_increase'']"

definition DEFAULT_PAGE_SIZE :: nat where "DEFAULT_PAGE_SIZE = 20"

definition MAX_PAGE_SIZE :: nat where "MAX_PAGE_SIZE = 100"


section \<open>Errors\<close>

record app_error =
  ae_name :: string
  ae_message :: string
  ae_statusCode :: int
  ae_code :: string
  ae_retryable :: bool
  ae_details :: "(string \<times> string) list option"

text \<open>The error of the cloud providers (\<^verbatim>\<open>providers/types.ts\<close>), which is not an \<^verbatim>\<open>AppError\<close>.\<close>

record provider_error =
  pe_message :: string
  pe_retryable :: bool
  pe_code :: string

definition ProviderError :: "string \<Rightarrow> bool option \<Rightarrow> string option \<Rightarrow> provider_error" where
  "ProviderError message retryable code =
     \<lparr> pe_message = message,
       pe_retryable = (case retryable of None \<Rightarrow> False | Some b \<Rightarrow> b),
       pe_code = (case code of None \<Rightarrow> ''PROVIDER_ERROR'' | Some c \<Rightarrow> c) \<rparr>"

text \<open>What a call can throw: an \<^verbatim>\<open>AppError\<close>, an error of the driver or of a cloud provider, a plain
  \<^verbatim>\<open>Error\<close> with its name and message.\<close>

datatype thrown = AppErr app_error | DbErr db_error | ProvErr provider_error | JsErr string string

text \<open>The name and the message of a thrown value; \<open>err_text\<close> gives those of the driver's errors.\<close>

fun thrown_text :: "(db_error \<Rightarrow> string \<times> string) \<Rightarrow> thrown \<Rightarrow> string \<times> string" where
  "thrown_text err_text (AppErr e) = (ae_name e, ae_message e)"
| "thrown_text err_text (DbErr e) = err_text e"
| "thrown_text err_text (ProvErr e) = (''ProviderError'', pe_message e)"
| "thrown_text err_text (JsErr name message) = (name, message)"

text \<open>Numbers in messages: the decimal form of an integer.\<close>

fun digits :: "nat \<Rightarrow> string" where
  "digits n = (if n < 10 then [''0123456789'' ! n] else digits (n div 10) @ [''0123456789'' ! (n mod 10)])"

definition js_int :: "int \<Rightarrow> string" where
  "js_int i = (if i < 0 then ''-'' @ digits (nat (- i)) else digits (nat i))"

definition AppError ::
  "string \<Rightarrow> int option \<Rightarrow> string option \<Rightarrow> bool option \<Rightarrow> (string \<times> string) list option \<Rightarrow> app_error" where
  "AppError message statusCode code retryable details =
     \<lparr> ae_name = ''AppError'', ae_message = message,
       ae_statusCode = (case statusCode of None \<Rightarrow> 500 | Some n \<Rightarrow> n),
       ae_code = (case code of None \<Rightarrow> ''INTERNAL_ERROR'' | Some c \<Rightarrow> c),
       ae_retryable = (case retryable of None \<Rightarrow> False | Some b \<Rightarrow> b),
       ae_details = details \<rparr>"

definition ValidationError :: "string \<Rightarrow> (string \<times> string) list option \<Rightarrow> app_error" where
  "ValidationError message details =
     (AppError message (Some 400) (Some ''VALIDATION_ERROR'') None details)
       \<lparr>ae_name := ''ValidationError''\<rparr>"

definition UnauthorizedError :: "string \<Rightarrow> app_error" where
  "UnauthorizedError message =
     (AppError message (Some 401) (Some ''UNAUTHORIZED'') None None)\<lparr>ae_name := ''UnauthorizedError''\<rparr>"

definition ForbiddenError :: "string \<Rightarrow> app_error" where
  "ForbiddenError message =
     (AppError message (Some 403) (Some ''FORBIDDEN'') None None)\<lparr>ae_name := ''ForbiddenError''\<rparr>"

definition NotFoundError :: "string \<Rightarrow> app_error" where
  "NotFoundError message =
     (AppError message (Some 404) (Some ''NOT_FOUND'') None None)\<lparr>ae_name := ''NotFoundError''\<rparr>"

definition ConflictError :: "string \<Rightarrow> (string \<times> string) list option \<Rightarrow> app_error" where
  "ConflictError message details =
     (AppError message (Some 409) (Some ''CONFLICT'') None details)\<lparr>ae_name := ''ConflictError''\<rparr>"

definition DependencyError :: "string \<Rightarrow> bool \<Rightarrow> app_error" where
  "DependencyError message retryable =
     (AppError message (Some 503) (Some ''DEPENDENCY_UNAVAILABLE'') (Some retryable) None)
       \<lparr>ae_name := ''DependencyError''\<rparr>"

lemmas error_defs = AppError_def ValidationError_def UnauthorizedError_def ForbiddenError_def
  NotFoundError_def ConflictError_def DependencyError_def


text \<open>\<^verbatim>\<open>v ?? d\<close>\<close>

definition with_default :: "'a option \<Rightarrow> 'a \<Rightarrow> 'a" where
  "with_default v d = (case v of None \<Rightarrow> d | Some x \<Rightarrow> x)"

lemma with_default_simps [simp]: "with_default None d = d" "with_default (Some x) d = x"
  by (simp_all add: with_default_def)


section \<open>Stored documents\<close>

datatype json = JNull | JBool bool | JNum rat | JStr string | JArr "json list" | JObj "(string \<times> json) list"

datatype health = Healthy | Unhealthy | UnknownHealth | Degraded

datatype provider_name = Aws | MockProvider

record res_config =
  cf_publicAccess :: "bool option"
  cf_backupEnabled :: "bool option"
  cf_alarms :: "string list option"
  cf_healthCheckStatus :: "health option"
  cf_instanceState :: "string option"
  cf_runtime :: "string option"
  cf_encryption :: "bool option"

record res_metrics =
  m_cpuUtilizationAvg :: "rat option"
  m_consecutiveLowUtilizationPeriods :: "rat option"
  m_errorRate :: "rat option"
  m_errorCount :: "rat option"
  m_p99LatencyMs :: "rat option"
  m_failureRateDelta :: "rat option"
  m_requestCount :: "rat option"

type_synonym tags = "(string \<times> string) list"

record cloud_resource =
  r_id :: oid
  r_workspaceId :: string
  r_provider :: provider_name
  r_type :: resource_type
  r_region :: string
  r_arn :: string
  r_name :: string
  r_tags :: tags
  r_config :: res_config
  r_metrics :: res_metrics
  r_lastSyncedAt :: int
  r_version :: int

record failure =
  fl_code :: string
  fl_message :: string
  fl_retryable :: bool
  fl_cause :: "string option"
  fl_at :: int

record summary =
  sm_resourcesScanned :: nat
  sm_findingsCreated :: nat
  sm_recommendationsCreated :: nat

record job =
  j_id :: oid
  j_workspaceId :: string
  j_status :: job_status
  j_resourceIds :: "string list option"
  j_resourceTypes :: "string list option"
  j_idempotencyKey :: string
  j_correlationId :: string
  j_leaseUntil :: "int option"
  j_heartbeatAt :: "int option"
  j_claimedBy :: "string option"
  j_attempts :: int
  j_maxAttempts :: int
  j_nextRunAt :: int
  j_lastError :: "failure option"
  j_resultSummary :: "summary option"
  j_createdBy :: string
  j_completedAt :: "int option"
  j_timeoutMs :: int
  j_version :: int
  j_createdAt :: int

record finding =
  f_id :: oid
  f_workspaceId :: string
  f_jobId :: string
  f_resourceId :: string
  f_ruleId :: string
  f_severity :: string
  f_title :: string
  f_description :: string
  f_evidence :: "(string \<times> json) list"
  f_correlationId :: string
  f_createdAt :: int

record recommendation =
  rec_id :: oid
  rec_workspaceId :: string
  rec_jobId :: string
  rec_findingId :: string
  rec_resourceId :: string
  rec_actionType :: string
  rec_explanation :: string
  rec_estimatedImpact :: string
  rec_confidence :: rat
  rec_correlationId :: string
  rec_createdAt :: int

record health_check =
  h_id :: oid
  h_workspaceId :: string
  h_resourceId :: string
  h_status :: health
  h_checks :: "(string \<times> bool \<times> string) list"
  h_observedAt :: int

record action =
  a_actionType :: string
  a_resourceId :: string
  a_findingId :: string
  a_params :: "(string \<times> string) list"

record plan =
  p_id :: oid
  p_workspaceId :: string
  p_findingIds :: "string list"
  p_actions :: "action list"
  p_dryRun :: bool
  p_status :: plan_status
  p_createdBy :: string
  p_correlationId :: string
  p_idempotencyKey :: string
  p_version :: int

record action_result =
  ar_actionType :: string
  ar_resourceId :: string
  ar_ok :: bool
  ar_simulated :: bool
  ar_message :: string

text \<open>What is stored under a resource id in \<^verbatim>\<open>beforeState\<close> and \<^verbatim>\<open>afterState\<close>: the tags and the
  configuration, or \<^verbatim>\<open>{ preview: ... }\<close> with the state a dry run computed.\<close>

record res_state =
  rs_tags :: tags
  rs_config :: res_config
  rs_metrics :: res_metrics

datatype snapshot = Snap tags res_config | Preview res_state

record execution =
  x_id :: oid
  x_workspaceId :: string
  x_planId :: string
  x_approvalTokenId :: string
  x_idempotencyKey :: string
  x_correlationId :: string
  x_status :: exec_status
  x_dryRun :: bool
  x_beforeState :: "(string \<times> snapshot) list"
  x_afterState :: "(string \<times> snapshot) list"
  x_results :: "action_result list"
  x_startedAt :: int
  x_completedAt :: int
  x_createdBy :: string

record approval_token =
  t_id :: oid
  t_workspaceId :: string
  t_planId :: string
  t_tokenHash :: string
  t_expiresAt :: int
  t_usedAt :: "int option"
  t_createdBy :: string

record audit_event =
  au_id :: oid
  au_workspaceId :: string
  au_actorId :: string
  au_action :: string
  au_resourceType :: string
  au_resourceId :: "string option"
  au_correlationId :: string
  au_metadata :: "(string \<times> json) list"
  au_createdAt :: int

record user =
  u_id :: oid
  u_workspaceId :: string
  u_email :: string
  u_role :: role
  u_passwordHash :: string
  u_active :: bool

record workspace =
  ws_id :: oid
  ws_name :: string

text \<open>The claims of an access token: strings when the server signs them, values of any type (\<open>json\<close>)
  when they come out of a decoded token.\<close>

record 'v auth_claims =
  c_sub :: 'v
  c_email :: 'v
  c_role :: 'v
  c_workspaceId :: 'v

text \<open>The unique indexes of the schemas: two documents that may not both be stored.\<close>

definition resource_clash :: "cloud_resource \<Rightarrow> cloud_resource \<Rightarrow> bool" where
  "resource_clash a b \<longleftrightarrow> r_workspaceId a = r_workspaceId b \<and> r_arn a = r_arn b"

definition job_clash :: "job \<Rightarrow> job \<Rightarrow> bool" where
  "job_clash a b \<longleftrightarrow> j_workspaceId a = j_workspaceId b \<and> j_idempotencyKey a = j_idempotencyKey b"

definition finding_clash :: "finding \<Rightarrow> finding \<Rightarrow> bool" where
  "finding_clash a b \<longleftrightarrow> f_workspaceId a = f_workspaceId b \<and> f_jobId a = f_jobId b \<and>
     f_resourceId a = f_resourceId b \<and> f_ruleId a = f_ruleId b"

definition recommendation_clash :: "recommendation \<Rightarrow> recommendation \<Rightarrow> bool" where
  "recommendation_clash a b \<longleftrightarrow>
     rec_workspaceId a = rec_workspaceId b \<and> rec_findingId a = rec_findingId b"

definition plan_clash :: "plan \<Rightarrow> plan \<Rightarrow> bool" where
  "plan_clash a b \<longleftrightarrow> p_workspaceId a = p_workspaceId b \<and> p_idempotencyKey a = p_idempotencyKey b"

definition execution_clash :: "execution \<Rightarrow> execution \<Rightarrow> bool" where
  "execution_clash a b \<longleftrightarrow> x_workspaceId a = x_workspaceId b \<and> x_idempotencyKey a = x_idempotencyKey b"

definition token_clash :: "approval_token \<Rightarrow> approval_token \<Rightarrow> bool" where
  "token_clash a b \<longleftrightarrow> t_tokenHash a = t_tokenHash b"

definition user_clash :: "user \<Rightarrow> user \<Rightarrow> bool" where
  "user_clash a b \<longleftrightarrow> u_workspaceId a = u_workspaceId b \<and> u_email a = u_email b"

definition workspace_clash :: "workspace \<Rightarrow> workspace \<Rightarrow> bool" where
  "workspace_clash a b \<longleftrightarrow> ws_name a = ws_name b"

definition no_clash :: "'d \<Rightarrow> 'd \<Rightarrow> bool" where
  "no_clash a b \<longleftrightarrow> False"

lemmas clash_defs = resource_clash_def job_clash_def finding_clash_def recommendation_clash_def
  plan_clash_def execution_clash_def token_clash_def user_clash_def workspace_clash_def no_clash_def

end
