(* ===== verification/Store.thy ===== *)
theory Store
  imports Domain
begin

text \<open>
  The database of the program: one collection for each model of \<^verbatim>\<open>packages/shared/src/db/models\<close>,
  and one driver for each collection (\<open>env\<close>). \<open>ask\<close> runs a reading call and \<open>tell\<close> a writing call of
  a driver as a computation on the whole database. The locale \<open>store\<close> bundles the contracts of
  the drivers, \<open>reliable_store\<close> those of drivers whose server answers; both are interpreted on
  the in-memory drivers. \<open>record_audit\<close> is \<^verbatim>\<open>recordAudit\<close> of \<^verbatim>\<open>audit/record.ts\<close>.
\<close>

record db =
  db_resources :: "cloud_resource list"
  db_jobs :: "job list"
  db_findings :: "finding list"
  db_recommendations :: "recommendation list"
  db_healthChecks :: "health_check list"
  db_plans :: "plan list"
  db_executions :: "execution list"
  db_tokens :: "approval_token list"
  db_audit :: "audit_event list"
  db_users :: "user list"
  db_workspaces :: "workspace list"

record env =
  e_resources :: "cloud_resource driver"
  e_jobs :: "job driver"
  e_findings :: "finding driver"
  e_recommendations :: "recommendation driver"
  e_healthChecks :: "health_check driver"
  e_plans :: "plan driver"
  e_executions :: "execution driver"
  e_tokens :: "approval_token driver"
  e_audit :: "audit_event driver"
  e_users :: "user driver"
  e_workspaces :: "workspace driver"

type_synonym 'a call = "(db, thrown, 'a) io"

definition ask :: "(db \<Rightarrow> 'd list) \<Rightarrow> ('d list \<Rightarrow> db_error + 'a) \<Rightarrow> 'a call" where
  "ask get op = (\<lambda>s. case op (get s) of Inl e \<Rightarrow> (s, Inl (DbErr e)) | Inr x \<Rightarrow> (s, Inr x))"

definition tell ::
  "(db \<Rightarrow> 'd list) \<Rightarrow> (('d list \<Rightarrow> 'd list) \<Rightarrow> db \<Rightarrow> db) \<Rightarrow>
    ('d list \<Rightarrow> db_error + 'd list \<times> 'a) \<Rightarrow> 'a call" where
  "tell get upd op = (\<lambda>s. case op (get s) of
      Inl e \<Rightarrow> (s, Inl (DbErr e))
    | Inr (c, x) \<Rightarrow> (upd (\<lambda>_. c) s, Inr x))"

lemma ask_Inr: "ask get op s = (s', Inr x) \<longleftrightarrow> s' = s \<and> op (get s) = Inr x"
  by (auto simp: ask_def split: sum.splits)

lemma ask_Inl: "ask get op s = (s', Inl e) \<longleftrightarrow> s' = s \<and> (\<exists>d. op (get s) = Inl d \<and> e = DbErr d)"
  by (auto simp: ask_def split: sum.splits)

lemma tell_Inr: "tell get upd op s = (s', Inr x) \<longleftrightarrow>
    (\<exists>c. op (get s) = Inr (c, x) \<and> s' = upd (\<lambda>_. c) s)"
  by (auto simp: tell_def split: sum.splits prod.splits)

lemma tell_Inl: "tell get upd op s = (s', Inl e) \<longleftrightarrow>
    s' = s \<and> (\<exists>d. op (get s) = Inl d \<and> e = DbErr d)"
  by (auto simp: tell_def split: sum.splits prod.splits)

lemmas call_iffs = ask_Inr ask_Inl tell_Inr tell_Inl bind_io_Inr bind_io_Inl

lemma hoare_ask:
  "(\<And>s x. P s \<Longrightarrow> op (get s) = Inr x \<Longrightarrow> Q x s) \<Longrightarrow> (\<And>e s. P s \<Longrightarrow> E e s) \<Longrightarrow>
    hoare P (ask get op) Q E"
  by (auto simp: hoare_def ask_def split: sum.split)

lemma hoare_ask_ok:
  "(\<And>s e. P s \<Longrightarrow> op (get s) \<noteq> Inl e) \<Longrightarrow> (\<And>s x. P s \<Longrightarrow> op (get s) = Inr x \<Longrightarrow> Q x s) \<Longrightarrow>
    hoare P (ask get op) Q E"
  by (auto simp: hoare_def ask_def split: sum.split)

lemma keeps_ask [keeps_rules]: "keeps I (ask get op)"
  by (rule keepsI) (simp add: ask_def split: sum.split)

lemma keeps_tell:
  assumes "\<And>s c x. I s \<Longrightarrow> op (get s) = Inr (c, x) \<Longrightarrow> I (upd (\<lambda>_. c) s)"
  shows "keeps I (tell get upd op)"
  by (rule keepsI) (auto simp: tell_def assms split: sum.split prod.split)

text \<open>A call that writes one collection keeps every invariant of the others.\<close>

lemma keeps_tell_frame:
  assumes "\<And>s c. I (upd (\<lambda>_. c) s) = I s"
  shows "keeps I (tell get upd op)"
  by (rule keeps_tell) (simp add: assms)

text \<open>\<^verbatim>\<open>doc.save()\<close> writes the modified fields to the document with its \<^verbatim>\<open>_id\<close>; when there is none any
  more it throws.\<close>

definition document_not_found :: thrown where
  "document_not_found = JsErr ''DocumentNotFoundError'' ''No document found for query''"

definition save_doc ::
  "(db \<Rightarrow> 'd list) \<Rightarrow> (('d list \<Rightarrow> 'd list) \<Rightarrow> db \<Rightarrow> db) \<Rightarrow> 'd driver \<Rightarrow> ('d \<Rightarrow> bool) \<Rightarrow>
    ('d \<Rightarrow> 'd) \<Rightarrow> unit call" where
  "save_doc get upd drv is_doc f =
     bind_io (tell get upd (drv_updateOne drv is_doc f)) (\<lambda>saved.
       case saved of None \<Rightarrow> throw document_not_found | Some _ \<Rightarrow> ret ())"

lemma keeps_save_doc:
  assumes "\<And>s c. I (upd (\<lambda>_. c) s) = I s"
  shows "keeps I (save_doc get upd drv p f)"
  unfolding save_doc_def by (intro keeps_rules keeps_tell_frame) (rule assms)

context mongo
begin

lemma save_doc_cases:
  assumes "save_doc get upd drv (\<lambda>d. key d = i) f s = (s', r)" "distinct (map key (get s))"
    and "\<And>s. upd (\<lambda>_. get s) s = s"
  obtains (failed) e where "s' = s" "r = Inl e"
  | (saved) d where "d \<in> set (get s)" "key d = i" "r = Inr ()"
      "s' = upd (\<lambda>_. map (\<lambda>d. if key d = i then f d else d) (get s)) s"
proof (cases "drv_updateOne drv (\<lambda>d. key d = i) f (get s)")
  case (Inl e)
  with assms(1) failed show ?thesis by (auto simp: save_doc_def bind_io_def tell_def)
next
  case (Inr cx)
  obtain c x where cx: "cx = (c, x)" by (cases cx)
  from updateOne_by_key [OF Inr [unfolded cx] assms(2)]
  have c: "c = map (\<lambda>d. if key d = i then f d else d) (get s)"
    and x: "case x of None \<Rightarrow> i \<notin> key ` set (get s) | Some d' \<Rightarrow> \<exists>d \<in> set (get s). key d = i \<and> d' = f d"
    by auto
  show ?thesis
  proof (cases x)
    case None
    with x c have "c = get s" by (simp add: map_key_absent)
    with assms(1,3) Inr cx None failed show ?thesis by (auto simp: save_doc_def bind_io_def tell_def)
  next
    case (Some d')
    with assms(1) Inr cx x c saved show ?thesis by (auto simp: save_doc_def bind_io_def tell_def)
  qed
qed

lemma hoare_save_doc:
  assumes "\<And>s. P s \<Longrightarrow> distinct (map key (get s))" "\<And>s. upd (\<lambda>_. get s) s = s"
    and "\<And>s. P s \<Longrightarrow> i \<in> key ` set (get s) \<Longrightarrow>
      Q () (upd (\<lambda>_. map (\<lambda>d. if key d = i then f d else d) (get s)) s)"
    and "\<And>e s. P s \<Longrightarrow> E e s"
  shows "hoare P (save_doc get upd drv (\<lambda>d. key d = i) f) Q E"
proof (rule hoareI)
  fix s s' x assume P: "P s" and r: "save_doc get upd drv (\<lambda>d. key d = i) f s = (s', Inr x)"
  from r assms(1) [OF P] assms(2) show "Q x s'"
    by (rule save_doc_cases) (use assms(3) [OF P] in auto)
next
  fix s s' e assume P: "P s" and r: "save_doc get upd drv (\<lambda>d. key d = i) f s = (s', Inl e)"
  from r assms(1) [OF P] assms(2) show "E e s'"
    by (rule save_doc_cases) (use assms(4) [OF P] in auto)
qed

lemma tell_create_cases:
  assumes "tell get upd (drv_create drv mk) s = (s', r)" "\<And>i. key (mk i) = i"
  obtains (failed) e where "s' = s" "r = Inl e"
  | (created) d where "s' = upd (\<lambda>_. get s @ [d]) s" "r = Inr d" "d = mk (key d)"
      "key d \<notin> key ` set (get s)" "\<forall>e \<in> set (get s). \<not> clash d e"
proof (cases "drv_create drv mk (get s)")
  case (Inl e)
  with assms(1) failed show ?thesis by (auto simp: tell_def)
next
  case (Inr cd)
  obtain c d where "cd = (c, d)" by (cases cd)
  with Inr assms create_Inr [of mk "get s" c d] created show ?thesis by (auto simp: tell_def)
qed

end

context mongo
begin

text \<open>An upsert whose filter no two documents satisfy.\<close>

lemma tell_upsert_cases:
  assumes "tell get upd (drv_upsert drv p f mk) s = (s', r)" "\<And>i. key (mk i) = i"
  obtains (failed) e where "s' = s" "r = Inl e"
  | (updated) c d where "s' = upd (\<lambda>_. c) s" "r = Inr d" "one_updated p f (get s) c d"
  | (inserted) d where "s' = upd (\<lambda>_. get s @ [d]) s" "r = Inr d" "\<forall>e \<in> set (get s). \<not> p e"
      "d = mk (key d)" "key d \<notin> key ` set (get s)" "\<forall>e \<in> set (get s). \<not> clash d e"
proof (cases "drv_upsert drv p f mk (get s)")
  case (Inl e)
  with assms(1) failed show ?thesis by (auto simp: tell_def)
next
  case (Inr cd)
  obtain c d where cd: "cd = (c, d)" by (cases cd)
  with Inr assms(1) have s': "s' = upd (\<lambda>_. c) s" "r = Inr d" by (auto simp: tell_def)
  from upsert_Inr [OF Inr [unfolded cd] assms(2)] s' updated inserted show ?thesis by blast
qed

lemma hoare_create:
  assumes "\<And>i. key (mk i) = i"
    and "\<And>s i. P s \<Longrightarrow> i \<notin> key ` set (get s) \<Longrightarrow> \<forall>e \<in> set (get s). \<not> clash (mk i) e \<Longrightarrow>
      Q (mk i) (upd (\<lambda>_. get s @ [mk i]) s)"
    and "\<And>e s. P s \<Longrightarrow> E e s"
  shows "hoare P (tell get upd (drv_create drv mk)) Q E"
proof (rule hoareI)
  fix s s' d assume P: "P s" and r: "tell get upd (drv_create drv mk) s = (s', Inr d)"
  from r assms(1) show "Q d s'"
    by (rule tell_create_cases) (use assms(2) [OF P, of "key d"] in auto)
next
  fix s s' e assume P: "P s" and r: "tell get upd (drv_create drv mk) s = (s', Inl e)"
  from r assms(1) show "E e s'"
    by (rule tell_create_cases) (use assms(3) [OF P] in auto)
qed

lemma hoare_upsert:
  assumes "\<And>i. key (mk i) = i"
    and "\<And>s. I s \<Longrightarrow> \<forall>d \<in> set (get s). C d" "\<And>d. C d \<Longrightarrow> p d \<Longrightarrow> C (f d)" "\<And>i. i \<noteq> [] \<Longrightarrow> C (mk i)"
    and "\<And>s c. I s \<Longrightarrow> \<forall>d \<in> set c. C d \<Longrightarrow> I (upd (\<lambda>_. c) s)"
  shows "hoare I (tell get upd (drv_upsert drv p f mk)) (\<lambda>d s. I s \<and> C d) (\<lambda>_. I)"
proof (rule hoareI)
  fix s s' d assume I: "I s" and u: "tell get upd (drv_upsert drv p f mk) s = (s', Inr d)"
  note all = assms(2) [OF I]
  from u obtain c where drv: "drv_upsert drv p f mk (get s) = Inr (c, d)" and s': "s' = upd (\<lambda>_. c) s"
    by (auto simp: tell_Inr)
  have "(\<forall>e \<in> set c. C e) \<and> C d"
  proof (rule disjE [OF upsert_Inr [OF drv assms(1)]])
    assume up: "one_updated p f (get s) c d"
    then have "\<forall>e \<in> set c. C e" using all assms(3) by (rule one_updated_all)
    with one_updated_member [OF up] show ?thesis by blast
  next
    assume new: "(\<forall>e \<in> set (get s). \<not> p e) \<and> c = get s @ [d] \<and> key d \<notin> key ` set (get s) \<and> d = mk (key d) \<and>
      (\<forall>e \<in> set (get s). \<not> clash d e)"
    then have "key d \<noteq> []" by (intro upsert_id [OF drv assms(1)]) blast
    then have "C (mk (key d))" by (rule assms(4))
    with new have "C d" by simp
    with new all show ?thesis by simp
  qed
  with I s' assms(5) show "I s' \<and> C d" by blast
qed (auto simp: tell_Inl)

lemma keeps_upsert:
  assumes "\<And>i. key (mk i) = i"
    and "\<And>s. I s \<Longrightarrow> \<forall>d \<in> set (get s). C d" "\<And>d. C d \<Longrightarrow> C (f d)" "\<And>i. C (mk i)"
    and "\<And>s c. I s \<Longrightarrow> \<forall>d \<in> set c. C d \<Longrightarrow> I (upd (\<lambda>_. c) s)"
  shows "keeps I (tell get upd (drv_upsert drv p f mk))"
  unfolding keeps_def
  by (rule hoare_conseq [OF hoare_upsert [where I = I and C = C]]) (use assms in blast)+

end

context reliable_mongo
begin

lemma save_doc_answers:
  assumes "d \<in> set (get s)" "distinct (map key (get s))"
  shows "save_doc get upd drv (\<lambda>e. key e = key d) f s =
    (upd (\<lambda>_. map (\<lambda>e. if key e = key d then f e else e) (get s)) s, Inr ())"
proof -
  obtain c x where u: "drv_updateOne drv (\<lambda>e. key e = key d) f (get s) = Inr (c, x)"
    by (rule updateOne_total)
  from updateOne_by_key [OF this assms(2)] assms(1) show ?thesis
    by (cases x) (auto simp: save_doc_def bind_io_def tell_def u)
qed

lemma hoare_save_doc_ok:
  assumes "\<And>s. P s \<Longrightarrow> distinct (map key (get s))" "\<And>s. P s \<Longrightarrow> i \<in> key ` set (get s)"
    and "\<And>s. P s \<Longrightarrow> Q () (upd (\<lambda>_. map (\<lambda>d. if key d = i then f d else d) (get s)) s)"
  shows "hoare P (save_doc get upd drv (\<lambda>d. key d = i) f) Q E"
proof -
  have "save_doc get upd drv (\<lambda>d. key d = i) f s =
      (upd (\<lambda>_. map (\<lambda>d. if key d = i then f d else d) (get s)) s, Inr ())" if "P s" for s
    using assms(1,2) [OF that] save_doc_answers [of _ get s upd f] by blast
  with assms(3) show ?thesis by (simp add: hoare_def)
qed

lemma hoare_create_ok:
  assumes "\<And>i. key (mk i) = i" "\<And>s i e. P s \<Longrightarrow> e \<in> set (get s) \<Longrightarrow> \<not> clash (mk i) e"
    and "\<And>s i. P s \<Longrightarrow> i \<notin> key ` set (get s) \<Longrightarrow> Q (mk i) (upd (\<lambda>_. get s @ [mk i]) s)"
  shows "hoare P (tell get upd (drv_create drv mk)) Q E"
proof (rule hoareI)
  fix s s' d assume P: "P s" and r: "tell get upd (drv_create drv mk) s = (s', Inr d)"
  from r assms(1) show "Q d s'"
    by (rule tell_create_cases) (use assms(3) [OF P, of "key d"] in auto)
next
  fix s s' e assume P: "P s" and r: "tell get upd (drv_create drv mk) s = (s', Inl e)"
  have "\<And>i e. e \<in> set (get s) \<Longrightarrow> \<not> clash (mk i) e" using assms(2) [OF P] .
  then obtain d where "drv_create drv mk (get s) = Inr (get s @ [d], d)"
    using create_fresh [of mk "get s"] assms(1) by metis
  with r show "E e s'" by (simp add: tell_def)
qed

end


section \<open>The drivers of the program\<close>

locale store =
  resources: mongo "e_resources env" r_id resource_clash +
  jobs: mongo "e_jobs env" j_id job_clash +
  findings: mongo "e_findings env" f_id finding_clash +
  recommendations: mongo "e_recommendations env" rec_id recommendation_clash +
  healthChecks: mongo "e_healthChecks env" h_id no_clash +
  plans: mongo "e_plans env" p_id plan_clash +
  executions: mongo "e_executions env" x_id execution_clash +
  tokens: mongo "e_tokens env" t_id token_clash +
  audit: mongo "e_audit env" au_id no_clash +
  users: mongo "e_users env" u_id user_clash +
  workspaces: mongo "e_workspaces env" ws_id workspace_clash
  for env :: env

locale reliable_store =
  resources: reliable_mongo "e_resources env" r_id resource_clash +
  jobs: reliable_mongo "e_jobs env" j_id job_clash +
  findings: reliable_mongo "e_findings env" f_id finding_clash +
  recommendations: reliable_mongo "e_recommendations env" rec_id recommendation_clash +
  healthChecks: reliable_mongo "e_healthChecks env" h_id no_clash +
  plans: reliable_mongo "e_plans env" p_id plan_clash +
  executions: reliable_mongo "e_executions env" x_id execution_clash +
  tokens: reliable_mongo "e_tokens env" t_id token_clash +
  audit: reliable_mongo "e_audit env" au_id no_clash +
  users: reliable_mongo "e_users env" u_id user_clash +
  workspaces: reliable_mongo "e_workspaces env" ws_id workspace_clash
  for env :: env

sublocale reliable_store \<subseteq> store
  by unfold_locales

lemma reliable_store_is_store: "reliable_store env \<Longrightarrow> store env"
  by (simp add: reliable_store_def store_def reliable_mongo_def)

definition mem_env :: env where
  "mem_env =
     \<lparr> e_resources = mem_driver r_id resource_clash,
       e_jobs = mem_driver j_id job_clash,
       e_findings = mem_driver f_id finding_clash,
       e_recommendations = mem_driver rec_id recommendation_clash,
       e_healthChecks = mem_driver h_id no_clash,
       e_plans = mem_driver p_id plan_clash,
       e_executions = mem_driver x_id execution_clash,
       e_tokens = mem_driver t_id token_clash,
       e_audit = mem_driver au_id no_clash,
       e_users = mem_driver u_id user_clash,
       e_workspaces = mem_driver ws_id workspace_clash \<rparr>"

lemma mem_env_simps [simp]:
  "e_resources mem_env = mem_driver r_id resource_clash"
  "e_jobs mem_env = mem_driver j_id job_clash"
  "e_findings mem_env = mem_driver f_id finding_clash"
  "e_recommendations mem_env = mem_driver rec_id recommendation_clash"
  "e_healthChecks mem_env = mem_driver h_id no_clash"
  "e_plans mem_env = mem_driver p_id plan_clash"
  "e_executions mem_env = mem_driver x_id execution_clash"
  "e_tokens mem_env = mem_driver t_id token_clash"
  "e_audit mem_env = mem_driver au_id no_clash"
  "e_users mem_env = mem_driver u_id user_clash"
  "e_workspaces mem_env = mem_driver ws_id workspace_clash"
  by (simp_all add: mem_env_def)

interpretation mem_store: reliable_store mem_env
  by (simp add: reliable_store_def mem_reliable)

definition empty_db :: db where
  "empty_db = \<lparr> db_resources = [], db_jobs = [], db_findings = [], db_recommendations = [],
     db_healthChecks = [], db_plans = [], db_executions = [], db_tokens = [], db_audit = [],
     db_users = [], db_workspaces = [] \<rparr>"


section \<open>The audit trail\<close>

definition record_audit ::
  "env \<Rightarrow> int \<Rightarrow> string \<Rightarrow> string \<Rightarrow> string \<Rightarrow> string \<Rightarrow> string option \<Rightarrow> string \<Rightarrow>
    (string \<times> json) list option \<Rightarrow> audit_event call" where
  "record_audit env now workspaceId actorId action resourceType resourceId correlationId metadata =
     tell db_audit db_audit_update (drv_create (e_audit env) (\<lambda>i.
       \<lparr> au_id = i, au_workspaceId = workspaceId, au_actorId = actorId, au_action = action,
         au_resourceType = resourceType, au_resourceId = resourceId,
         au_correlationId = correlationId, au_metadata = with_default metadata [],
         au_createdAt = now \<rparr>))"

lemma keeps_record_audit [keeps_rules]:
  assumes "\<And>s c. I (db_audit_update (\<lambda>_. c) s) = I s"
  shows "keeps I (record_audit env now w a act rt rid cid md)"
  unfolding record_audit_def by (rule keeps_tell_frame) (rule assms)


lemma record_audit_Inr:
  "record_audit env now w a act rt rid cid md s = (s', r) \<Longrightarrow>
    db_jobs s' = db_jobs s \<and> db_plans s' = db_plans s \<and> db_tokens s' = db_tokens s \<and>
    db_executions s' = db_executions s \<and> db_resources s' = db_resources s"
  by (auto simp: record_audit_def tell_def split: sum.splits)

section \<open>Writing one job\<close>

context store
begin

lemma jobs_updateOne_cases:
  assumes "tell db_jobs db_jobs_update (drv_updateOne (e_jobs env) p f) s = (s', r)"
  obtains (unchanged) "s' = s" "\<And>x. r = Inr x \<Longrightarrow> x = None \<and> (\<forall>j \<in> set (db_jobs s). \<not> p j)"
  | (updated) d where "r = Inr (Some d)" "one_updated p f (db_jobs s) (db_jobs s') d"
      "s' = db_jobs_update (\<lambda>_. db_jobs s') s"
proof (cases "drv_updateOne (e_jobs env) p f (db_jobs s)")
  case (Inl e)
  with assms unchanged show ?thesis by (auto simp: tell_def)
next
  case (Inr cx)
  obtain js x where cx: "cx = (js, x)" by (cases cx)
  from assms Inr cx have s': "s' = db_jobs_update (\<lambda>_. js) s" "r = Inr x" by (auto simp: tell_def)
  show ?thesis
  proof (cases x)
    case None
    with Inr cx have "js = db_jobs s \<and> (\<forall>j \<in> set (db_jobs s). \<not> p j)"
      using jobs.updateOne_None by blast
    with s' None unchanged show ?thesis by simp
  next
    case (Some d)
    with Inr cx have "one_updated p f (db_jobs s) js d" using jobs.updateOne_Some by blast
    with s' Some updated show ?thesis by simp
  qed
qed

end

lemmas updateOne_cases = store.jobs_updateOne_cases [consumes 2, case_names unchanged updated]


section \<open>An audit call that answers\<close>

context reliable_store
begin

lemma record_audit_answers:
  obtains ev where "record_audit env now w a act rt rid cid md s =
      (db_audit_update (\<lambda>_. db_audit s @ [ev]) s, Inr ev)"
    "au_action ev = act" "au_actorId ev = a" "au_workspaceId ev = w" "au_resourceType ev = rt"
    "au_resourceId ev = rid" "au_correlationId ev = cid"
proof -
  let ?mk = "\<lambda>i. \<lparr> au_id = i, au_workspaceId = w, au_actorId = a, au_action = act,
         au_resourceType = rt, au_resourceId = rid, au_correlationId = cid,
         au_metadata = with_default md [], au_createdAt = now \<rparr>"
  obtain ev where "drv_create (e_audit env) ?mk (db_audit s) = Inr (db_audit s @ [ev], ev)"
    "ev = ?mk (au_id ev)"
    by (rule audit.create_fresh [of ?mk]) (auto simp: no_clash_def)
  moreover from this(2) have "au_action ev = act \<and> au_actorId ev = a \<and> au_workspaceId ev = w \<and>
      au_resourceType ev = rt \<and> au_resourceId ev = rid \<and> au_correlationId ev = cid"
    by (metis audit_event.select_convs(2-7))
  ultimately show ?thesis using that by (simp add: record_audit_def tell_def)
qed

lemma hoare_audit_ok:
  assumes "\<And>s ev. P s \<Longrightarrow> Q ev (db_audit_update (\<lambda>_. db_audit s @ [ev]) s)"
  shows "hoare P (record_audit env now w a act rt rid cid md) Q E"
proof -
  have "case record_audit env now w a act rt rid cid md s of
      (s', Inl e) \<Rightarrow> E e s' | (s', Inr x) \<Rightarrow> Q x s'" if "P s" for s
    by (rule record_audit_answers [of now w a act rt rid cid md s]) (simp add: assms [OF that])
  then show ?thesis unfolding hoare_def by blast
qed

end

end
