(* ===== verification/Serialize.thy ===== *)
theory Serialize
  imports Domain
begin

text \<open>
  \<^verbatim>\<open>packages/shared/src/serialize.ts\<close>: the public form of a stored document. A document is the list of
  its fields, in insertion order; \<^verbatim>\<open>{ id: ..., ...rest }\<close> writes \<^verbatim>\<open>id\<close> first and lets the
  remaining fields overwrite it.
\<close>

type_synonym fields = "(string \<times> json) list"

definition private_fields :: "string list" where
  "private_fields = [''_id'', ''__v'', ''passwordHash'', ''tokenHash'']"

definition toPublicId :: "fields \<Rightarrow> json option" where
  "toPublicId doc = map_of doc ''_id''"

definition assign_fields :: "fields \<Rightarrow> fields \<Rightarrow> fields" where
  "assign_fields base rest = fold (\<lambda>(k, v). AList.update k v) rest base"

definition serialize :: "fields \<Rightarrow> fields" where
  "serialize raw =
     (let rest = filter (\<lambda>(k, v). k \<notin> set private_fields) raw
      in assign_fields [(''id'', the (toPublicId raw))] rest)"

lemma fst_assign_fields: "fst ` set (assign_fields base rest) = fst ` set base \<union> fst ` set rest"
proof (induction rest arbitrary: base)
  case (Cons x xs)
  show ?case
    using Cons [of "AList.update (fst x) (snd x) base"]
    by (auto simp: assign_fields_def split_def dom_update)
qed (simp add: assign_fields_def)

lemma map_of_assign_fields:
  "map_of (assign_fields base rest) k = (case map_of (rev rest) k of None \<Rightarrow> map_of base k | v \<Rightarrow> v)"
proof (induction rest arbitrary: base)
  case (Cons x xs)
  show ?case
    using Cons [of "AList.update (fst x) (snd x) base"]
    by (auto simp: assign_fields_def split_def update_conv' map_add_def split: option.splits)
qed (simp add: assign_fields_def)

lemma map_of_rev_distinct: "distinct (map fst xs) \<Longrightarrow> map_of (rev xs) = map_of xs"
  by (subst map_of_inject_set) (simp_all add: rev_map [symmetric])



definition paginate :: "'a list \<Rightarrow> int \<Rightarrow> int \<Rightarrow> nat \<Rightarrow> 'a list \<times> int \<times> int \<times> nat" where
  "paginate items pg lm n = (items, pg, lm, n)"

end
