(* ===== verification/Auth.thy ===== *)
theory Auth
  imports Store Serialize
begin

text \<open>
  \<^verbatim>\<open>packages/shared/src/auth/index.ts\<close>, \<^verbatim>\<open>apps/api/src/middleware/auth.ts\<close> and the login of
  \<^verbatim>\<open>apps/api/src/routes/auth.ts\<close>. The cryptography (SHA-256, bcrypt, JSON Web Tokens) is a parameter:
  \<open>hash\<close>, \<open>bcrypt_compare\<close>, \<open>jwt_sign\<close> and \<open>jwt_verify\<close>. What a theorem relies on, that a signed token
  verifies to its claims, is a hypothesis of it.
  Roles are ordered by privilege (\<open>linorder\<close>), so that the role gates are monotone predicates.
\<close>

section \<open>Roles\<close>

fun role_rank :: "role \<Rightarrow> nat" where
  "role_rank Viewer = 0"
| "role_rank Operator = 1"
| "role_rank Admin = 2"

lemma role_rank_inj: "role_rank a = role_rank b \<Longrightarrow> a = b"
  by (cases a; cases b) auto

instantiation role :: linorder
begin

definition less_eq_role :: "role \<Rightarrow> role \<Rightarrow> bool" where
  "less_eq_role a b \<longleftrightarrow> role_rank a \<le> role_rank b"

definition less_role :: "role \<Rightarrow> role \<Rightarrow> bool" where
  "less_role a b \<longleftrightarrow> role_rank a < role_rank b"

instance
  by standard (auto simp: less_eq_role_def less_role_def dest: role_rank_inj)

end

fun role_str :: "role \<Rightarrow> string" where
  "role_str Viewer = ''viewer''"
| "role_str Operator = ''operator''"
| "role_str Admin = ''admin''"

definition canRead :: "role \<Rightarrow> bool" where
  "canRead _ = True"

definition canOperate :: "role \<Rightarrow> bool" where
  "canOperate r \<longleftrightarrow> r = Admin \<or> r = Operator"

definition canApprove :: "role \<Rightarrow> bool" where
  "canApprove r \<longleftrightarrow> r = Admin"

definition canExecute :: "role \<Rightarrow> bool" where
  "canExecute r \<longleftrightarrow> r = Admin \<or> r = Operator"


section \<open>Approval tokens and passwords\<close>

definition hashToken :: "(string \<Rightarrow> string) \<Rightarrow> string \<Rightarrow> string" where
  "hashToken hash token = hash token"

text \<open>\<^verbatim>\<open>timingSafeEqual\<close> compares two buffers of the same length.\<close>

definition tokensMatch :: "(string \<Rightarrow> string) \<Rightarrow> string \<Rightarrow> string \<Rightarrow> bool" where
  "tokensMatch hash plain hashed =
     (let left = hashToken hash plain; right = hashed
      in if length left \<noteq> length right then False
         else list_all2 (=) left right)"

lemma tokensMatch_iff [simp]: "tokensMatch hash plain hashed \<longleftrightarrow> hash plain = hashed"
  by (auto simp: tokensMatch_def hashToken_def Let_def list.rel_eq)


section \<open>Access tokens\<close>

fun js_truthy :: "json option \<Rightarrow> bool" where
  "js_truthy None = False"
| "js_truthy (Some JNull) = False"
| "js_truthy (Some (JBool b)) = b"
| "js_truthy (Some (JNum n)) = (n \<noteq> 0)"
| "js_truthy (Some (JStr s)) = (s \<noteq> [])"
| "js_truthy (Some (JArr _)) = True"
| "js_truthy (Some (JObj _)) = True"

text \<open>Reading \<^verbatim>\<open>{ sub, email, role, workspaceId }\<close> from what \<^verbatim>\<open>jwt.verify\<close> returned; an array is an
  object without these fields.\<close>

fun decoded_fields :: "json \<Rightarrow> (string \<times> json) list option" where
  "decoded_fields (JObj fs) = Some fs"
| "decoded_fields (JArr xs) = Some []"
| "decoded_fields _ = None"

definition verifyAccessToken ::
  "(string \<Rightarrow> string \<Rightarrow> json option) \<Rightarrow> string \<Rightarrow> string \<Rightarrow> app_error + json auth_claims" where
  "verifyAccessToken jwt_verify token secret =
     (case jwt_verify token secret of
        None \<Rightarrow> Inl (UnauthorizedError ''Invalid or expired token'')
      | Some decoded \<Rightarrow>
          (case decoded_fields decoded of
             None \<Rightarrow> Inl (UnauthorizedError ''Invalid token'')
           | Some fs \<Rightarrow>
               (let sub = map_of fs ''sub''; email = map_of fs ''email'';
                    rl = map_of fs ''role''; ws = map_of fs ''workspaceId''
                in if \<not> js_truthy sub \<or> \<not> js_truthy email \<or> \<not> js_truthy rl \<or> \<not> js_truthy ws
                   then Inl (UnauthorizedError ''Invalid token claims'')
                   else Inr \<lparr>c_sub = the sub, c_email = the email, c_role = the rl,
                             c_workspaceId = the ws\<rparr>)))"

definition claims_json :: "string auth_claims \<Rightarrow> (string \<times> json) list" where
  "claims_json c = [(''sub'', JStr (c_sub c)), (''email'', JStr (c_email c)),
     (''role'', JStr (c_role c)), (''workspaceId'', JStr (c_workspaceId c))]"

definition claims_values :: "string auth_claims \<Rightarrow> json auth_claims" where
  "claims_values c = \<lparr>c_sub = JStr (c_sub c), c_email = JStr (c_email c), c_role = JStr (c_role c),
     c_workspaceId = JStr (c_workspaceId c)\<rparr>"

definition signAccessToken ::
  "((string \<times> json) list \<Rightarrow> string \<Rightarrow> string \<Rightarrow> string) \<Rightarrow> string auth_claims \<Rightarrow> string \<Rightarrow>
    string option \<Rightarrow> string" where
  "signAccessToken jwt_sign claims secret expiresIn =
     jwt_sign (claims_json claims) secret (with_default expiresIn ''8h'')"

definition authMiddleware ::
  "(string \<Rightarrow> string \<Rightarrow> json option) \<Rightarrow> string \<Rightarrow> string option \<Rightarrow> app_error + json auth_claims" where
  "authMiddleware jwt_verify secret header =
     (case header of
        None \<Rightarrow> Inl (UnauthorizedError ''Authentication required'')
      | Some h \<Rightarrow>
          if take 7 h \<noteq> ''Bearer '' then Inl (UnauthorizedError ''Authentication required'')
          else verifyAccessToken jwt_verify (drop 7 h) secret)"

definition requireRole :: "role list \<Rightarrow> json auth_claims option \<Rightarrow> app_error + unit" where
  "requireRole roles auth =
     (case auth of
        None \<Rightarrow> Inl (UnauthorizedError ''Authentication required'')
      | Some c \<Rightarrow>
          if c_role c \<notin> (JStr \<circ> role_str) ` set roles
          then Inl (ForbiddenError ''Insufficient permissions'')
          else Inr ())"


section \<open>Login\<close>

definition lower_char :: "char \<Rightarrow> char" where
  "lower_char c = (if 65 \<le> (of_char c :: nat) \<and> (of_char c :: nat) \<le> 90
     then char_of ((of_char c :: nat) + 32) else c)"

definition toLowerCase :: "string \<Rightarrow> string" where
  "toLowerCase s = map lower_char s"

definition user_doc :: "user \<Rightarrow> fields" where
  "user_doc u = [(''_id'', JStr (u_id u)), (''workspaceId'', JStr (u_workspaceId u)),
     (''email'', JStr (u_email u)), (''role'', JStr (role_str (u_role u))),
     (''passwordHash'', JStr (u_passwordHash u)), (''active'', JBool (u_active u)), (''__v'', JNum 0)]"

definition user_claims :: "user \<Rightarrow> string auth_claims" where
  "user_claims u = \<lparr>c_sub = u_id u, c_email = u_email u, c_role = role_str (u_role u),
     c_workspaceId = u_workspaceId u\<rparr>"

definition verifyPassword :: "(string \<Rightarrow> string \<Rightarrow> bool) \<Rightarrow> string \<Rightarrow> string \<Rightarrow> bool" where
  "verifyPassword bcrypt_compare plain hashed = bcrypt_compare plain hashed"

record auth_config =
  ac_JWT_SECRET :: string
  ac_JWT_EXPIRES_IN :: string

definition login ::
  "env \<Rightarrow> (string \<Rightarrow> string \<Rightarrow> bool) \<Rightarrow> ((string \<times> json) list \<Rightarrow> string \<Rightarrow> string \<Rightarrow> string) \<Rightarrow>
    auth_config \<Rightarrow> string \<Rightarrow> string \<Rightarrow> (string \<times> fields) call" where
  "login env bcrypt_compare jwt_sign cfg email password =
     bind_io (ask db_users (drv_findOne (e_users env)
               (\<lambda>u. u_email u = toLowerCase email \<and> u_active u))) (\<lambda>found.
       case found of
         None \<Rightarrow> throw (AppErr (UnauthorizedError ''Invalid credentials''))
       | Some user \<Rightarrow>
           if \<not> verifyPassword bcrypt_compare password (u_passwordHash user)
           then throw (AppErr (UnauthorizedError ''Invalid credentials''))
           else ret (signAccessToken jwt_sign (user_claims user) (ac_JWT_SECRET cfg)
                       (Some (ac_JWT_EXPIRES_IN cfg)),
                     serialize (user_doc user)))"

context store
begin

lemma login_Inr:
  assumes "login env bc sign cfg email pw s = (s', Inr (tok, reply))"
  obtains u where "s' = s" "u \<in> set (db_users s)" "u_email u = toLowerCase email" "u_active u"
    "bc pw (u_passwordHash u)" "reply = serialize (user_doc u)"
    "tok = sign (claims_json (user_claims u)) (ac_JWT_SECRET cfg) (ac_JWT_EXPIRES_IN cfg)"
proof -
  let ?p = "\<lambda>u. u_email u = toLowerCase email \<and> u_active u"
  obtain found where f: "drv_findOne (e_users env) ?p (db_users s) = Inr found" "s' = s"
    and r: "(case found of None \<Rightarrow> throw (AppErr (UnauthorizedError ''Invalid credentials''))
       | Some user \<Rightarrow> if \<not> bc pw (u_passwordHash user)
           then throw (AppErr (UnauthorizedError ''Invalid credentials''))
           else ret (signAccessToken sign (user_claims user) (ac_JWT_SECRET cfg)
                  (Some (ac_JWT_EXPIRES_IN cfg)), serialize (user_doc user))) s = (s', Inr (tok, reply))"
    using assms by (auto simp: login_def verifyPassword_def bind_io_Inr ask_Inr split: option.splits if_splits)
  show ?thesis
  proof (cases found)
    case None
    with r show ?thesis by simp
  next
    case (Some u)
    with f(1) have "u \<in> set (db_users s) \<and> ?p u"
      using users.findOne_Some [of ?p "db_users s" u] by simp
    with Some f(2) r that [of u] show ?thesis
      by (simp add: signAccessToken_def split: if_splits)
  qed
qed

end

lemma verify_signed:
  assumes "jwt_verify tok secret = Some (JObj (claims_json c @ extra))"
    and "c_sub c \<noteq> []" "c_email c \<noteq> []" "c_role c \<noteq> []" "c_workspaceId c \<noteq> []"
  shows "verifyAccessToken jwt_verify tok secret = Inr (claims_values c)"
  using assms by (simp add: verifyAccessToken_def claims_json_def claims_values_def Let_def)



text \<open>A user, and a token scheme that can be read back: each claim with its length in unary.\<close>

definition demo_user :: user where
  "demo_user = \<lparr>u_id = ''u1'', u_workspaceId = ''ws1'', u_email = ''ann@acme.io'', u_role = Operator,
     u_passwordHash = ''secret'', u_active = True\<rparr>"

definition demo_auth :: auth_config where
  "demo_auth = \<lparr>ac_JWT_SECRET = ''0123456789abcdef'', ac_JWT_EXPIRES_IN = ''8h''\<rparr>"

definition unary :: "string \<Rightarrow> string" where
  "unary s = replicate (length s) CHR ''1'' @ CHR ''0'' # s"

definition ununary :: "string \<Rightarrow> string \<times> string" where
  "ununary s = (let n = length (takeWhile (\<lambda>c. c = CHR ''1'') s)
     in (take n (drop (Suc n) s), drop n (drop (Suc n) s)))"

lemma ununary_unary [simp]: "ununary (unary s @ r) = (s, r)" "ununary (unary s) = (s, [])"
proof -
  have t: "takeWhile (\<lambda>c. c = CHR ''1'') (replicate n CHR ''1'' @ CHR ''0'' # xs) = replicate n CHR ''1''"
    for n xs by (induction n) auto
  show "ununary (unary s @ r) = (s, r)" "ununary (unary s) = (s, [])"
    by (simp_all add: ununary_def unary_def Let_def t)
qed

fun demo_sign :: "(string \<times> json) list \<Rightarrow> string \<Rightarrow> string \<Rightarrow> string" where
  "demo_sign [(_, JStr a), (_, JStr b), (_, JStr c), (_, JStr d)] secret ex =
     unary a @ unary b @ unary c @ unary d"
| "demo_sign _ secret ex = []"

definition demo_verify :: "string \<Rightarrow> string \<Rightarrow> json option" where
  "demo_verify tok secret =
     (let (a, r1) = ununary tok; (b, r2) = ununary r1; (c, r3) = ununary r2; (d, r4) = ununary r3
      in Some (JObj (claims_json \<lparr>c_sub = a, c_email = b, c_role = c, c_workspaceId = d\<rparr>)))"

lemma demo_verify_sign: "demo_verify (demo_sign (claims_json c) sec ex) sec = Some (JObj (claims_json c @ []))"
  by (simp add: demo_verify_def claims_json_def)

definition demo_users :: db where
  "demo_users = db_users_update (\<lambda>_. [demo_user]) empty_db"

lemma demo_email: "toLowerCase ''Ann@ACME.io'' = ''ann@acme.io''"
  by code_simp

lemma demo_login: "login mem_env (=) demo_sign demo_auth ''Ann@ACME.io'' ''secret'' demo_users =
    (demo_users, Inr (demo_sign (claims_json (user_claims demo_user)) (ac_JWT_SECRET demo_auth) ''8h'',
       serialize (user_doc demo_user)))"
  by (simp add: login_def bind_io_def ask_def demo_users_def demo_user_def verifyPassword_def
      signAccessToken_def demo_auth_def demo_email)


text \<open>
  C40. The login looks a user up by e-mail address alone, but addresses are unique only within a
  workspace: of two users with the same address in two workspaces, the one the database does not
  find first cannot log in, although the password is right.
\<close>

theorem login_ignores_the_workspace:
  "\<exists>s. distinct (map u_id (db_users s))
    \<and> distinct (map (\<lambda>u. (u_workspaceId u, u_email u)) (db_users s))
    \<and> (\<exists>u \<in> set (db_users s). u_active u \<and> u_passwordHash u = pw
        \<and> login mem_env (=) sign cfg (u_email u) pw s
          = (s, Inl (AppErr (UnauthorizedError ''Invalid credentials''))))"
proof -
  let ?b = "demo_user\<lparr>u_id := ''u2'', u_workspaceId := ''ws2'', u_passwordHash := pw\<rparr>"
  let ?s = "db_users_update (\<lambda>_. [demo_user\<lparr>u_passwordHash := pw @ ''x''\<rparr>, ?b]) empty_db"
  show ?thesis
    by (rule exI [of _ ?s])
      (simp add: demo_user_def login_def bind_io_def ask_def verifyPassword_def
        toLowerCase_def lower_char_def)
qed

text \<open>
  The role gates respect the order of privilege: what a role may do, every higher role may do, and
  who may approve may also execute, who may execute may operate, and all may read; a viewer may
  do nothing but read.
\<close>

theorem role_gates_monotone:
  "mono canApprove \<and> mono canExecute \<and> mono canOperate \<and> mono canRead
    \<and> canApprove \<le> canExecute \<and> canExecute \<le> canOperate \<and> canOperate \<le> canRead
    \<and> {r. canApprove r} = {Admin} \<and> {r. canExecute r} = {r. Operator \<le> r} \<and> \<not> canOperate Viewer"
proof -
  have "mono g" if "g Viewer \<le> g Operator" "g Operator \<le> g Admin" for g :: "role \<Rightarrow> bool"
  proof (rule monoI)
    fix a b :: role assume "a \<le> b"
    with that show "g a \<le> g b" by (cases a; cases b) (auto simp: less_eq_role_def)
  qed
  then have "mono canApprove" "mono canExecute" "mono canOperate" "mono canRead"
    by (simp_all add: canApprove_def canExecute_def canOperate_def canRead_def)
  moreover have "canExecute r = (Operator \<le> r)" "canApprove r = (r = Admin)" for r
    by (cases r; simp add: canApprove_def canExecute_def less_eq_role_def)+
  ultimately show ?thesis
    by (simp add: le_fun_def) (auto simp: canApprove_def canExecute_def canOperate_def canRead_def)
qed

end
