(* ===== verification/Mock_Provider.thy ===== *)
theory Mock_Provider
  imports Domain
begin

text \<open>
  The cloud providers' interface (\<^verbatim>\<open>packages/shared/src/providers/types.ts\<close>) and the deterministic
  inventory of \<^verbatim>\<open>mock.ts\<close>. An inventory item is a resource without identifier and timestamps;
  \<open>now\<close> is the clock reading of the item.
\<close>

record item =
  i_workspaceId :: string
  i_provider :: provider_name
  i_type :: resource_type
  i_region :: string
  i_arn :: string
  i_name :: string
  i_tags :: tags
  i_config :: res_config
  i_metrics :: res_metrics
  i_lastSyncedAt :: int
  i_version :: int

record inventory_query =
  iq_types :: "resource_type list option"
  iq_region :: "string option"

definition no_config :: res_config where
  "no_config = \<lparr> cf_publicAccess = None, cf_backupEnabled = None, cf_alarms = None,
     cf_healthCheckStatus = None, cf_instanceState = None, cf_runtime = None, cf_encryption = None \<rparr>"

definition no_metrics :: res_metrics where
  "no_metrics = \<lparr> m_cpuUtilizationAvg = None, m_consecutiveLowUtilizationPeriods = None,
     m_errorRate = None, m_errorCount = None, m_p99LatencyMs = None, m_failureRateDelta = None,
     m_requestCount = None \<rparr>"

text \<open>The constructors of the literals in the inventory.\<close>

definition ec2_config :: "bool \<Rightarrow> bool \<Rightarrow> string list \<Rightarrow> health \<Rightarrow> string \<Rightarrow> res_config" where
  "ec2_config publicAccess backupEnabled alarms healthCheckStatus instanceState =
     no_config\<lparr>cf_publicAccess := Some publicAccess, cf_backupEnabled := Some backupEnabled,
       cf_alarms := Some alarms, cf_healthCheckStatus := Some healthCheckStatus,
       cf_instanceState := Some instanceState\<rparr>"

definition ec2_metrics :: "rat \<Rightarrow> rat \<Rightarrow> rat \<Rightarrow> rat \<Rightarrow> rat \<Rightarrow> rat \<Rightarrow> rat \<Rightarrow> res_metrics" where
  "ec2_metrics cpuUtilizationAvg lowPeriods errorRate errorCount p99LatencyMs failureRateDelta requestCount =
     \<lparr> m_cpuUtilizationAvg = Some cpuUtilizationAvg,
       m_consecutiveLowUtilizationPeriods = Some lowPeriods, m_errorRate = Some errorRate,
       m_errorCount = Some errorCount, m_p99LatencyMs = Some p99LatencyMs,
       m_failureRateDelta = Some failureRateDelta, m_requestCount = Some requestCount \<rparr>"

definition s3_config :: "bool \<Rightarrow> bool \<Rightarrow> string list \<Rightarrow> bool \<Rightarrow> res_config" where
  "s3_config publicAccess backupEnabled alarms encryption =
     no_config\<lparr>cf_publicAccess := Some publicAccess, cf_backupEnabled := Some backupEnabled,
       cf_alarms := Some alarms, cf_encryption := Some encryption\<rparr>"

definition s3_metrics :: "rat \<Rightarrow> res_metrics" where
  "s3_metrics requestCount = no_metrics\<lparr>m_requestCount := Some requestCount\<rparr>"

definition lambda_config :: "bool \<Rightarrow> string list \<Rightarrow> string \<Rightarrow> health \<Rightarrow> res_config" where
  "lambda_config backupEnabled alarms runtime healthCheckStatus =
     no_config\<lparr>cf_backupEnabled := Some backupEnabled, cf_alarms := Some alarms,
       cf_runtime := Some runtime, cf_healthCheckStatus := Some healthCheckStatus\<rparr>"

definition lambda_metrics :: "rat \<Rightarrow> rat \<Rightarrow> rat \<Rightarrow> rat \<Rightarrow> rat \<Rightarrow> res_metrics" where
  "lambda_metrics errorRate errorCount p99LatencyMs failureRateDelta requestCount =
     no_metrics\<lparr>m_errorRate := Some errorRate, m_errorCount := Some errorCount,
       m_p99LatencyMs := Some p99LatencyMs, m_failureRateDelta := Some failureRateDelta,
       m_requestCount := Some requestCount\<rparr>"

definition resource ::
  "int \<Rightarrow> string \<Rightarrow> resource_type \<Rightarrow> string \<Rightarrow> string \<Rightarrow> string \<Rightarrow> tags \<Rightarrow> res_config \<Rightarrow> res_metrics \<Rightarrow> item" where
  "resource now workspaceId typ region arn name tags config metrics =
     \<lparr> i_workspaceId = workspaceId, i_provider = MockProvider, i_type = typ, i_region = region,
       i_arn = arn, i_name = name, i_tags = tags, i_config = config, i_metrics = metrics,
       i_lastSyncedAt = now, i_version = 1 \<rparr>"

text \<open>The tags of the prod resources: environment, owner, cost center and service.\<close>

definition prod_tags :: "string \<Rightarrow> string \<Rightarrow> string \<Rightarrow> tags" where
  "prod_tags owner costCenter service =
     [(''Environment'', ''prod''), (''Owner'', owner), (''CostCenter'', costCenter), (''Service'', service)]"


section \<open>The inventory\<close>

definition mock_ec2 :: "int \<Rightarrow> string \<Rightarrow> item list" where
  "mock_ec2 now workspaceId =
     [resource now workspaceId Ec2 ''us-east-1''
        ''arn:aws:ec2:us-east-1:123456789012:instance/i-web-prod-1'' ''i-web-prod-1''
        [(''Environment'', ''prod''), (''Owner'', ''platform''), (''Service'', ''web'')]
        (ec2_config False False [''cpu-high''] Healthy ''running'')
        (ec2_metrics (32/10) 6 (1/100) 4 180 0 12000),
      resource now workspaceId Ec2 ''us-east-1''
        ''arn:aws:ec2:us-east-1:123456789012:instance/i-api-prod-2'' ''i-api-prod-2''
        (prod_tags ''api'' ''cc-100'' ''checkout-api'')
        (ec2_config False True [''5xx''] Unhealthy ''running'')
        (ec2_metrics 62 0 (14/100) 88 2400 (18/100) 54000),
      resource now workspaceId Ec2 ''us-west-2''
        ''arn:aws:ec2:us-west-2:123456789012:instance/i-batch-dev-3'' ''i-batch-dev-3''
        []
        (ec2_config False False [] UnknownHealth ''running'')
        (ec2_metrics 18 1 0 0 90 0 200),
      resource now workspaceId Ec2 ''us-east-1''
        ''arn:aws:ec2:us-east-1:123456789012:instance/i-db-prod'' ''i-db-prod''
        (prod_tags ''data'' ''cc-200'' ''postgres'')
        (ec2_config False False [''disk''] Healthy ''running'')
        (ec2_metrics 41 0 (2/1000) 2 40 0 8000),
      resource now workspaceId Ec2 ''us-east-1''
        ''arn:aws:ec2:us-east-1:123456789012:instance/i-cache-prod'' ''i-cache-prod''
        (prod_tags ''platform'' ''cc-100'' ''redis'')
        (ec2_config False True [] Healthy ''running'')
        (ec2_metrics 33 0 0 0 12 0 90000)]"

definition mock_s3 :: "int \<Rightarrow> string \<Rightarrow> item list" where
  "mock_s3 now workspaceId =
     [resource now workspaceId S3 ''us-east-1'' ''arn:aws:s3:::acme-public-assets'' ''acme-public-assets''
        [(''Environment'', ''prod''), (''Service'', ''cdn'')]
        (s3_config True False [] False) (s3_metrics 400000),
      resource now workspaceId S3 ''us-east-1'' ''arn:aws:s3:::acme-logs-private'' ''acme-logs-private''
        (map (\<lambda>t. (t, if t = ''CostCenter'' then ''cc-100'' else ''ops'')) REQUIRED_TAGS)
        (s3_config False True [''replication-lag''] True) (s3_metrics 1200),
      resource now workspaceId S3 ''us-west-2'' ''arn:aws:s3:::acme-data-lake'' ''acme-data-lake''
        (prod_tags ''analytics'' ''cc-300'' ''lake'')
        (s3_config True True [] True) (s3_metrics 22000),
      resource now workspaceId S3 ''us-east-1'' ''arn:aws:s3:::acme-backups'' ''acme-backups''
        (prod_tags ''sre'' ''cc-100'' ''backup'')
        (s3_config False True [''failed-jobs''] True) (s3_metrics 80)]"

definition mock_lambda :: "int \<Rightarrow> string \<Rightarrow> item list" where
  "mock_lambda now workspaceId =
     [resource now workspaceId Lambda ''us-east-1''
        ''arn:aws:lambda:us-east-1:123456789012:function:ingest'' ''ingest''
        [(''Environment'', ''prod''), (''Owner'', ''data''), (''Service'', ''ingest'')]
        (lambda_config False [] ''nodejs20.x'' Healthy)
        (lambda_metrics (9/100) 41 1800 (4/100) 15000),
      resource now workspaceId Lambda ''us-east-1''
        ''arn:aws:lambda:us-east-1:123456789012:function:reports'' ''reports''
        (prod_tags ''bi'' ''cc-300'' ''reports'')
        (lambda_config False [''errors'', ''throttles''] ''python3.12'' Healthy)
        (lambda_metrics (4/1000) 3 420 0 4000),
      resource now workspaceId Lambda ''us-east-1''
        ''arn:aws:lambda:us-east-1:123456789012:function:webhooks'' ''webhooks''
        (prod_tags ''api'' ''cc-100'' ''webhooks'')
        (lambda_config False [''duration''] ''nodejs20.x'' Healthy)
        (lambda_metrics (3/100) 19 700 (22/100) 9000)]"

definition mock_cloudwatch :: "int \<Rightarrow> string \<Rightarrow> item list" where
  "mock_cloudwatch now workspaceId =
     [resource now workspaceId Cloudwatch ''us-east-1''
        ''arn:aws:cloudwatch:us-east-1:123456789012:alarm:cpu-high'' ''cpu-high''
        (prod_tags ''sre'' ''cc-100'' ''observability'')
        (no_config\<lparr>cf_alarms := Some [''cpu-high'']\<rparr>) no_metrics]"

definition buildMockInventory :: "int \<Rightarrow> string \<Rightarrow> item list" where
  "buildMockInventory now workspaceId =
     mock_ec2 now workspaceId @ mock_s3 now workspaceId @ mock_lambda now workspaceId @
     mock_cloudwatch now workspaceId"

text \<open>\<^verbatim>\<open>listResources\<close>: a list of types counts when it is not empty, a region when it is truthy.\<close>

definition mock_listResources :: "string \<Rightarrow> int \<Rightarrow> inventory_query \<Rightarrow> item list" where
  "mock_listResources workspaceId now query =
     (let items = buildMockInventory now workspaceId;
          items1 = (case iq_types query of
                      None \<Rightarrow> items
                    | Some [] \<Rightarrow> items
                    | Some ts \<Rightarrow> filter (\<lambda>r. i_type r \<in> set ts) items)
      in case iq_region query of
           None \<Rightarrow> items1
         | Some [] \<Rightarrow> items1
         | Some g \<Rightarrow> filter (\<lambda>r. i_region r = g) items1)"

lemma mock_arns_distinct: "distinct (map i_arn (buildMockInventory now w))"
  by (simp add: buildMockInventory_def mock_ec2_def mock_s3_def mock_lambda_def mock_cloudwatch_def
      resource_def)

lemma mock_workspace: "x \<in> set (buildMockInventory now w) \<Longrightarrow> i_workspaceId x = w \<and> i_provider x = MockProvider"
  by (auto simp: buildMockInventory_def mock_ec2_def mock_s3_def mock_lambda_def mock_cloudwatch_def
      resource_def)

lemma mock_listResources_sub:
  "\<exists>p. mock_listResources w now query = filter p (buildMockInventory now w)"
proof -
  have "\<exists>q. (case iq_types query of None \<Rightarrow> items | Some [] \<Rightarrow> items
      | Some ts \<Rightarrow> filter (\<lambda>r. i_type r \<in> set ts) items) = filter q items" for items :: "item list"
    by (cases "iq_types query"; cases "the (iq_types query)") (auto intro: exI [of _ "\<lambda>_. True"])
  then obtain q where q: "(case iq_types query of None \<Rightarrow> buildMockInventory now w | Some [] \<Rightarrow> buildMockInventory now w
      | Some ts \<Rightarrow> filter (\<lambda>r. i_type r \<in> set ts) (buildMockInventory now w)) =
      filter q (buildMockInventory now w)" by blast
  show ?thesis
    unfolding mock_listResources_def Let_def q
    by (cases "iq_region query"; cases "the (iq_region query)") auto
qed

end
