(* ===== verification/Backoff.thy ===== *)
theory Backoff
  imports Domain
begin

text \<open>
  \<^verbatim>\<open>packages/shared/src/observability/retry.ts\<close>: the jittered exponential backoff, \<^verbatim>\<open>withRetry\<close> and
  \<^verbatim>\<open>withTimeout\<close>. \<^verbatim>\<open>Math.random()\<close> is the argument \<open>rnd\<close>; numbers are exact (\<open>rat\<close>), so the
  rounding of double arithmetic below one millisecond is not modelled.
\<close>

section \<open>Backoff\<close>

definition js_round :: "rat \<Rightarrow> int" where
  "js_round x = \<lfloor>x + 1 / 2\<rfloor>"

definition backoff_exp :: "rat \<Rightarrow> rat \<Rightarrow> int \<Rightarrow> rat" where
  "backoff_exp baseMs maxMs attempt = min maxMs (baseMs * 2 ^ nat (max 0 (attempt - 1)))"

definition exponentialBackoffWithJitter :: "int \<Rightarrow> rat \<Rightarrow> rat \<Rightarrow> rat option \<Rightarrow> rat \<Rightarrow> int" where
  "exponentialBackoffWithJitter attempt baseMs maxMs jitterRatio rnd =
     (let ex = backoff_exp baseMs maxMs attempt;
          ratio = (case jitterRatio of None \<Rightarrow> 1 / 5 | Some r \<Rightarrow> r);
          jitter = ex * ratio * rnd
      in js_round (ex + jitter))"

lemma js_round_mono: "x \<le> y \<Longrightarrow> js_round x \<le> js_round y"
  unfolding js_round_def by (intro floor_mono) simp

lemma js_round_of_int [simp]: "js_round (of_int n) = n"
  unfolding js_round_def by linarith

lemma backoff_exp_mono:
  assumes "0 \<le> b" "a \<le> a'"
  shows "backoff_exp b m a \<le> backoff_exp b m a'"
proof -
  have "(2::rat) ^ nat (max 0 (a - 1)) \<le> 2 ^ nat (max 0 (a' - 1))"
    using assms(2) by (intro power_increasing) auto
  then have "b * 2 ^ nat (max 0 (a - 1)) \<le> b * 2 ^ nat (max 0 (a' - 1))"
    using assms(1) by (intro mult_left_mono)
  then show ?thesis unfolding backoff_exp_def by (rule min.mono [OF order_refl])
qed

lemma backoff_exp_le_max: "backoff_exp b m a \<le> m"
  by (simp add: backoff_exp_def)

lemma backoff_exp_nonneg: "0 \<le> b \<Longrightarrow> 0 \<le> m \<Longrightarrow> 0 \<le> backoff_exp b m a"
  by (simp add: backoff_exp_def)

lemma backoff_as_factor: "exponentialBackoffWithJitter a b m r rnd =
    js_round (backoff_exp b m a * (1 + (case r of None \<Rightarrow> 1 / 5 | Some q \<Rightarrow> q) * rnd))"
  by (simp add: exponentialBackoffWithJitter_def Let_def algebra_simps)

text \<open>
  The delay lies between the exponential value for the attempt (rounded) and that value
  increased by the whole jitter ratio; it never exceeds the configured maximum by more than the
  jitter.
\<close>

theorem backoff_bounds:
  assumes "0 \<le> baseMs" "0 \<le> maxMs" "0 \<le> ratio" "0 \<le> rnd" "rnd < 1"
  shows "js_round (backoff_exp baseMs maxMs attempt)
      \<le> exponentialBackoffWithJitter attempt baseMs maxMs (Some ratio) rnd
    \<and> exponentialBackoffWithJitter attempt baseMs maxMs (Some ratio) rnd
      \<le> js_round (backoff_exp baseMs maxMs attempt * (1 + ratio))
    \<and> exponentialBackoffWithJitter attempt baseMs maxMs (Some ratio) rnd
      \<le> js_round (maxMs * (1 + ratio))"
proof -
  let ?x = "backoff_exp baseMs maxMs attempt"
  have x: "0 \<le> ?x" using assms(1,2) by (rule backoff_exp_nonneg)
  have r: "0 \<le> ratio * rnd" "ratio * rnd \<le> ratio"
    using assms(3-5) by (simp_all add: mult_left_le)
  have lo: "?x \<le> ?x * (1 + ratio * rnd)"
    using x r(1) by (simp add: mult_le_cancel_left1)
  have hi: "?x * (1 + ratio * rnd) \<le> ?x * (1 + ratio)"
    using x r(2) by (intro mult_left_mono) auto
  have cap: "?x * (1 + ratio) \<le> maxMs * (1 + ratio)"
    using assms(3) by (intro mult_right_mono backoff_exp_le_max) auto
  show ?thesis
    unfolding backoff_as_factor option.case
    using lo hi cap by (intro conjI js_round_mono) auto
qed

theorem backoff_bounds_witness:
  "js_round (backoff_exp 500 15000 3) \<le> exponentialBackoffWithJitter 3 500 15000 (Some (1/5)) (1/2)
    \<and> exponentialBackoffWithJitter 3 500 15000 (Some (1/5)) (1/2)
      \<le> js_round (backoff_exp 500 15000 3 * (1 + 1/5))
    \<and> exponentialBackoffWithJitter 3 500 15000 (Some (1/5)) (1/2) \<le> js_round (15000 * (1 + 1/5))"
  by (rule backoff_bounds) simp_all

text \<open>
  With the same random draw the delay never shrinks from one attempt to a later one, and
  without jitter it is the documented sequence: base, doubled with each attempt, capped.
\<close>

theorem backoff_monotone:
  assumes "0 \<le> baseMs" "0 \<le> rnd" "attempt \<le> attempt'"
  shows "exponentialBackoffWithJitter attempt baseMs maxMs None rnd
      \<le> exponentialBackoffWithJitter attempt' baseMs maxMs None rnd
    \<and> exponentialBackoffWithJitter (1 + int n) (of_int b) (of_int m) (Some 0) rnd = min m (b * 2 ^ n)"
proof
  have "backoff_exp baseMs maxMs attempt * (1 + 1 / 5 * rnd)
      \<le> backoff_exp baseMs maxMs attempt' * (1 + 1 / 5 * rnd)"
    using assms by (intro mult_right_mono backoff_exp_mono) auto
  then show "exponentialBackoffWithJitter attempt baseMs maxMs None rnd
      \<le> exponentialBackoffWithJitter attempt' baseMs maxMs None rnd"
    unfolding backoff_as_factor option.case by (rule js_round_mono)
  have "backoff_exp (of_int b) (of_int m) (1 + int n) = of_int (min m (b * 2 ^ n))"
    by (simp add: backoff_exp_def of_int_min)
  then show "exponentialBackoffWithJitter (1 + int n) (of_int b) (of_int m) (Some 0) rnd
      = min m (b * 2 ^ n)"
    by (simp only: backoff_as_factor option.case) simp
qed

theorem backoff_monotone_witness:
  "exponentialBackoffWithJitter 1 100 1000 None (1/2) \<le> exponentialBackoffWithJitter 4 100 1000 None (1/2)
    \<and> exponentialBackoffWithJitter (1 + int 3) (of_int 100) (of_int 1000) (Some 0) (1/2) = min 1000 (100 * 2 ^ 3)"
  by (rule backoff_monotone) simp_all


section \<open>Retrying and timing out\<close>

record 'e retry_options =
  ro_maxAttempts :: int
  ro_baseMs :: rat
  ro_maxMs :: rat
  ro_retryOn :: "('e \<Rightarrow> bool) option"

definition is_retryable :: "'e retry_options \<Rightarrow> 'e \<Rightarrow> bool" where
  "is_retryable opts e = (case ro_retryOn opts of None \<Rightarrow> True | Some f \<Rightarrow> f e)"

text \<open>
  \<open>fn i\<close> is what the \<open>i\<close>-th call of the retried function does, \<open>rnd i\<close> the random draw of
  the \<open>i\<close>-th delay. The result is what the loop throws or returns, with the delays it slept.
  \<^verbatim>\<open>throw lastError\<close> after a loop that never ran throws \<open>None\<close> (\<^verbatim>\<open>undefined\<close>).
\<close>

function retry_loop ::
  "'e retry_options \<Rightarrow> (int \<Rightarrow> 'e + 'a) \<Rightarrow> (int \<Rightarrow> rat) \<Rightarrow> int \<Rightarrow> 'e option \<Rightarrow> ('e option + 'a) \<times> int list" where
  "retry_loop opts fn rnd attempt lastError =
     (if attempt \<le> ro_maxAttempts opts then
        (case fn attempt of
           Inr x \<Rightarrow> (Inr x, [])
         | Inl err \<Rightarrow>
             if \<not> is_retryable opts err \<or> attempt = ro_maxAttempts opts then (Inl (Some err), [])
             else (case retry_loop opts fn rnd (attempt + 1) (Some err) of
                     (r, delays) \<Rightarrow>
                       (r, exponentialBackoffWithJitter attempt (ro_baseMs opts) (ro_maxMs opts) None (rnd attempt)
                             # delays)))
      else (Inl lastError, []))"
  by pat_completeness auto
termination
  by (relation "measure (\<lambda>(opts, _, _, attempt, _). nat (ro_maxAttempts opts + 1 - attempt))") auto

declare retry_loop.simps [simp del]

definition withRetry ::
  "(int \<Rightarrow> 'e + 'a) \<Rightarrow> 'e retry_options \<Rightarrow> (int \<Rightarrow> rat) \<Rightarrow> ('e option + 'a) \<times> int list" where
  "withRetry fn opts rnd = retry_loop opts fn rnd 1 None"

definition retry_delay :: "'e retry_options \<Rightarrow> (int \<Rightarrow> rat) \<Rightarrow> int \<Rightarrow> int" where
  "retry_delay opts rnd i =
     exponentialBackoffWithJitter i (ro_baseMs opts) (ro_maxMs opts) None (rnd i)"

lemma retry_loop_until:
  assumes "a \<le> k" "k \<le> ro_maxAttempts opts"
    and "\<And>i. a \<le> i \<Longrightarrow> i < k \<Longrightarrow> \<exists>e. fn i = Inl e \<and> is_retryable opts e"
    and "(\<exists>x. fn k = Inr x \<and> res = Inr x) \<or>
         (\<exists>e. fn k = Inl e \<and> res = Inl (Some e) \<and> (\<not> is_retryable opts e \<or> k = ro_maxAttempts opts))"
  shows "retry_loop opts fn rnd a le = (res, map (retry_delay opts rnd) [a..k - 1])"
  using assms
proof (induction "nat (k - a)" arbitrary: a le)
  case 0
  then have "a = k" by simp
  with 0 show ?case by (auto simp: retry_loop.simps [of opts fn rnd k])
next
  case (Suc n)
  then have "a < k" by simp
  with Suc.prems(3) obtain e where e: "fn a = Inl e" "is_retryable opts e" by blast
  have "retry_loop opts fn rnd (a + 1) (Some e) = (res, map (retry_delay opts rnd) [a + 1..k - 1])"
    by (rule Suc.hyps(1)) (use Suc \<open>a < k\<close> in auto)
  with e \<open>a < k\<close> Suc.prems(2) show ?case
    by (simp add: retry_loop.simps [of opts fn rnd a] retry_delay_def upto_rec1 [of a "k - 1"])
qed

text \<open>
  \<^verbatim>\<open>withRetry\<close> stops at the first call that returns, at the first error that is not retryable,
  or at the last attempt, whichever comes first (call \<open>k\<close>); it then returns or throws exactly what
  that call did, after one backoff delay for each earlier call.
\<close>

theorem withRetry_stops_at:
  assumes "1 \<le> k" "k \<le> ro_maxAttempts opts"
    and "\<And>i. 1 \<le> i \<Longrightarrow> i < k \<Longrightarrow> \<exists>e. fn i = Inl e \<and> is_retryable opts e"
    and "\<And>e. fn k = Inl e \<Longrightarrow> \<not> is_retryable opts e \<or> k = ro_maxAttempts opts"
  shows "withRetry fn opts rnd =
    ((case fn k of Inl e \<Rightarrow> Inl (Some e) | Inr x \<Rightarrow> Inr x), map (retry_delay opts rnd) [1..k - 1])"
  unfolding withRetry_def
  by (rule retry_loop_until) (use assms in \<open>auto split: sum.splits\<close>)

theorem withRetry_stops_at_witness:
  "withRetry (\<lambda>i. if i < 3 then Inl i else Inr True)
      \<lparr>ro_maxAttempts = 8, ro_baseMs = 400, ro_maxMs = 4000, ro_retryOn = None\<rparr> (\<lambda>_. 0)
    = (Inr True, map (retry_delay \<lparr>ro_maxAttempts = 8, ro_baseMs = 400, ro_maxMs = 4000,
         ro_retryOn = None :: (int \<Rightarrow> bool) option\<rparr> (\<lambda>_. 0)) [1..3 - 1])"
  by (rule withRetry_stops_at [of 3, THEN trans]) (auto simp: is_retryable_def)

text \<open>
  A promise is the function that says with what it has settled before a given number of milliseconds
  (\<open>None\<close>: it has not). \<^verbatim>\<open>withTimeout\<close> races it against a timer: \<open>Some r\<close> is a promise that settled
  with \<open>r\<close> first, \<open>None\<close> one that had not settled when the timer fired.
\<close>

type_synonym 'a promise = "int \<Rightarrow> (thrown + 'a) option"

definition withTimeout :: "(thrown + 'a) option \<Rightarrow> string \<Rightarrow> thrown + 'a" where
  "withTimeout settled message =
     (case settled of Some r \<Rightarrow> r | None \<Rightarrow> Inl (JsErr ''Error'' message))"

end
