(* ===== verification/Aws_Provider.thy ===== *)
theory Aws_Provider
  imports Mock_Provider Backoff
begin

text \<open>
  The read-only collector of \<^verbatim>\<open>packages/shared/src/providers/aws.ts\<close> and the choice of a provider in
  \<^verbatim>\<open>factory.ts\<close>. The AWS SDK is a parameter: \<open>sdk\<close> has a promise for each command the code sends, with
  the parts of the answer that the code reads (all optional, as in the SDK's types). The raw payload
  of an instance and the commands' constant arguments are left out; \<open>now\<close> is the clock reading of an
  item.
\<close>

section \<open>The SDK\<close>

type_synonym sdk_tags = "(string option \<times> string option) list option"

record ec2_instance =
  in_InstanceId :: "string option"
  in_Tags :: sdk_tags
  in_PublicIpAddress :: "string option"
  in_State :: "string option"

record access_block =
  ab_BlockPublicAcls :: "bool option"
  ab_BlockPublicPolicy :: "bool option"
  ab_IgnorePublicAcls :: "bool option"
  ab_RestrictPublicBuckets :: "bool option"

record lambda_function =
  fn_FunctionName :: "string option"
  fn_FunctionArn :: "string option"
  fn_Runtime :: "string option"

record sdk =
  sdk_DescribeInstances :: "ec2_instance list option list option promise"
  sdk_GetMetricStatistics :: "string \<Rightarrow> rat option list option promise"
  sdk_ListBuckets :: "string option list option promise"
  sdk_GetBucketLocation :: "string \<Rightarrow> string option promise"
  sdk_GetBucketTagging :: "string \<Rightarrow> sdk_tags promise"
  sdk_GetPublicAccessBlock :: "string \<Rightarrow> access_block option promise"
  sdk_ListFunctions :: "lambda_function list option promise"
  sdk_ListTags :: "string \<Rightarrow> tags option promise"
  sdk_GetFunction :: "string \<Rightarrow> unit promise"
  sdk_ListMetrics :: "string option list option promise"

record aws_provider =
  aw_region :: string
  aw_workspaceId :: string
  aw_timeoutMs :: int
  aw_readOnly :: bool
  aw_sdk :: sdk
  aw_err_text :: "db_error \<Rightarrow> string \<times> string"


text \<open>The constructor. \<open>sdk_clients\<close> makes the SDK's clients from a region, the number of attempts and
  the endpoint.\<close>

record aws_options =
  ao_region :: string
  ao_workspaceId :: string
  ao_maxAttempts :: "int option"
  ao_requestTimeoutMs :: "int option"
  ao_endpoint :: "string option"
  ao_readOnly :: "bool option"

type_synonym sdk_clients = "string \<Rightarrow> int \<Rightarrow> string option \<Rightarrow> sdk"

definition AwsProvider ::
  "sdk_clients \<Rightarrow> (db_error \<Rightarrow> string \<times> string) \<Rightarrow> aws_options \<Rightarrow> aws_provider" where
  "AwsProvider clients err_text opts =
     \<lparr> aw_region = ao_region opts, aw_workspaceId = ao_workspaceId opts,
       aw_timeoutMs = with_default (ao_requestTimeoutMs opts) 4000,
       aw_readOnly = with_default (ao_readOnly opts) True,
       aw_sdk = clients (ao_region opts) (with_default (ao_maxAttempts opts) 3)
         (if with_default (ao_endpoint opts) [] = [] then None else ao_endpoint opts),
       aw_err_text = err_text \<rparr>"


section \<open>Sending a command\<close>

definition isThrottle :: "(db_error \<Rightarrow> string \<times> string) \<Rightarrow> thrown \<Rightarrow> bool" where
  "isThrottle err_text err \<longleftrightarrow> fst (thrown_text err_text err) \<in>
     {''Throttling'', ''ThrottlingException'', ''TooManyRequestsException'', ''TimeoutError''}"

definition wrap :: "(db_error \<Rightarrow> string \<times> string) \<Rightarrow> thrown \<Rightarrow> string \<Rightarrow> provider_error" where
  "wrap err_text err action =
     ProviderError (''AWS '' @ action @ '' failed: '' @ snd (thrown_text err_text err))
       (Some (isThrottle err_text err))
       (Some (if isThrottle err_text err then ''THROTTLED'' else ''AWS_ERROR''))"

definition send :: "aws_provider \<Rightarrow> string \<Rightarrow> 'a promise \<Rightarrow> thrown + 'a" where
  "send aws label fn =
     (case withTimeout (fn (aw_timeoutMs aws))
             (''AWS '' @ label @ '' timed out after '' @ js_int (aw_timeoutMs aws) @ ''ms'') of
        Inr x \<Rightarrow> Inr x
      | Inl err \<Rightarrow> Inl (ProvErr (wrap (aw_err_text aws) err label)))"

text \<open>\<^verbatim>\<open>Object.fromEntries\<close> on tag pairs: a later entry replaces the value of an earlier one.\<close>

definition from_entries :: "sdk_tags \<Rightarrow> tags" where
  "from_entries ts =
     fold (\<lambda>(k, v). AList.update (with_default k []) (with_default v [])) (with_default ts []) []"

text \<open>\<^verbatim>\<open>Number(x.toFixed(2))\<close>: to hundredths, halves away from zero.\<close>

definition to_fixed2 :: "rat \<Rightarrow> rat" where
  "to_fixed2 x = (if x < 0 then - (of_int (js_round (- x * 100)) / 100) else of_int (js_round (x * 100)) / 100)"


section \<open>EC2\<close>

definition cpuForInstance :: "aws_provider \<Rightarrow> string \<Rightarrow> rat" where
  "cpuForInstance aws instanceId =
     (case send aws ''GetMetricStatistics'' (sdk_GetMetricStatistics (aw_sdk aws) instanceId) of
        Inl _ \<Rightarrow> 0
      | Inr stats \<Rightarrow>
          let points = with_default stats [];
              avg = (if length points = 0 then 0
                     else foldl (\<lambda>sum p. sum + with_default p 0) 0 points / of_nat (length points))
          in to_fixed2 avg)"

definition ec2_item :: "aws_provider \<Rightarrow> int \<Rightarrow> ec2_instance \<Rightarrow> item" where
  "ec2_item aws now inst =
     (let i = with_default (in_InstanceId inst) ''unknown'';
          tags = from_entries (in_Tags inst)
      in \<lparr> i_workspaceId = aw_workspaceId aws, i_provider = Aws, i_type = Ec2, i_region = aw_region aws,
           i_arn = ''arn:aws:ec2:'' @ aw_region aws @ '':instance/'' @ i,
           i_name = with_default (map_of tags ''Name'') i, i_tags = tags,
           i_config = no_config\<lparr>cf_publicAccess := Some (with_default (in_PublicIpAddress inst) [] \<noteq> []),
             cf_backupEnabled := Some False, cf_alarms := Some [],
             cf_healthCheckStatus := Some (if in_State inst = Some ''running'' then Healthy else UnknownHealth),
             cf_instanceState := in_State inst\<rparr>,
           i_metrics = no_metrics\<lparr>m_cpuUtilizationAvg := Some (cpuForInstance aws i)\<rparr>,
           i_lastSyncedAt = now, i_version = 1 \<rparr>)"

definition listEc2 :: "aws_provider \<Rightarrow> int \<Rightarrow> thrown + item list" where
  "listEc2 aws now =
     (case send aws ''DescribeInstances'' (sdk_DescribeInstances (aw_sdk aws)) of
        Inl err \<Rightarrow> Inl err
      | Inr out \<Rightarrow>
          Inr (concat (map (\<lambda>reservation. map (ec2_item aws now) (with_default reservation []))
                 (with_default out []))))"


section \<open>S3\<close>

definition bucket_region :: "aws_provider \<Rightarrow> string \<Rightarrow> string" where
  "bucket_region aws name =
     (case send aws ''GetBucketLocation'' (sdk_GetBucketLocation (aw_sdk aws) name) of
        Inl _ \<Rightarrow> aw_region aws
      | Inr loc \<Rightarrow> if with_default loc [] = [] then ''us-east-1'' else the loc)"

definition bucket_tags :: "aws_provider \<Rightarrow> string \<Rightarrow> tags" where
  "bucket_tags aws name =
     (case send aws ''GetBucketTagging'' (sdk_GetBucketTagging (aw_sdk aws) name) of
        Inl _ \<Rightarrow> []
      | Inr tagging \<Rightarrow> from_entries tagging)"

definition blocks_all :: "access_block \<Rightarrow> bool" where
  "blocks_all cfg \<longleftrightarrow> ab_BlockPublicAcls cfg = Some True \<and> ab_BlockPublicPolicy cfg = Some True \<and>
     ab_IgnorePublicAcls cfg = Some True \<and> ab_RestrictPublicBuckets cfg = Some True"

definition bucket_public :: "aws_provider \<Rightarrow> string \<Rightarrow> bool" where
  "bucket_public aws name =
     (case send aws ''GetPublicAccessBlock'' (sdk_GetPublicAccessBlock (aw_sdk aws) name) of
        Inl _ \<Rightarrow> True
      | Inr pab \<Rightarrow> \<not> (case pab of None \<Rightarrow> False | Some cfg \<Rightarrow> blocks_all cfg))"

definition s3_item :: "aws_provider \<Rightarrow> int \<Rightarrow> string option \<Rightarrow> item" where
  "s3_item aws now bucket =
     (let name = with_default bucket ''unknown''
      in \<lparr> i_workspaceId = aw_workspaceId aws, i_provider = Aws, i_type = S3,
           i_region = bucket_region aws name, i_arn = ''arn:aws:s3:::'' @ name, i_name = name,
           i_tags = bucket_tags aws name,
           i_config = no_config\<lparr>cf_publicAccess := Some (bucket_public aws name),
             cf_backupEnabled := Some False, cf_alarms := Some []\<rparr>,
           i_metrics = no_metrics, i_lastSyncedAt = now, i_version = 1 \<rparr>)"

definition listS3 :: "aws_provider \<Rightarrow> int \<Rightarrow> thrown + item list" where
  "listS3 aws now =
     (case send aws ''ListBuckets'' (sdk_ListBuckets (aw_sdk aws)) of
        Inl err \<Rightarrow> Inl err
      | Inr listed \<Rightarrow> Inr (map (s3_item aws now) (with_default listed [])))"


section \<open>Lambda and CloudWatch\<close>

definition function_tags :: "aws_provider \<Rightarrow> lambda_function \<Rightarrow> tags" where
  "function_tags aws fn =
     (if with_default (fn_FunctionArn fn) [] = [] then []
      else (case send aws ''ListTags'' (sdk_ListTags (aw_sdk aws) (the (fn_FunctionArn fn))) of
              Inl _ \<Rightarrow> []
            | Inr tagged \<Rightarrow> with_default tagged []))"

text \<open>The answer of \<^verbatim>\<open>GetFunction\<close> is not looked at, and its errors are caught.\<close>

definition lambda_item :: "aws_provider \<Rightarrow> int \<Rightarrow> lambda_function \<Rightarrow> item" where
  "lambda_item aws now fn =
     (let name = with_default (fn_FunctionName fn) ''unknown''
      in \<lparr> i_workspaceId = aw_workspaceId aws, i_provider = Aws, i_type = Lambda,
           i_region = aw_region aws, i_arn = with_default (fn_FunctionArn fn) name, i_name = name,
           i_tags = function_tags aws fn,
           i_config = no_config\<lparr>cf_alarms := Some [], cf_runtime := fn_Runtime fn,
             cf_backupEnabled := Some False, cf_healthCheckStatus := Some UnknownHealth\<rparr>,
           i_metrics = no_metrics, i_lastSyncedAt = now, i_version = 1 \<rparr>)"

definition listLambda :: "aws_provider \<Rightarrow> int \<Rightarrow> thrown + item list" where
  "listLambda aws now =
     (case send aws ''ListFunctions'' (sdk_ListFunctions (aw_sdk aws)) of
        Inl err \<Rightarrow> Inl err
      | Inr listed \<Rightarrow> Inr (map (lambda_item aws now) (with_default listed [])))"

definition metric_item :: "aws_provider \<Rightarrow> int \<Rightarrow> nat \<times> string option \<Rightarrow> item" where
  "metric_item aws now = (\<lambda>(idx, m).
     \<lparr> i_workspaceId = aw_workspaceId aws, i_provider = Aws, i_type = Cloudwatch,
       i_region = aw_region aws,
       i_arn = ''arn:aws:cloudwatch:'' @ aw_region aws @ '':metric/'' @ with_default m ''metric'' @
         ''-'' @ digits idx,
       i_name = with_default m (''metric-'' @ digits idx), i_tags = [],
       i_config = no_config\<lparr>cf_alarms := Some [with_default m ''metric'']\<rparr>,
       i_metrics = no_metrics, i_lastSyncedAt = now, i_version = 1 \<rparr>)"

definition listAlarms :: "aws_provider \<Rightarrow> int \<Rightarrow> thrown + item list" where
  "listAlarms aws now =
     (case send aws ''ListMetrics'' (sdk_ListMetrics (aw_sdk aws)) of
        Inl err \<Rightarrow> Inl err
      | Inr metrics \<Rightarrow> Inr (map (metric_item aws now) (List.enumerate 0 (take 20 (with_default metrics [])))))"


section \<open>The inventory\<close>

text \<open>One list after the other; the first that throws ends it.\<close>

definition aws_collect :: "aws_provider \<Rightarrow> int \<Rightarrow> resource_type list \<Rightarrow> thrown + item list" where
  "aws_collect aws now types =
     (case (if Ec2 \<in> set types then listEc2 aws now else Inr []) of Inl e \<Rightarrow> Inl e | Inr a \<Rightarrow>
     (case (if S3 \<in> set types then listS3 aws now else Inr []) of Inl e \<Rightarrow> Inl e | Inr b \<Rightarrow>
     (case (if Lambda \<in> set types then listLambda aws now else Inr []) of Inl e \<Rightarrow> Inl e | Inr c \<Rightarrow>
     (case (if Cloudwatch \<in> set types then listAlarms aws now else Inr []) of Inl e \<Rightarrow> Inl e | Inr d \<Rightarrow>
        Inr (a @ b @ c @ d)))))"

definition aws_listResources :: "aws_provider \<Rightarrow> int \<Rightarrow> inventory_query \<Rightarrow> thrown + item list" where
  "aws_listResources aws now query =
     (case aws_collect aws now (with_default (iq_types query) [Ec2, S3, Lambda, Cloudwatch]) of
        Inr collected \<Rightarrow> Inr collected
      | Inl err \<Rightarrow>
          (case err of
             ProvErr e \<Rightarrow> Inl (ProvErr e)
           | _ \<Rightarrow> Inl (ProvErr (wrap (aw_err_text aws) err ''ListResources''))))"

section \<open>What the collector guarantees\<close>

text \<open>A command that times out is not retryable: \<^verbatim>\<open>withTimeout\<close> throws a plain \<^verbatim>\<open>Error\<close>, whose name
  is not the \<^verbatim>\<open>TimeoutError\<close> that \<^verbatim>\<open>isThrottle\<close> looks for.\<close>

lemma send_timeout:
  assumes "fn (aw_timeoutMs aws) = None"
  shows "\<exists>e. send aws label fn = Inl (ProvErr e) \<and> \<not> pe_retryable e \<and> pe_code e = ''AWS_ERROR''"
  using assms by (simp add: send_def withTimeout_def wrap_def isThrottle_def ProviderError_def)

lemma send_cases:
  obtains (answered) x where "fn (aw_timeoutMs aws) = Some (Inr x)" "send aws label fn = Inr x"
  | (failed) e where "\<nexists>x. fn (aw_timeoutMs aws) = Some (Inr x)"
      "send aws label fn = Inl (ProvErr (wrap (aw_err_text aws) e label))"
proof (cases "fn (aw_timeoutMs aws)")
  case None
  with failed show ?thesis by (auto simp: send_def withTimeout_def)
next
  case (Some r)
  with answered failed show ?thesis by (cases r) (auto simp: send_def withTimeout_def)
qed

text \<open>The one command that each type of resource cannot do without.\<close>

fun listing_label :: "resource_type \<Rightarrow> string" where
  "listing_label Ec2 = ''DescribeInstances''"
| "listing_label S3 = ''ListBuckets''"
| "listing_label Lambda = ''ListFunctions''"
| "listing_label Cloudwatch = ''ListMetrics''"

definition listing :: "aws_provider \<Rightarrow> int \<Rightarrow> resource_type \<Rightarrow> thrown + item list" where
  "listing aws now t = (case t of Ec2 \<Rightarrow> listEc2 aws now | S3 \<Rightarrow> listS3 aws now
     | Lambda \<Rightarrow> listLambda aws now | Cloudwatch \<Rightarrow> listAlarms aws now)"

fun settles :: "'a promise \<Rightarrow> int \<Rightarrow> bool" where
  "settles fn ms \<longleftrightarrow> (case fn ms of Some (Inr x) \<Rightarrow> True | _ \<Rightarrow> False)"

fun listing_settles :: "aws_provider \<Rightarrow> resource_type \<Rightarrow> bool" where
  "listing_settles aws Ec2 = settles (sdk_DescribeInstances (aw_sdk aws)) (aw_timeoutMs aws)"
| "listing_settles aws S3 = settles (sdk_ListBuckets (aw_sdk aws)) (aw_timeoutMs aws)"
| "listing_settles aws Lambda = settles (sdk_ListFunctions (aw_sdk aws)) (aw_timeoutMs aws)"
| "listing_settles aws Cloudwatch = settles (sdk_ListMetrics (aw_sdk aws)) (aw_timeoutMs aws)"

definition own_item :: "aws_provider \<Rightarrow> resource_type \<Rightarrow> item \<Rightarrow> bool" where
  "own_item aws t x \<longleftrightarrow> i_workspaceId x = aw_workspaceId aws \<and> i_provider x = Aws \<and> i_type x = t"

lemma items_own:
  "own_item aws Ec2 (ec2_item aws now a)" "own_item aws S3 (s3_item aws now b)"
  "own_item aws Lambda (lambda_item aws now c)" "own_item aws Cloudwatch (metric_item aws now m)"
  by (simp_all add: own_item_def ec2_item_def s3_item_def lambda_item_def metric_item_def Let_def
      case_prod_beta)

lemma listing_cases:
  obtains (answered) xs where "listing_settles aws t" "listing aws now t = Inr xs" "\<forall>x \<in> set xs. own_item aws t x"
  | (failed) e where "\<not> listing_settles aws t"
      "listing aws now t = Inl (ProvErr (wrap (aw_err_text aws) e (listing_label t)))"
proof (cases t)
  case Ec2
  show ?thesis
    by (rule send_cases [of "sdk_DescribeInstances (aw_sdk aws)" aws "''DescribeInstances''"])
      (use Ec2 answered failed in \<open>auto simp: listing_def listEc2_def items_own split: option.splits sum.splits\<close>)
next
  case S3
  show ?thesis
    by (rule send_cases [of "sdk_ListBuckets (aw_sdk aws)" aws "''ListBuckets''"])
      (use S3 answered failed in \<open>auto simp: listing_def listS3_def items_own split: option.splits sum.splits\<close>)
next
  case Lambda
  show ?thesis
    by (rule send_cases [of "sdk_ListFunctions (aw_sdk aws)" aws "''ListFunctions''"])
      (use Lambda answered failed in \<open>auto simp: listing_def listLambda_def items_own split: option.splits sum.splits\<close>)
next
  case Cloudwatch
  show ?thesis
    by (rule send_cases [of "sdk_ListMetrics (aw_sdk aws)" aws "''ListMetrics''"])
      (use Cloudwatch answered failed in \<open>auto simp: listing_def listAlarms_def items_own split: option.splits sum.splits\<close>)
qed

definition wanted_types :: "inventory_query \<Rightarrow> resource_type list" where
  "wanted_types query = with_default (iq_types query) [Ec2, S3, Lambda, Cloudwatch]"

lemma aws_collect_listing:
  "aws_collect aws now types =
     (let part = (\<lambda>t. if t \<in> set types then listing aws now t else Inr []) in
      case part Ec2 of Inl e \<Rightarrow> Inl e | Inr a \<Rightarrow> (case part S3 of Inl e \<Rightarrow> Inl e | Inr b \<Rightarrow>
     (case part Lambda of Inl e \<Rightarrow> Inl e | Inr c \<Rightarrow> (case part Cloudwatch of Inl e \<Rightarrow> Inl e | Inr d \<Rightarrow>
        Inr (a @ b @ c @ d)))))"
  unfolding aws_collect_def listing_def Let_def resource_type.case by (rule refl)

declare listing_settles.simps [simp del]

lemma part_cases:
  obtains (answered) xs where "t \<in> set types \<Longrightarrow> listing_settles aws t"
      "(if t \<in> set types then listing aws now t else Inr []) = Inr xs"
      "\<forall>x \<in> set xs. t \<in> set types \<and> own_item aws t x"
  | (failed) e where "t \<in> set types" "\<not> listing_settles aws t"
      "(if t \<in> set types then listing aws now t else Inr []) =
        Inl (ProvErr (wrap (aw_err_text aws) e (listing_label t)))"
proof (cases "t \<in> set types")
  case True
  show ?thesis
    by (rule listing_cases [of aws t now]) (use True answered failed in auto)
next
  case False
  with answered [of "[]"] show ?thesis by simp
qed

lemma aws_collect_cases:
  obtains (answered) xs where "\<forall>t \<in> set types. listing_settles aws t" "aws_collect aws now types = Inr xs"
      "\<forall>x \<in> set xs. \<exists>t \<in> set types. own_item aws t x"
  | (failed) t e where "t \<in> set types" "\<not> listing_settles aws t"
      "aws_collect aws now types = Inl (ProvErr (wrap (aw_err_text aws) e (listing_label t)))"
proof (cases rule: part_cases [of Ec2 types aws now])
  case (failed e)
  then show ?thesis using that(2) [of Ec2 e] by (simp add: aws_collect_listing)
next
  case E: (answered a)
  show ?thesis
  proof (cases rule: part_cases [of S3 types aws now])
    case (failed e)
    with E show ?thesis using that(2) [of S3 e] by (simp add: aws_collect_listing)
  next
    case S: (answered b)
    show ?thesis
    proof (cases rule: part_cases [of Lambda types aws now])
      case (failed e)
      with E S show ?thesis using that(2) [of Lambda e] by (simp add: aws_collect_listing)
    next
      case L: (answered c)
      show ?thesis
      proof (cases rule: part_cases [of Cloudwatch types aws now])
        case (failed e)
        with E S L show ?thesis using that(2) [of Cloudwatch e] by (simp add: aws_collect_listing)
      next
        case C: (answered d)
        have "\<forall>t \<in> set types. listing_settles aws t"
        proof
          fix t assume t: "t \<in> set types"
          show "listing_settles aws t"
            by (rule resource_type.exhaust [of t]) (use t E(1) S(1) L(1) C(1) in auto)
        qed
        moreover have "aws_collect aws now types = Inr (a @ b @ c @ d)"
          using E(2) S(2) L(2) C(2) by (simp add: aws_collect_listing)
        moreover have "\<forall>x \<in> set (a @ b @ c @ d). \<exists>t \<in> set types. own_item aws t x"
          using E(3) S(3) L(3) C(3) by auto
        ultimately show ?thesis by (rule that(1))
      qed
    qed
  qed
qed

lemma aws_items_own:
  assumes "aws_listResources aws now query = Inr items" "x \<in> set items"
  shows "i_workspaceId x = aw_workspaceId aws"
proof (cases rule: aws_collect_cases [of "wanted_types query" aws now])
  case (answered xs)
  with assms show ?thesis
    by (auto simp: aws_listResources_def own_item_def simp flip: wanted_types_def)
next
  case (failed t e)
  with assms(1) show ?thesis by (simp add: aws_listResources_def flip: wanted_types_def)
qed

text \<open>
  C27. An AWS inventory is complete or refused, and never spoiled by a single resource: it answers exactly
  when the one listing command of every wanted type answered in time, whatever becomes of the
  commands for single resources (metrics, tags, locations, access blocks), and then every item
  belongs to the provider's workspace and has a wanted type; otherwise the error is the wrapped error
  of a listing that failed.
\<close>

theorem aws_inventory_all_or_error:
  "case aws_listResources aws now query of
     Inr items \<Rightarrow> (\<forall>t \<in> set (wanted_types query). listing_settles aws t) \<and>
       (\<forall>x \<in> set items. \<exists>t \<in> set (wanted_types query). own_item aws t x)
   | Inl err \<Rightarrow> \<exists>t \<in> set (wanted_types query). \<not> listing_settles aws t \<and>
       (\<exists>e. err = ProvErr (wrap (aw_err_text aws) e (listing_label t)))"
proof (cases rule: aws_collect_cases [of "wanted_types query" aws now])
  case (answered xs)
  then show ?thesis by (simp add: aws_listResources_def flip: wanted_types_def)
next
  case (failed t e)
  then show ?thesis by (auto simp: aws_listResources_def simp flip: wanted_types_def)
qed

definition demo_sdk :: sdk where
  "demo_sdk =
     \<lparr> sdk_DescribeInstances = (\<lambda>ms. None), sdk_GetMetricStatistics = (\<lambda>i ms. None),
       sdk_ListBuckets = (\<lambda>ms. Some (Inr (Some [Some ''logs'']))),
       sdk_GetBucketLocation = (\<lambda>b ms. None), sdk_GetBucketTagging = (\<lambda>b ms. None),
       sdk_GetPublicAccessBlock = (\<lambda>b ms. None), sdk_ListFunctions = (\<lambda>ms. None),
       sdk_ListTags = (\<lambda>a ms. None), sdk_GetFunction = (\<lambda>f ms. None), sdk_ListMetrics = (\<lambda>ms. None) \<rparr>"

definition demo_aws :: aws_provider where
  "demo_aws = \<lparr> aw_region = ''eu-west-1'', aw_workspaceId = ''ws1'', aw_timeoutMs = 4000,
     aw_readOnly = True, aw_sdk = demo_sdk, aw_err_text = (\<lambda>_. ([], [])) \<rparr>"

theorem aws_inventory_all_or_error_witness:
  "\<exists>items x. aws_listResources demo_aws 7 \<lparr>iq_types = Some [S3], iq_region = None\<rparr> = Inr items
    \<and> x \<in> set items \<and> own_item demo_aws S3 x"
proof -
  have "listS3 demo_aws 7 = Inr [s3_item demo_aws 7 (Some ''logs'')]"
    by (simp add: listS3_def send_def withTimeout_def demo_aws_def demo_sdk_def)
  then have "aws_listResources demo_aws 7 \<lparr>iq_types = Some [S3], iq_region = None\<rparr> =
      Inr [s3_item demo_aws 7 (Some ''logs'')]"
    by (simp add: aws_listResources_def aws_collect_def)
  with aws_inventory_all_or_error [where aws = demo_aws and now = 7 and
      query = "\<lparr>iq_types = Some [S3], iq_region = None\<rparr>"]
  show ?thesis by (auto simp: wanted_types_def)
qed

text \<open>The collector does not look at the region of the query, nor does it read an empty list of types
  as \<^verbatim>\<open>all\<close>, as the mock provider does.\<close>

lemma aws_ignores_region:
  "aws_listResources aws now (query\<lparr>iq_region := region\<rparr>) = aws_listResources aws now query"
  by (simp add: aws_listResources_def)

lemma empty_types_differ:
  "aws_listResources aws now \<lparr>iq_types = Some [], iq_region = None\<rparr> = Inr []"
  "mock_listResources w now \<lparr>iq_types = Some [], iq_region = None\<rparr> = buildMockInventory now w"
  by (simp_all add: aws_listResources_def aws_collect_def mock_listResources_def)

end
