(* ===== verification/Job_Service.thy ===== *)
theory Job_Service
  imports Store
begin

text \<open>
  \<^verbatim>\<open>apps/api/src/services/job-service.ts\<close>: creating, listing, reading and retrying diagnostic
  jobs. \<open>clk i\<close> is the \<open>i\<close>-th clock reading of a call. \<^verbatim>\<open>serialize\<close> only renames \<^verbatim>\<open>_id\<close> on a job, so
  the calls answer with the stored document. Creation is idempotent in the key; a retry is possible
  from \<^verbatim>\<open>failed\<close> and \<^verbatim>\<open>dead_lettered\<close> only.
\<close>

record job_service =
  js_maxAttempts :: int
  js_timeoutMs :: int

record job_input =
  ji_resourceIds :: "string list option"
  ji_resourceTypes :: "string list option"
  ji_idempotencyKey :: string

record 'd page =
  pg_items :: "'d list"
  pg_page :: int
  pg_limit :: int
  pg_total :: nat

text \<open>A query parameter counts only when it is truthy: present and not the empty string.\<close>

definition truthy :: "string option \<Rightarrow> bool" where
  "truthy v \<longleftrightarrow> v \<noteq> None \<and> v \<noteq> Some []"

definition same_key :: "string \<Rightarrow> string \<Rightarrow> job \<Rightarrow> bool" where
  "same_key workspaceId k j \<longleftrightarrow> j_workspaceId j = workspaceId \<and> j_idempotencyKey j = k"

definition new_job ::
  "job_service \<Rightarrow> (nat \<Rightarrow> int) \<Rightarrow> string \<Rightarrow> string \<Rightarrow> string \<Rightarrow> job_input \<Rightarrow> oid \<Rightarrow> job" where
  "new_job svc clk workspaceId actorId correlationId input i =
     \<lparr> j_id = i, j_workspaceId = workspaceId, j_status = Pending,
       j_resourceIds = ji_resourceIds input, j_resourceTypes = ji_resourceTypes input,
       j_idempotencyKey = ji_idempotencyKey input, j_correlationId = correlationId,
       j_leaseUntil = None, j_heartbeatAt = None, j_claimedBy = None,
       j_attempts = 0, j_maxAttempts = js_maxAttempts svc, j_nextRunAt = clk 0,
       j_lastError = None, j_resultSummary = None, j_createdBy = actorId,
       j_completedAt = None, j_timeoutMs = js_timeoutMs svc, j_version = 1, j_createdAt = clk 1 \<rparr>"

text \<open>The \<^verbatim>\<open>try\<close> block of \<^verbatim>\<open>create\<close>: insert and audit; on a duplicate key, answer with the job that
  another request inserted since the first look-up.\<close>

definition create_job_insert ::
  "env \<Rightarrow> job_service \<Rightarrow> (nat \<Rightarrow> int) \<Rightarrow> string \<Rightarrow> string \<Rightarrow> string \<Rightarrow> job_input \<Rightarrow> (job \<times> bool) call" where
  "create_job_insert env svc clk workspaceId actorId correlationId input =
     catch_io
       (bind_io (tell db_jobs db_jobs_update
           (drv_create (e_jobs env) (new_job svc clk workspaceId actorId correlationId input))) (\<lambda>job.
        bind_io (record_audit env (clk 2) workspaceId actorId ''diagnostics.create'' ''DiagnosticJob''
           (Some (j_id job)) correlationId
           (Some [(''idempotencyKey'', JStr (ji_idempotencyKey input))])) (\<lambda>_.
        ret (job, False))))
       (\<lambda>err.
         if err = DbErr DuplicateKey then
           bind_io (ask db_jobs (drv_findOne (e_jobs env)
                     (same_key workspaceId (ji_idempotencyKey input)))) (\<lambda>replay.
             case replay of Some r \<Rightarrow> ret (r, True) | None \<Rightarrow> throw err)
         else throw err)"

definition create_job ::
  "env \<Rightarrow> job_service \<Rightarrow> (nat \<Rightarrow> int) \<Rightarrow> string \<Rightarrow> string \<Rightarrow> string \<Rightarrow> job_input \<Rightarrow> (job \<times> bool) call" where
  "create_job env svc clk workspaceId actorId correlationId input =
     bind_io (ask db_jobs (drv_findOne (e_jobs env)
               (same_key workspaceId (ji_idempotencyKey input)))) (\<lambda>existing.
       case existing of
         Some e \<Rightarrow> ret (e, True)
       | None \<Rightarrow> create_job_insert env svc clk workspaceId actorId correlationId input)"

definition list_jobs :: "env \<Rightarrow> string \<Rightarrow> int \<Rightarrow> int \<Rightarrow> string option \<Rightarrow> job page call" where
  "list_jobs env workspaceId pg lm status =
     (let flt = (\<lambda>j. j_workspaceId j = workspaceId \<and>
                     (truthy status \<longrightarrow> Some (job_status_str (j_status j)) = status)) in
      bind_io (ask db_jobs (drv_count (e_jobs env) flt)) (\<lambda>total.
      bind_io (ask db_jobs (drv_findPage (e_jobs env) flt (\<lambda>a b. j_createdAt b \<le> j_createdAt a)
                ((pg - 1) * lm) lm)) (\<lambda>docs.
      ret \<lparr>pg_items = docs, pg_page = pg, pg_limit = lm, pg_total = total\<rparr>)))"

definition get_job :: "env \<Rightarrow> string \<Rightarrow> oid \<Rightarrow> job option call" where
  "get_job env workspaceId i =
     ask db_jobs (drv_findOne (e_jobs env) (\<lambda>j. j_id j = i \<and> j_workspaceId j = workspaceId))"

definition reset_job :: "int \<Rightarrow> job \<Rightarrow> job" where
  "reset_job now j =
     j\<lparr>j_status := Pending, j_nextRunAt := now, j_attempts := 0, j_leaseUntil := None,
       j_claimedBy := None, j_lastError := None, j_completedAt := None\<rparr>"

definition retry_job ::
  "env \<Rightarrow> (nat \<Rightarrow> int) \<Rightarrow> string \<Rightarrow> oid \<Rightarrow> string \<Rightarrow> string \<Rightarrow> job call" where
  "retry_job env clk workspaceId i actorId correlationId =
     bind_io (ask db_jobs (drv_findOne (e_jobs env)
               (\<lambda>j. j_id j = i \<and> j_workspaceId j = workspaceId))) (\<lambda>found.
       case found of
         None \<Rightarrow> throw (AppErr (NotFoundError ''Job not found''))
       | Some job \<Rightarrow>
           if j_status job \<notin> {Failed, DeadLettered} then
             throw (AppErr (ConflictError
               (''Job cannot be retried from status '' @ job_status_str (j_status job)) None))
           else
             bind_io (tell db_jobs db_jobs_update
                       (drv_updateOne (e_jobs env) (\<lambda>j. j_id j = j_id job) (reset_job (clk 0)))) (\<lambda>saved.
             case saved of
               None \<Rightarrow> throw document_not_found
             | Some _ \<Rightarrow>
                 bind_io (record_audit env (clk 1) workspaceId actorId ''jobs.retry'' ''DiagnosticJob''
                            (Some i) correlationId None) (\<lambda>_.
                 ret (reset_job (clk 0) job))))"

lemma new_job_simps [doc_simps]:
  "j_id (new_job svc clk w a c inp i) = i"
  "j_workspaceId (new_job svc clk w a c inp i) = w"
  "j_idempotencyKey (new_job svc clk w a c inp i) = ji_idempotencyKey inp"
  by (simp_all add: new_job_def)

lemma reset_job_simps [doc_simps]:
  "j_id (reset_job n j) = j_id j" "j_workspaceId (reset_job n j) = j_workspaceId j"
  "j_idempotencyKey (reset_job n j) = j_idempotencyKey j"
  by (simp_all add: reset_job_def)

lemma same_key_clash: "same_key w k j \<Longrightarrow> same_key w k j' \<Longrightarrow> job_clash j j'"
  by (simp add: same_key_def job_clash_def)

lemma clash_same_key: "job_clash (new_job svc clk w a c inp i) e \<Longrightarrow> same_key w (ji_idempotencyKey inp) e"
  by (simp add: same_key_def job_clash_def doc_simps)

section \<open>What the calls do\<close>

definition job_keys_distinct :: "db \<Rightarrow> bool" where
  "job_keys_distinct s \<longleftrightarrow>
     distinct (map j_id (db_jobs s)) \<and>
     distinct (map (\<lambda>j. (j_workspaceId j, j_idempotencyKey j)) (db_jobs s))"

lemma same_key_unique:
  "job_keys_distinct s \<Longrightarrow> j \<in> set (db_jobs s) \<Longrightarrow> j' \<in> set (db_jobs s) \<Longrightarrow>
    same_key w k j \<Longrightarrow> same_key w k j' \<Longrightarrow> j = j'"
  unfolding job_keys_distinct_def same_key_def
  by (elim conjE, rule distinct_key_unique [where k = "\<lambda>j. (j_workspaceId j, j_idempotencyKey j)"]) auto

context store
begin

lemma audit_not_duplicate:
  "record_audit env now w a act rt rid cid md s \<noteq> (s', Inl (DbErr DuplicateKey))"
proof
  assume "record_audit env now w a act rt rid cid md s = (s', Inl (DbErr DuplicateKey))"
  then show False
    unfolding record_audit_def tell_Inl using audit.create_Dup [where s = "db_audit s"]
    by (fastforce simp: no_clash_def)
qed

text \<open>What the \<^verbatim>\<open>try\<close> block does to the jobs, whether it answers or throws.\<close>

lemma create_job_insert_cases:
  assumes "create_job_insert env svc clk w a c inp s = (s', r)"
  obtains
    (created) d where "db_jobs s' = db_jobs s @ [d]" "d = new_job svc clk w a c inp (j_id d)"
      "j_id d \<notin> j_id ` set (db_jobs s)" "\<forall>e \<in> set (db_jobs s). \<not> same_key w (ji_idempotencyKey inp) e"
      "\<And>x. r = Inr x \<Longrightarrow> x = (d, False)"
  | (replayed) j where "db_jobs s' = db_jobs s" "r = Inr (j, True)"
      "j \<in> set (db_jobs s)" "same_key w (ji_idempotencyKey inp) j"
  | (failed) e where "db_jobs s' = db_jobs s" "r = Inl e"
proof (cases "drv_create (e_jobs env) (new_job svc clk w a c inp) (db_jobs s)")
  case (Inr cd)
  obtain js d where cd: "cd = (js, d)" by (cases cd)
  from jobs.create_Inr [OF Inr [unfolded cd]] have d:
    "js = db_jobs s @ [d]" "j_id d \<notin> j_id ` set (db_jobs s)" "d = new_job svc clk w a c inp (j_id d)"
    "\<forall>e \<in> set (db_jobs s). \<not> job_clash d e"
    by (simp_all add: doc_simps)
  have fresh: "\<forall>e \<in> set (db_jobs s). \<not> same_key w (ji_idempotencyKey inp) e"
  proof
    fix e assume "e \<in> set (db_jobs s)"
    have "same_key w (ji_idempotencyKey inp) d"
      by (subst d(3)) (simp add: same_key_def doc_simps)
    with d(4) \<open>e \<in> set (db_jobs s)\<close> show "\<not> same_key w (ji_idempotencyKey inp) e"
      using same_key_clash by blast
  qed
  let ?s1 = "db_jobs_update (\<lambda>_. js) s"
  obtain s2 ra where audit: "record_audit env (clk 2) w a ''diagnostics.create'' ''DiagnosticJob''
      (Some (j_id d)) c (Some [(''idempotencyKey'', JStr (ji_idempotencyKey inp))]) ?s1 = (s2, ra)"
    by fastforce
  have "db_jobs s2 = db_jobs s @ [d]"
    using record_audit_Inr [OF audit] d(1) by simp
  moreover have "s' = s2 \<and> (\<forall>x. r = Inr x \<longrightarrow> x = (d, False))"
  proof (cases ra)
    case (Inl e)
    with audit have "e \<noteq> DbErr DuplicateKey" using audit_not_duplicate by metis
    with assms audit Inl show ?thesis
      by (auto simp add: create_job_insert_def catch_io_def bind_io_def tell_def Inr cd)
  next
    case (Inr v)
    with assms audit show ?thesis
      by (auto simp add: create_job_insert_def catch_io_def bind_io_def tell_def
          \<open>drv_create _ _ _ = Inr cd\<close> cd)
  qed
  ultimately show ?thesis using created d fresh by blast
next
  case (Inl e)
  show ?thesis
  proof (cases "\<exists>j. s' = s \<and> r = Inr (j, True) \<and> j \<in> set (db_jobs s) \<and> same_key w (ji_idempotencyKey inp) j")
    case True
    then show ?thesis using replayed by blast
  next
    case False
    with assms Inl jobs.findOne_Some [of "same_key w (ji_idempotencyKey inp)" "db_jobs s"]
    have "s' = s \<and> (\<exists>e. r = Inl e)"
      by (auto simp: create_job_insert_def catch_io_def bind_io_def tell_def ask_def
          split: if_splits sum.splits option.splits)
    then show ?thesis using failed by blast
  qed
qed

lemma create_job_cases:
  assumes "create_job env svc clk w a c inp s = (s', r)"
  obtains
    (created) d where "db_jobs s' = db_jobs s @ [d]" "d = new_job svc clk w a c inp (j_id d)"
      "j_id d \<notin> j_id ` set (db_jobs s)" "\<forall>e \<in> set (db_jobs s). \<not> same_key w (ji_idempotencyKey inp) e"
      "\<And>x. r = Inr x \<Longrightarrow> x = (d, False)"
  | (replayed) j where "db_jobs s' = db_jobs s" "r = Inr (j, True)"
      "j \<in> set (db_jobs s)" "same_key w (ji_idempotencyKey inp) j"
  | (failed) e where "db_jobs s' = db_jobs s" "r = Inl e"
proof (cases "drv_findOne (e_jobs env) (same_key w (ji_idempotencyKey inp)) (db_jobs s)")
  case (Inl e)
  with assms have "s' = s" "r = Inl (DbErr e)" by (auto simp: create_job_def bind_io_def ask_def)
  then show ?thesis using failed by simp
next
  case (Inr found)
  show ?thesis
  proof (cases found)
    case None
    with assms Inr have "create_job_insert env svc clk w a c inp s = (s', r)"
      by (simp add: create_job_def bind_io_def ask_def)
    then show ?thesis by (rule create_job_insert_cases) (fact created replayed failed)+
  next
    case (Some j)
    with assms Inr have "s' = s" "r = Inr (j, True)"
      by (auto simp: create_job_def bind_io_def ask_def)
    moreover have "j \<in> set (db_jobs s) \<and> same_key w (ji_idempotencyKey inp) j"
      using Inr Some by (simp add: jobs.findOne_Some)
    ultimately show ?thesis using replayed by simp
  qed
qed

text \<open>A job with the key is stored: no request with that key creates another one.\<close>

lemma create_job_replays:
  assumes "job_keys_distinct s" "j \<in> set (db_jobs s)" "same_key w (ji_idempotencyKey inp) j"
  shows "create_job env svc clk w a c inp s = (s', r) \<Longrightarrow>
      db_jobs s' = db_jobs s \<and> (\<forall>x. r = Inr x \<longrightarrow> x = (j, True))"
    and "create_job_insert env svc clk w a c inp s = (s', r) \<Longrightarrow>
      db_jobs s' = db_jobs s \<and> (\<forall>x. r = Inr x \<longrightarrow> x = (j, True))"
proof -
  assume "create_job env svc clk w a c inp s = (s', r)"
  then show "db_jobs s' = db_jobs s \<and> (\<forall>x. r = Inr x \<longrightarrow> x = (j, True))"
    by (rule create_job_cases) (use assms same_key_unique in \<open>blast+\<close>)
next
  assume "create_job_insert env svc clk w a c inp s = (s', r)"
  then show "db_jobs s' = db_jobs s \<and> (\<forall>x. r = Inr x \<longrightarrow> x = (j, True))"
    by (rule create_job_insert_cases) (use assms same_key_unique in \<open>blast+\<close>)
qed

lemma retry_job_Inr:
  assumes "retry_job env clk w i a c s = (s', Inr j)"
  obtains d where "d \<in> set (db_jobs s)" "j_id d = i" "j_workspaceId d = w"
    "j_status d = Failed \<or> j_status d = DeadLettered" "j = reset_job (clk 0) d"
    "\<exists>d'. one_updated (\<lambda>e. j_id e = i) (reset_job (clk 0)) (db_jobs s) (db_jobs s') d'"
proof -
  let ?p = "\<lambda>e. j_id e = i \<and> j_workspaceId e = w"
  from assms obtain found where f: "drv_findOne (e_jobs env) ?p (db_jobs s) = Inr found"
    by (auto simp: retry_job_def bind_io_Inr ask_Inr)
  show ?thesis
  proof (cases found)
    case None
    with assms f show ?thesis by (simp add: retry_job_def bind_io_def ask_def)
  next
    case (Some d)
    with f have d: "d \<in> set (db_jobs s)" "j_id d = i" "j_workspaceId d = w"
      using jobs.findOne_Some [of ?p "db_jobs s" d] by simp_all
    from assms f Some have st: "j_status d = Failed \<or> j_status d = DeadLettered"
      by (auto simp: retry_job_def bind_io_def ask_def split: if_splits)
    with assms f Some d(2) obtain js d' s2 x where
      u: "drv_updateOne (e_jobs env) (\<lambda>e. j_id e = i) (reset_job (clk 0)) (db_jobs s) = Inr (js, Some d')"
      and a: "record_audit env (clk 1) w a ''jobs.retry'' ''DiagnosticJob'' (Some i) c None
        (db_jobs_update (\<lambda>_. js) s) = (s2, Inr x)" and "s' = s2" "j = reset_job (clk 0) d"
      by (auto simp: retry_job_def call_iffs split: option.splits)
    with record_audit_Inr [OF a] jobs.updateOne_Some [OF u] st d that show ?thesis by auto
  qed
qed

text \<open>The jobs after a retry, whether it answers or throws.\<close>

lemma retry_job_cases:
  assumes "retry_job env clk w i a c s = (s', r)" "distinct (map j_id (db_jobs s))"
  obtains (unchanged) "db_jobs s' = db_jobs s"
  | (updated) d where "d \<in> set (db_jobs s)" "j_id d = i" "j_workspaceId d = w"
      "j_status d \<in> {Failed, DeadLettered}"
      "one_updated (\<lambda>j. j = d) (reset_job (clk 0)) (db_jobs s) (db_jobs s') (reset_job (clk 0) d)"
proof (cases "drv_findOne (e_jobs env) (\<lambda>e. j_id e = i \<and> j_workspaceId e = w) (db_jobs s)")
  case (Inl e)
  with assms unchanged show ?thesis by (auto simp: retry_job_def bind_io_def ask_def)
next
  case (Inr found)
  show ?thesis
  proof (cases "\<exists>d. found = Some d \<and> j_status d \<in> {Failed, DeadLettered}")
    case False
    with assms Inr unchanged show ?thesis
      by (auto simp: retry_job_def bind_io_def ask_def split: option.splits if_splits)
  next
    case True
    then obtain d where f: "found = Some d" and st: "j_status d \<in> {Failed, DeadLettered}" by blast
    with Inr have d: "d \<in> set (db_jobs s)" "j_id d = i" "j_workspaceId d = w"
      using jobs.findOne_Some by blast+
    obtain s1 r1 where
      u: "tell db_jobs db_jobs_update (drv_updateOne (e_jobs env) (\<lambda>j. j_id j = i) (reset_job (clk 0))) s = (s1, r1)"
      by fastforce
    have s': "db_jobs s' = db_jobs s1"
      using assms(1) Inr f st d(2) u
      by (auto simp: retry_job_def bind_io_def ask_def split: option.splits sum.splits prod.splits
          dest: record_audit_Inr)
    from u show ?thesis
    proof (cases rule: jobs_updateOne_cases)
      case unchanged
      with s' that(1) show ?thesis by simp
    next
      case (updated d')
      then obtain xs e ys where e: "db_jobs s = xs @ e # ys" "j_id e = i"
        "db_jobs s1 = xs @ reset_job (clk 0) e # ys" by (auto elim: one_updatedE)
      with d assms(2) have "e = d" by (auto simp: distinct_map inj_on_def image_iff)
      with e d st s' that(2) show ?thesis unfolding one_updated_def by auto
    qed
  qed
qed

end

lemmas retry_run_cases = store.retry_job_cases [consumes 3, case_names unchanged updated]
lemmas create_run_cases = store.create_job_cases [consumes 2, case_names created replayed failed]

end
