(* ===== verification/Query_Service.thy ===== *)
theory Query_Service
  imports Job_Service
begin

text \<open>
  \<^verbatim>\<open>apps/api/src/services/query-service.ts\<close>: the lists of findings, recommendations, audit events and
  health checks. \<^verbatim>\<open>serialize\<close> only renames \<^verbatim>\<open>_id\<close> on these documents. \<open>page_of\<close> is the contract of
  a list: the total of all matches and one slice of them in a sorted order.
\<close>

section \<open>The lists\<close>

definition listFindings ::
  "env \<Rightarrow> string \<Rightarrow> int \<Rightarrow> int \<Rightarrow> string option \<Rightarrow> string option \<Rightarrow> string option \<Rightarrow> finding page call" where
  "listFindings env workspaceId pg lm severity resourceId jobId =
     (let flt = (\<lambda>f. f_workspaceId f = workspaceId \<and>
                     (truthy severity \<longrightarrow> Some (f_severity f) = severity) \<and>
                     (truthy resourceId \<longrightarrow> Some (f_resourceId f) = resourceId) \<and>
                     (truthy jobId \<longrightarrow> Some (f_jobId f) = jobId)) in
      bind_io (ask db_findings (drv_count (e_findings env) flt)) (\<lambda>total.
      bind_io (ask db_findings (drv_findPage (e_findings env) flt
                (\<lambda>a b. f_createdAt b \<le> f_createdAt a) ((pg - 1) * lm) lm)) (\<lambda>docs.
      ret \<lparr>pg_items = docs, pg_page = pg, pg_limit = lm, pg_total = total\<rparr>)))"

definition listRecommendations ::
  "env \<Rightarrow> string \<Rightarrow> int \<Rightarrow> int \<Rightarrow> string option \<Rightarrow> string option \<Rightarrow> recommendation page call" where
  "listRecommendations env workspaceId pg lm actionType jobId =
     (let flt = (\<lambda>r. rec_workspaceId r = workspaceId \<and>
                     (truthy actionType \<longrightarrow> Some (rec_actionType r) = actionType) \<and>
                     (truthy jobId \<longrightarrow> Some (rec_jobId r) = jobId)) in
      bind_io (ask db_recommendations (drv_count (e_recommendations env) flt)) (\<lambda>total.
      bind_io (ask db_recommendations (drv_findPage (e_recommendations env) flt
                (\<lambda>a b. rec_createdAt b \<le> rec_createdAt a) ((pg - 1) * lm) lm)) (\<lambda>docs.
      ret \<lparr>pg_items = docs, pg_page = pg, pg_limit = lm, pg_total = total\<rparr>)))"

definition listAuditEvents ::
  "env \<Rightarrow> string \<Rightarrow> int \<Rightarrow> int \<Rightarrow> string option \<Rightarrow> string option \<Rightarrow> audit_event page call" where
  "listAuditEvents env workspaceId pg lm action actorId =
     (let flt = (\<lambda>a. au_workspaceId a = workspaceId \<and>
                     (truthy action \<longrightarrow> Some (au_action a) = action) \<and>
                     (truthy actorId \<longrightarrow> Some (au_actorId a) = actorId)) in
      bind_io (ask db_audit (drv_count (e_audit env) flt)) (\<lambda>total.
      bind_io (ask db_audit (drv_findPage (e_audit env) flt
                (\<lambda>a b. au_createdAt b \<le> au_createdAt a) ((pg - 1) * lm) lm)) (\<lambda>docs.
      ret \<lparr>pg_items = docs, pg_page = pg, pg_limit = lm, pg_total = total\<rparr>)))"

definition listHealthChecks :: "env \<Rightarrow> string \<Rightarrow> string option \<Rightarrow> health_check list call" where
  "listHealthChecks env workspaceId resourceId =
     (let flt = (\<lambda>h. h_workspaceId h = workspaceId \<and>
                     (truthy resourceId \<longrightarrow> Some (h_resourceId h) = resourceId)) in
      bind_io (ask db_healthChecks (drv_findPage (e_healthChecks env) flt
                (\<lambda>a b. h_observedAt b \<le> h_observedAt a) 0 50)) (\<lambda>docs.
      ret docs))"


section \<open>What a list contains\<close>

definition slice_of ::
  "('d \<Rightarrow> bool) \<Rightarrow> ('d \<Rightarrow> 'd \<Rightarrow> bool) \<Rightarrow> int \<Rightarrow> int \<Rightarrow> 'd list \<Rightarrow> 'd list \<Rightarrow> bool" where
  "slice_of flt le skip lm docs items \<longleftrightarrow>
     (\<exists>all. mset all = filter_mset flt (mset docs) \<and> sorted_wrt le all \<and>
        items = take (nat lm) (drop (nat skip) all))"

definition page_of ::
  "('d \<Rightarrow> bool) \<Rightarrow> ('d \<Rightarrow> 'd \<Rightarrow> bool) \<Rightarrow> int \<Rightarrow> int \<Rightarrow> 'd list \<Rightarrow> 'd page \<Rightarrow> bool" where
  "page_of flt le pg lm docs reply \<longleftrightarrow>
     pg_page reply = pg \<and> pg_limit reply = lm \<and> pg_total reply = length (filter flt docs) \<and>
     slice_of flt le ((pg - 1) * lm) lm docs (pg_items reply)"

lemma slice_items:
  "slice_of flt le skip lm docs items \<Longrightarrow> d \<in> set items \<Longrightarrow> d \<in> set docs \<and> flt d"
  unfolding slice_of_def using filter_mset_mem by (metis in_set_dropD in_set_takeD)

lemma slice_length:
  assumes "slice_of flt le skip lm docs items" "0 \<le> skip" "0 \<le> lm"
  shows "length items = min (nat lm) (length (filter flt docs) - nat skip)"
  using assms by (auto simp: slice_of_def dest!: filter_mset_length)

text \<open>Counting and reading a page, as every list does.\<close>

context mongo
begin

lemma page_answers:
  assumes "bind_io (ask get (drv_count drv flt)) (\<lambda>total.
      bind_io (ask get (drv_findPage drv flt le ((pg - 1) * lm) lm)) (\<lambda>docs.
      ret \<lparr>pg_items = docs, pg_page = pg, pg_limit = lm, pg_total = total\<rparr>)) s = (s', Inr reply)"
    and "sort_order le" "1 \<le> pg" "1 \<le> lm"
  shows "s' = s \<and> page_of flt le pg lm (get s) reply"
proof -
  obtain n ds where r: "drv_count drv flt (get s) = Inr n"
    "drv_findPage drv flt le ((pg - 1) * lm) lm (get s) = Inr ds" "s' = s"
    "reply = \<lparr>pg_items = ds, pg_page = pg, pg_limit = lm, pg_total = n\<rparr>"
    using assms(1) by (auto simp: bind_io_Inr ask_Inr)
  have "0 \<le> (pg - 1) * lm" "0 < lm" using assms(3,4) by simp_all
  from findPage_Inr [OF r(2) assms(2) this] count_Inr [OF r(1)] r(3,4)
  show ?thesis by (simp add: page_of_def slice_of_def)
qed

end

lemma sort_orders:
  "sort_order (\<lambda>a b. f_createdAt b \<le> f_createdAt a)" "sort_order (\<lambda>a b. rec_createdAt b \<le> rec_createdAt a)"
  "sort_order (\<lambda>a b. au_createdAt b \<le> au_createdAt a)" "sort_order (\<lambda>a b. h_observedAt b \<le> h_observedAt a)"
  "sort_order (\<lambda>a b. j_createdAt b \<le> j_createdAt a)"
  by (rule sort_order_key)+

context store
begin

lemma list_jobs_page:
  assumes "list_jobs env w pg lm st s = (s', Inr reply)" "1 \<le> pg" "1 \<le> lm"
  shows "s' = s \<and>
    page_of (\<lambda>j. j_workspaceId j = w \<and> (truthy st \<longrightarrow> Some (job_status_str (j_status j)) = st))
      (\<lambda>a b. j_createdAt b \<le> j_createdAt a) pg lm (db_jobs s) reply"
  using assms unfolding list_jobs_def Let_def by (intro jobs.page_answers sort_orders)

lemma listFindings_page:
  assumes "listFindings env w pg lm sev res jid s = (s', Inr reply)" "1 \<le> pg" "1 \<le> lm"
  shows "s' = s \<and>
    page_of (\<lambda>f. f_workspaceId f = w \<and> (truthy sev \<longrightarrow> Some (f_severity f) = sev) \<and>
        (truthy res \<longrightarrow> Some (f_resourceId f) = res) \<and> (truthy jid \<longrightarrow> Some (f_jobId f) = jid))
      (\<lambda>a b. f_createdAt b \<le> f_createdAt a) pg lm (db_findings s) reply"
  using assms unfolding listFindings_def Let_def by (intro findings.page_answers sort_orders)

lemma listRecommendations_page:
  assumes "listRecommendations env w pg lm act jid s = (s', Inr reply)" "1 \<le> pg" "1 \<le> lm"
  shows "s' = s \<and>
    page_of (\<lambda>r. rec_workspaceId r = w \<and> (truthy act \<longrightarrow> Some (rec_actionType r) = act) \<and>
        (truthy jid \<longrightarrow> Some (rec_jobId r) = jid))
      (\<lambda>a b. rec_createdAt b \<le> rec_createdAt a) pg lm (db_recommendations s) reply"
  using assms unfolding listRecommendations_def Let_def by (intro recommendations.page_answers sort_orders)

lemma listAuditEvents_page:
  assumes "listAuditEvents env w pg lm act actor s = (s', Inr reply)" "1 \<le> pg" "1 \<le> lm"
  shows "s' = s \<and>
    page_of (\<lambda>a. au_workspaceId a = w \<and> (truthy act \<longrightarrow> Some (au_action a) = act) \<and>
        (truthy actor \<longrightarrow> Some (au_actorId a) = actor))
      (\<lambda>a b. au_createdAt b \<le> au_createdAt a) pg lm (db_audit s) reply"
  using assms unfolding listAuditEvents_def Let_def by (intro audit.page_answers sort_orders)

lemma listHealthChecks_slice:
  assumes "listHealthChecks env w res s = (s', Inr reply)"
  shows "s' = s \<and> length reply \<le> 50 \<and>
    slice_of (\<lambda>h. h_workspaceId h = w \<and> (truthy res \<longrightarrow> Some (h_resourceId h) = res))
      (\<lambda>a b. h_observedAt b \<le> h_observedAt a) 0 50 (db_healthChecks s) reply"
proof -
  from assms have d: "s' = s" "drv_findPage (e_healthChecks env)
      (\<lambda>h. h_workspaceId h = w \<and> (truthy res \<longrightarrow> Some (h_resourceId h) = res))
      (\<lambda>a b. h_observedAt b \<le> h_observedAt a) 0 50 (db_healthChecks s) = Inr reply"
    by (auto simp: listHealthChecks_def Let_def bind_io_Inr ask_Inr)
  from healthChecks.findPage_Inr [OF d(2) sort_orders(4)]
  have sl: "slice_of (\<lambda>h. h_workspaceId h = w \<and> (truthy res \<longrightarrow> Some (h_resourceId h) = res))
      (\<lambda>a b. h_observedAt b \<le> h_observedAt a) 0 50 (db_healthChecks s) reply"
    by (simp add: slice_of_def)
  with slice_length [OF this] d(1) show ?thesis by simp
qed

end



end
