(* ===== verification/Resource_Service.thy ===== *)
theory Resource_Service
  imports Aws_Provider Query_Service "HOL-Library.List_Lexorder" "HOL-Library.Char_ord"
begin

text \<open>
  \<^verbatim>\<open>packages/shared/src/providers/factory.ts\<close> and \<^verbatim>\<open>apps/api/src/services/resource-service.ts\<close>: choosing
  a provider, and syncing, listing and reading the resources of a workspace. \<open>clk\<close> gives the clock
  readings of a call, \<open>rx\<close> is MongoDB's case-insensitive regular-expression search. \<^verbatim>\<open>serialize\<close>
  only renames \<^verbatim>\<open>_id\<close> on a resource, so the calls answer with the documents. The specification of a sync
  is an update of the catalog, the map from ARNs to versions and contents.
\<close>

section \<open>The choice of a provider\<close>

record provider_config =
  pc_mode :: provider_name
  pc_workspaceId :: string
  pc_region :: string
  pc_readOnly :: bool
  pc_maxAttempts :: int
  pc_requestTimeoutMs :: int
  pc_endpoint :: "string option"

datatype provider = AwsP aws_provider | MockP string

definition createCloudProvider ::
  "sdk_clients \<Rightarrow> (db_error \<Rightarrow> string \<times> string) \<Rightarrow> provider_config \<Rightarrow> provider" where
  "createCloudProvider clients err_text cfg =
     (if pc_mode cfg = Aws then
        AwsP (AwsProvider clients err_text
          \<lparr> ao_region = pc_region cfg, ao_workspaceId = pc_workspaceId cfg,
            ao_maxAttempts = Some (pc_maxAttempts cfg),
            ao_requestTimeoutMs = Some (pc_requestTimeoutMs cfg),
            ao_endpoint = pc_endpoint cfg, ao_readOnly = Some (pc_readOnly cfg) \<rparr>)
      else MockP (pc_workspaceId cfg))"

fun name_of :: "provider \<Rightarrow> provider_name" where
  "name_of (AwsP _) = Aws"
| "name_of (MockP _) = MockProvider"

fun readOnly_of :: "provider \<Rightarrow> bool" where
  "readOnly_of (AwsP aws) = aw_readOnly aws"
| "readOnly_of (MockP _) = True"

fun listResources :: "provider \<Rightarrow> int \<Rightarrow> inventory_query \<Rightarrow> thrown + item list" where
  "listResources (AwsP aws) now query = aws_listResources aws now query"
| "listResources (MockP w) now query = Inr (mock_listResources w now query)"

record resource_config =
  rsc_CLOUD_PROVIDER :: provider_name
  rsc_AWS_REGION :: string
  rsc_AWS_READ_ONLY :: bool
  rsc_AWS_MAX_ATTEMPTS :: int
  rsc_AWS_REQUEST_TIMEOUT_MS :: int
  rsc_AWS_ENDPOINT_URL :: string
  rsc_clients :: sdk_clients
  rsc_err_text :: "db_error \<Rightarrow> string \<times> string"

definition providerFor :: "resource_config \<Rightarrow> string \<Rightarrow> provider" where
  "providerFor cfg workspaceId =
     createCloudProvider (rsc_clients cfg) (rsc_err_text cfg)
       \<lparr> pc_mode = rsc_CLOUD_PROVIDER cfg, pc_workspaceId = workspaceId, pc_region = rsc_AWS_REGION cfg,
         pc_readOnly = rsc_AWS_READ_ONLY cfg, pc_maxAttempts = rsc_AWS_MAX_ATTEMPTS cfg,
         pc_requestTimeoutMs = rsc_AWS_REQUEST_TIMEOUT_MS cfg,
         pc_endpoint = (if rsc_AWS_ENDPOINT_URL cfg = [] then None else Some (rsc_AWS_ENDPOINT_URL cfg)) \<rparr>"


section \<open>Syncing\<close>

definition same_arn :: "string \<Rightarrow> string \<Rightarrow> cloud_resource \<Rightarrow> bool" where
  "same_arn workspaceId arn r \<longleftrightarrow> r_workspaceId r = workspaceId \<and> r_arn r = arn"

text \<open>\<^verbatim>\<open>$set\<close> of every field of the item but its version, and \<^verbatim>\<open>$inc\<close> of the version.\<close>

definition set_item :: "item \<Rightarrow> int \<Rightarrow> cloud_resource \<Rightarrow> cloud_resource" where
  "set_item item now r =
     r\<lparr>r_workspaceId := i_workspaceId item, r_provider := i_provider item, r_type := i_type item,
       r_region := i_region item, r_arn := i_arn item, r_name := i_name item, r_tags := i_tags item,
       r_config := i_config item, r_metrics := i_metrics item, r_lastSyncedAt := now,
       r_version := r_version r + 1\<rparr>"

definition new_resource :: "item \<Rightarrow> int \<Rightarrow> oid \<Rightarrow> cloud_resource" where
  "new_resource item now i =
     \<lparr> r_id = i, r_workspaceId = i_workspaceId item, r_provider = i_provider item, r_type = i_type item,
       r_region = i_region item, r_arn = i_arn item, r_name = i_name item, r_tags = i_tags item,
       r_config = i_config item, r_metrics = i_metrics item, r_lastSyncedAt = now, r_version = 1 \<rparr>"

definition sync_item ::
  "env \<Rightarrow> (nat \<Rightarrow> int) \<Rightarrow> string \<Rightarrow> cloud_resource list \<Rightarrow> item \<Rightarrow> cloud_resource list call" where
  "sync_item env clk workspaceId upserted item =
     bind_io (tell db_resources db_resources_update (drv_upsert (e_resources env)
       (same_arn workspaceId (i_arn item)) (set_item item (clk (length upserted + 1)))
       (new_resource item (clk (length upserted + 1))))) (\<lambda>doc.
     ret (upserted @ [doc]))"

record sync_reply =
  sr_synced :: nat
  sr_provider :: provider_name
  sr_items :: "cloud_resource list"

definition provider_str :: "provider_name \<Rightarrow> string" where
  "provider_str p = (case p of Aws \<Rightarrow> ''aws'' | MockProvider \<Rightarrow> ''mock'')"

definition sync ::
  "env \<Rightarrow> resource_config \<Rightarrow> (nat \<Rightarrow> int) \<Rightarrow> string \<Rightarrow> string \<Rightarrow> string \<Rightarrow> inventory_query \<Rightarrow>
    sync_reply call" where
  "sync env cfg clk workspaceId actorId correlationId query =
     (let provider = providerFor cfg workspaceId in
      case listResources provider (clk 0) query of
        Inl err \<Rightarrow> throw err
      | Inr discovered \<Rightarrow>
          bind_io (for_io (sync_item env clk workspaceId) [] discovered) (\<lambda>upserted.
          bind_io (record_audit env (clk (length discovered + 1)) workspaceId actorId ''resources.sync''
            ''CloudResource'' None correlationId
            (Some [(''count'', JNum (of_nat (length upserted))),
                   (''provider'', JStr (provider_str (name_of provider)))])) (\<lambda>_.
          ret \<lparr>sr_synced = length upserted, sr_provider = name_of provider, sr_items = upserted\<rparr>)))"


section \<open>Reading\<close>

text \<open>\<^verbatim>\<open>q.replace(/[.*+?^${}()|[\]\\]/g, '\\$&')\<close>: every metacharacter gets a backslash.\<close>

definition metachars :: "char set" where
  "metachars = set ''.*+?^${}()|[]'' \<union> {CHR 0x5C}"

fun escape_regex :: "string \<Rightarrow> string" where
  "escape_regex [] = []"
| "escape_regex (c # cs) = (if c \<in> metachars then CHR 0x5C # c # escape_regex cs else c # escape_regex cs)"

record resource_query =
  rq_page :: int
  rq_limit :: int
  rq_type :: "string option"
  rq_region :: "string option"
  rq_q :: "string option"

definition resource_filter ::
  "(string \<Rightarrow> string \<Rightarrow> bool) \<Rightarrow> string \<Rightarrow> resource_query \<Rightarrow> cloud_resource \<Rightarrow> bool" where
  "resource_filter rx workspaceId query r \<longleftrightarrow> r_workspaceId r = workspaceId \<and>
     (truthy (rq_type query) \<longrightarrow> Some (resource_type_str (r_type r)) = rq_type query) \<and>
     (truthy (rq_region query) \<longrightarrow> Some (r_region r) = rq_region query) \<and>
     (truthy (rq_q query) \<longrightarrow> rx (escape_regex (the (rq_q query))) (r_name r))"

definition list_resources ::
  "env \<Rightarrow> (string \<Rightarrow> string \<Rightarrow> bool) \<Rightarrow> string \<Rightarrow> resource_query \<Rightarrow> cloud_resource page call" where
  "list_resources env rx workspaceId query =
     bind_io (ask db_resources (drv_count (e_resources env) (resource_filter rx workspaceId query))) (\<lambda>total.
     bind_io (ask db_resources (drv_findPage (e_resources env) (resource_filter rx workspaceId query)
       (\<lambda>a b. r_name a \<le> r_name b) ((rq_page query - 1) * rq_limit query) (rq_limit query))) (\<lambda>docs.
     ret \<lparr>pg_items = docs, pg_page = rq_page query, pg_limit = rq_limit query, pg_total = total\<rparr>))"

definition get_resource :: "env \<Rightarrow> string \<Rightarrow> oid \<Rightarrow> cloud_resource option call" where
  "get_resource env workspaceId i =
     ask db_resources (drv_findOne (e_resources env) (\<lambda>r. r_id r = i \<and> r_workspaceId r = workspaceId))"

end
