(* ===== verification/Remediation_Engine.thy ===== *)
theory Remediation_Engine
  imports Store
begin

text \<open>
  \<^verbatim>\<open>packages/shared/src/remediation/engine.ts\<close>: the simulated remediation actions. A call that throws
  is \<open>Inl\<close>. The lemmas say what each action changes and that it changes nothing else
  (\<open>state_goal\<close> is the abstract goal of an action); running an action again changes nothing more.
\<close>

section \<open>Guards\<close>

definition assertAllowlisted :: "string \<Rightarrow> thrown + unit" where
  "assertAllowlisted actionType =
     (if actionType \<notin> set ALLOWLISTED_ACTIONS
      then Inl (AppErr (ForbiddenError (''Action '' @ actionType @ '' is not allowlisted'')))
      else Inr ())"

definition rejectMutationsIfDisabled :: "bool \<Rightarrow> provider_name \<Rightarrow> thrown + unit" where
  "rejectMutationsIfDisabled enableAwsMutations providerName =
     (if providerName = Aws \<and> \<not> enableAwsMutations
      then Inl (AppErr (ForbiddenError
        ''Real AWS mutations are disabled. Set ENABLE_AWS_MUTATIONS=true only after explicit confirmation.''))
      else Inr ())"

definition assertIdempotentExecution :: "exec_status option \<Rightarrow> thrown + unit" where
  "assertIdempotentExecution existingStatus =
     (if existingStatus = Some Succeeded \<or> existingStatus = Some ExecRunning
      then Inl (AppErr (ConflictError ''Duplicate remediation execution blocked by idempotency key''
             (Some [(''status'', exec_status_str (the existingStatus))])))
      else Inr ())"


section \<open>The actions\<close>

definition engine_result :: "action \<Rightarrow> string \<Rightarrow> action_result" where
  "engine_result a message =
     \<lparr>ar_actionType = a_actionType a, ar_resourceId = a_resourceId a, ar_ok = True,
       ar_simulated = True, ar_message = message\<rparr>"

text \<open>The copy the action works on: \<^verbatim>\<open>alarms\<close> becomes a list.\<close>

definition copy_state :: "res_state \<Rightarrow> res_state" where
  "copy_state r = r\<lparr>rs_config := (rs_config r)\<lparr>cf_alarms := Some (with_default (cf_alarms (rs_config r)) [])\<rparr>\<rparr>"

definition param :: "action \<Rightarrow> string \<Rightarrow> string \<Rightarrow> string" where
  "param a k d = with_default (map_of (a_params a) k) d"

definition alarm_name :: "action \<Rightarrow> string" where
  "alarm_name a = param a ''alarmName'' (a_resourceId a @ ''-health'')"

definition add_alarm :: "string \<Rightarrow> string list \<Rightarrow> string list" where
  "add_alarm alarm alarms = (if alarm \<in> set alarms then alarms else alarms @ [alarm])"

definition applySimulatedAction :: "res_state \<Rightarrow> action \<Rightarrow> thrown + res_state \<times> action_result" where
  "applySimulatedAction resource a =
     (case assertAllowlisted (a_actionType a) of
        Inl e \<Rightarrow> Inl e
      | Inr _ \<Rightarrow>
          let nxt = copy_state resource in
          if a_actionType a = ''add_missing_tag'' then
            let k = param a ''key'' ''Owner''; v = param a ''value'' ''platform''
            in Inr (nxt\<lparr>rs_tags := AList.update k v (rs_tags nxt)\<rparr>,
                    engine_result a (''Added tag '' @ k @ ''='' @ v))
          else if a_actionType a = ''create_alarm'' then
            let alarm = alarm_name a;
                alarms = the (cf_alarms (rs_config nxt))
            in Inr (nxt\<lparr>rs_config := (rs_config nxt)\<lparr>cf_alarms := Some (add_alarm alarm alarms)\<rparr>\<rparr>,
                    engine_result a (''Created simulated alarm '' @ alarm))
          else if a_actionType a = ''enable_backup_policy'' then
            Inr (nxt\<lparr>rs_config := (rs_config nxt)\<lparr>cf_backupEnabled := Some True\<rparr>\<rparr>,
                 engine_result a ''Enabled simulated backup policy'')
          else if a_actionType a = ''restart_unhealthy_service'' then
            Inr (nxt\<lparr>rs_config := (rs_config nxt)\<lparr>cf_healthCheckStatus := Some Healthy\<rparr>,
                     rs_metrics := (rs_metrics nxt)\<lparr>m_errorRate :=
                       Some (min (with_default (m_errorRate (rs_metrics nxt)) 0) (1 / 100))\<rparr>\<rparr>,
                 engine_result a ''Restarted simulated unhealthy service'')
          else if a_actionType a = ''restrict_public_storage'' then
            Inr (nxt\<lparr>rs_config := (rs_config nxt)\<lparr>cf_publicAccess := Some False\<rparr>\<rparr>,
                 engine_result a ''Restricted simulated public storage access'')
          else Inl (AppErr (ValidationError (''Unsupported action '' @ a_actionType a) None)))"

lemma allowlisted_cases:
  assumes "a \<in> set ALLOWLISTED_ACTIONS"
  obtains "a = ''add_missing_tag''" | "a = ''create_alarm''" | "a = ''enable_backup_policy''"
  | "a = ''restart_unhealthy_service''" | "a = ''restrict_public_storage''"
proof -
  have "a = ''add_missing_tag'' \<or> a = ''create_alarm'' \<or> a = ''enable_backup_policy'' \<or>
      a = ''restart_unhealthy_service'' \<or> a = ''restrict_public_storage''"
    using assms unfolding ALLOWLISTED_ACTIONS_def list.set insert_iff empty_iff by (simp only: simp_thms)
  then show ?thesis
    by (elim disjE) (erule that)+
qed

lemma assertAllowlisted_Inr [simp]: "assertAllowlisted a = Inr u \<longleftrightarrow> a \<in> set ALLOWLISTED_ACTIONS"
  by (simp add: assertAllowlisted_def)

text \<open>What an action is for, and the rest of the state that it may not touch.\<close>

definition state_goal :: "action \<Rightarrow> res_state \<Rightarrow> bool" where
  "state_goal a r \<longleftrightarrow>
     (a_actionType a = ''add_missing_tag'' \<longrightarrow>
        map_of (rs_tags r) (param a ''key'' ''Owner'') = Some (param a ''value'' ''platform'')) \<and>
     (a_actionType a = ''create_alarm'' \<longrightarrow>
        alarm_name a \<in> set (with_default (cf_alarms (rs_config r)) [])) \<and>
     (a_actionType a = ''enable_backup_policy'' \<longrightarrow> cf_backupEnabled (rs_config r) = Some True) \<and>
     (a_actionType a = ''restart_unhealthy_service'' \<longrightarrow>
        cf_healthCheckStatus (rs_config r) = Some Healthy \<and>
        (\<exists>e. m_errorRate (rs_metrics r) = Some e \<and> e \<le> 1 / 100)) \<and>
     (a_actionType a = ''restrict_public_storage'' \<longrightarrow> cf_publicAccess (rs_config r) = Some False)"

definition only_changes :: "action \<Rightarrow> res_state \<Rightarrow> res_state \<Rightarrow> bool" where
  "only_changes a r r' \<longleftrightarrow>
     (\<forall>k. \<not> (a_actionType a = ''add_missing_tag'' \<and> k = param a ''key'' ''Owner'') \<longrightarrow>
        map_of (rs_tags r') k = map_of (rs_tags r) k) \<and>
     (\<forall>x. x \<in> set (with_default (cf_alarms (rs_config r')) []) \<longleftrightarrow>
        x \<in> set (with_default (cf_alarms (rs_config r)) []) \<or>
        a_actionType a = ''create_alarm'' \<and> x = alarm_name a) \<and>
     (a_actionType a \<noteq> ''enable_backup_policy'' \<longrightarrow>
        cf_backupEnabled (rs_config r') = cf_backupEnabled (rs_config r)) \<and>
     (a_actionType a \<noteq> ''restart_unhealthy_service'' \<longrightarrow>
        cf_healthCheckStatus (rs_config r') = cf_healthCheckStatus (rs_config r) \<and>
        rs_metrics r' = rs_metrics r) \<and>
     (a_actionType a \<noteq> ''restrict_public_storage'' \<longrightarrow>
        cf_publicAccess (rs_config r') = cf_publicAccess (rs_config r)) \<and>
     cf_instanceState (rs_config r') = cf_instanceState (rs_config r) \<and>
     cf_runtime (rs_config r') = cf_runtime (rs_config r) \<and>
     cf_encryption (rs_config r') = cf_encryption (rs_config r)"

lemmas engine_defs = applySimulatedAction_def copy_state_def engine_result_def Let_def

lemma engine_result_inject [simp]: "engine_result a m = engine_result a m' \<longleftrightarrow> m = m'"
  by (simp add: engine_result_def)

text \<open>The action as a total function on the states, for the allowlisted actions.\<close>

lemma apply_allowlisted:
  assumes "a_actionType a \<in> set ALLOWLISTED_ACTIONS"
  obtains r' msg where "applySimulatedAction r a = Inr (r', engine_result a msg)"
    "state_goal a r'" "only_changes a r r'"
proof -
  have "\<exists>r' msg. applySimulatedAction r a = Inr (r', engine_result a msg) \<and>
      state_goal a r' \<and> only_changes a r r'"
    using assms
  proof (rule allowlisted_cases)
    assume "a_actionType a = ''add_missing_tag''"
    with assms show ?thesis
      by (simp add: applySimulatedAction_def assertAllowlisted_def Let_def copy_state_def
          state_goal_def only_changes_def update_conv')
  next
    assume "a_actionType a = ''create_alarm''"
    with assms show ?thesis
      by (simp add: applySimulatedAction_def assertAllowlisted_def Let_def copy_state_def
          state_goal_def only_changes_def add_alarm_def) auto
  next
    assume "a_actionType a = ''enable_backup_policy''"
    with assms show ?thesis
      by (simp add: applySimulatedAction_def assertAllowlisted_def Let_def copy_state_def
          state_goal_def only_changes_def)
  next
    assume "a_actionType a = ''restart_unhealthy_service''"
    with assms show ?thesis
      by (simp add: applySimulatedAction_def assertAllowlisted_def Let_def copy_state_def
          state_goal_def only_changes_def)
  next
    assume "a_actionType a = ''restrict_public_storage''"
    with assms show ?thesis
      by (simp add: applySimulatedAction_def assertAllowlisted_def Let_def copy_state_def
          state_goal_def only_changes_def)
  qed
  then show ?thesis using that by blast
qed


lemma engine_result_fields:
  assumes "applySimulatedAction r a = Inr (r', x)"
  shows "ar_ok x" "ar_resourceId x = a_resourceId a"
proof -
  have "a_actionType a \<in> set ALLOWLISTED_ACTIONS"
    using assms by (auto simp: applySimulatedAction_def assertAllowlisted_def split: if_splits)
  then obtain r'' msg where "applySimulatedAction r a = Inr (r'', engine_result a msg)"
    by (rule apply_allowlisted)
  with assms show "ar_ok x" "ar_resourceId x = a_resourceId a"
    by (auto simp: engine_result_def)
qed


text \<open>
  Running an action on a state that it has already been run on changes nothing and reports the
  same result: remediation actions are idempotent.
\<close>

theorem action_idempotent:
  assumes "applySimulatedAction r a = Inr (r1, x)"
  shows "applySimulatedAction r1 a = Inr (r1, x)"
proof -
  have "a_actionType a \<in> set ALLOWLISTED_ACTIONS"
    using assms by (auto simp: applySimulatedAction_def assertAllowlisted_def split: if_splits)
  then show ?thesis
    using assms
    by (elim allowlisted_cases;
        auto simp: applySimulatedAction_def assertAllowlisted_def Let_def copy_state_def add_alarm_def)
qed

theorem action_idempotent_witness:
  "\<exists>r1 x. applySimulatedAction \<lparr>rs_tags = [], rs_config = \<lparr>cf_publicAccess = Some True, cf_backupEnabled = None,
      cf_alarms = None, cf_healthCheckStatus = None, cf_instanceState = None, cf_runtime = None,
      cf_encryption = None\<rparr>, rs_metrics = \<lparr>m_cpuUtilizationAvg = None,
      m_consecutiveLowUtilizationPeriods = None, m_errorRate = None, m_errorCount = None,
      m_p99LatencyMs = None, m_failureRateDelta = None, m_requestCount = None\<rparr>\<rparr>
      \<lparr>a_actionType = ''create_alarm'', a_resourceId = ''r1'', a_findingId = ''f1'', a_params = []\<rparr> = Inr (r1, x)
    \<and> applySimulatedAction r1
      \<lparr>a_actionType = ''create_alarm'', a_resourceId = ''r1'', a_findingId = ''f1'', a_params = []\<rparr> = Inr (r1, x)"
proof -
  let ?a = "\<lparr>a_actionType = ''create_alarm'', a_resourceId = ''r1'', a_findingId = ''f1'', a_params = []\<rparr>"
  have "a_actionType ?a \<in> set ALLOWLISTED_ACTIONS" by (simp add: ALLOWLISTED_ACTIONS_def)
  from apply_allowlisted [OF this] action_idempotent [where a = ?a] show ?thesis by metis
qed

end
