(* ===== verification/Remediation_Service.thy ===== *)
theory Remediation_Service
  imports Auth Remediation_Engine
begin

text \<open>
  \<^verbatim>\<open>apps/api/src/services/remediation-service.ts\<close>: planning, approving and executing remediations.
  \<open>clk i\<close> is the \<open>i\<close>-th clock reading of a call, \<open>hash\<close> is SHA-256, \<open>token\<close> the random bytes of the
  approval token. \<open>execute\<close> is split where the code turns from checking to writing:
  \<open>execute_checks\<close> reads and refuses, \<open>execute_apply\<close> consumes the token, runs the actions
  (\<open>run_action\<close> is the loop body, \<open>exec_acc\<close> its variables) and records the execution. \<^verbatim>\<open>serialize\<close> only
  renames \<^verbatim>\<open>_id\<close> on plans and executions, so the calls answer with the documents.
\<close>

record rem_config =
  rc_APPROVAL_TTL_MS :: int
  rc_ENABLE_AWS_MUTATIONS :: bool
  rc_CLOUD_PROVIDER :: provider_name

section \<open>Planning\<close>

definition ACTION_BY_RULE :: "(string \<times> string) list" where
  "ACTION_BY_RULE =
     [(''ec2.low_utilization'', ''manual_review''),
      (''resource.missing_tags'', ''add_missing_tag''),
      (''s3.public_access'', ''restrict_public_storage''),
      (''cloudwatch.missing_alarms'', ''create_alarm''),
      (''service.unhealthy'', ''restart_unhealthy_service''),
      (''resource.missing_backup'', ''enable_backup_policy''),
      (''app.repeated_errors'', ''restart_unhealthy_service''),
      (''api.elevated_latency'', ''create_alarm''),
      (''reliability.failure_rate_increase'', ''create_alarm'')]"

text \<open>\<^verbatim>\<open>ACTION_BY_RULE[...]\<close> also finds the members every object inherits, shown as the strings they
  convert to; none of them is an allowlisted action.\<close>

definition object_prototype :: "(string \<times> string) list" where
  "object_prototype =
     (''constructor'', ''function Object() { [native code] }'') #
     (''__proto__'', ''[object Object]'') #
     map (\<lambda>n. (n, ''function '' @ n @ ''() { [native code] }''))
       [''toString'', ''valueOf'', ''hasOwnProperty'', ''isPrototypeOf'', ''propertyIsEnumerable'',
        ''toLocaleString'', ''__defineGetter__'', ''__defineSetter__'', ''__lookupGetter__'',
        ''__lookupSetter__'']"

definition action_of_rule :: "string \<Rightarrow> string option" where
  "action_of_rule ruleId =
     (case map_of ACTION_BY_RULE ruleId of
        Some a \<Rightarrow> Some a
      | None \<Rightarrow> map_of object_prototype ruleId)"

definition defaultParams :: "string \<Rightarrow> string \<Rightarrow> (string \<times> string) list" where
  "defaultParams actionType resourceId =
     (if actionType = ''add_missing_tag'' then [(''key'', ''Owner''), (''value'', ''platform'')]
      else if actionType = ''create_alarm'' then [(''alarmName'', resourceId @ ''-health'')]
      else [])"

text \<open>\<^verbatim>\<open>new Map(recs.map(...))\<close>: the last recommendation of a finding wins.\<close>

definition recByFinding :: "recommendation list \<Rightarrow> oid \<Rightarrow> recommendation option" where
  "recByFinding recs = map_of (rev (map (\<lambda>r. (rec_findingId r, r)) recs))"

definition plan_action_type :: "recommendation list \<Rightarrow> finding \<Rightarrow> string" where
  "plan_action_type recs finding =
     (case recByFinding recs (f_id finding) of
        Some r \<Rightarrow> rec_actionType r
      | None \<Rightarrow> with_default (action_of_rule (f_ruleId finding)) ''manual_review'')"

definition plan_action :: "recommendation list \<Rightarrow> finding \<Rightarrow> thrown + action option" where
  "plan_action recs finding =
     (let actionType = plan_action_type recs finding in
      if actionType = ''manual_review'' then Inr None
      else case assertAllowlisted actionType of
        Inl e \<Rightarrow> Inl e
      | Inr _ \<Rightarrow> Inr (Some \<lparr>a_actionType = actionType, a_resourceId = f_resourceId finding,
          a_findingId = f_id finding, a_params = defaultParams actionType (f_resourceId finding)\<rparr>))"

fun plan_actions :: "recommendation list \<Rightarrow> finding list \<Rightarrow> thrown + action list" where
  "plan_actions recs [] = Inr []"
| "plan_actions recs (f # fs) =
     (case plan_action recs f of
        Inl e \<Rightarrow> Inl e
      | Inr a \<Rightarrow>
          (case plan_actions recs fs of
             Inl e \<Rightarrow> Inl e
           | Inr as \<Rightarrow> Inr ((case a of None \<Rightarrow> [] | Some x \<Rightarrow> [x]) @ as)))"

record plan_input =
  pi_findingIds :: "string list"
  pi_dryRun :: bool
  pi_idempotencyKey :: string

definition new_plan ::
  "string \<Rightarrow> string \<Rightarrow> string \<Rightarrow> plan_input \<Rightarrow> action list \<Rightarrow> oid \<Rightarrow> plan" where
  "new_plan workspaceId actorId correlationId input actions i =
     \<lparr>p_id = i, p_workspaceId = workspaceId, p_findingIds = pi_findingIds input, p_actions = actions,
       p_dryRun = pi_dryRun input, p_status = AwaitingApproval, p_createdBy = actorId,
       p_correlationId = correlationId, p_idempotencyKey = pi_idempotencyKey input, p_version = 1\<rparr>"

definition createPlan ::
  "env \<Rightarrow> (nat \<Rightarrow> int) \<Rightarrow> string \<Rightarrow> string \<Rightarrow> string \<Rightarrow> plan_input \<Rightarrow> (plan \<times> bool) call" where
  "createPlan env clk workspaceId actorId correlationId input =
     bind_io (ask db_plans (drv_findOne (e_plans env) (\<lambda>p.
       p_workspaceId p = workspaceId \<and> p_idempotencyKey p = pi_idempotencyKey input))) (\<lambda>existing.
     case existing of
       Some e \<Rightarrow> ret (e, True)
     | None \<Rightarrow>
     bind_io (ask db_findings (drv_find (e_findings env) (\<lambda>f.
       f_workspaceId f = workspaceId \<and> f_id f \<in> set (pi_findingIds input)))) (\<lambda>findings.
     if length findings \<noteq> length (pi_findingIds input) then
       throw (AppErr (NotFoundError ''One or more findings were not found in this workspace''))
     else
     bind_io (ask db_recommendations (drv_find (e_recommendations env) (\<lambda>r.
       rec_workspaceId r = workspaceId \<and> rec_findingId r \<in> set (map f_id findings)))) (\<lambda>recs.
     case plan_actions recs findings of
       Inl e \<Rightarrow> throw e
     | Inr actions \<Rightarrow>
     bind_io (tell db_plans db_plans_update (drv_create (e_plans env)
       (new_plan workspaceId actorId correlationId input actions))) (\<lambda>plan.
     bind_io (record_audit env (clk 0) workspaceId actorId ''remediation.plan'' ''RemediationPlan''
       (Some (p_id plan)) correlationId
       (Some [(''dryRun'', JBool (pi_dryRun input)), (''actions'', JNum (of_nat (length actions)))])) (\<lambda>_.
     ret (plan, False))))))"


section \<open>Approving\<close>

record approval =
  ap_plan :: plan
  ap_approvalToken :: string
  ap_expiresAt :: int
  ap_approvalTokenId :: oid

definition new_token :: "rem_config \<Rightarrow> (string \<Rightarrow> string) \<Rightarrow> int \<Rightarrow> string \<Rightarrow> string \<Rightarrow> string \<Rightarrow> string \<Rightarrow>
    oid \<Rightarrow> approval_token" where
  "new_token cfg hash now workspaceId planId actorId token i =
     \<lparr>t_id = i, t_workspaceId = workspaceId, t_planId = planId, t_tokenHash = hashToken hash token,
       t_expiresAt = now + rc_APPROVAL_TTL_MS cfg, t_usedAt = None, t_createdBy = actorId\<rparr>"

text \<open>What \<^verbatim>\<open>approve\<close> writes once it has accepted the plan.\<close>

definition approve_apply ::
  "env \<Rightarrow> rem_config \<Rightarrow> (string \<Rightarrow> string) \<Rightarrow> (nat \<Rightarrow> int) \<Rightarrow> string \<Rightarrow> string \<Rightarrow> oid \<Rightarrow> string \<Rightarrow> string \<Rightarrow>
    plan \<Rightarrow> approval call" where
  "approve_apply env cfg hash clk token workspaceId planId actorId correlationId plan =
     bind_io (tell db_tokens db_tokens_update (drv_create (e_tokens env)
       (new_token cfg hash (clk 0) workspaceId planId actorId token))) (\<lambda>approval.
     bind_io (save_doc db_plans db_plans_update (e_plans env) (\<lambda>p. p_id p = p_id plan)
       (\<lambda>p. p\<lparr>p_status := Approved\<rparr>)) (\<lambda>_.
     bind_io (record_audit env (clk 1) workspaceId actorId ''remediation.approve'' ''RemediationPlan''
       (Some planId) correlationId (Some [(''approvalTokenId'', JStr (t_id approval))])) (\<lambda>_.
     ret \<lparr>ap_plan = plan\<lparr>p_status := Approved\<rparr>, ap_approvalToken = token,
           ap_expiresAt = t_expiresAt approval, ap_approvalTokenId = t_id approval\<rparr>)))"

definition approve ::
  "env \<Rightarrow> rem_config \<Rightarrow> (string \<Rightarrow> string) \<Rightarrow> (nat \<Rightarrow> int) \<Rightarrow> string \<Rightarrow> string \<Rightarrow> oid \<Rightarrow> string \<Rightarrow> string \<Rightarrow>
    approval call" where
  "approve env cfg hash clk token workspaceId planId actorId correlationId =
     bind_io (ask db_plans (drv_findOne (e_plans env) (\<lambda>p.
       p_id p = planId \<and> p_workspaceId p = workspaceId))) (\<lambda>found.
     case found of
       None \<Rightarrow> throw (AppErr (NotFoundError ''Remediation plan not found''))
     | Some plan \<Rightarrow>
     if p_status plan \<notin> {AwaitingApproval, Approved} then
       throw (AppErr (ConflictError
         (''Plan cannot be approved from status '' @ plan_status_str (p_status plan)) None))
     else approve_apply env cfg hash clk token workspaceId planId actorId correlationId plan)"


section \<open>Executing\<close>

record exec_input =
  xi_approvalToken :: string
  xi_idempotencyKey :: string

text \<open>The approval token has to be one of the plan's, unused and not expired, and a real run needs
  mutations to be enabled.\<close>

definition token_gate ::
  "rem_config \<Rightarrow> (string \<Rightarrow> string) \<Rightarrow> int \<Rightarrow> exec_input \<Rightarrow> plan \<Rightarrow> approval_token list \<Rightarrow>
    thrown + approval_token" where
  "token_gate cfg hash now input plan approvals =
     (case List.find (\<lambda>a. tokensMatch hash (xi_approvalToken input) (t_tokenHash a)) approvals of
        None \<Rightarrow> Inl (AppErr (ForbiddenError ''Invalid approval token''))
      | Some matched \<Rightarrow>
          if t_usedAt matched \<noteq> None then Inl (AppErr (ConflictError ''Approval token already used'' None))
          else if t_expiresAt matched < now then Inl (AppErr (ForbiddenError ''Approval token expired''))
          else if \<not> p_dryRun plan then
            (case rejectMutationsIfDisabled (rc_ENABLE_AWS_MUTATIONS cfg) (rc_CLOUD_PROVIDER cfg) of
               Inl e \<Rightarrow> Inl e
             | Inr _ \<Rightarrow> Inr matched)
          else Inr matched)"

text \<open>The checks of \<^verbatim>\<open>execute\<close>, up to the point where it starts to write.\<close>

definition execute_checks ::
  "env \<Rightarrow> rem_config \<Rightarrow> (string \<Rightarrow> string) \<Rightarrow> int \<Rightarrow> string \<Rightarrow> oid \<Rightarrow> exec_input \<Rightarrow>
    (plan \<times> approval_token) call" where
  "execute_checks env cfg hash now workspaceId planId input =
     bind_io (ask db_plans (drv_findOne (e_plans env) (\<lambda>p.
       p_id p = planId \<and> p_workspaceId p = workspaceId))) (\<lambda>found.
     case found of
       None \<Rightarrow> throw (AppErr (NotFoundError ''Remediation plan not found''))
     | Some plan \<Rightarrow>
     if p_status plan \<noteq> Approved then
       throw (AppErr (ConflictError ''Plan must be approved before execution'' None))
     else
     bind_io (ask db_tokens (drv_find (e_tokens env) (\<lambda>t.
       t_workspaceId t = workspaceId \<and> t_planId t = planId))) (\<lambda>approvals.
     case token_gate cfg hash now input plan approvals of
       Inl e \<Rightarrow> throw e
     | Inr matched \<Rightarrow> ret (plan, matched)))"

record exec_acc =
  ea_byId :: "oid \<Rightarrow> cloud_resource option"
  ea_before :: "(string \<times> snapshot) list"
  ea_after :: "(string \<times> snapshot) list"
  ea_results :: "action_result list"

definition res_state_of :: "cloud_resource \<Rightarrow> res_state" where
  "res_state_of r = \<lparr>rs_tags = r_tags r, rs_config = r_config r, rs_metrics = r_metrics r\<rparr>"

definition with_state :: "res_state \<Rightarrow> int \<Rightarrow> cloud_resource \<Rightarrow> cloud_resource" where
  "with_state st v r =
     r\<lparr>r_tags := rs_tags st, r_config := rs_config st, r_metrics := rs_metrics st, r_version := v\<rparr>"

definition persists :: "rem_config \<Rightarrow> plan \<Rightarrow> bool" where
  "persists cfg plan \<longleftrightarrow>
     (p_dryRun plan \<or> rc_CLOUD_PROVIDER cfg = MockProvider \<or> \<not> rc_ENABLE_AWS_MUTATIONS cfg) \<and>
     \<not> p_dryRun plan"

definition missing_result :: "action \<Rightarrow> action_result" where
  "missing_result a =
     \<lparr>ar_actionType = a_actionType a, ar_resourceId = a_resourceId a, ar_ok = False,
       ar_simulated = True, ar_message = ''Resource not found in workspace''\<rparr>"

definition run_action :: "env \<Rightarrow> rem_config \<Rightarrow> plan \<Rightarrow> exec_acc \<Rightarrow> action \<Rightarrow> exec_acc call" where
  "run_action env cfg plan acc a =
     (case ea_byId acc (a_resourceId a) of
        None \<Rightarrow> ret (acc\<lparr>ea_results := ea_results acc @ [missing_result a]\<rparr>)
      | Some r \<Rightarrow>
          let before = AList.update (a_resourceId a) (Snap (r_tags r) (r_config r)) (ea_before acc) in
          case applySimulatedAction (res_state_of r) a of
            Inl e \<Rightarrow> throw e
          | Inr (st, result) \<Rightarrow>
              if persists cfg plan then
                let r' = with_state st (r_version r + 1) r in
                bind_io (save_doc db_resources db_resources_update (e_resources env)
                  (\<lambda>d. r_id d = r_id r) (with_state st (r_version r + 1))) (\<lambda>_.
                ret \<lparr>ea_byId = (ea_byId acc)(a_resourceId a \<mapsto> r'), ea_before = before,
                      ea_after = AList.update (a_resourceId a) (Snap (r_tags r') (r_config r')) (ea_after acc),
                      ea_results = ea_results acc @ [result]\<rparr>)
              else
                ret \<lparr>ea_byId = ea_byId acc, ea_before = before,
                      ea_after = AList.update (a_resourceId a)
                        (if p_dryRun plan then Preview st else Snap (r_tags r) (r_config r)) (ea_after acc),
                      ea_results = ea_results acc @ [result]\<rparr>)"

definition failed_results :: "action_result list \<Rightarrow> nat" where
  "failed_results results = length (filter (\<lambda>r. \<not> ar_ok r) results)"

definition execution_status :: "action_result list \<Rightarrow> exec_status" where
  "execution_status results =
     (let failed = failed_results results in
      if failed = 0 then Succeeded
      else if failed = length results then ExecFailed else PartialFailure)"

definition new_execution ::
  "string \<Rightarrow> oid \<Rightarrow> oid \<Rightarrow> string \<Rightarrow> string \<Rightarrow> exec_input \<Rightarrow> bool \<Rightarrow> exec_acc \<Rightarrow> int \<Rightarrow> int \<Rightarrow>
    oid \<Rightarrow> execution" where
  "new_execution workspaceId planId tokenId actorId correlationId input dryRun acc started completed i =
     \<lparr>x_id = i, x_workspaceId = workspaceId, x_planId = planId, x_approvalTokenId = tokenId,
       x_idempotencyKey = xi_idempotencyKey input, x_correlationId = correlationId,
       x_status = execution_status (ea_results acc), x_dryRun = dryRun,
       x_beforeState = ea_before acc, x_afterState = ea_after acc, x_results = ea_results acc,
       x_startedAt = started, x_completedAt = completed, x_createdBy = actorId\<rparr>"

definition final_plan_status :: "exec_status \<Rightarrow> plan_status" where
  "final_plan_status st = (if st = Succeeded then PlanCompleted else PlanFailed)"

definition set_plan_status :: "env \<Rightarrow> oid \<Rightarrow> plan_status \<Rightarrow> unit call" where
  "set_plan_status env planId st =
     save_doc db_plans db_plans_update (e_plans env) (\<lambda>p. p_id p = planId) (\<lambda>p. p\<lparr>p_status := st\<rparr>)"

definition execute_apply ::
  "env \<Rightarrow> rem_config \<Rightarrow> (nat \<Rightarrow> int) \<Rightarrow> string \<Rightarrow> oid \<Rightarrow> string \<Rightarrow> string \<Rightarrow> exec_input \<Rightarrow>
    plan \<Rightarrow> approval_token \<Rightarrow> (execution \<times> bool) call" where
  "execute_apply env cfg clk workspaceId planId actorId correlationId input plan matched =
     bind_io (ask db_resources (drv_find (e_resources env) (\<lambda>r.
       r_workspaceId r = workspaceId \<and> r_id r \<in> set (map a_resourceId (p_actions plan))))) (\<lambda>resources.
     bind_io (set_plan_status env (p_id plan) Executing) (\<lambda>_.
     bind_io (save_doc db_tokens db_tokens_update (e_tokens env) (\<lambda>t. t_id t = t_id matched)
       (\<lambda>t. t\<lparr>t_usedAt := Some (clk 1)\<rparr>)) (\<lambda>_.
     bind_io (for_io (run_action env cfg plan)
       \<lparr>ea_byId = map_of (rev (map (\<lambda>r. (r_id r, r)) resources)), ea_before = [], ea_after = [],
         ea_results = []\<rparr> (p_actions plan)) (\<lambda>acc.
     bind_io (tell db_executions db_executions_update (drv_create (e_executions env)
       (new_execution workspaceId planId (t_id matched) actorId correlationId input (p_dryRun plan) acc
          (clk 2) (clk 3)))) (\<lambda>execution.
     bind_io (set_plan_status env (p_id plan) (final_plan_status (execution_status (ea_results acc)))) (\<lambda>_.
     bind_io (record_audit env (clk 4) workspaceId actorId ''remediation.execute'' ''RemediationExecution''
       (Some (x_id execution)) correlationId
       (Some [(''status'', JStr (exec_status_str (execution_status (ea_results acc)))),
              (''dryRun'', JBool (p_dryRun plan)),
              (''failed'', JNum (of_nat (failed_results (ea_results acc))))])) (\<lambda>_.
     ret (execution, False))))))))"

definition execute ::
  "env \<Rightarrow> rem_config \<Rightarrow> (string \<Rightarrow> string) \<Rightarrow> (nat \<Rightarrow> int) \<Rightarrow> string \<Rightarrow> oid \<Rightarrow> string \<Rightarrow> string \<Rightarrow>
    exec_input \<Rightarrow> (execution \<times> bool) call" where
  "execute env cfg hash clk workspaceId planId actorId correlationId input =
     bind_io (ask db_executions (drv_findOne (e_executions env) (\<lambda>x.
       x_workspaceId x = workspaceId \<and> x_idempotencyKey x = xi_idempotencyKey input))) (\<lambda>existing.
     case existing of
       Some e \<Rightarrow> ret (e, True)
     | None \<Rightarrow>
     bind_io (execute_checks env cfg hash (clk 0) workspaceId planId input) (\<lambda>(plan, matched).
     execute_apply env cfg clk workspaceId planId actorId correlationId input plan matched))"

end
