(* ===== verification/Schemas.thy ===== *)
theory Schemas
  imports Auth Resource_Service Remediation_Service
begin

text \<open>
  \<^verbatim>\<open>packages/shared/src/schemas.ts\<close> and \<^verbatim>\<open>apps/api/src/middleware/validate.ts\<close>: what a request must
  look like. A parser answers with the parsed input or refuses (\<open>None\<close>); keys that a schema does not
  name are dropped. Query values are JSON values because Express also parses arrays and objects
  out of a query string. \<^verbatim>\<open>z.coerce.number()\<close> is \<^verbatim>\<open>Number(v)\<close>, written out here for what a query can hold; lengths
  count characters. The regular expression behind \<^verbatim>\<open>z.string().email()\<close> is zod's: a parameter.
\<close>

section \<open>\<^verbatim>\<open>Number\<close>\<close>

definition is_space :: "char \<Rightarrow> bool" where
  "is_space c \<longleftrightarrow> (let n = of_char c :: nat in 9 \<le> n \<and> n \<le> 13 \<or> n = 32 \<or> n = 160)"

definition js_trim :: "string \<Rightarrow> string" where
  "js_trim s = rev (dropWhile is_space (rev (dropWhile is_space s)))"

definition digit_value :: "char \<Rightarrow> nat option" where
  "digit_value c = (let n = of_char c :: nat in
     if 48 \<le> n \<and> n \<le> 57 then Some (n - 48)
     else if 65 \<le> n \<and> n \<le> 70 then Some (n - 55)
     else if 97 \<le> n \<and> n \<le> 102 then Some (n - 87) else None)"

definition is_digit_of :: "nat \<Rightarrow> char \<Rightarrow> bool" where
  "is_digit_of base c \<longleftrightarrow> (case digit_value c of None \<Rightarrow> False | Some d \<Rightarrow> d < base)"

definition digits_value :: "nat \<Rightarrow> string \<Rightarrow> nat" where
  "digits_value base s = foldl (\<lambda>n c. n * base + the (digit_value c)) 0 s"

definition is_sign :: "char \<Rightarrow> bool" where
  "is_sign c \<longleftrightarrow> c = CHR ''+'' \<or> c = CHR ''-''"

definition unsigned :: "string \<Rightarrow> string" where
  "unsigned s = (if s \<noteq> [] \<and> is_sign (hd s) then tl s else s)"

definition sign_of :: "string \<Rightarrow> rat" where
  "sign_of s = (if s \<noteq> [] \<and> hd s = CHR ''-'' then - 1 else 1)"

text \<open>An exponent part: empty, or \<^verbatim>\<open>e\<close> with an optional sign and at least one digit.\<close>

definition exponent :: "string \<Rightarrow> rat option" where
  "exponent s =
     (case s of
        [] \<Rightarrow> Some 1
      | c # r \<Rightarrow>
          if (c = CHR ''e'' \<or> c = CHR ''E'') \<and> unsigned r \<noteq> [] \<and> list_all (is_digit_of 10) (unsigned r)
          then Some (if sign_of r < 0 then 1 / 10 ^ digits_value 10 (unsigned r)
                     else 10 ^ digits_value 10 (unsigned r))
          else None)"

definition decimal :: "string \<Rightarrow> rat option" where
  "decimal s =
     (let ip = takeWhile (is_digit_of 10) s; r = dropWhile (is_digit_of 10) s;
          dot = (r \<noteq> [] \<and> hd r = CHR ''.'');
          fp = (if dot then takeWhile (is_digit_of 10) (tl r) else []);
          r2 = (if dot then dropWhile (is_digit_of 10) (tl r) else r)
      in if ip = [] \<and> fp = [] then None
         else map_option (\<lambda>e. of_nat (digits_value 10 (ip @ fp)) / 10 ^ length fp * e) (exponent r2))"

definition radix_of :: "string \<Rightarrow> nat option" where
  "radix_of s =
     (if take 2 s \<in> {''0x'', ''0X''} then Some 16
      else if take 2 s \<in> {''0o'', ''0O''} then Some 8
      else if take 2 s \<in> {''0b'', ''0B''} then Some 2 else None)"

text \<open>\<open>None\<close> is a value that is no finite number.\<close>

definition js_number :: "string \<Rightarrow> rat option" where
  "js_number s =
     (let t = js_trim s in
      if t = [] then Some 0
      else (case radix_of t of
              Some base \<Rightarrow>
                if drop 2 t \<noteq> [] \<and> list_all (is_digit_of base) (drop 2 t)
                then Some (of_nat (digits_value base (drop 2 t))) else None
            | None \<Rightarrow> map_option (\<lambda>x. sign_of t * x) (decimal (unsigned t))))"

text \<open>An array is converted by joining its elements: the empty one is 0, a single element counts as
  itself, and several have a comma between them.\<close>

fun to_number :: "json \<Rightarrow> rat option" where
  "to_number (JStr s) = js_number s"
| "to_number (JNum x) = Some x"
| "to_number (JBool b) = Some (if b then 1 else 0)"
| "to_number JNull = Some 0"
| "to_number (JArr []) = Some 0"
| "to_number (JArr [x]) = (case x of JBool b \<Rightarrow> None | _ \<Rightarrow> to_number x)"
| "to_number (JArr (x # y # zs)) = None"
| "to_number (JObj fs) = None"


section \<open>Parsers\<close>

type_synonym query = "(string \<times> json) list"

text \<open>\<^verbatim>\<open>z.coerce.number().int().min(1)\<close> with an optional maximum and a default.\<close>

definition coerce_int :: "int option \<Rightarrow> int \<Rightarrow> json option \<Rightarrow> int option" where
  "coerce_int maximum dflt v =
     (case v of
        None \<Rightarrow> Some dflt
      | Some j \<Rightarrow>
          (case to_number j of
             None \<Rightarrow> None
           | Some x \<Rightarrow>
               if of_int \<lfloor>x\<rfloor> = x \<and> 1 \<le> \<lfloor>x\<rfloor> \<and> (case maximum of None \<Rightarrow> True | Some m \<Rightarrow> \<lfloor>x\<rfloor> \<le> m)
               then Some \<lfloor>x\<rfloor> else None))"

definition paginationSchema :: "query \<Rightarrow> (int \<times> int) option" where
  "paginationSchema q =
     (case coerce_int None 1 (map_of q ''page'') of
        None \<Rightarrow> None
      | Some pg \<Rightarrow>
          (case coerce_int (Some (int MAX_PAGE_SIZE)) (int DEFAULT_PAGE_SIZE) (map_of q ''limit'') of
             None \<Rightarrow> None
           | Some lm \<Rightarrow> Some (pg, lm)))"

text \<open>A string that satisfies \<open>ok\<close>; \<open>optional\<close> and \<open>required\<close> values of an object.\<close>

definition z_string :: "(string \<Rightarrow> bool) \<Rightarrow> json \<Rightarrow> string option" where
  "z_string ok v = (case v of JStr s \<Rightarrow> if ok s then Some s else None | _ \<Rightarrow> None)"

definition optional :: "(json \<Rightarrow> 'a option) \<Rightarrow> json option \<Rightarrow> 'a option option" where
  "optional parse v = (case v of None \<Rightarrow> Some None | Some j \<Rightarrow> map_option Some (parse j))"

definition required :: "(json \<Rightarrow> 'a option) \<Rightarrow> json option \<Rightarrow> 'a option" where
  "required parse v = (case v of None \<Rightarrow> None | Some j \<Rightarrow> parse j)"

fun z_all :: "(json \<Rightarrow> 'a option) \<Rightarrow> json list \<Rightarrow> 'a list option" where
  "z_all parse [] = Some []"
| "z_all parse (v # vs) =
     (case parse v of None \<Rightarrow> None | Some x \<Rightarrow> map_option ((#) x) (z_all parse vs))"

definition z_array :: "(json \<Rightarrow> 'a option) \<Rightarrow> json \<Rightarrow> 'a list option" where
  "z_array parse v = (case v of JArr vs \<Rightarrow> z_all parse vs | _ \<Rightarrow> None)"

definition any_string :: "json \<Rightarrow> string option" where
  "any_string = z_string (\<lambda>_. True)"

definition sized :: "nat \<Rightarrow> nat \<Rightarrow> json \<Rightarrow> string option" where
  "sized lo hi = z_string (\<lambda>s. lo \<le> length s \<and> length s \<le> hi)"

definition nonempty :: "json \<Rightarrow> string option" where
  "nonempty = z_string (\<lambda>s. s \<noteq> [])"

definition RESOURCE_TYPES :: "resource_type list" where
  "RESOURCE_TYPES = [Ec2, S3, Lambda, Cloudwatch]"

definition z_resource_type :: "json \<Rightarrow> resource_type option" where
  "z_resource_type v =
     (case v of JStr s \<Rightarrow> List.find (\<lambda>t. resource_type_str t = s) RESOURCE_TYPES | _ \<Rightarrow> None)"

definition object :: "json \<Rightarrow> (string \<times> json) list option" where
  "object v = (case v of JObj fs \<Rightarrow> Some fs | _ \<Rightarrow> None)"


section \<open>The schemas\<close>

definition syncResourcesSchema :: "json \<Rightarrow> inventory_query option" where
  "syncResourcesSchema body =
     (case object body of None \<Rightarrow> None | Some fs \<Rightarrow>
     (case optional (z_array z_resource_type) (map_of fs ''types'') of None \<Rightarrow> None | Some ts \<Rightarrow>
     (case optional nonempty (map_of fs ''region'') of None \<Rightarrow> None | Some g \<Rightarrow>
        Some \<lparr>iq_types = ts, iq_region = g\<rparr>)))"

definition createDiagnosticJobSchema :: "json \<Rightarrow> job_input option" where
  "createDiagnosticJobSchema body =
     (case object body of None \<Rightarrow> None | Some fs \<Rightarrow>
     (case optional (z_array nonempty) (map_of fs ''resourceIds'') of None \<Rightarrow> None | Some ids \<Rightarrow>
     (case optional (z_array z_resource_type) (map_of fs ''resourceTypes'') of None \<Rightarrow> None | Some ts \<Rightarrow>
     (case required (sized 8 128) (map_of fs ''idempotencyKey'') of None \<Rightarrow> None | Some k \<Rightarrow>
        Some \<lparr>ji_resourceIds = ids, ji_resourceTypes = map_option (map resource_type_str) ts,
              ji_idempotencyKey = k\<rparr>))))"

definition z_boolean :: "json \<Rightarrow> bool option" where
  "z_boolean v = (case v of JBool b \<Rightarrow> Some b | _ \<Rightarrow> None)"

definition createRemediationPlanSchema :: "json \<Rightarrow> plan_input option" where
  "createRemediationPlanSchema body =
     (case object body of None \<Rightarrow> None | Some fs \<Rightarrow>
     (case required (z_array nonempty) (map_of fs ''findingIds'') of None \<Rightarrow> None | Some ids \<Rightarrow>
     if ids = [] then None else
     (case optional z_boolean (map_of fs ''dryRun'') of None \<Rightarrow> None | Some d \<Rightarrow>
     (case required (sized 8 128) (map_of fs ''idempotencyKey'') of None \<Rightarrow> None | Some k \<Rightarrow>
        Some \<lparr>pi_findingIds = ids, pi_dryRun = with_default d True, pi_idempotencyKey = k\<rparr>))))"

definition executeRemediationSchema :: "json \<Rightarrow> exec_input option" where
  "executeRemediationSchema body =
     (case object body of None \<Rightarrow> None | Some fs \<Rightarrow>
     (case required (z_string (\<lambda>s. 16 \<le> length s)) (map_of fs ''approvalToken'') of None \<Rightarrow> None | Some t \<Rightarrow>
     (case required (sized 8 128) (map_of fs ''idempotencyKey'') of None \<Rightarrow> None | Some k \<Rightarrow>
        Some \<lparr>xi_approvalToken = t, xi_idempotencyKey = k\<rparr>)))"

definition loginSchema :: "(string \<Rightarrow> bool) \<Rightarrow> json \<Rightarrow> (string \<times> string) option" where
  "loginSchema is_email body =
     (case object body of None \<Rightarrow> None | Some fs \<Rightarrow>
     (case required (z_string is_email) (map_of fs ''email'') of None \<Rightarrow> None | Some e \<Rightarrow>
     (case required (sized 8 128) (map_of fs ''password'') of None \<Rightarrow> None | Some p \<Rightarrow> Some (e, p))))"

definition listResourcesQuerySchema :: "query \<Rightarrow> resource_query option" where
  "listResourcesQuerySchema q =
     (case paginationSchema q of None \<Rightarrow> None | Some (pg, lm) \<Rightarrow>
     (case optional z_resource_type (map_of q ''type'') of None \<Rightarrow> None | Some t \<Rightarrow>
     (case optional any_string (map_of q ''region'') of None \<Rightarrow> None | Some g \<Rightarrow>
     (case optional (sized 0 120) (map_of q ''q'') of None \<Rightarrow> None | Some txt \<Rightarrow>
        Some \<lparr>rq_page = pg, rq_limit = lm, rq_type = map_option resource_type_str t,
              rq_region = g, rq_q = txt\<rparr>))))"

record list_query =
  lq_page :: int
  lq_limit :: int
  lq_first :: "string option"
  lq_second :: "string option"
  lq_third :: "string option"

text \<open>Pagination with optional string parameters, the first of which may have to pass a check.\<close>

definition list_schema ::
  "(json \<Rightarrow> string option) \<Rightarrow> string \<Rightarrow> string \<Rightarrow> string \<Rightarrow> query \<Rightarrow> list_query option" where
  "list_schema parse a b c q =
     (case paginationSchema q of None \<Rightarrow> None | Some (pg, lm) \<Rightarrow>
     (case optional parse (map_of q a) of None \<Rightarrow> None | Some x \<Rightarrow>
     (case optional any_string (map_of q b) of None \<Rightarrow> None | Some y \<Rightarrow>
     (case optional any_string (map_of q c) of None \<Rightarrow> None | Some z \<Rightarrow>
        Some \<lparr>lq_page = pg, lq_limit = lm, lq_first = x, lq_second = y, lq_third = z\<rparr>))))"

text \<open>A schema with fewer parameters repeats the last one.\<close>

definition listJobsQuerySchema :: "query \<Rightarrow> list_query option" where
  "listJobsQuerySchema = list_schema any_string ''status'' ''status'' ''status''"

definition listFindingsQuerySchema :: "query \<Rightarrow> list_query option" where
  "listFindingsQuerySchema = list_schema any_string ''severity'' ''resourceId'' ''jobId''"

definition listRecommendationsQuerySchema :: "query \<Rightarrow> list_query option" where
  "listRecommendationsQuerySchema =
     list_schema (z_string (\<lambda>s. s \<in> set (ALLOWLISTED_ACTIONS @ [''manual_review'']))) ''actionType'' ''jobId'' ''jobId''"

definition listAuditQuerySchema :: "query \<Rightarrow> list_query option" where
  "listAuditQuerySchema = list_schema any_string ''action'' ''actorId'' ''actorId''"

text \<open>\<^verbatim>\<open>validate\<close>: the parsed input goes on to the handler, or the request is refused with the issues.\<close>

definition validate :: "('i \<Rightarrow> 'a option) \<Rightarrow> ('i \<Rightarrow> (string \<times> string) list) \<Rightarrow> 'i \<Rightarrow> app_error + 'a" where
  "validate schema flatten input =
     (case schema input of
        None \<Rightarrow> Inl (ValidationError ''Request validation failed'' (Some (flatten input)))
      | Some x \<Rightarrow> Inr x)"


section \<open>What passes\<close>

lemma coerce_int_bounds:
  assumes "coerce_int maximum dflt v = Some i" "1 \<le> dflt" "\<And>m. maximum = Some m \<Longrightarrow> dflt \<le> m"
  shows "1 \<le> i \<and> (\<forall>m. maximum = Some m \<longrightarrow> i \<le> m)"
  using assms by (auto simp: coerce_int_def split: option.splits if_splits)

lemma pagination_bounds:
  assumes "paginationSchema q = Some (pg, lm)"
  shows "1 \<le> pg \<and> 1 \<le> lm \<and> lm \<le> 100"
proof -
  from assms have c: "coerce_int None 1 (map_of q ''page'') = Some pg"
    "coerce_int (Some (int MAX_PAGE_SIZE)) (int DEFAULT_PAGE_SIZE) (map_of q ''limit'') = Some lm"
    by (auto simp: paginationSchema_def split: option.splits)
  from coerce_int_bounds [OF c(1)] coerce_int_bounds [OF c(2)] show ?thesis
    by (simp add: MAX_PAGE_SIZE_def DEFAULT_PAGE_SIZE_def)
qed

lemma list_schema_bounds:
  "list_schema parse a b c q = Some l \<Longrightarrow> 1 \<le> lq_page l \<and> 1 \<le> lq_limit l \<and> lq_limit l \<le> 100"
  by (auto simp: list_schema_def split: option.splits prod.splits dest: pagination_bounds)

lemma resources_schema_bounds:
  "listResourcesQuerySchema q = Some l \<Longrightarrow> 1 \<le> rq_page l \<and> 1 \<le> rq_limit l \<and> rq_limit l \<le> 100"
  by (auto simp: listResourcesQuerySchema_def split: option.splits prod.splits dest: pagination_bounds)

lemma number_examples:
  "js_number '' 42 '' = Some 42" "js_number ''-3.5'' = Some (- 7 / 2)" "js_number ''1e2'' = Some 100"
  "js_number ''0x1F'' = Some 31" "js_number ''2.50'' = Some (5 / 2)" "js_number ''x'' = None"
  "js_number [] = Some 0" "js_number ''1_000'' = None"
  by code_simp+

end
