(* ===== verification/Circuit_Breaker.thy ===== *)
theory Circuit_Breaker
  imports Domain
begin

text \<open>
  \<^verbatim>\<open>packages/shared/src/observability/circuit-breaker.ts\<close>. The class is the record \<open>breaker\<close>;
  \<^verbatim>\<open>exec\<close> is a computation on the breaker and on the state that the guarded function changes. Calls
  overlap in the worker, so the breaker is also a machine over the events of many calls: a call
  starts (or the state is polled) at a time, a call returned, a call threw at a time. The
  specification counts the failures since the last success and remembers the last failure; the
  refinement says that the breaker rejects exactly when that count has reached the threshold and
  the reset timeout has not yet passed.
\<close>

section \<open>The class\<close>

datatype circuit_state = Closed | Open | HalfOpen

record breaker =
  cb_failures :: int
  cb_state :: circuit_state
  cb_openedAt :: int
  cb_failureThreshold :: int
  cb_resetTimeoutMs :: int

definition CircuitBreaker :: "int \<Rightarrow> int \<Rightarrow> breaker" where
  "CircuitBreaker failureThreshold resetTimeoutMs =
     \<lparr> cb_failures = 0, cb_state = Closed, cb_openedAt = 0,
       cb_failureThreshold = failureThreshold, cb_resetTimeoutMs = resetTimeoutMs \<rparr>"

definition maybeHalfOpen :: "int \<Rightarrow> breaker \<Rightarrow> breaker" where
  "maybeHalfOpen now b =
     (if cb_state b = Open \<and> now - cb_openedAt b \<ge> cb_resetTimeoutMs b
      then b\<lparr>cb_state := HalfOpen\<rparr> else b)"

definition onSuccess :: "breaker \<Rightarrow> breaker" where
  "onSuccess b = b\<lparr>cb_failures := 0, cb_state := Closed\<rparr>"

definition onFailure :: "int \<Rightarrow> breaker \<Rightarrow> breaker" where
  "onFailure now b =
     (let b1 = b\<lparr>cb_failures := cb_failures b + 1\<rparr>
      in if cb_state b1 = HalfOpen \<or> cb_failures b1 \<ge> cb_failureThreshold b1
         then b1\<lparr>cb_state := Open, cb_openedAt := now\<rparr> else b1)"

definition getState :: "int \<Rightarrow> breaker \<Rightarrow> breaker \<times> circuit_state" where
  "getState now b = (let b1 = maybeHalfOpen now b in (b1, cb_state b1))"

definition breaker_open_error :: thrown where
  "breaker_open_error = AppErr (DependencyError ''Diagnostics circuit breaker is open'' True)"

text \<open>\<open>now\<close> is the time at which \<^verbatim>\<open>exec\<close> is entered, \<open>later\<close> the time at which \<^verbatim>\<open>fn\<close> has thrown.\<close>

definition exec :: "int \<Rightarrow> int \<Rightarrow> ('s, thrown, 'a) io \<Rightarrow> (breaker \<times> 's, thrown, 'a) io" where
  "exec now later fn = (\<lambda>(b, s).
     let b1 = maybeHalfOpen now b
     in if cb_state b1 = Open then ((b1, s), Inl breaker_open_error)
        else (case fn s of
                (s', Inr result) \<Rightarrow> ((onSuccess b1, s'), Inr result)
              | (s', Inl err) \<Rightarrow> ((onFailure later b1, s'), Inl err)))"

lemmas breaker_defs = maybeHalfOpen_def onSuccess_def onFailure_def getState_def exec_def Let_def


section \<open>The breaker under overlapping calls\<close>

datatype cb_event = Enter int | Returned | Threw int

fun cb_step :: "breaker \<Rightarrow> cb_event \<Rightarrow> breaker" where
  "cb_step b (Enter now) = maybeHalfOpen now b"
| "cb_step b Returned = onSuccess b"
| "cb_step b (Threw now) = onFailure now b"

text \<open>A sequential \<^verbatim>\<open>exec\<close> is entering, and if it is not rejected, returning or throwing.\<close>

lemma exec_events:
  "exec now later fn (b, s) =
     (if cb_state (cb_step b (Enter now)) = Open
      then ((cb_step b (Enter now), s), Inl breaker_open_error)
      else (case fn s of
              (s', Inr x) \<Rightarrow> ((run cb_step b [Enter now, Returned], s'), Inr x)
            | (s', Inl e) \<Rightarrow> ((run cb_step b [Enter now, Threw later], s'), Inl e)))"
  by (simp add: exec_def Let_def split: prod.split sum.split)

definition cb_inv :: "breaker \<Rightarrow> bool" where
  "cb_inv b \<longleftrightarrow> 1 \<le> cb_failureThreshold b \<and> 0 \<le> cb_failures b \<and>
     (cb_state b = Closed \<longleftrightarrow> cb_failures b < cb_failureThreshold b)"

lemma cb_inv_init: "1 \<le> n \<Longrightarrow> cb_inv (CircuitBreaker n t)"
  by (simp add: cb_inv_def CircuitBreaker_def)

lemma cb_step_inv: "cb_inv b \<Longrightarrow> cb_inv (cb_step b e)"
  by (cases e) (auto simp: cb_inv_def breaker_defs)

interpretation cb: invariant_system cb_step "\<lambda>_. True" cb_inv
  by unfold_locales (rule cb_step_inv)

lemma cb_step_config [simp]:
  "cb_failureThreshold (cb_step b e) = cb_failureThreshold b"
  "cb_resetTimeoutMs (cb_step b e) = cb_resetTimeoutMs b"
  by (cases e; simp add: breaker_defs)+

lemma cb_run_config [simp]:
  "cb_failureThreshold (run cb_step b es) = cb_failureThreshold b"
  "cb_resetTimeoutMs (run cb_step b es) = cb_resetTimeoutMs b"
  by (induction es arbitrary: b) simp_all

text \<open>
  Whatever the interleaving of overlapping calls, the breaker is closed exactly when fewer
  failures than the threshold were counted since the last success.
\<close>

theorem breaker_closed_iff:
  assumes "1 \<le> failureThreshold"
  shows "cb_state (run cb_step (CircuitBreaker failureThreshold resetTimeoutMs) es) = Closed \<longleftrightarrow>
    cb_failures (run cb_step (CircuitBreaker failureThreshold resetTimeoutMs) es) < failureThreshold"
proof -
  have "cb_inv (run cb_step (CircuitBreaker failureThreshold resetTimeoutMs) es)"
    by (rule cb.inv_run) (simp_all add: cb_inv_init assms)
  then show ?thesis by (simp add: cb_inv_def) (simp add: CircuitBreaker_def)
qed

theorem breaker_closed_iff_witness:
  "cb_state (run cb_step (CircuitBreaker 2 10000) [Enter 0, Threw 5, Enter 7, Threw 9]) = Closed \<longleftrightarrow>
    cb_failures (run cb_step (CircuitBreaker 2 10000) [Enter 0, Threw 5, Enter 7, Threw 9]) < 2"
  by (rule breaker_closed_iff) simp


section \<open>The specification\<close>

text \<open>What a history of events means: failures since the last success, time of the last failure.\<close>

fun spec_step :: "nat \<times> int \<Rightarrow> cb_event \<Rightarrow> nat \<times> int" where
  "spec_step (n, t) (Enter now) = (n, t)"
| "spec_step (n, t) Returned = (0, t)"
| "spec_step (n, t) (Threw now) = (Suc n, now)"

definition spec_rejects :: "int \<Rightarrow> int \<Rightarrow> cb_event list \<Rightarrow> int \<Rightarrow> bool" where
  "spec_rejects threshold reset es now =
     (case run spec_step (0, 0) es of (n, t) \<Rightarrow> threshold \<le> int n \<and> now - t < reset)"

text \<open>The clock does not run backwards: the times of a history are at most \<open>now\<close>.\<close>

fun event_time :: "cb_event \<Rightarrow> int option" where
  "event_time (Enter t) = Some t"
| "event_time Returned = None"
| "event_time (Threw t) = Some t"

fun clocked :: "int \<Rightarrow> cb_event list \<Rightarrow> int \<Rightarrow> bool" where
  "clocked t0 [] now \<longleftrightarrow> t0 \<le> now"
| "clocked t0 (e # es) now \<longleftrightarrow>
     (case event_time e of None \<Rightarrow> clocked t0 es now | Some t \<Rightarrow> t0 \<le> t \<and> clocked t es now)"

definition cb_sim :: "breaker \<Rightarrow> nat \<times> int \<Rightarrow> int \<Rightarrow> bool" where
  "cb_sim b a t0 \<longleftrightarrow> cb_inv b \<and> cb_failures b = int (fst a) \<and>
     (cb_state b \<noteq> Closed \<longrightarrow> cb_openedAt b = snd a) \<and>
     (cb_state b = HalfOpen \<longrightarrow> cb_resetTimeoutMs b \<le> t0 - snd a)"

lemma cb_sim_step:
  assumes "cb_sim b a t0" "case event_time e of None \<Rightarrow> t = t0 | Some t' \<Rightarrow> t = t' \<and> t0 \<le> t'"
  shows "cb_sim (cb_step b e) (spec_step a e) t"
proof -
  obtain n u where a: "a = (n, u)" by (cases a)
  have "cb_inv (cb_step b e)"
    using assms(1) by (simp add: cb_sim_def cb_step_inv)
  with assms a show ?thesis
    by (cases e) (auto simp: cb_sim_def cb_inv_def breaker_defs)
qed

lemma cb_sim_rejects:
  assumes "cb_sim b a t0" "t0 \<le> now"
  shows "cb_state (maybeHalfOpen now b) = Open \<longleftrightarrow>
    cb_failureThreshold b \<le> int (fst a) \<and> now - snd a < cb_resetTimeoutMs b"
  using assms by (cases "cb_state b") (auto simp: cb_sim_def cb_inv_def maybeHalfOpen_def)

lemma cb_sim_run:
  assumes "cb_sim b a t0" "clocked t0 es now"
  shows "\<exists>t \<le> now. cb_sim (run cb_step b es) (run spec_step a es) t"
  using assms
proof (induction es arbitrary: b a t0)
  case Nil
  then show ?case by auto
next
  case (Cons e es)
  show ?case
  proof (cases "event_time e")
    case None
    with Cons.prems have "cb_sim (cb_step b e) (spec_step a e) t0" "clocked t0 es now"
      by (simp_all add: cb_sim_step)
    from Cons.IH [OF this] show ?thesis by simp
  next
    case (Some t)
    with Cons.prems have "cb_sim (cb_step b e) (spec_step a e) t" "clocked t es now"
      by (simp_all add: cb_sim_step)
    from Cons.IH [OF this] show ?thesis by simp
  qed
qed

text \<open>
  C18. Refinement: after any history of overlapping calls, an \<^verbatim>\<open>exec\<close> entered at \<open>now\<close> throws the
  breaker's error without calling the function exactly when the specification rejects: at least
  threshold failures since the last success, the last of them less than the reset timeout ago.
\<close>

theorem breaker_refines_spec:
  assumes "1 \<le> failureThreshold" "clocked 0 es now"
    and "b = run cb_step (CircuitBreaker failureThreshold resetTimeoutMs) es"
  shows "if spec_rejects failureThreshold resetTimeoutMs es now
    then exec now later fn (b, s) = ((b, s), Inl breaker_open_error)
    else snd (exec now later fn (b, s)) = snd (fn s) \<and> snd (fst (exec now later fn (b, s))) = fst (fn s)"
proof -
  have "cb_sim (CircuitBreaker failureThreshold resetTimeoutMs) (0, 0) 0"
    using assms(1) by (simp add: cb_sim_def cb_inv_init) (simp add: CircuitBreaker_def)
  from cb_sim_run [OF this assms(2)] obtain t where
    t: "t \<le> now" "cb_sim b (run spec_step (0, 0) es) t" by (auto simp: assms(3))
  have cfg: "cb_failureThreshold b = failureThreshold" "cb_resetTimeoutMs b = resetTimeoutMs"
    by (simp_all add: assms(3)) (simp_all add: CircuitBreaker_def)
  have rej: "cb_state (maybeHalfOpen now b) = Open \<longleftrightarrow>
      spec_rejects failureThreshold resetTimeoutMs es now"
    using cb_sim_rejects [OF t(2,1)] by (simp add: cfg spec_rejects_def split: prod.split)
  moreover have "cb_state (maybeHalfOpen now b) = Open \<Longrightarrow> maybeHalfOpen now b = b"
    by (auto simp: maybeHalfOpen_def split: if_splits)
  ultimately show ?thesis
    by (cases "spec_rejects failureThreshold resetTimeoutMs es now"; cases "fn s"; cases "snd (fn s)")
      (auto simp: exec_def Let_def)
qed

theorem breaker_refines_spec_witness:
  "spec_rejects 2 10000 [Enter 0, Threw 5, Enter 7, Threw 9] 100 \<and>
   exec 100 200 (ret True)
       (run cb_step (CircuitBreaker 2 10000) [Enter 0, Threw 5, Enter 7, Threw 9], ())
     = ((run cb_step (CircuitBreaker 2 10000) [Enter 0, Threw 5, Enter 7, Threw 9], ()), Inl breaker_open_error)"
proof -
  have h: "spec_rejects 2 10000 [Enter 0, Threw 5, Enter 7, Threw 9] 100"
    by (simp add: spec_rejects_def)
  have "clocked 0 [Enter 0, Threw 5, Enter 7, Threw 9] 100" by simp
  from breaker_refines_spec [OF _ this refl, of 2 10000 200 "ret True" "()"] h
  show ?thesis by (simp del: run.simps)
qed

text \<open>
  A call admitted at or after the reset timeout decides the breaker: if it returns, the breaker
  is closed with no failures; if it throws, the breaker is open again from the time of the throw.
\<close>

theorem breaker_probe:
  assumes "cb_inv b" "cb_state b = Open" "cb_resetTimeoutMs b \<le> now - cb_openedAt b"
  shows "(\<forall>s' x. fn s = (s', Inr x) \<longrightarrow>
      exec now later fn (b, s) = ((b\<lparr>cb_failures := 0, cb_state := Closed\<rparr>, s'), Inr x))
    \<and> (\<forall>s' e. fn s = (s', Inl e) \<longrightarrow>
      exec now later fn (b, s) =
        ((b\<lparr>cb_failures := cb_failures b + 1, cb_openedAt := later\<rparr>, s'), Inl e))"
  using assms by (auto simp: breaker_defs cb_inv_def)

theorem breaker_probe_witness:
  "exec 15000 15001 (ret True) (\<lparr>cb_failures = 5, cb_state = Open, cb_openedAt = 0,
      cb_failureThreshold = 5, cb_resetTimeoutMs = 15000\<rparr>, ()) =
    ((\<lparr>cb_failures = 0, cb_state = Closed, cb_openedAt = 0,
      cb_failureThreshold = 5, cb_resetTimeoutMs = 15000\<rparr>, ()), Inr True)"
  using breaker_probe [of "\<lparr>cb_failures = 5, cb_state = Open, cb_openedAt = 0,
      cb_failureThreshold = 5, cb_resetTimeoutMs = 15000\<rparr>" 15000 "ret True" "()" 15001,
      THEN conjunct1, rule_format, of "()" True]
  by (simp add: cb_inv_def)

end
