(* ===== verification/Diagnostics_Client.thy ===== *)
theory Diagnostics_Client
  imports Circuit_Breaker Backoff
begin

text \<open>
  \<^verbatim>\<open>packages/shared/src/diagnostics/client.ts\<close>: the HTTP client of the diagnostics service, behind the
  circuit breaker. \<^verbatim>\<open>fetch\<close> is a parameter: it maps a request to the promise of a response. The body
  of a response is what \<^verbatim>\<open>response.json()\<close> settles with; the code trusts its shape, and so does
  the type here.
\<close>

section \<open>Requests and responses\<close>

record diag_resource =
  dq_id :: oid
  dq_type :: resource_type
  dq_region :: string
  dq_name :: string
  dq_tags :: tags
  dq_config :: res_config
  dq_metrics :: res_metrics

record diag_request =
  dr_workspaceId :: string
  dr_correlationId :: string
  dr_resources :: "diag_resource list"

record diag_finding =
  df_resourceId :: string
  df_ruleId :: string
  df_severity :: string
  df_title :: string
  df_description :: string
  df_evidence :: "(string \<times> json) list"
  df_actionType :: string
  df_explanation :: string
  df_estimatedImpact :: string
  df_confidence :: rat

type_synonym diag_result = "diag_finding list"

record 'b http_response =
  rsp_status :: int
  rsp_json :: "thrown + 'b"

text \<open>\<^verbatim>\<open>response.ok\<close>: a status of the class 2xx.\<close>

definition rsp_ok :: "'b http_response \<Rightarrow> bool" where
  "rsp_ok r \<longleftrightarrow> 200 \<le> rsp_status r \<and> rsp_status r \<le> 299"

record http_post =
  hp_url :: string
  hp_headers :: "(string \<times> string) list"
  hp_body :: diag_request

type_synonym fetch_post = "http_post \<Rightarrow> diag_result http_response promise"
type_synonym fetch_get = "string \<Rightarrow> unit http_response promise"


section \<open>The client\<close>

record diag_client =
  dc_baseUrl :: string
  dc_timeoutMs :: int

text \<open>\<^verbatim>\<open>baseUrl.replace(/\/$/, '')\<close>: one slash at the end is dropped.\<close>

definition strip_slash :: "string \<Rightarrow> string" where
  "strip_slash u = (if u \<noteq> [] \<and> last u = CHR ''/'' then butlast u else u)"

definition analyze_request :: "diag_client \<Rightarrow> diag_request \<Rightarrow> http_post" where
  "analyze_request cl payload =
     \<lparr> hp_url = strip_slash (dc_baseUrl cl) @ ''/v1/analyze'',
       hp_headers = [(''content-type'', ''application/json''),
                     (''x-correlation-id'', dr_correlationId payload)],
       hp_body = payload \<rparr>"

definition analyze_fn :: "diag_client \<Rightarrow> fetch_post \<Rightarrow> diag_request \<Rightarrow> thrown + diag_result" where
  "analyze_fn cl fetch payload =
     (case withTimeout (fetch (analyze_request cl payload) (dc_timeoutMs cl)) ''Diagnostics service timed out'' of
        Inl err \<Rightarrow> Inl err
      | Inr response \<Rightarrow>
          if \<not> rsp_ok response then
            Inl (AppErr (DependencyError (''Diagnostics returned HTTP '' @ js_int (rsp_status response))
                           (rsp_status response \<ge> 500)))
          else rsp_json response)"

definition analyze ::
  "diag_client \<Rightarrow> fetch_post \<Rightarrow> int \<Rightarrow> int \<Rightarrow> diag_request \<Rightarrow> (breaker \<times> 's, thrown, diag_result) io" where
  "analyze cl fetch now later payload = exec now later (\<lambda>s. (s, analyze_fn cl fetch payload))"

definition ready :: "diag_client \<Rightarrow> fetch_get \<Rightarrow> bool" where
  "ready cl fetch =
     (case withTimeout (fetch (strip_slash (dc_baseUrl cl) @ ''/health/ready'') (dc_timeoutMs cl))
             ''Diagnostics readiness timed out'' of
        Inr response \<Rightarrow> rsp_ok response
      | Inl _ \<Rightarrow> False)"


section \<open>What an analysis does\<close>

text \<open>An analysis touches nothing but the breaker.\<close>

lemma analyze_cases:
  assumes "analyze cl fetch now later payload (b, s) = (bs, r)"
  obtains (rejected) "cb_state (maybeHalfOpen now b) = Open" "bs = (maybeHalfOpen now b, s)"
      "r = Inl breaker_open_error"
  | (answered) result where "bs = (onSuccess (maybeHalfOpen now b), s)" "r = Inr result"
      "analyze_fn cl fetch payload = Inr result"
  | (failed) err where "bs = (onFailure later (maybeHalfOpen now b), s)" "r = Inl err"
      "analyze_fn cl fetch payload = Inl err"
proof (cases "cb_state (maybeHalfOpen now b) = Open")
  case True
  with assms rejected show ?thesis by (auto simp: analyze_def exec_def)
next
  case False
  show ?thesis
  proof (cases "analyze_fn cl fetch payload")
    case (Inl err)
    with assms False have "bs = (onFailure later (maybeHalfOpen now b), s)" "r = Inl err"
      by (simp_all add: analyze_def exec_def)
    then show ?thesis using Inl by (rule failed)
  next
    case (Inr result)
    with assms False have "bs = (onSuccess (maybeHalfOpen now b), s)" "r = Inr result"
      by (simp_all add: analyze_def exec_def)
    then show ?thesis using Inr by (rule answered)
  qed
qed

lemma analyze_state: "analyze cl fetch now later payload (b, s) = (bs, r) \<Longrightarrow> snd bs = s"
  by (erule analyze_cases) simp_all



end
