(* ===== verification/Api_Router.thy ===== *)
theory Api_Router
  imports Schemas Diagnostics_Client
begin

text \<open>
  The HTTP interface: \<^verbatim>\<open>apps/api/src/routes/api.ts\<close> with the middleware around it
  (\<^verbatim>\<open>middleware/correlation.ts\<close>, \<^verbatim>\<open>error-handler.ts\<close>, the mounting in \<^verbatim>\<open>app.ts\<close>). A request is its method,
  the segments of its path below \<^verbatim>\<open>/api/v1\<close>, its headers, query and body; the answer is a status and a
  reply. \<open>api_request\<close> is the whole chain: correlation id, login or authentication, route, role gate,
  validation, handler, and the error handler around all of it. The claims that the services read are
  strings when the server has signed the token; \<open>claim_text\<close> reads any other value as empty.
  What stands in front of the chain is modelled in \<open>Application\<close>.
\<close>

section \<open>Requests and replies\<close>

record request =
  aq_method :: string
  aq_path :: "string list"
  aq_authorization :: "string option"
  aq_correlationHeader :: "string option"
  aq_requestIdHeader :: "string option"
  aq_query :: query
  aq_body :: json

datatype reply =
    SyncR sync_reply
  | ResourcesR "cloud_resource page"
  | ResourceR cloud_resource
  | JobCreatedR job bool
  | JobsR "job page"
  | JobR job
  | FindingsR "finding page"
  | RecommendationsR "recommendation page"
  | PlanR plan bool
  | ApprovalR approval
  | ExecutionR execution bool
  | AuditR "audit_event page"
  | LoginR string fields
  | ErrorR string string "(string \<times> string) list option" string
  | NoRouteR

type_synonym response = "int \<times> reply"

record api_config =
  ap_env :: env
  ap_auth :: auth_config
  ap_jobs :: job_service
  ap_resources :: resource_config
  ap_remediations :: rem_config
  ap_jwt_verify :: "string \<Rightarrow> string \<Rightarrow> json option"
  ap_jwt_sign :: "(string \<times> json) list \<Rightarrow> string \<Rightarrow> string \<Rightarrow> string"
  ap_bcrypt_compare :: "string \<Rightarrow> string \<Rightarrow> bool"
  ap_hash :: "string \<Rightarrow> string"
  ap_regex :: "string \<Rightarrow> string \<Rightarrow> bool"
  ap_is_email :: "string \<Rightarrow> bool"
  ap_body_issues :: "json \<Rightarrow> (string \<times> string) list"
  ap_query_issues :: "query \<Rightarrow> (string \<times> string) list"

text \<open>What a request draws from outside: the clock, the random bytes of a token, a fresh UUID.\<close>

record draws =
  dw_clock :: "nat \<Rightarrow> int"
  dw_token :: string
  dw_uuid :: string

definition correlation_id :: "string \<Rightarrow> request \<Rightarrow> string" where
  "correlation_id uuid req =
     (let incoming = (if truthy (aq_correlationHeader req) then aq_correlationHeader req
                      else aq_requestIdHeader req)
      in if truthy incoming \<and> js_trim (the incoming) \<noteq> [] then js_trim (the incoming) else uuid)"

definition error_response :: "string \<Rightarrow> thrown \<Rightarrow> response" where
  "error_response correlationId err =
     (let e = (case err of AppErr e \<Rightarrow> e
               | _ \<Rightarrow> AppError ''Internal server error'' (Some 500) (Some ''INTERNAL_ERROR'') None None);
          hidden = (ae_statusCode e \<ge> 500)
      in (ae_statusCode e,
          ErrorR (ae_code e) (if hidden then ''Internal server error'' else ae_message e)
            (if hidden then None else ae_details e) correlationId))"

definition claim_text :: "json \<Rightarrow> string" where
  "claim_text v = (case v of JStr s \<Rightarrow> s | _ \<Rightarrow> [])"

text \<open>A middleware that either calls \<^verbatim>\<open>next(err)\<close> or goes on.\<close>

definition guarded :: "app_error + 'a \<Rightarrow> ('a \<Rightarrow> 'b call) \<Rightarrow> 'b call" where
  "guarded check k = (case check of Inl e \<Rightarrow> throw (AppErr e) | Inr x \<Rightarrow> k x)"

definition routeId :: "string \<Rightarrow> app_error + string" where
  "routeId i = (if i = [] then Inl (ValidationError ''Missing resource id'' None) else Inr i)"


section \<open>Handlers\<close>

definition with_body ::
  "api_config \<Rightarrow> request \<Rightarrow> (json \<Rightarrow> 'a option) \<Rightarrow> ('a \<Rightarrow> response call) \<Rightarrow> response call" where
  "with_body cfg req schema k = guarded (validate schema (ap_body_issues cfg) (aq_body req)) k"

definition with_query ::
  "api_config \<Rightarrow> request \<Rightarrow> (query \<Rightarrow> 'a option) \<Rightarrow> ('a \<Rightarrow> response call) \<Rightarrow> response call" where
  "with_query cfg req schema k = guarded (validate schema (ap_query_issues cfg) (aq_query req)) k"

definition for_roles :: "role list \<Rightarrow> json auth_claims \<Rightarrow> response call \<Rightarrow> response call" where
  "for_roles roles c k = guarded (requireRole roles (Some c)) (\<lambda>_. k)"

record caller =
  cl_workspace :: string
  cl_actor :: string
  cl_correlationId :: string

definition caller_of :: "json auth_claims \<Rightarrow> string \<Rightarrow> caller" where
  "caller_of c correlationId =
     \<lparr> cl_workspace = claim_text (c_workspaceId c), cl_actor = claim_text (c_sub c),
       cl_correlationId = correlationId \<rparr>"

definition sync_resources :: "api_config \<Rightarrow> draws \<Rightarrow> json auth_claims \<Rightarrow> caller \<Rightarrow> request \<Rightarrow> response call" where
  "sync_resources cfg dw c me req =
     for_roles [Admin, Operator] c (with_body cfg req syncResourcesSchema (\<lambda>input.
     bind_io (sync (ap_env cfg) (ap_resources cfg) (dw_clock dw) (cl_workspace me) (cl_actor me)
       (cl_correlationId me) input) (\<lambda>result.
     ret (202, SyncR result))))"

definition get_resources :: "api_config \<Rightarrow> caller \<Rightarrow> request \<Rightarrow> response call" where
  "get_resources cfg me req =
     with_query cfg req listResourcesQuerySchema (\<lambda>q.
     bind_io (list_resources (ap_env cfg) (ap_regex cfg) (cl_workspace me) q) (\<lambda>result.
     ret (200, ResourcesR result)))"

definition get_one_resource :: "api_config \<Rightarrow> caller \<Rightarrow> string \<Rightarrow> response call" where
  "get_one_resource cfg me raw =
     guarded (routeId raw) (\<lambda>i.
     bind_io (get_resource (ap_env cfg) (cl_workspace me) i) (\<lambda>item.
     case item of
       None \<Rightarrow> throw (AppErr (NotFoundError ''Resource not found''))
     | Some r \<Rightarrow> ret (200, ResourceR r)))"

definition post_diagnostics :: "api_config \<Rightarrow> draws \<Rightarrow> json auth_claims \<Rightarrow> caller \<Rightarrow> request \<Rightarrow> response call" where
  "post_diagnostics cfg dw c me req =
     for_roles [Admin, Operator] c (with_body cfg req createDiagnosticJobSchema (\<lambda>input.
     bind_io (create_job (ap_env cfg) (ap_jobs cfg) (dw_clock dw) (cl_workspace me) (cl_actor me)
       (cl_correlationId me) input) (\<lambda>(job, replayed).
     ret (if replayed then 200 else 202, JobCreatedR job replayed))))"

definition get_jobs :: "api_config \<Rightarrow> caller \<Rightarrow> request \<Rightarrow> response call" where
  "get_jobs cfg me req =
     with_query cfg req listJobsQuerySchema (\<lambda>q.
     bind_io (list_jobs (ap_env cfg) (cl_workspace me) (lq_page q) (lq_limit q) (lq_first q)) (\<lambda>result.
     ret (200, JobsR result)))"

definition get_one_job :: "api_config \<Rightarrow> caller \<Rightarrow> string \<Rightarrow> response call" where
  "get_one_job cfg me raw =
     guarded (routeId raw) (\<lambda>i.
     bind_io (get_job (ap_env cfg) (cl_workspace me) i) (\<lambda>job.
     case job of
       None \<Rightarrow> throw (AppErr (NotFoundError ''Job not found''))
     | Some j \<Rightarrow> ret (200, JobR j)))"

definition post_retry :: "api_config \<Rightarrow> draws \<Rightarrow> json auth_claims \<Rightarrow> caller \<Rightarrow> string \<Rightarrow> response call" where
  "post_retry cfg dw c me raw =
     for_roles [Admin, Operator] c (guarded (routeId raw) (\<lambda>i.
     bind_io (retry_job (ap_env cfg) (dw_clock dw) (cl_workspace me) i (cl_actor me) (cl_correlationId me)) (\<lambda>job.
     ret (200, JobR job))))"

definition get_findings :: "api_config \<Rightarrow> caller \<Rightarrow> request \<Rightarrow> response call" where
  "get_findings cfg me req =
     with_query cfg req listFindingsQuerySchema (\<lambda>q.
     bind_io (listFindings (ap_env cfg) (cl_workspace me) (lq_page q) (lq_limit q) (lq_first q)
       (lq_second q) (lq_third q)) (\<lambda>result.
     ret (200, FindingsR result)))"

definition get_recommendations :: "api_config \<Rightarrow> caller \<Rightarrow> request \<Rightarrow> response call" where
  "get_recommendations cfg me req =
     with_query cfg req listRecommendationsQuerySchema (\<lambda>q.
     bind_io (listRecommendations (ap_env cfg) (cl_workspace me) (lq_page q) (lq_limit q) (lq_first q)
       (lq_second q)) (\<lambda>result.
     ret (200, RecommendationsR result)))"

definition post_plan :: "api_config \<Rightarrow> draws \<Rightarrow> json auth_claims \<Rightarrow> caller \<Rightarrow> request \<Rightarrow> response call" where
  "post_plan cfg dw c me req =
     for_roles [Admin, Operator] c (with_body cfg req createRemediationPlanSchema (\<lambda>input.
     bind_io (createPlan (ap_env cfg) (dw_clock dw) (cl_workspace me) (cl_actor me) (cl_correlationId me) input)
       (\<lambda>(plan, replayed).
     ret (if replayed then 200 else 201, PlanR plan replayed))))"

definition post_approve :: "api_config \<Rightarrow> draws \<Rightarrow> json auth_claims \<Rightarrow> caller \<Rightarrow> string \<Rightarrow> response call" where
  "post_approve cfg dw c me raw =
     for_roles [Admin] c (guarded (routeId raw) (\<lambda>i.
     bind_io (approve (ap_env cfg) (ap_remediations cfg) (ap_hash cfg) (dw_clock dw) (dw_token dw)
       (cl_workspace me) i (cl_actor me) (cl_correlationId me)) (\<lambda>result.
     ret (200, ApprovalR result))))"

definition post_execute ::
  "api_config \<Rightarrow> draws \<Rightarrow> json auth_claims \<Rightarrow> caller \<Rightarrow> string \<Rightarrow> request \<Rightarrow> response call" where
  "post_execute cfg dw c me raw req =
     for_roles [Admin, Operator] c (with_body cfg req executeRemediationSchema (\<lambda>input.
     guarded (routeId raw) (\<lambda>i.
     bind_io (execute (ap_env cfg) (ap_remediations cfg) (ap_hash cfg) (dw_clock dw) (cl_workspace me) i
       (cl_actor me) (cl_correlationId me) input) (\<lambda>(execution, replayed).
     ret (200, ExecutionR execution replayed)))))"

definition get_audit :: "api_config \<Rightarrow> json auth_claims \<Rightarrow> caller \<Rightarrow> request \<Rightarrow> response call" where
  "get_audit cfg c me req =
     for_roles [Admin, Operator] c (with_query cfg req listAuditQuerySchema (\<lambda>q.
     bind_io (listAuditEvents (ap_env cfg) (cl_workspace me) (lq_page q) (lq_limit q) (lq_first q)
       (lq_second q)) (\<lambda>result.
     ret (200, AuditR result))))"


section \<open>Routing\<close>

datatype route =
    SyncResources | ListResources | OneResource string | Diagnostics | ListJobs | OneJob string
  | RetryJob string | ListFindings | ListRecommendations | PlanRemediation | ApprovePlan string
  | ExecutePlan string | ListAudit

text \<open>Express compares the fixed segments of a route without regard to case, and answers \<^verbatim>\<open>HEAD\<close> by the
  handlers of \<^verbatim>\<open>GET\<close>.\<close>

definition seg :: "string \<Rightarrow> string \<Rightarrow> bool" where
  "seg given fixed \<longleftrightarrow> toLowerCase given = fixed"

definition is_get :: "string \<Rightarrow> bool" where
  "is_get method \<longleftrightarrow> method \<in> {''GET'', ''HEAD''}"

definition find_route :: "string \<Rightarrow> string list \<Rightarrow> route option" where
  "find_route method path =
     (case path of
        [a] \<Rightarrow>
          (if is_get method then
             if seg a ''resources'' then Some ListResources
             else if seg a ''jobs'' then Some ListJobs
             else if seg a ''findings'' then Some ListFindings
             else if seg a ''recommendations'' then Some ListRecommendations
             else if seg a ''audit-events'' then Some ListAudit
             else None
           else if method = ''POST'' \<and> seg a ''diagnostics'' then Some Diagnostics else None)
      | [a, b] \<Rightarrow>
          (if is_get method then
             if seg a ''resources'' then Some (OneResource b)
             else if seg a ''jobs'' then Some (OneJob b)
             else None
           else if method = ''POST'' then
             if seg a ''resources'' \<and> seg b ''sync'' then Some SyncResources
             else if seg a ''remediations'' \<and> seg b ''plan'' then Some PlanRemediation
             else None
           else None)
      | [a, b, c] \<Rightarrow>
          (if method = ''POST'' then
             if seg a ''jobs'' \<and> seg c ''retry'' then Some (RetryJob b)
             else if seg a ''remediations'' \<and> seg c ''approve'' then Some (ApprovePlan b)
             else if seg a ''remediations'' \<and> seg c ''execute'' then Some (ExecutePlan b)
             else None
           else None)
      | _ \<Rightarrow> None)"

definition handle :: "api_config \<Rightarrow> draws \<Rightarrow> json auth_claims \<Rightarrow> caller \<Rightarrow> request \<Rightarrow> route \<Rightarrow> response call" where
  "handle cfg dw c me req r =
     (case r of
        SyncResources \<Rightarrow> sync_resources cfg dw c me req
      | ListResources \<Rightarrow> get_resources cfg me req
      | OneResource i \<Rightarrow> get_one_resource cfg me i
      | Diagnostics \<Rightarrow> post_diagnostics cfg dw c me req
      | ListJobs \<Rightarrow> get_jobs cfg me req
      | OneJob i \<Rightarrow> get_one_job cfg me i
      | RetryJob i \<Rightarrow> post_retry cfg dw c me i
      | ListFindings \<Rightarrow> get_findings cfg me req
      | ListRecommendations \<Rightarrow> get_recommendations cfg me req
      | PlanRemediation \<Rightarrow> post_plan cfg dw c me req
      | ApprovePlan i \<Rightarrow> post_approve cfg dw c me i
      | ExecutePlan i \<Rightarrow> post_execute cfg dw c me i req
      | ListAudit \<Rightarrow> get_audit cfg c me req)"

definition is_login :: "request \<Rightarrow> bool" where
  "is_login req \<longleftrightarrow> aq_method req = ''POST'' \<and>
     (case aq_path req of [a, b] \<Rightarrow> seg a ''auth'' \<and> seg b ''login'' | _ \<Rightarrow> False)"

definition post_login :: "api_config \<Rightarrow> request \<Rightarrow> response call" where
  "post_login cfg req =
     with_body cfg req (loginSchema (ap_is_email cfg)) (\<lambda>(email, password).
     bind_io (login (ap_env cfg) (ap_bcrypt_compare cfg) (ap_jwt_sign cfg) (ap_auth cfg) email password)
       (\<lambda>(token, user).
     ret (200, LoginR token user)))"

definition dispatch :: "api_config \<Rightarrow> draws \<Rightarrow> request \<Rightarrow> response call" where
  "dispatch cfg dw req =
     (if is_login req then post_login cfg req
      else guarded (authMiddleware (ap_jwt_verify cfg) (ac_JWT_SECRET (ap_auth cfg)) (aq_authorization req)) (\<lambda>c.
        case find_route (aq_method req) (aq_path req) of
          None \<Rightarrow> ret (404, NoRouteR)
        | Some r \<Rightarrow> handle cfg dw c (caller_of c (correlation_id (dw_uuid dw) req)) req r))"

definition api_request :: "api_config \<Rightarrow> draws \<Rightarrow> request \<Rightarrow> response call" where
  "api_request cfg dw req =
     catch_io (dispatch cfg dw req) (\<lambda>err. ret (error_response (correlation_id (dw_uuid dw) req) err))"

text \<open>\<^verbatim>\<open>GET /health/ready\<close>: the diagnostics service may be degraded, the database may not. The
  breaker is polled after the diagnostics service has answered.\<close>

record readiness =
  rd_status :: string
  rd_mongodb :: string
  rd_diagnostics :: string
  rd_circuitBreaker :: circuit_state

definition health_ready :: "bool \<Rightarrow> diag_client \<Rightarrow> fetch_get \<Rightarrow> int \<Rightarrow> breaker \<Rightarrow> breaker \<times> int \<times> readiness" where
  "health_ready mongoUp cl fetch now b =
     (let diag = ready cl fetch;
          (b', state) = getState now b
      in (b', if mongoUp then 200 else 503,
          \<lparr> rd_status = (if mongoUp then ''ready'' else ''not_ready''),
            rd_mongodb = (if mongoUp then ''ok'' else ''down''),
            rd_diagnostics = (if diag then ''ok'' else ''degraded''),
            rd_circuitBreaker = state \<rparr>))"

end
