(* ===== verification/Remediation_Safety.thy ===== *)
theory Remediation_Safety
  imports Remediation_Service
begin

text \<open>
  What the remediation service guarantees. The first part is the invariant \<open>rem_inv\<close> of the plans,
  approval tokens and executions under any sequence of service calls: every plan and every token is
  used by at most one execution, every execution rests on a used token of its plan, and every action
  ever planned is on the allowlist. It is proved with Hoare triples over the stages of
  \<open>execute_apply\<close>. The second part says what single calls require and what they do to the resources.
\<close>

section \<open>Planned actions\<close>

lemma plan_actions_Inr:
  assumes "plan_actions recs fs = Inr as"
  shows "as = map (\<lambda>f. \<lparr>a_actionType = plan_action_type recs f, a_resourceId = f_resourceId f,
          a_findingId = f_id f, a_params = defaultParams (plan_action_type recs f) (f_resourceId f)\<rparr>)
        (filter (\<lambda>f. plan_action_type recs f \<noteq> ''manual_review'') fs)
    \<and> (\<forall>a \<in> set as. a_actionType a \<in> set ALLOWLISTED_ACTIONS)"
  using assms
proof (induction fs arbitrary: as)
  case (Cons f fs)
  then obtain a bs where "plan_action recs f = Inr a" "plan_actions recs fs = Inr bs"
    "as = (case a of None \<Rightarrow> [] | Some x \<Rightarrow> [x]) @ bs"
    by (auto split: sum.splits)
  moreover from this(1) have "if plan_action_type recs f = ''manual_review'' then a = None
      else plan_action_type recs f \<in> set ALLOWLISTED_ACTIONS \<and>
        a = Some \<lparr>a_actionType = plan_action_type recs f, a_resourceId = f_resourceId f,
          a_findingId = f_id f, a_params = defaultParams (plan_action_type recs f) (f_resourceId f)\<rparr>"
    by (auto simp: plan_action_def Let_def split: if_splits sum.splits)
  ultimately show ?case using Cons.IH [of bs] by (auto split: if_splits)
qed simp


section \<open>The invariant\<close>

definition plan_in :: "db \<Rightarrow> oid \<Rightarrow> plan_status set \<Rightarrow> bool" where
  "plan_in s i S \<longleftrightarrow> (\<exists>p \<in> set (db_plans s). p_id p = i \<and> p_status p \<in> S)"

definition token_used :: "db \<Rightarrow> oid \<Rightarrow> oid \<Rightarrow> bool" where
  "token_used s planId i \<longleftrightarrow>
     (\<exists>t \<in> set (db_tokens s). t_id t = i \<and> t_planId t = planId \<and> t_usedAt t \<noteq> None)"

definition executed_as :: "db \<Rightarrow> oid \<Rightarrow> exec_status set \<Rightarrow> bool" where
  "executed_as s i S \<longleftrightarrow> (\<exists>x \<in> set (db_executions s). x_planId x = i \<and> x_status x \<in> S)"

abbreviation started :: "plan_status set" where
  "started \<equiv> {Executing, PlanCompleted, PlanFailed}"

definition rem_inv :: "db \<Rightarrow> bool" where
  "rem_inv s \<longleftrightarrow>
     distinct (map p_id (db_plans s)) \<and> distinct (map t_id (db_tokens s)) \<and>
     distinct (map x_planId (db_executions s)) \<and> distinct (map x_approvalTokenId (db_executions s)) \<and>
     (\<forall>p \<in> set (db_plans s). \<forall>a \<in> set (p_actions p). a_actionType a \<in> set ALLOWLISTED_ACTIONS) \<and>
     (\<forall>x \<in> set (db_executions s).
        plan_in s (x_planId x) started \<and> token_used s (x_planId x) (x_approvalTokenId x)) \<and>
     (\<forall>p \<in> set (db_plans s).
        (p_status p = PlanCompleted \<longrightarrow> executed_as s (p_id p) {Succeeded}) \<and>
        (p_status p = PlanFailed \<longrightarrow> executed_as s (p_id p) (- {Succeeded})))"

lemmas rem_inv_defs = rem_inv_def plan_in_def token_used_def executed_as_def

lemma rem_inv_frame:
  assumes "db_plans s' = db_plans s" "db_tokens s' = db_tokens s" "db_executions s' = db_executions s"
  shows "rem_inv s' = rem_inv s"
  by (simp add: rem_inv_defs assms)

lemma rem_inv_frame_simps [simp]:
  "rem_inv (db_audit_update f s) = rem_inv s" "rem_inv (db_resources_update g s) = rem_inv s"
  by (simp_all add: rem_inv_defs)

lemma rem_inv_add_plan:
  assumes "rem_inv s" "p_id p \<notin> p_id ` set (db_plans s)" "p_status p = AwaitingApproval"
    and "\<forall>a \<in> set (p_actions p). a_actionType a \<in> set ALLOWLISTED_ACTIONS"
  shows "rem_inv (db_plans_update (\<lambda>_. db_plans s @ [p]) s)"
  using assms by (auto simp: rem_inv_defs)

lemma rem_inv_add_token:
  assumes "rem_inv s" "t_id t \<notin> t_id ` set (db_tokens s)"
  shows "rem_inv (db_tokens_update (\<lambda>_. db_tokens s @ [t]) s)"
  using assms by (auto simp: rem_inv_defs)

lemma rem_inv_add_execution:
  assumes "rem_inv s" "plan_in s (x_planId x) started" "token_used s (x_planId x) (x_approvalTokenId x)"
    and "x_planId x \<notin> x_planId ` set (db_executions s)"
    and "x_approvalTokenId x \<notin> x_approvalTokenId ` set (db_executions s)"
  shows "rem_inv (db_executions_update (\<lambda>_. db_executions s @ [x]) s)"
  using assms by (fastforce simp: rem_inv_defs)

lemma rem_inv_cong:
  assumes "rem_inv s" "map p_id (db_plans s') = map p_id (db_plans s)"
    "map t_id (db_tokens s') = map t_id (db_tokens s)" "db_executions s' = db_executions s"
    "\<forall>p \<in> set (db_plans s'). \<forall>a \<in> set (p_actions p). a_actionType a \<in> set ALLOWLISTED_ACTIONS"
    "\<And>k. k \<in> x_planId ` set (db_executions s) \<Longrightarrow> plan_in s k started \<Longrightarrow> plan_in s' k started"
    "\<And>p k. token_used s p k \<Longrightarrow> token_used s' p k"
    "\<forall>p \<in> set (db_plans s'). (p_status p = PlanCompleted \<longrightarrow> executed_as s (p_id p) {Succeeded}) \<and>
        (p_status p = PlanFailed \<longrightarrow> executed_as s (p_id p) (- {Succeeded}))"
  shows "rem_inv s'"
proof -
  have "executed_as s' = executed_as s" by (simp add: executed_as_def fun_eq_iff assms(4))
  with assms show ?thesis by (simp add: rem_inv_def)
qed

lemma rem_inv_use_token:
  assumes "rem_inv s"
  shows "rem_inv (db_tokens_update (\<lambda>_. map (\<lambda>t. if t_id t = i then t\<lparr>t_usedAt := Some n\<rparr> else t) (db_tokens s)) s)"
    (is "rem_inv ?s'")
proof (rule rem_inv_cong [OF assms])
  fix p k assume u: "token_used s p k"
  then obtain t where t: "t \<in> set (db_tokens s)" "t_id t = k" "t_planId t = p" "t_usedAt t \<noteq> None"
    by (auto simp: token_used_def)
  let ?t = "if t_id t = i then t\<lparr>t_usedAt := Some n\<rparr> else t"
  have "?t \<in> set (db_tokens ?s')"
    using map_key_image [OF t(1), of t_id i "t_usedAt_update (\<lambda>_. Some n)"] by (simp del: set_map)
  moreover have "t_id ?t = k \<and> t_planId ?t = p \<and> t_usedAt ?t \<noteq> None" using t by simp
  ultimately show "token_used ?s' p k" unfolding token_used_def by blast
qed (use assms in \<open>simp_all add: rem_inv_def plan_in_def\<close>)

lemma rem_inv_set_status:
  assumes "rem_inv s" "st = PlanCompleted \<Longrightarrow> executed_as s i {Succeeded}"
    and "st = PlanFailed \<Longrightarrow> executed_as s i (- {Succeeded})"
    and "st \<notin> started \<Longrightarrow> i \<notin> x_planId ` set (db_executions s)"
  shows "rem_inv (db_plans_update (\<lambda>_. map (\<lambda>p. if p_id p = i then p\<lparr>p_status := st\<rparr> else p) (db_plans s)) s)"
    (is "rem_inv ?s'")
proof (rule rem_inv_cong [OF assms(1)])
  fix k assume x: "k \<in> x_planId ` set (db_executions s)" and "plan_in s k started"
  then obtain p where p: "p \<in> set (db_plans s)" "p_id p = k" "p_status p \<in> started"
    unfolding plan_in_def by blast
  let ?p = "if p_id p = i then p\<lparr>p_status := st\<rparr> else p"
  have "?p \<in> set (db_plans ?s')"
    using map_key_image [OF p(1), of p_id i "p_status_update (\<lambda>_. st)"] by (simp del: set_map)
  moreover have "p_id ?p = k" using p(2) by simp
  moreover have "p_status ?p \<in> started" using p x assms(4) by (cases "p_id p = i") auto
  ultimately show "plan_in ?s' k started" unfolding plan_in_def by blast
qed (use assms(1-3) in \<open>auto simp: rem_inv_def token_used_def\<close>)


section \<open>Every call keeps the invariant\<close>

definition no_execution :: "oid \<Rightarrow> db \<Rightarrow> bool" where
  "no_execution planId s \<longleftrightarrow> planId \<notin> x_planId ` set (db_executions s)"

definition no_use :: "oid \<Rightarrow> db \<Rightarrow> bool" where
  "no_use tokenId s \<longleftrightarrow> tokenId \<notin> x_approvalTokenId ` set (db_executions s)"

lemma unstarted_no_execution:
  assumes "rem_inv s" "p \<in> set (db_plans s)" "p_status p \<notin> started"
  shows "no_execution (p_id p) s"
proof -
  have "p_status q \<notin> started" if "q \<in> set (db_plans s)" "p_id q = p_id p" for q
    using that assms distinct_key_unique [of p_id "db_plans s" q p] by (simp add: rem_inv_def)
  then show ?thesis
    using assms(1) unfolding no_execution_def rem_inv_def plan_in_def by fastforce
qed

lemma unused_no_use:
  assumes "rem_inv s" "t \<in> set (db_tokens s)" "t_usedAt t = None"
  shows "no_use (t_id t) s"
proof -
  have "t_usedAt u = None" if "u \<in> set (db_tokens s)" "t_id u = t_id t" for u
    using that assms distinct_key_unique [of t_id "db_tokens s" u t] by (simp add: rem_inv_def)
  then show ?thesis
    using assms(1) unfolding no_use_def rem_inv_def token_used_def by fastforce
qed

lemma ids_distinct: "rem_inv s \<Longrightarrow> distinct (map p_id (db_plans s))"
  "rem_inv s \<Longrightarrow> distinct (map t_id (db_tokens s))"
  by (simp_all add: rem_inv_def)

text \<open>The stages of \<open>execute_apply\<close>: accepted, token not yet consumed, running.\<close>

definition accepted :: "oid \<Rightarrow> approval_token \<Rightarrow> db \<Rightarrow> bool" where
  "accepted planId tok s \<longleftrightarrow> rem_inv s \<and> no_execution planId s \<and> no_use (t_id tok) s \<and>
     tok \<in> set (db_tokens s) \<and> t_planId tok = planId"

definition starting :: "oid \<Rightarrow> approval_token \<Rightarrow> db \<Rightarrow> bool" where
  "starting planId tok s \<longleftrightarrow> accepted planId tok s \<and> plan_in s planId started"

definition running :: "oid \<Rightarrow> oid \<Rightarrow> db \<Rightarrow> bool" where
  "running planId tokenId s \<longleftrightarrow> rem_inv s \<and> no_execution planId s \<and> no_use tokenId s \<and>
     plan_in s planId started \<and> token_used s planId tokenId"

lemmas stage_defs = accepted_def starting_def running_def no_execution_def no_use_def

lemma running_frame [simp]: "running i k (db_resources_update f s) = running i k s"
  by (simp add: stage_defs plan_in_def token_used_def)

lemma plan_in_set_status:
  assumes "i \<in> p_id ` set (db_plans s)" "st \<in> S"
  shows "plan_in (db_plans_update (\<lambda>_. map (\<lambda>p. if p_id p = i then p\<lparr>p_status := st\<rparr> else p) (db_plans s)) s) i S"
    (is "plan_in ?s' _ _")
proof -
  obtain p where p: "p \<in> set (db_plans s)" "p_id p = i" using assms(1) by blast
  have m: "p\<lparr>p_status := st\<rparr> \<in> set (db_plans ?s')"
    using map_key_image [OF p(1), of p_id i "p_status_update (\<lambda>_. st)"] p(2) by (simp del: set_map)
  show ?thesis unfolding plan_in_def by (rule bexI [OF _ m]) (simp add: p(2) assms(2))
qed

lemma token_used_save:
  assumes "tok \<in> set (db_tokens s)"
  shows "token_used (db_tokens_update (\<lambda>_. map (\<lambda>t. if t_id t = t_id tok then t\<lparr>t_usedAt := Some n\<rparr> else t)
    (db_tokens s)) s) (t_planId tok) (t_id tok)" (is "token_used ?s' _ _")
proof -
  have m: "tok\<lparr>t_usedAt := Some n\<rparr> \<in> set (db_tokens ?s')"
    using map_key_image [OF assms, of t_id "t_id tok" "t_usedAt_update (\<lambda>_. Some n)"] by (simp del: set_map)
  show ?thesis unfolding token_used_def by (rule bexI [OF _ m]) simp
qed

lemma token_gate_Inr:
  assumes "token_gate cfg hash now inp plan ts = Inr tok"
  shows "tok \<in> set ts" "hash (xi_approvalToken inp) = t_tokenHash tok" "t_usedAt tok = None"
    "now \<le> t_expiresAt tok" "p_dryRun plan \<or> rc_CLOUD_PROVIDER cfg = MockProvider \<or> rc_ENABLE_AWS_MUTATIONS cfg"
proof -
  let ?m = "\<lambda>a. tokensMatch hash (xi_approvalToken inp) (t_tokenHash a)"
  from assms obtain tk where "List.find ?m ts = Some tk"
    by (cases "List.find ?m ts") (auto simp: token_gate_def)
  with assms have f: "List.find ?m ts = Some tok" and c: "t_usedAt tok = None" "now \<le> t_expiresAt tok"
    "p_dryRun plan \<or> \<not> (rc_CLOUD_PROVIDER cfg = Aws \<and> \<not> rc_ENABLE_AWS_MUTATIONS cfg)"
    by (auto simp: token_gate_def rejectMutationsIfDisabled_def not_less split: if_splits)
  from f show "tok \<in> set ts" "hash (xi_approvalToken inp) = t_tokenHash tok"
    by (auto simp: find_Some_iff)
  from c show "t_usedAt tok = None" "now \<le> t_expiresAt tok"
    "p_dryRun plan \<or> rc_CLOUD_PROVIDER cfg = MockProvider \<or> rc_ENABLE_AWS_MUTATIONS cfg"
    using provider_name.exhaust by metis+
qed

context store
begin

lemma keeps_createPlan: "keeps rem_inv (createPlan env clk w a c inp)"
  unfolding createPlan_def
proof (intro keeps_rules)
  fix findings recs as
  assume "plan_actions recs findings = Inr as"
  then have ok: "\<forall>x \<in> set as. a_actionType x \<in> set ALLOWLISTED_ACTIONS"
    using plan_actions_Inr by blast
  show "keeps rem_inv (tell db_plans db_plans_update (drv_create (e_plans env) (new_plan w a c inp as)))"
    by (rule hoare_keepsI, rule plans.hoare_create)
      (use ok in \<open>auto simp: new_plan_def intro!: rem_inv_add_plan\<close>)
qed simp_all

lemma hoare_set_plan_status:
  assumes "\<And>s. P s \<Longrightarrow> rem_inv s"
    and "\<And>s. P s \<Longrightarrow> i \<in> p_id ` set (db_plans s) \<Longrightarrow>
      Q () (db_plans_update (\<lambda>_. map (\<lambda>p. if p_id p = i then p\<lparr>p_status := st\<rparr> else p) (db_plans s)) s)"
  shows "hoare P (set_plan_status env i st) Q (\<lambda>_. rem_inv)"
  unfolding set_plan_status_def
  by (rule plans.hoare_save_doc) (use assms ids_distinct in auto)

lemma hoare_approve_apply:
  "hoare (\<lambda>s. rem_inv s \<and> no_execution (p_id plan) s)
     (approve_apply env cfg hash clk tok w planId a c plan) (\<lambda>_. rem_inv) (\<lambda>_. rem_inv)"
  (is "hoare ?A _ _ _")
  unfolding approve_apply_def
proof (rule hoare_bind [where R = "\<lambda>_. ?A"])
  show "hoare ?A (tell db_tokens db_tokens_update (drv_create (e_tokens env)
      (new_token cfg hash (clk 0) w planId a tok))) (\<lambda>_. ?A) (\<lambda>_. rem_inv)"
    by (rule tokens.hoare_create) (auto simp: new_token_def no_execution_def intro!: rem_inv_add_token)
next
  fix approval
  show "hoare ?A (bind_io (save_doc db_plans db_plans_update (e_plans env) (\<lambda>p. p_id p = p_id plan)
       (\<lambda>p. p\<lparr>p_status := Approved\<rparr>)) (\<lambda>_.
     bind_io (record_audit env (clk 1) w a ''remediation.approve'' ''RemediationPlan''
       (Some planId) c (Some [(''approvalTokenId'', JStr (t_id approval))])) (\<lambda>_.
     ret \<lparr>ap_plan = plan\<lparr>p_status := Approved\<rparr>, ap_approvalToken = tok,
           ap_expiresAt = t_expiresAt approval, ap_approvalTokenId = t_id approval\<rparr>)))
     (\<lambda>_. rem_inv) (\<lambda>_. rem_inv)"
    by (rule hoare_bind [OF hoare_set_plan_status [unfolded set_plan_status_def, where Q = "\<lambda>_. rem_inv"]])
      (auto simp: no_execution_def intro!: rem_inv_set_status hoare_keeps [OF keeps_bind]
        keeps_record_audit keeps_ret)
qed

lemma keeps_approve: "keeps rem_inv (approve env cfg hash clk tok w planId a c)"
  unfolding approve_def
proof (rule hoare_keepsI, rule hoare_bind)
  show "hoare rem_inv (ask db_plans (drv_findOne (e_plans env) (\<lambda>p. p_id p = planId \<and> p_workspaceId p = w)))
      (\<lambda>found s. rem_inv s \<and> (\<forall>p. found = Some p \<longrightarrow> p \<in> set (db_plans s))) (\<lambda>_. rem_inv)"
    by (rule hoare_ask) (auto dest: plans.findOne_Some)
qed (intro hoare_case_option hoare_if hoare_throw hoare_pre [OF _ hoare_approve_apply],
    auto intro: unstarted_no_execution)

lemma keeps_run_action: "keeps (running i k) (run_action env cfg plan acc x)"
  unfolding run_action_def Let_def save_doc_def
  by (intro keeps_rules keeps_tell_frame) (simp_all add: running_frame)

lemma hoare_execute_apply:
  assumes "p_id plan = planId"
  shows "hoare (accepted planId tok) (execute_apply env cfg clk w planId a c inp plan tok)
    (\<lambda>_. rem_inv) (\<lambda>_. rem_inv)"
proof -
  have look: "hoare (accepted planId tok) (ask db_resources (drv_find (e_resources env) p))
      (\<lambda>_. accepted planId tok) (\<lambda>_. rem_inv)" for p
    by (rule hoare_ask) (simp_all add: accepted_def)
  have start: "hoare (accepted planId tok) (set_plan_status env (p_id plan) Executing)
      (\<lambda>_. starting planId tok) (\<lambda>_. rem_inv)"
    by (rule hoare_set_plan_status)
      (auto simp: assms stage_defs intro!: rem_inv_set_status plan_in_set_status)
  have consume: "hoare (starting planId tok) (save_doc db_tokens db_tokens_update (e_tokens env)
      (\<lambda>t. t_id t = t_id tok) (\<lambda>t. t\<lparr>t_usedAt := Some (clk 1)\<rparr>))
      (\<lambda>_. running planId (t_id tok)) (\<lambda>_. rem_inv)"
  proof (rule tokens.hoare_save_doc)
    fix s assume s: "starting planId tok s"
    with token_used_save [of tok s "clk 1"] rem_inv_use_token [of s "t_id tok" "clk 1"]
    show "running planId (t_id tok) (db_tokens_update (\<lambda>_. map (\<lambda>t. if t_id t = t_id tok
        then t\<lparr>t_usedAt := Some (clk 1)\<rparr> else t) (db_tokens s)) s)"
      by (simp add: stage_defs plan_in_def)
  qed (auto simp: stage_defs intro: ids_distinct)
  have recorded: "hoare (running planId (t_id tok)) (tell db_executions db_executions_update
      (drv_create (e_executions env) (new_execution w planId (t_id tok) a c inp (p_dryRun plan) acc
        (clk 2) (clk 3))))
      (\<lambda>_ s. rem_inv s \<and> executed_as s planId {execution_status (ea_results acc)}) (\<lambda>_. rem_inv)" for acc
    by (rule executions.hoare_create)
      (auto simp: new_execution_def stage_defs executed_as_def intro!: rem_inv_add_execution)
  have finish: "hoare (\<lambda>s. rem_inv s \<and> executed_as s planId {st})
      (set_plan_status env (p_id plan) (final_plan_status st)) (\<lambda>_. rem_inv) (\<lambda>_. rem_inv)" for st
    by (rule hoare_set_plan_status)
      (auto simp: assms final_plan_status_def executed_as_def split: if_splits intro!: rem_inv_set_status)
  show ?thesis
    unfolding execute_apply_def
    by (rule hoare_bind [OF look], rule hoare_bind [OF start], rule hoare_bind [OF consume],
        rule hoare_bind [OF hoare_keeps [OF keeps_for [OF keeps_run_action]]],
        assumption, simp add: running_def, rule hoare_bind [OF recorded], rule hoare_bind [OF finish])
      (auto intro!: hoare_keeps [OF keeps_bind] keeps_record_audit keeps_ret)
qed

text \<open>What the checks of \<open>execute\<close> establish; they write nothing.\<close>

lemma execute_checks_state: "fst (execute_checks env cfg hash now w planId inp s) = s"
  by (simp add: execute_checks_def bind_io_def ask_def split: sum.splits option.splits)

lemma execute_checks_Inr:
  assumes "execute_checks env cfg hash now w planId inp s = (s', Inr (plan, tok))"
  shows "s' = s" "plan \<in> set (db_plans s)" "p_id plan = planId" "p_workspaceId plan = w"
    "p_status plan = Approved" "tok \<in> set (db_tokens s)" "t_planId tok = planId" "t_workspaceId tok = w"
    "hash (xi_approvalToken inp) = t_tokenHash tok" "t_usedAt tok = None" "now \<le> t_expiresAt tok"
    "p_dryRun plan \<or> rc_CLOUD_PROVIDER cfg = MockProvider \<or> rc_ENABLE_AWS_MUTATIONS cfg"
proof -
  let ?p = "\<lambda>p. p_id p = planId \<and> p_workspaceId p = w"
  let ?t = "\<lambda>t. t_workspaceId t = w \<and> t_planId t = planId"
  from assms obtain ts where s': "s' = s"
    and p: "drv_findOne (e_plans env) ?p (db_plans s) = Inr (Some plan)" "p_status plan = Approved"
    and t: "drv_find (e_tokens env) ?t (db_tokens s) = Inr ts" "token_gate cfg hash now inp plan ts = Inr tok"
    by (cases "drv_findOne (e_plans env) ?p (db_plans s)"; cases "drv_find (e_tokens env) ?t (db_tokens s)")
      (auto simp: execute_checks_def bind_io_def ask_def split: option.splits if_splits sum.splits)
  show "s' = s" "p_status plan = Approved" using s' p(2) by simp_all
  show "plan \<in> set (db_plans s)" "p_id plan = planId" "p_workspaceId plan = w"
    using plans.findOne_Some [OF p(1)] by auto
  note gate = token_gate_Inr [OF t(2)]
  with tokens.find_mem [OF t(1)]
  show "tok \<in> set (db_tokens s)" "t_planId tok = planId" "t_workspaceId tok = w"
    "hash (xi_approvalToken inp) = t_tokenHash tok" "t_usedAt tok = None" "now \<le> t_expiresAt tok"
    "p_dryRun plan \<or> rc_CLOUD_PROVIDER cfg = MockProvider \<or> rc_ENABLE_AWS_MUTATIONS cfg" by auto
qed

lemma checks_accepted:
  assumes "rem_inv s" "execute_checks env cfg hash now w planId inp s = (s', Inr (plan, tok))"
  shows "accepted planId tok s"
  using execute_checks_Inr [OF assms(2)] unstarted_no_execution [OF assms(1), of plan]
    unused_no_use [OF assms(1), of tok] assms(1)
  by (simp add: accepted_def)

text \<open>A call of \<open>execute\<close>: a replay, a refusal, or the checks followed by \<open>execute_apply\<close>.\<close>

lemma execute_cases:
  assumes "execute env cfg hash clk w planId a c inp s = (s', r)"
  obtains (refused) e where "s' = s" "r = Inl e"
  | (replay) x where "s' = s" "r = Inr (x, True)" "x \<in> set (db_executions s)" "x_workspaceId x = w"
      "x_idempotencyKey x = xi_idempotencyKey inp"
  | (applied) plan tok where
      "\<forall>x \<in> set (db_executions s). x_workspaceId x = w \<longrightarrow> x_idempotencyKey x \<noteq> xi_idempotencyKey inp"
      "execute_checks env cfg hash (clk 0) w planId inp s = (s, Inr (plan, tok))"
      "execute_apply env cfg clk w planId a c inp plan tok s = (s', r)"
proof -
  let ?k = "\<lambda>x. x_workspaceId x = w \<and> x_idempotencyKey x = xi_idempotencyKey inp"
  show ?thesis
  proof (cases "drv_findOne (e_executions env) ?k (db_executions s)")
    case (Inl e)
    with assms refused show ?thesis by (auto simp: execute_def bind_io_def ask_def)
  next
    case (Inr found)
    show ?thesis
    proof (cases found)
      case (Some x)
      with Inr have "x \<in> set (db_executions s) \<and> ?k x" using executions.findOne_Some by blast
      with assms Inr Some replay show ?thesis by (auto simp: execute_def bind_io_def ask_def)
    next
      case None
      with Inr have k: "\<forall>x \<in> set (db_executions s). \<not> ?k x" using executions.findOne_None by blast
      obtain q where q: "execute_checks env cfg hash (clk 0) w planId inp s = (s, q)"
        using execute_checks_state by (metis prod.collapse)
      with assms Inr None have r: "(case (s, q) of (s', Inl e) \<Rightarrow> (s', Inl e)
          | (s', Inr x) \<Rightarrow> (case x of (plan, tok) \<Rightarrow> execute_apply env cfg clk w planId a c inp plan tok) s') = (s', r)"
        by (simp add: execute_def bind_io_def ask_def)
      show ?thesis
      proof (cases q)
        case (Inl e)
        with r refused show ?thesis by auto
      next
        case (Inr pt)
        with r q k applied show ?thesis by (cases pt) auto
      qed
    qed
  qed
qed

lemma keeps_execute: "keeps rem_inv (execute env cfg hash clk w planId a c inp)"
proof (rule keepsI)
  fix s assume inv: "rem_inv s"
  obtain s' r where e: "execute env cfg hash clk w planId a c inp s = (s', r)" by fastforce
  then have "rem_inv s'"
  proof (cases rule: execute_cases)
    case (applied plan tok)
    show ?thesis
    proof (cases r)
      case (Inl e)
      from hoare_Inl [OF hoare_execute_apply checks_accepted [OF inv applied(2)] applied(3) [unfolded Inl]]
        execute_checks_Inr(3) [OF applied(2)] show ?thesis by simp
    next
      case (Inr x)
      from hoare_Inr [OF hoare_execute_apply checks_accepted [OF inv applied(2)] applied(3) [unfolded Inr]]
        execute_checks_Inr(3) [OF applied(2)] show ?thesis by simp
    qed
  qed (use inv in simp_all)
  with e show "rem_inv (fst (execute env cfg hash clk w planId a c inp s))" by simp
qed

end


section \<open>Sequences of calls\<close>

datatype rem_event =
    RPlan "nat \<Rightarrow> int" string string string plan_input
  | RApprove rem_config "string \<Rightarrow> string" "nat \<Rightarrow> int" string string oid string string
  | RExecute rem_config "string \<Rightarrow> string" "nat \<Rightarrow> int" string oid string string exec_input

fun rem_step :: "env \<Rightarrow> db \<Rightarrow> rem_event \<Rightarrow> db" where
  "rem_step env s (RPlan clk w a c inp) = fst (createPlan env clk w a c inp s)"
| "rem_step env s (RApprove cfg hash clk tok w i a c) = fst (approve env cfg hash clk tok w i a c s)"
| "rem_step env s (RExecute cfg hash clk w i a c inp) = fst (execute env cfg hash clk w i a c inp s)"

sublocale store \<subseteq> rem: invariant_system "rem_step env" "\<lambda>_. True" rem_inv
proof
  fix e s assume "rem_inv s"
  then show "rem_inv (rem_step env s e)"
    by (cases e) (auto intro: keepsD [OF keeps_createPlan] keepsD [OF keeps_approve] keepsD [OF keeps_execute])
qed

context store
begin

lemma rem_run: "rem_inv s \<Longrightarrow> rem_inv (run (rem_step env) s evs)"
  by (rule rem.inv_run) simp_all

end

end
