(* ===== verification/Resource_Catalog.thy ===== *)
theory Resource_Catalog
  imports Resource_Service Auth "HOL-Library.Sublist"
begin

text \<open>
  What a sync does to the catalog of a workspace, and what a search pattern can match. The catalog
  abstracts the collection of resources to a map for each workspace; a sync refines the fold of
  \<open>catalog_update\<close> over the discovered items.
\<close>

section \<open>Looking a document up by its unique key\<close>

lemma find_unique: "distinct (map k s) \<Longrightarrow> d \<in> set s \<Longrightarrow> List.find (\<lambda>e. k e = k d) s = Some d"
  by (induction s) (auto simp: image_iff)

lemma find_updated:
  assumes "one_updated p f s s' d'" "distinct (map k s)" "\<And>d. k (f d) = k d" "\<And>d. p d \<Longrightarrow> k d = i"
  shows "List.find (\<lambda>d. k d = j) s' = (if j = i then Some d' else List.find (\<lambda>d. k d = j) s)"
proof -
  obtain xs d ys where o: "s = xs @ d # ys" "p d" "s' = xs @ f d # ys" "d' = f d"
    using assms(1) by (rule one_updatedE)
  have "k d = i" using o(2) assms(4) by blast
  moreover have "\<forall>e \<in> set xs. k e \<noteq> k d"
    using o(1) assms(2) by (auto simp: image_iff)
  then have "List.find (\<lambda>e. k e = i) xs = None"
    using \<open>k d = i\<close> by (simp add: find_None_iff)
  moreover have "List.find P (as @ bs) = (case List.find P as of None \<Rightarrow> List.find P bs | v \<Rightarrow> v)"
    for P and as bs :: "'a list" by (induction as) auto
  ultimately show ?thesis using o assms(3) by (auto split: option.split)
qed

lemma find_appended:
  assumes "\<forall>e \<in> set s. k e \<noteq> i" "k d = i"
  shows "List.find (\<lambda>d. k d = j) (s @ [d]) = (if j = i then Some d else List.find (\<lambda>d. k d = j) s)"
  using assms by (induction s) auto


section \<open>The catalog\<close>

type_synonym entry = "int \<times> provider_name \<times> resource_type \<times> string \<times> string \<times> tags \<times> res_config \<times> res_metrics"

definition entry_of :: "cloud_resource \<Rightarrow> entry" where
  "entry_of r = (r_version r, r_provider r, r_type r, r_region r, r_name r, r_tags r, r_config r, r_metrics r)"

definition item_entry :: "int \<Rightarrow> item \<Rightarrow> entry" where
  "item_entry v x = (v, i_provider x, i_type x, i_region x, i_name x, i_tags x, i_config x, i_metrics x)"

definition res_key :: "cloud_resource \<Rightarrow> string \<times> string" where
  "res_key r = (r_workspaceId r, r_arn r)"

definition catalog :: "db \<Rightarrow> string \<Rightarrow> string \<Rightarrow> entry option" where
  "catalog s w arn = map_option entry_of (List.find (\<lambda>r. res_key r = (w, arn)) (db_resources s))"

definition catalog_update :: "item \<Rightarrow> (string \<Rightarrow> entry option) \<Rightarrow> (string \<Rightarrow> entry option)" where
  "catalog_update x m =
     m(i_arn x \<mapsto> item_entry (case m (i_arn x) of None \<Rightarrow> 1 | Some e \<Rightarrow> fst e + 1) x)"

definition res_indexed :: "db \<Rightarrow> bool" where
  "res_indexed s \<longleftrightarrow> distinct (map r_id (db_resources s)) \<and> distinct (map res_key (db_resources s))"

lemma same_arn_key: "same_arn w arn r \<longleftrightarrow> res_key r = (w, arn)"
  by (simp add: same_arn_def res_key_def)

lemma resource_clash_key: "resource_clash a b \<longleftrightarrow> res_key a = res_key b"
  by (simp add: resource_clash_def res_key_def)

lemma new_resource_simps [simp]:
  "r_id (new_resource x now i) = i" "res_key (new_resource x now i) = (i_workspaceId x, i_arn x)"
  "entry_of (new_resource x now i) = item_entry 1 x"
  by (simp_all add: new_resource_def res_key_def entry_of_def item_entry_def)

lemma set_item_simps [simp]:
  "r_id (set_item x now r) = r_id r" "res_key (set_item x now r) = (i_workspaceId x, i_arn x)"
  "entry_of (set_item x now r) = item_entry (r_version r + 1) x"
  by (simp_all add: set_item_def res_key_def entry_of_def item_entry_def)

lemma fst_entry_of [simp]: "fst (entry_of r) = r_version r"
  by (simp add: entry_of_def)

lemma catalog_frame: "db_resources s' = db_resources s \<Longrightarrow> catalog s' = catalog s \<and> res_indexed s' = res_indexed s"
  by (simp add: catalog_def res_indexed_def fun_eq_iff)

context reliable_store
begin

text \<open>One item of a sync: the upsert answers, and the catalog is updated at the item's ARN.\<close>

lemma sync_item_step:
  assumes "res_indexed s" "i_workspaceId x = w"
  obtains s' doc where "sync_item env clk w acc x s = (s', Inr (acc @ [doc]))" "res_indexed s'"
    "\<And>w'. catalog s' w' = (if w' = w then catalog_update x (catalog s w) else catalog s w')"
proof -
  let ?now = "clk (length acc + 1)"
  let ?f = "\<lambda>r. if same_arn w (i_arn x) r then set_item x ?now r else r"
  let ?up = "tell db_resources db_resources_update (drv_upsert (e_resources env) (same_arn w (i_arn x))
      (set_item x ?now) (new_resource x ?now)) s"
  obtain s1 r where u: "?up = (s1, r)" by fastforce
  have cat: "catalog s w (i_arn x) = map_option entry_of (List.find (same_arn w (i_arn x)) (db_resources s))"
    by (simp add: catalog_def same_arn_key [abs_def])
  have "\<exists>doc. r = Inr doc \<and> res_indexed s1 \<and>
    (\<forall>w'. catalog s1 w' = (if w' = w then catalog_update x (catalog s w) else catalog s w'))"
    using u new_resource_simps(1)
  proof (cases rule: resources.tell_upsert_cases)
    case (failed e)
    then obtain d where d: "drv_upsert (e_resources env) (same_arn w (i_arn x)) (set_item x ?now)
        (new_resource x ?now) (db_resources s) = Inl d"
      using u by (auto simp: tell_def split: sum.splits prod.splits)
    then have "d = DuplicateKey" by (rule resources.upsert_answers)
    with d resources.upsert_Dup [of "same_arn w (i_arn x)" "set_item x ?now" "new_resource x ?now"]
    have "\<forall>r \<in> set (db_resources s). \<not> same_arn w (i_arn x) r"
      "\<exists>i. \<exists>r \<in> set (db_resources s). resource_clash (new_resource x ?now i) r"
      by auto
    with assms(2) show ?thesis by (auto simp: resource_clash_key same_arn_key)
  next
    case (updated c d)
    obtain xs r0 ys where o: "db_resources s = xs @ r0 # ys" "same_arn w (i_arn x) r0"
      "c = xs @ set_item x ?now r0 # ys" "d = set_item x ?now r0"
      using updated(3) by (rule one_updatedE)
    have g: "one_updated (same_arn w (i_arn x)) ?f (db_resources s) c d"
      using o unfolding one_updated_def by (intro exI [of _ xs] exI [of _ r0] exI [of _ ys]) simp
    have key: "res_key (?f r) = res_key r" for r
      using assms(2) by (simp add: same_arn_key)
    have "map r_id c = map r_id (db_resources s)" using g by (rule one_updated_map) simp
    moreover have "map res_key c = map res_key (db_resources s)" using g key by (rule one_updated_map)
    ultimately have ix: "res_indexed s1" using assms(1) updated(1) by (simp add: res_indexed_def)
    have dk: "distinct (map res_key (db_resources s))" using assms(1) by (simp add: res_indexed_def)
    have find: "List.find (\<lambda>r. res_key r = j) c =
        (if j = (w, i_arn x) then Some d else List.find (\<lambda>r. res_key r = j) (db_resources s))" for j
      by (rule find_updated [where k = res_key and f = ?f and i = "(w, i_arn x)", OF g dk key])
        (simp only: same_arn_key)
    have "res_key r0 = (w, i_arn x)" "r0 \<in> set (db_resources s)" using o(1,2) by (simp_all add: same_arn_key)
    with find_unique [OF dk, of r0] have old: "catalog s w (i_arn x) = Some (entry_of r0)"
      by (simp add: catalog_def)
    have "catalog s1 w' a = (if w' = w then catalog_update x (catalog s w) else catalog s w') a" for w' a
    proof -
      have "catalog s1 w' a = (if w' = w \<and> a = i_arn x then Some (entry_of d) else catalog s w' a)"
        using find [of "(w', a)"] updated(1) by (simp add: catalog_def)
      with old o(4) show ?thesis by (simp add: catalog_update_def)
    qed
    with ix updated(2) show ?thesis by auto
  next
    case (inserted d)
    have key: "res_key d = (w, i_arn x)" "entry_of d = item_entry 1 x"
      using inserted(4) assms(2) new_resource_simps(2,3) by metis+
    have ix: "res_indexed s1"
      using assms(1) inserted(1,5,6) by (auto simp: res_indexed_def resource_clash_key)
    have absent: "\<forall>e \<in> set (db_resources s). res_key e \<noteq> (w, i_arn x)"
      using inserted(3) by (simp add: same_arn_key)
    then have old: "catalog s w (i_arn x) = None"
      by (simp add: catalog_def find_None_iff)
    have "catalog s1 w' a = (if w' = w then catalog_update x (catalog s w) else catalog s w') a" for w' a
    proof -
      have "catalog s1 w' a = (if w' = w \<and> a = i_arn x then Some (entry_of d) else catalog s w' a)"
        using find_appended [of "db_resources s" res_key, OF absent key(1), of "(w', a)"] inserted(1)
        by (simp add: catalog_def)
      with old key(2) show ?thesis by (simp add: catalog_update_def)
    qed
    with ix inserted(2) show ?thesis by auto
  qed
  then obtain doc where "r = Inr doc" "res_indexed s1"
    "\<And>w'. catalog s1 w' = (if w' = w then catalog_update x (catalog s w) else catalog s w')" by blast
  with u that [of s1 doc] show ?thesis by (simp add: sync_item_def bind_io_def)
qed

lemma sync_list:
  assumes "res_indexed s" "\<forall>x \<in> set xs. i_workspaceId x = w"
  shows "\<exists>s' docs. for_io (sync_item env clk w) acc xs s = (s', Inr docs) \<and> length docs = length acc + length xs \<and>
    res_indexed s' \<and>
    (\<forall>w'. catalog s' w' = (if w' = w then fold catalog_update xs (catalog s w) else catalog s w'))"
  using assms
proof (induction xs arbitrary: s acc)
  case Nil
  then show ?case by auto
next
  case (Cons x xs)
  obtain s1 doc where x: "sync_item env clk w acc x s = (s1, Inr (acc @ [doc]))" "res_indexed s1"
    "\<And>w'. catalog s1 w' = (if w' = w then catalog_update x (catalog s w) else catalog s w')"
    by (rule sync_item_step [of s x w clk acc]) (use Cons.prems in auto)
  with Cons.IH [OF x(2), of "acc @ [doc]"] Cons.prems(2) show ?case by (auto simp: bind_io_def)
qed

end

lemma discovered_in_workspace:
  assumes "listResources (providerFor cfg w) now query = Inr xs"
  shows "\<forall>x \<in> set xs. i_workspaceId x = w"
proof (cases "providerFor cfg w")
  case (AwsP aws)
  then have "aw_workspaceId aws = w"
    by (auto simp: providerFor_def createCloudProvider_def AwsProvider_def split: if_splits)
  with aws_items_own [where aws = aws] assms AwsP show ?thesis by auto
next
  case (MockP w')
  then have "w' = w" by (auto simp: providerFor_def createCloudProvider_def split: if_splits)
  with MockP assms mock_listResources_sub [of w now query] show ?thesis
    by (auto dest: mock_workspace)
qed

text \<open>
  C12. A sync refines an update of the catalog: when the provider answers, the sync answers, with the number
  of the discovered items; each of them is in the workspace's catalog under its ARN with the
  provider's contents and a version one higher than before (1 when it is new); every other entry and
  the catalogs of the other workspaces are as they were, and no ARN is stored twice. When the provider throws,
  the sync throws its error and stores nothing.
\<close>

theorem sync_refines_catalog:
  assumes "reliable_store env" "res_indexed s"
  shows "case listResources (providerFor cfg w) (clk 0) query of
      Inl err \<Rightarrow> sync env cfg clk w actor c query s = (s, Inl err)
    | Inr discovered \<Rightarrow> \<exists>s' reply. sync env cfg clk w actor c query s = (s', Inr reply) \<and>
        sr_synced reply = length discovered \<and> sr_provider reply = name_of (providerFor cfg w) \<and>
        catalog s' w = fold catalog_update discovered (catalog s w) \<and>
        (\<forall>w'. w' \<noteq> w \<longrightarrow> catalog s' w' = catalog s w') \<and> res_indexed s'"
proof (cases "listResources (providerFor cfg w) (clk 0) query")
  case (Inl err)
  then show ?thesis by (simp add: sync_def Let_def)
next
  case (Inr discovered)
  obtain s1 docs where l: "for_io (sync_item env clk w) [] discovered s = (s1, Inr docs)"
    "length docs = length discovered" "res_indexed s1"
    "\<And>w'. catalog s1 w' = (if w' = w then fold catalog_update discovered (catalog s w) else catalog s w')"
    using reliable_store.sync_list [OF assms discovered_in_workspace [OF Inr], of clk "[]"] by auto
  obtain ev where a: "record_audit env (clk (length discovered + 1)) w actor ''resources.sync'' ''CloudResource'' None c
      (Some [(''count'', JNum (of_nat (length docs))),
             (''provider'', JStr (provider_str (name_of (providerFor cfg w))))]) s1 =
      (db_audit_update (\<lambda>_. db_audit s1 @ [ev]) s1, Inr ev)"
    by (rule reliable_store.record_audit_answers [OF assms(1)])
  have "catalog (db_audit_update (\<lambda>_. db_audit s1 @ [ev]) s1) = catalog s1"
    "res_indexed (db_audit_update (\<lambda>_. db_audit s1 @ [ev]) s1)"
    using catalog_frame [of "db_audit_update (\<lambda>_. db_audit s1 @ [ev]) s1" s1] l(3) by simp_all
  with Inr l a show ?thesis by (simp add: sync_def Let_def bind_io_def)
qed

definition demo_resources :: resource_config where
  "demo_resources = \<lparr> rsc_CLOUD_PROVIDER = MockProvider, rsc_AWS_REGION = ''us-east-1'',
     rsc_AWS_READ_ONLY = True, rsc_AWS_MAX_ATTEMPTS = 3, rsc_AWS_REQUEST_TIMEOUT_MS = 4000,
     rsc_AWS_ENDPOINT_URL = [], rsc_clients = (\<lambda>g n e. demo_sdk), rsc_err_text = (\<lambda>_. ([], [])) \<rparr>"

theorem sync_refines_catalog_witness:
  "\<exists>s' reply. sync mem_env demo_resources (\<lambda>i. 7) ''ws1'' ''u1'' ''c1'' \<lparr>iq_types = Some [Cloudwatch], iq_region = None\<rparr>
      empty_db = (s', Inr reply) \<and> sr_synced reply = 1 \<and> sr_provider reply = MockProvider \<and> res_indexed s'"
proof -
  have "listResources (providerFor demo_resources ''ws1'') 7 \<lparr>iq_types = Some [Cloudwatch], iq_region = None\<rparr> =
      Inr (mock_cloudwatch 7 ''ws1'')"
    by (simp add: providerFor_def createCloudProvider_def demo_resources_def mock_listResources_def
        buildMockInventory_def mock_ec2_def mock_s3_def mock_lambda_def mock_cloudwatch_def resource_def)
  moreover have "name_of (providerFor demo_resources ''ws1'') = MockProvider"
    by (simp add: providerFor_def createCloudProvider_def demo_resources_def)
  moreover have "res_indexed empty_db" by (simp add: res_indexed_def empty_db_def)
  ultimately show ?thesis
    using sync_refines_catalog [OF mem_store.reliable_store_axioms, where s = empty_db and cfg = demo_resources
        and w = "''ws1''" and clk = "\<lambda>i. 7" and query = "\<lparr>iq_types = Some [Cloudwatch], iq_region = None\<rparr>"
        and actor = "''u1''" and c = "''c1''"]
    by (auto simp: mock_cloudwatch_def)
qed


section \<open>Searching by name\<close>

text \<open>A pattern that only spells a text: metacharacters are escaped, nothing else is.\<close>

fun spells :: "string \<Rightarrow> string option" where
  "spells [] = Some []"
| "spells (c # cs) =
     (if c = CHR 0x5C then
        (case cs of [] \<Rightarrow> None
         | d # ds \<Rightarrow> if d \<in> metachars then map_option ((#) d) (spells ds) else None)
      else if c \<in> metachars then None else map_option ((#) c) (spells cs))"

lemma spells_escape: "spells (escape_regex q) = Some q"
proof (induction q)
  case (Cons c q)
  show ?case
  proof (cases "c \<in> metachars")
    case False
    then have "c \<noteq> CHR 0x5C" by (auto simp: metachars_def)
    with False Cons show ?thesis by simp
  qed (use Cons in simp)
qed simp

context store
begin

lemma list_resources_page:
  assumes "list_resources env rx w query s = (s', Inr reply)" "1 \<le> rq_page query" "1 \<le> rq_limit query"
  shows "s' = s \<and> page_of (resource_filter rx w query) (\<lambda>a b. r_name a \<le> r_name b)
    (rq_page query) (rq_limit query) (db_resources s) reply"
  using assms unfolding list_resources_def by (intro resources.page_answers sort_order_key)

end

text \<open>
  Searching is literal: whatever the user types, the pattern sent to the database spells exactly that
  text, so with a search engine that finds a spelled text as a substring regardless of case, the
  list of resources answers with a slice of exactly the workspace's resources of the wanted type
  and region whose name contains the text.
\<close>

theorem resource_search_is_literal:
  assumes "store env" "1 \<le> rq_page query" "1 \<le> rq_limit query"
    and "\<And>p t l. spells p = Some l \<Longrightarrow> rx p t \<longleftrightarrow> sublist (toLowerCase l) (toLowerCase t)"
    and "list_resources env rx w query s = (s', Inr reply)"
  shows "s' = s \<and> page_of (\<lambda>r. r_workspaceId r = w \<and>
      (truthy (rq_type query) \<longrightarrow> Some (resource_type_str (r_type r)) = rq_type query) \<and>
      (truthy (rq_region query) \<longrightarrow> Some (r_region r) = rq_region query) \<and>
      (truthy (rq_q query) \<longrightarrow> sublist (toLowerCase (the (rq_q query))) (toLowerCase (r_name r))))
    (\<lambda>a b. r_name a \<le> r_name b) (rq_page query) (rq_limit query) (db_resources s) reply"
proof -
  have "rx (escape_regex q) t \<longleftrightarrow> sublist (toLowerCase q) (toLowerCase t)" for q t
    by (rule assms(4)) (rule spells_escape)
  with store.list_resources_page [OF assms(1,5,2,3)] show ?thesis
    by (simp add: resource_filter_def [abs_def])
qed

definition demo_rx :: "string \<Rightarrow> string \<Rightarrow> bool" where
  "demo_rx p t = (case spells p of None \<Rightarrow> False | Some l \<Rightarrow> sublist (toLowerCase l) (toLowerCase t))"

theorem resource_search_is_literal_witness:
  "\<exists>reply. list_resources mem_env demo_rx ''ws1''
      \<lparr>rq_page = 1, rq_limit = 20, rq_type = None, rq_region = None, rq_q = Some ''a.b''\<rparr> empty_db = (empty_db, Inr reply)
    \<and> pg_limit reply = 20"
proof -
  let ?q = "\<lparr>rq_page = 1, rq_limit = 20, rq_type = None, rq_region = None, rq_q = Some ''a.b''\<rparr>"
  obtain s' reply where run: "list_resources mem_env demo_rx ''ws1'' ?q empty_db = (s', Inr reply)"
    by (simp add: list_resources_def bind_io_def ask_def empty_db_def)
  have "demo_rx p t \<longleftrightarrow> sublist (toLowerCase l) (toLowerCase t)" if "spells p = Some l" for p t l
    using that by (simp add: demo_rx_def)
  from resource_search_is_literal [OF mem_store.store_axioms _ _ this run] run
  show ?thesis by (simp add: page_of_def)
qed

end
