(* ===== verification/Api_Tenancy.thy ===== *)
theory Api_Tenancy
  imports Api_Router Remediation_Safety Resource_Catalog
begin

text \<open>
  Tenant isolation. \<open>confined w s0 s\<close> says that in every collection the documents of workspaces other than
  \<open>w\<close> are still those of \<open>s0\<close>, and that identifiers are unique. Creating a document of \<open>w\<close> keeps it, and so
  does saving a document whose identifier no other workspace's document has, which is so for every
  document that a query of \<open>w\<close> has found. From these the rules of the call combinators carry
  confinement through every handler.
\<close>

definition others :: "('d \<Rightarrow> string) \<Rightarrow> string \<Rightarrow> 'd list \<Rightarrow> 'd list" where
  "others ws w = filter (\<lambda>d. ws d \<noteq> w)"

definition confined :: "string \<Rightarrow> db \<Rightarrow> db \<Rightarrow> bool" where
  "confined w s0 s \<longleftrightarrow>
     others r_workspaceId w (db_resources s) = others r_workspaceId w (db_resources s0) \<and>
     others j_workspaceId w (db_jobs s) = others j_workspaceId w (db_jobs s0) \<and>
     others p_workspaceId w (db_plans s) = others p_workspaceId w (db_plans s0) \<and>
     others x_workspaceId w (db_executions s) = others x_workspaceId w (db_executions s0) \<and>
     others t_workspaceId w (db_tokens s) = others t_workspaceId w (db_tokens s0) \<and>
     others au_workspaceId w (db_audit s) = others au_workspaceId w (db_audit s0) \<and>
     db_findings s = db_findings s0 \<and> db_recommendations s = db_recommendations s0 \<and>
     db_healthChecks s = db_healthChecks s0 \<and> db_users s = db_users s0 \<and>
     db_workspaces s = db_workspaces s0 \<and>
     res_indexed s \<and> distinct (map j_id (db_jobs s)) \<and> distinct (map p_id (db_plans s)) \<and>
     distinct (map t_id (db_tokens s))"

definition unique_ids :: "db \<Rightarrow> bool" where
  "unique_ids s \<longleftrightarrow> res_indexed s \<and> distinct (map j_id (db_jobs s)) \<and> distinct (map p_id (db_plans s)) \<and>
     distinct (map t_id (db_tokens s))"

lemma confined_refl: "unique_ids s \<Longrightarrow> confined w s s"
  by (simp add: confined_def unique_ids_def)

lemma others_append: "ws d = w \<Longrightarrow> others ws w (xs @ [d]) = others ws w xs"
  by (simp add: others_def)

text \<open>An identifier that no document of another workspace has.\<close>

definition no_other :: "('d \<Rightarrow> string) \<Rightarrow> ('d \<Rightarrow> oid) \<Rightarrow> string \<Rightarrow> 'd list \<Rightarrow> oid \<Rightarrow> bool" where
  "no_other ws key w xs i \<longleftrightarrow> i \<notin> key ` set (others ws w xs)"

lemma others_update:
  assumes "no_other ws key w xs i" "\<And>d. ws (f d) = ws d"
  shows "others ws w (map (\<lambda>d. if key d = i then f d else d) xs) = others ws w xs"
proof -
  let ?g = "\<lambda>d. if key d = i then f d else d"
  have "(\<lambda>d. ws d \<noteq> w) \<circ> ?g = (\<lambda>d. ws d \<noteq> w)" by (simp add: fun_eq_iff assms(2))
  then have "others ws w (map ?g xs) = map ?g (others ws w xs)" by (simp only: others_def filter_map)
  also have "\<dots> = others ws w xs" using assms(1) by (intro map_idI) (auto simp: no_other_def)
  finally show ?thesis .
qed

lemma found_no_other:
  assumes "distinct (map key xs)" "d \<in> set xs" "ws d = w"
  shows "no_other ws key w xs (key d)"
  unfolding no_other_def
proof
  assume "key d \<in> key ` set (others ws w xs)"
  then obtain e where e: "e \<in> set xs" "ws e \<noteq> w" "key e = key d" by (auto simp: others_def)
  from distinct_key_unique [OF assms(1) e(1) assms(2) e(3)] e(2) assms(3) show False by simp
qed

lemma no_other_cong: "others ws w xs = others ws w ys \<Longrightarrow> no_other ws key w xs i = no_other ws key w ys i"
  by (simp add: no_other_def)

text \<open>A look-up whose result, when there is one, has a property that does not depend on the state.\<close>

lemma keeps_found:
  fixes look :: "('s, 'e, 'd option) io"
  assumes "hoare P look (\<lambda>found s. P s \<and> (\<forall>d. found = Some d \<longrightarrow> \<phi> d)) (\<lambda>_. P)"
    and "keeps P m" "\<And>d. \<phi> d \<Longrightarrow> keeps P (f d)"
  shows "keeps P (bind_io look (\<lambda>found. case found of None \<Rightarrow> m | Some d \<Rightarrow> f d))"
proof (rule hoare_keepsI, rule hoare_bind [OF assms(1)], rule hoare_case_option)
  fix found and d :: 'd
  assume "found = Some d"
  with assms(3) show "hoare (\<lambda>s. P s \<and> (\<forall>d. found = Some d \<longrightarrow> \<phi> d)) (f d) (\<lambda>_. P) (\<lambda>_. P)"
    by (auto simp: keeps_def hoare_def)
qed (use assms(2) in \<open>auto simp: keeps_def hoare_def\<close>)


section \<open>Single calls\<close>

context store
begin

lemma confined_audit [keeps_rules]: "keeps (confined w s0) (record_audit env now w a act rt rid cid md)"
  unfolding record_audit_def
  by (rule hoare_keepsI, rule audit.hoare_create) (auto simp: confined_def others_append res_indexed_def)

lemma confined_save_plan:
  assumes "no_other p_workspaceId p_id w (db_plans s0) i"
    "\<And>d. p_workspaceId (f d) = p_workspaceId d" "\<And>d. p_id (f d) = p_id d"
  shows "keeps (confined w s0) (save_doc db_plans db_plans_update (e_plans env) (\<lambda>d. p_id d = i) f)"
proof (rule hoare_keepsI, rule plans.hoare_save_doc)
  fix s assume s: "confined w s0 s"
  have "no_other p_workspaceId p_id w (db_plans s) i"
    using assms(1) s by (simp add: confined_def cong: no_other_cong)
  with s assms(2,3) show "confined w s0 (db_plans_update (\<lambda>_. map (\<lambda>d. if p_id d = i then f d else d) (db_plans s)) s)"
    by (simp add: confined_def others_update res_indexed_def comp_def if_distrib [of p_id] cong: if_cong)
qed (simp_all add: confined_def)

lemma confined_save_token:
  assumes "no_other t_workspaceId t_id w (db_tokens s0) i"
    "\<And>d. t_workspaceId (f d) = t_workspaceId d" "\<And>d. t_id (f d) = t_id d"
  shows "keeps (confined w s0) (save_doc db_tokens db_tokens_update (e_tokens env) (\<lambda>d. t_id d = i) f)"
proof (rule hoare_keepsI, rule tokens.hoare_save_doc)
  fix s assume s: "confined w s0 s"
  have "no_other t_workspaceId t_id w (db_tokens s) i"
    using assms(1) s by (simp add: confined_def cong: no_other_cong)
  with s assms(2,3) show "confined w s0 (db_tokens_update (\<lambda>_. map (\<lambda>d. if t_id d = i then f d else d) (db_tokens s)) s)"
    by (simp add: confined_def others_update res_indexed_def comp_def if_distrib [of t_id] cong: if_cong)
qed (simp_all add: confined_def)

lemma confined_save_resource:
  assumes "no_other r_workspaceId r_id w (db_resources s0) i"
    "\<And>d. r_workspaceId (f d) = r_workspaceId d" "\<And>d. r_id (f d) = r_id d" "\<And>d. res_key (f d) = res_key d"
  shows "keeps (confined w s0) (save_doc db_resources db_resources_update (e_resources env) (\<lambda>d. r_id d = i) f)"
proof (rule hoare_keepsI, rule resources.hoare_save_doc)
  fix s assume s: "confined w s0 s"
  have "no_other r_workspaceId r_id w (db_resources s) i"
    using assms(1) s by (simp add: confined_def cong: no_other_cong)
  with s assms(2-4) show "confined w s0 (db_resources_update (\<lambda>_. map (\<lambda>d. if r_id d = i then f d else d) (db_resources s)) s)"
    by (simp add: confined_def others_update res_indexed_def comp_def if_distrib [of r_id]
        if_distrib [of res_key] cong: if_cong)
qed (simp_all add: confined_def res_indexed_def)

lemma confined_find_plan:
  "hoare (confined w s0) (ask db_plans (drv_findOne (e_plans env) (\<lambda>p. p_id p = i \<and> p_workspaceId p = w)))
    (\<lambda>found s. confined w s0 s \<and>
      (\<forall>p. found = Some p \<longrightarrow> p_workspaceId p = w \<and> p_id p = i \<and>
        no_other p_workspaceId p_id w (db_plans s0) (p_id p))) (\<lambda>_. confined w s0)"
proof (rule hoare_ask)
  fix s found
  assume s: "confined w s0 s"
    and f: "drv_findOne (e_plans env) (\<lambda>p. p_id p = i \<and> p_workspaceId p = w) (db_plans s) = Inr found"
  have "no_other p_workspaceId p_id w (db_plans s0) (p_id p)" if "p \<in> set (db_plans s)" "p_workspaceId p = w" for p
    using found_no_other [of p_id "db_plans s" p p_workspaceId w] that s
    by (simp add: confined_def cong: no_other_cong)
  with s f show "confined w s0 s \<and> (\<forall>p. found = Some p \<longrightarrow> p_workspaceId p = w \<and> p_id p = i \<and>
      no_other p_workspaceId p_id w (db_plans s0) (p_id p))"
    using plans.findOne_Some by blast
qed


lemma confined_update_job:
  assumes "no_other j_workspaceId j_id w (db_jobs s0) i"
    "\<And>d. j_workspaceId (f d) = j_workspaceId d" "\<And>d. j_id (f d) = j_id d"
  shows "keeps (confined w s0) (tell db_jobs db_jobs_update (drv_updateOne (e_jobs env) (\<lambda>d. j_id d = i) f))"
proof (rule keeps_tell)
  fix s js r
  assume s: "confined w s0 s" and u: "drv_updateOne (e_jobs env) (\<lambda>d. j_id d = i) f (db_jobs s) = Inr (js, r)"
  have js: "js = map (\<lambda>d. if j_id d = i then f d else d) (db_jobs s)"
    using jobs.updateOne_by_key [OF u] s by (simp add: confined_def)
  have "no_other j_workspaceId j_id w (db_jobs s) i"
    using assms(1) s by (simp add: confined_def cong: no_other_cong)
  with s assms(2,3) show "confined w s0 (db_jobs_update (\<lambda>_. js) s)"
    by (simp add: confined_def js others_update res_indexed_def comp_def if_distrib [of j_id] cong: if_cong)
qed

lemma confined_find_job:
  "hoare (confined w s0) (ask db_jobs (drv_findOne (e_jobs env) (\<lambda>j. j_id j = i \<and> j_workspaceId j = w)))
    (\<lambda>found s. confined w s0 s \<and>
      (\<forall>j. found = Some j \<longrightarrow> j_workspaceId j = w \<and> j_id j = i \<and>
        no_other j_workspaceId j_id w (db_jobs s0) (j_id j))) (\<lambda>_. confined w s0)"
proof (rule hoare_ask)
  fix s found
  assume s: "confined w s0 s"
    and f: "drv_findOne (e_jobs env) (\<lambda>j. j_id j = i \<and> j_workspaceId j = w) (db_jobs s) = Inr found"
  have "no_other j_workspaceId j_id w (db_jobs s0) (j_id j)" if "j \<in> set (db_jobs s)" "j_workspaceId j = w" for j
    using found_no_other [of j_id "db_jobs s" j j_workspaceId w] that s
    by (simp add: confined_def cong: no_other_cong)
  with s f show "confined w s0 s \<and> (\<forall>j. found = Some j \<longrightarrow> j_workspaceId j = w \<and> j_id j = i \<and>
      no_other j_workspaceId j_id w (db_jobs s0) (j_id j))"
    using jobs.findOne_Some by blast
qed

section \<open>The services\<close>

lemma confined_create_job: "keeps (confined w s0) (create_job env svc clk w a c inp)"
proof -
  have "keeps (confined w s0) (tell db_jobs db_jobs_update (drv_create (e_jobs env) (new_job svc clk w a c inp)))"
    by (rule hoare_keepsI, rule jobs.hoare_create)
      (auto simp: confined_def others_append doc_simps res_indexed_def)
  then show ?thesis
    unfolding create_job_def create_job_insert_def
    by (intro keeps_bind keeps_ask keeps_case_option keeps_ret keeps_catch keeps_if keeps_throw confined_audit)
qed

lemma confined_retry_job: "keeps (confined w s0) (retry_job env clk w i a c)"
  unfolding retry_job_def
  by (rule keeps_found [OF confined_find_job];
      intro keeps_if keeps_throw keeps_bind keeps_case_option keeps_ret confined_audit confined_update_job;
      auto simp: doc_simps)

lemma confined_createPlan: "keeps (confined w s0) (createPlan env clk w a c inp)"
proof -
  have "keeps (confined w s0) (tell db_plans db_plans_update (drv_create (e_plans env) (new_plan w a c inp as)))" for as
    by (rule hoare_keepsI, rule plans.hoare_create)
      (auto simp: confined_def others_append new_plan_def res_indexed_def)
  then show ?thesis
    unfolding createPlan_def
    by (intro keeps_bind keeps_ask keeps_case_option keeps_case_sum keeps_ret keeps_if keeps_throw confined_audit)
qed

lemma confined_new_token:
  "keeps (confined w s0) (tell db_tokens db_tokens_update (drv_create (e_tokens env)
    (new_token cfg hash now w i a tok)))"
  by (rule hoare_keepsI, rule tokens.hoare_create)
    (auto simp: confined_def others_append new_token_def res_indexed_def)

lemma confined_approve: "keeps (confined w s0) (approve env cfg hash clk tok w i a c)"
  unfolding approve_def approve_apply_def
  by (rule keeps_found [OF confined_find_plan];
      intro keeps_if keeps_throw keeps_bind keeps_ret confined_audit confined_save_plan confined_new_token;
      auto)

text \<open>The loop over the actions: every resource in its map is one that no other workspace has.\<close>

definition own_map :: "string \<Rightarrow> db \<Rightarrow> (oid \<Rightarrow> cloud_resource option) \<Rightarrow> bool" where
  "own_map w s0 m \<longleftrightarrow> (\<forall>i r. m i = Some r \<longrightarrow> no_other r_workspaceId r_id w (db_resources s0) (r_id r))"

lemma with_state_simps [simp]:
  "r_id (with_state st v r) = r_id r" "r_workspaceId (with_state st v r) = r_workspaceId r"
  "res_key (with_state st v r) = res_key r"
  by (simp_all add: with_state_def res_key_def)

lemma confined_run_action:
  assumes "own_map w s0 (ea_byId acc)"
  shows "hoare (confined w s0) (run_action env cfg plan acc a)
    (\<lambda>acc' s. confined w s0 s \<and> own_map w s0 (ea_byId acc')) (\<lambda>_. confined w s0)"
proof (cases "ea_byId acc (a_resourceId a)")
  case None
  with assms show ?thesis by (simp add: run_action_def hoare_def)
next
  case (Some r)
  have r: "no_other r_workspaceId r_id w (db_resources s0) (r_id r)"
    using assms Some by (simp add: own_map_def)
  show ?thesis
  proof (cases "applySimulatedAction (res_state_of r) a")
    case (Inl e)
    with Some show ?thesis by (simp add: run_action_def Let_def hoare_def)
  next
    case (Inr sx)
    obtain st x where sx: "sx = (st, x)" by (cases sx)
    show ?thesis
    proof (cases "persists cfg plan")
      case False
      with Some Inr sx assms show ?thesis by (simp add: run_action_def Let_def hoare_def own_map_def)
    next
      case True
      have "own_map w s0 ((ea_byId acc)(a_resourceId a \<mapsto> with_state st (r_version r + 1) r))"
        using assms r by (simp add: own_map_def)
      then show ?thesis
        using True Some Inr sx
        by (simp add: run_action_def Let_def)
          (rule hoare_bind [OF confined_save_resource [OF r, unfolded keeps_def]], simp_all add: hoare_def)
    qed
  qed
qed

lemma confined_execute_apply:
  assumes "no_other p_workspaceId p_id w (db_plans s0) (p_id plan)"
    and "no_other t_workspaceId t_id w (db_tokens s0) (t_id tok)"
  shows "keeps (confined w s0) (execute_apply env cfg clk w planId a c inp plan tok)"
proof -
  let ?p = "\<lambda>r. r_workspaceId r = w \<and> r_id r \<in> set (map a_resourceId (p_actions plan))"
  let ?m = "\<lambda>rs. map_of (rev (map (\<lambda>r. (r_id r, r)) rs))"
  have look: "hoare (confined w s0) (ask db_resources (drv_find (e_resources env) ?p))
    (\<lambda>rs s. confined w s0 s \<and> own_map w s0 (?m rs)) (\<lambda>_. confined w s0)"
  proof (rule hoare_ask)
    fix s rs assume s: "confined w s0 s" and f: "drv_find (e_resources env) ?p (db_resources s) = Inr rs"
    have "no_other r_workspaceId r_id w (db_resources s0) (r_id r)" if "r \<in> set rs" for r
    proof -
      have "r \<in> set (db_resources s)" "r_workspaceId r = w" using resources.find_mem [OF f] that by auto
      with found_no_other [of r_id "db_resources s" r r_workspaceId w] s show ?thesis
        by (simp add: confined_def res_indexed_def cong: no_other_cong)
    qed
    moreover have "r \<in> set rs \<and> r_id r = i" if "?m rs i = Some r" for i r
      using map_of_SomeD [OF that] by auto
    ultimately show "confined w s0 s \<and> own_map w s0 (?m rs)"
      using s unfolding own_map_def by blast
  qed simp
  have loop: "hoare (\<lambda>s. confined w s0 s \<and> own_map w s0 (ea_byId acc)) (for_io (run_action env cfg plan) acc as)
    (\<lambda>acc' s. confined w s0 s \<and> own_map w s0 (ea_byId acc')) (\<lambda>_. confined w s0)" for acc as
    by (rule hoare_for [where I = "\<lambda>ys acc s. confined w s0 s \<and> own_map w s0 (ea_byId acc)"])
      (use confined_run_action in \<open>auto simp: hoare_def\<close>)
  have create: "keeps (confined w s0) (tell db_executions db_executions_update (drv_create (e_executions env)
      (new_execution w planId (t_id tok) a c inp (p_dryRun plan) acc n m)))" for acc n m
    by (rule hoare_keepsI, rule executions.hoare_create)
      (auto simp: confined_def others_append new_execution_def res_indexed_def)
  have status: "keeps (confined w s0) (set_plan_status env (p_id plan) st)" for st
    unfolding set_plan_status_def by (rule confined_save_plan) (simp_all add: assms(1))
  have token: "keeps (confined w s0) (save_doc db_tokens db_tokens_update (e_tokens env)
      (\<lambda>t. t_id t = t_id tok) (\<lambda>t. t\<lparr>t_usedAt := Some n\<rparr>))" for n
    by (rule confined_save_token) (simp_all add: assms(2))
  have rest: "keeps (confined w s0) (bind_io (tell db_executions db_executions_update (drv_create (e_executions env)
       (new_execution w planId (t_id tok) a c inp (p_dryRun plan) acc (clk 2) (clk 3)))) (\<lambda>execution.
     bind_io (set_plan_status env (p_id plan) (final_plan_status (execution_status (ea_results acc)))) (\<lambda>_.
     bind_io (record_audit env (clk 4) w a ''remediation.execute'' ''RemediationExecution''
       (Some (x_id execution)) c
       (Some [(''status'', JStr (exec_status_str (execution_status (ea_results acc)))),
              (''dryRun'', JBool (p_dryRun plan)),
              (''failed'', JNum (of_nat (failed_results (ea_results acc))))])) (\<lambda>_.
     ret (execution, False)))))" for acc
    by (intro keeps_bind create status confined_audit keeps_ret)
  have pure: "hoare (\<lambda>s. confined w s0 s \<and> \<phi>) m (\<lambda>_ s. confined w s0 s \<and> \<phi>) (\<lambda>_. confined w s0)"
    if "keeps (confined w s0) m" for \<phi> and m :: "unit call"
    by (rule hoareI) (use hoare_Inr [OF that [unfolded keeps_def]] hoare_Inl [OF that [unfolded keeps_def]] in blast)+
  show ?thesis
    unfolding execute_apply_def
    by (rule hoare_keepsI, rule hoare_bind [OF look], rule hoare_bind [OF pure [OF status]],
        rule hoare_bind [OF pure [OF token]], rule hoare_bind [OF hoare_pre [OF _ loop]], simp,
        rule hoare_pre [OF _ rest [unfolded keeps_def]], simp)
qed

lemma confined_execute: "keeps (confined w s0) (execute env cfg hash clk w planId a c inp)"
proof (rule keepsI)
  fix s assume s: "confined w s0 s"
  obtain s' r where e: "execute env cfg hash clk w planId a c inp s = (s', r)" by fastforce
  then have "confined w s0 s'"
  proof (cases rule: execute_cases)
    case (applied plan tok)
    note c = execute_checks_Inr [OF applied(2)]
    have "no_other p_workspaceId p_id w (db_plans s0) (p_id plan)"
      "no_other t_workspaceId t_id w (db_tokens s0) (t_id tok)"
      using found_no_other [of p_id "db_plans s" plan p_workspaceId w] c(2,4)
        found_no_other [of t_id "db_tokens s" tok t_workspaceId w] c(6,8) s
      by (simp_all add: confined_def cong: no_other_cong)
    from keepsD [OF confined_execute_apply [OF this] s] applied(3) show ?thesis by (metis fst_conv)
  qed (use s in simp_all)
  with e show "confined w s0 (fst (execute env cfg hash clk w planId a c inp s))" by simp
qed

lemma confined_sync_item:
  assumes "i_workspaceId x = w"
  shows "keeps (confined w s0) (sync_item env clk w acc x)"
proof -
  have up: "keeps (confined w s0) (tell db_resources db_resources_update (drv_upsert (e_resources env)
      (same_arn w (i_arn x)) (set_item x now) (new_resource x now)))" for now
  proof (rule keepsI)
    fix s assume s: "confined w s0 s"
    obtain s1 r where u: "tell db_resources db_resources_update (drv_upsert (e_resources env)
      (same_arn w (i_arn x)) (set_item x now) (new_resource x now)) s = (s1, r)" by fastforce
    then have "confined w s0 s1"
      using new_resource_simps(1)
    proof (cases rule: resources.tell_upsert_cases)
      case (failed e)
      with s show ?thesis by simp
    next
      case (updated c d)
      obtain xs r0 ys where o: "db_resources s = xs @ r0 # ys" "same_arn w (i_arn x) r0"
        "c = xs @ set_item x now r0 # ys"
        using updated(3) by (rule one_updatedE)
      have "res_key r0 = (w, i_arn x)" "r_workspaceId r0 = w" using o(2) by (simp_all add: same_arn_key res_key_def)
      with assms o have "others r_workspaceId w c = others r_workspaceId w (db_resources s)"
        "map r_id c = map r_id (db_resources s)" "map res_key c = map res_key (db_resources s)"
        by (simp_all add: others_def) (simp add: set_item_def)
      with s updated(1) show ?thesis by (simp add: confined_def res_indexed_def)
    next
      case (inserted d)
      have key: "res_key d = (w, i_arn x)" using inserted(4) assms new_resource_simps(2) by metis
      then have "r_workspaceId d = w" by (simp add: res_key_def)
      with s inserted(1,5,6) show ?thesis
        by (auto simp: confined_def others_append res_indexed_def resource_clash_key)
    qed
    with u show "confined w s0 (fst (tell db_resources db_resources_update (drv_upsert (e_resources env)
      (same_arn w (i_arn x)) (set_item x now) (new_resource x now)) s))" by simp
  qed
  show ?thesis unfolding sync_item_def by (intro keeps_bind up keeps_ret)
qed

lemma confined_sync: "keeps (confined w s0) (sync env cfg clk w a c query)"
proof (cases "listResources (providerFor cfg w) (clk 0) query")
  case (Inl err)
  then show ?thesis by (simp add: sync_def Let_def keeps_throw)
next
  case (Inr xs)
  have "keeps (confined w s0) (for_io (sync_item env clk w) acc xs)" for acc
    using discovered_in_workspace [OF Inr]
    by (induction xs arbitrary: acc) (auto intro!: keeps_ret keeps_bind confined_sync_item)
  with Inr show ?thesis
    by (simp add: sync_def Let_def) (intro keeps_bind keeps_ret confined_audit)
qed

end


section \<open>The interface\<close>

text \<open>The reading calls write nothing.\<close>

lemma reads_only:
  "keeps (\<lambda>s. s = s1) (login env bc sign acfg email pw)"
  "keeps (\<lambda>s. s = s1) (list_resources env rx w rq)" "keeps (\<lambda>s. s = s1) (get_resource env w i)"
  "keeps (\<lambda>s. s = s1) (list_jobs env w pg lm st)" "keeps (\<lambda>s. s = s1) (get_job env w i)"
  "keeps (\<lambda>s. s = s1) (listFindings env w pg lm f1 f2 f3)"
  "keeps (\<lambda>s. s = s1) (listRecommendations env w pg lm f1 f2)"
  "keeps (\<lambda>s. s = s1) (listAuditEvents env w pg lm f1 f2)"
  unfolding login_def list_resources_def get_resource_def list_jobs_def get_job_def listFindings_def
    listRecommendations_def listAuditEvents_def Let_def
  by (intro keeps_bind keeps_ask keeps_case_option keeps_if keeps_throw keeps_ret)+

definition writing :: "route \<Rightarrow> bool" where
  "writing r \<longleftrightarrow> (case r of SyncResources \<Rightarrow> True | Diagnostics \<Rightarrow> True | RetryJob _ \<Rightarrow> True
     | PlanRemediation \<Rightarrow> True | ApprovePlan _ \<Rightarrow> True | ExecutePlan _ \<Rightarrow> True | _ \<Rightarrow> False)"

text \<open>The roles that may make a request write.\<close>

definition writers :: "route \<Rightarrow> role list" where
  "writers r = (case r of ApprovePlan _ \<Rightarrow> [Admin] | _ \<Rightarrow> [Admin, Operator])"

lemma keeps_guarded: "(\<And>x. check = Inr x \<Longrightarrow> keeps I (k x)) \<Longrightarrow> keeps I (guarded check k)"
  by (cases check) (simp_all add: guarded_def keeps_throw)

lemma handle_reads:
  assumes "\<not> writing r"
  shows "keeps (\<lambda>s. s = s1) (handle cfg dw c me req r)"
proof -
  have "keeps (\<lambda>s. s = s1) (get_resources cfg me req)" "keeps (\<lambda>s. s = s1) (get_one_resource cfg me i)"
    "keeps (\<lambda>s. s = s1) (get_jobs cfg me req)" "keeps (\<lambda>s. s = s1) (get_one_job cfg me i)"
    "keeps (\<lambda>s. s = s1) (get_findings cfg me req)" "keeps (\<lambda>s. s = s1) (get_recommendations cfg me req)"
    "keeps (\<lambda>s. s = s1) (get_audit cfg c me req)" for i
    unfolding get_resources_def get_one_resource_def get_jobs_def get_one_job_def get_findings_def
      get_recommendations_def get_audit_def for_roles_def with_query_def
    by (intro keeps_guarded keeps_bind reads_only keeps_ret keeps_case_option keeps_throw)+
  with assms show ?thesis by (cases r) (simp_all add: handle_def writing_def)
qed

lemma handle_gate:
  assumes "writing r" "c_role c \<notin> (JStr \<circ> role_str) ` set (writers r)"
  shows "handle cfg dw c me req r = throw (AppErr (ForbiddenError ''Insufficient permissions''))"
  using assms by (cases r) (auto simp: handle_def writing_def writers_def sync_resources_def
      post_diagnostics_def post_retry_def post_plan_def post_approve_def post_execute_def for_roles_def
      guarded_def requireRole_def)

lemma handle_confined:
  assumes "store (ap_env cfg)"
  shows "keeps (confined (cl_workspace me) s0) (handle cfg dw c me req r)"
proof (cases "writing r")
  case False
  have "keeps (confined (cl_workspace me) s0) m" if "\<And>s1. keeps (\<lambda>s. s = s1) m" for m :: "response call"
    by (rule keepsI) (use keepsD [OF that] in auto)
  with handle_reads [OF False] show ?thesis by blast
next
  case True
  note calls = store.confined_sync [OF assms] store.confined_create_job [OF assms]
    store.confined_retry_job [OF assms] store.confined_createPlan [OF assms]
    store.confined_approve [OF assms] store.confined_execute [OF assms]
  have "keeps (confined (cl_workspace me) s0) (sync_resources cfg dw c me req)"
    "keeps (confined (cl_workspace me) s0) (post_diagnostics cfg dw c me req)"
    "keeps (confined (cl_workspace me) s0) (post_retry cfg dw c me i)"
    "keeps (confined (cl_workspace me) s0) (post_plan cfg dw c me req)"
    "keeps (confined (cl_workspace me) s0) (post_approve cfg dw c me i)"
    "keeps (confined (cl_workspace me) s0) (post_execute cfg dw c me i req)" for i
    unfolding sync_resources_def post_diagnostics_def post_retry_def post_plan_def post_approve_def
      post_execute_def for_roles_def with_body_def
    by (intro keeps_guarded keeps_bind calls keeps_ret keeps_case_prod)+
  with True show ?thesis by (cases r) (simp_all add: handle_def writing_def)
qed

end
