(* ===== verification/Document_Schemas.thy ===== *)
theory Document_Schemas
  imports Api_Tenancy
begin

text \<open>
  What the Mongoose schemas of \<^verbatim>\<open>packages/shared/src/db/models\<close> demand of a document that is created, beyond
  the types of its fields: a required string is not empty, an enumerated string is one of the list, a number
  keeps its limits. \<^verbatim>\<open>create\<close> refuses a document that does not conform; updates and upserts are not validated,
  as no call asks for it. The API never has a document refused: what it creates conforms, and what it
  updates still does.
\<close>

section \<open>The schemas\<close>

definition resourceSchema :: "cloud_resource \<Rightarrow> bool" where
  "resourceSchema r \<longleftrightarrow> r_workspaceId r \<noteq> [] \<and> r_region r \<noteq> [] \<and> r_arn r \<noteq> [] \<and> r_name r \<noteq> []"

definition diagnosticJobSchema :: "job \<Rightarrow> bool" where
  "diagnosticJobSchema j \<longleftrightarrow> j_workspaceId j \<noteq> [] \<and> j_idempotencyKey j \<noteq> [] \<and> j_correlationId j \<noteq> [] \<and>
     j_createdBy j \<noteq> []"

definition FINDING_SEVERITIES :: "string list" where
  "FINDING_SEVERITIES = [''critical'', ''high'', ''medium'', ''low'', ''info'']"

definition findingSchema :: "finding \<Rightarrow> bool" where
  "findingSchema f \<longleftrightarrow> f_workspaceId f \<noteq> [] \<and> f_jobId f \<noteq> [] \<and> f_resourceId f \<noteq> [] \<and> f_ruleId f \<noteq> [] \<and>
     f_severity f \<in> set FINDING_SEVERITIES \<and> f_title f \<noteq> [] \<and> f_description f \<noteq> [] \<and> f_correlationId f \<noteq> []"

definition recommendationSchema :: "recommendation \<Rightarrow> bool" where
  "recommendationSchema r \<longleftrightarrow> rec_workspaceId r \<noteq> [] \<and> rec_jobId r \<noteq> [] \<and> rec_findingId r \<noteq> [] \<and>
     rec_resourceId r \<noteq> [] \<and> rec_actionType r \<noteq> [] \<and> rec_explanation r \<noteq> [] \<and> rec_estimatedImpact r \<noteq> [] \<and>
     0 \<le> rec_confidence r \<and> rec_confidence r \<le> 1 \<and> rec_correlationId r \<noteq> []"

definition healthCheckSchema :: "health_check \<Rightarrow> bool" where
  "healthCheckSchema h \<longleftrightarrow> h_workspaceId h \<noteq> [] \<and> h_resourceId h \<noteq> [] \<and>
     h_status h \<in> {Healthy, Unhealthy, Degraded}"

definition remediationPlanSchema :: "plan \<Rightarrow> bool" where
  "remediationPlanSchema p \<longleftrightarrow> p_workspaceId p \<noteq> [] \<and> p_createdBy p \<noteq> [] \<and> p_correlationId p \<noteq> [] \<and>
     p_idempotencyKey p \<noteq> []"

definition remediationExecutionSchema :: "execution \<Rightarrow> bool" where
  "remediationExecutionSchema x \<longleftrightarrow> x_workspaceId x \<noteq> [] \<and> x_planId x \<noteq> [] \<and> x_approvalTokenId x \<noteq> [] \<and>
     x_idempotencyKey x \<noteq> [] \<and> x_correlationId x \<noteq> [] \<and> x_createdBy x \<noteq> []"

definition approvalTokenSchema :: "approval_token \<Rightarrow> bool" where
  "approvalTokenSchema t \<longleftrightarrow> t_workspaceId t \<noteq> [] \<and> t_planId t \<noteq> [] \<and> t_tokenHash t \<noteq> [] \<and> t_createdBy t \<noteq> []"

definition auditEventSchema :: "audit_event \<Rightarrow> bool" where
  "auditEventSchema a \<longleftrightarrow> au_workspaceId a \<noteq> [] \<and> au_actorId a \<noteq> [] \<and> au_action a \<noteq> [] \<and>
     au_resourceType a \<noteq> [] \<and> au_correlationId a \<noteq> []"

definition userSchema :: "user \<Rightarrow> bool" where
  "userSchema u \<longleftrightarrow> u_workspaceId u \<noteq> [] \<and> u_email u \<noteq> [] \<and> u_passwordHash u \<noteq> []"

definition workspaceSchema :: "workspace \<Rightarrow> bool" where
  "workspaceSchema x \<longleftrightarrow> ws_name x \<noteq> []"

lemmas schema_defs = diagnosticJobSchema_def remediationPlanSchema_def remediationExecutionSchema_def
  approvalTokenSchema_def auditEventSchema_def

text \<open>The collections that the API creates documents in. A token is referred to by its identifier.\<close>

definition conforming :: "db \<Rightarrow> bool" where
  "conforming s \<longleftrightarrow>
     (\<forall>j \<in> set (db_jobs s). diagnosticJobSchema j) \<and>
     (\<forall>p \<in> set (db_plans s). remediationPlanSchema p) \<and>
     (\<forall>x \<in> set (db_executions s). remediationExecutionSchema x) \<and>
     (\<forall>t \<in> set (db_tokens s). approvalTokenSchema t \<and> t_id t \<noteq> []) \<and>
     (\<forall>a \<in> set (db_audit s). auditEventSchema a)"


section \<open>Creating and updating\<close>

context mongo
begin

lemma keeps_create:
  assumes "\<And>i. key (mk i) = i" "\<And>s i. I s \<Longrightarrow> i \<noteq> [] \<Longrightarrow> I (upd (\<lambda>_. get s @ [mk i]) s)"
  shows "keeps I (tell get upd (drv_create drv mk))"
proof (rule keeps_tell)
  fix s c d assume I: "I s" and c: "drv_create drv mk (get s) = Inr (c, d)"
  from create_Inr [OF c assms(1)] create_id [OF c assms(1)] assms(2) [OF I, of "key d"]
  show "I (upd (\<lambda>_. c) s)" by metis
qed

lemma keeps_update:
  assumes "\<And>s. I s \<Longrightarrow> \<forall>d \<in> set (get s). C d" "\<And>d. C d \<Longrightarrow> C (f d)"
    and "\<And>s c. I s \<Longrightarrow> \<forall>d \<in> set c. C d \<Longrightarrow> I (upd (\<lambda>_. c) s)"
  shows "keeps I (tell get upd (drv_updateOne drv p f))"
proof (rule keeps_tell)
  fix s c r assume I: "I s" and u: "drv_updateOne drv p f (get s) = Inr (c, r)"
  have "\<forall>d \<in> set c. C d" by (rule updateOne_all [OF u assms(1) [OF I]]) (rule assms(2))
  with I show "I (upd (\<lambda>_. c) s)" by (rule assms(3))
qed

lemma keeps_save:
  assumes "\<And>s. I s \<Longrightarrow> \<forall>d \<in> set (get s). C d" "\<And>d. C d \<Longrightarrow> C (f d)"
    and "\<And>s c. I s \<Longrightarrow> \<forall>d \<in> set c. C d \<Longrightarrow> I (upd (\<lambda>_. c) s)"
  shows "keeps I (save_doc get upd drv p f)"
  unfolding save_doc_def
  by (intro keeps_bind keeps_case_option keeps_throw keeps_ret keeps_update [where C = C]) (use assms in blast)+

end

context store
begin

lemma conforming_audit:
  assumes "w \<noteq> []" "a \<noteq> []" "act \<noteq> []" "rt \<noteq> []" "cid \<noteq> []"
  shows "keeps conforming (record_audit env now w a act rt rid cid md)"
  unfolding record_audit_def
  by (rule audit.keeps_create) (use assms in \<open>simp_all add: conforming_def auditEventSchema_def\<close>)

lemma conforming_create_job:
  assumes "w \<noteq> []" "a \<noteq> []" "cid \<noteq> []" "ji_idempotencyKey inp \<noteq> []"
  shows "keeps conforming (create_job env svc clk w a cid inp)"
proof -
  have "keeps conforming (tell db_jobs db_jobs_update (drv_create (e_jobs env) (new_job svc clk w a cid inp)))"
    by (rule jobs.keeps_create) (use assms in \<open>simp_all add: conforming_def diagnosticJobSchema_def new_job_def\<close>)
  then show ?thesis
    unfolding create_job_def create_job_insert_def using assms(1-3)
    by (intro keeps_bind keeps_ask keeps_case_option keeps_ret keeps_catch keeps_if keeps_throw conforming_audit)
      simp_all
qed

lemma conforming_retry_job:
  assumes "w \<noteq> []" "a \<noteq> []" "cid \<noteq> []"
  shows "keeps conforming (retry_job env clk w i a cid)"
proof -
  have "keeps conforming (tell db_jobs db_jobs_update (drv_updateOne (e_jobs env) p (reset_job t)))" for p t
    by (rule jobs.keeps_update [where C = diagnosticJobSchema])
      (simp_all add: conforming_def diagnosticJobSchema_def reset_job_def)
  then show ?thesis
    unfolding retry_job_def using assms
    by (intro keeps_bind keeps_ask keeps_case_option keeps_ret keeps_if keeps_throw conforming_audit) simp_all
qed

lemma conforming_createPlan:
  assumes "w \<noteq> []" "a \<noteq> []" "cid \<noteq> []" "pi_idempotencyKey inp \<noteq> []"
  shows "keeps conforming (createPlan env clk w a cid inp)"
proof -
  have "keeps conforming (tell db_plans db_plans_update (drv_create (e_plans env) (new_plan w a cid inp as)))" for as
    by (rule plans.keeps_create) (use assms in \<open>simp_all add: conforming_def remediationPlanSchema_def new_plan_def\<close>)
  then show ?thesis
    unfolding createPlan_def using assms(1-3)
    by (intro keeps_bind keeps_ask keeps_case_option keeps_case_sum keeps_ret keeps_if keeps_throw conforming_audit)
      simp_all
qed

lemma conforming_plan_status:
  "keeps conforming (save_doc db_plans db_plans_update (e_plans env) q (\<lambda>p. p\<lparr>p_status := st\<rparr>))"
  by (rule plans.keeps_save [where C = remediationPlanSchema]) (simp_all add: conforming_def remediationPlanSchema_def)

lemma conforming_approve:
  assumes "w \<noteq> []" "a \<noteq> []" "cid \<noteq> []" "i \<noteq> []" "\<And>t. hash t \<noteq> []"
  shows "keeps conforming (approve env cfg hash clk tok w i a cid)"
proof -
  have "keeps conforming (tell db_tokens db_tokens_update (drv_create (e_tokens env) (new_token cfg hash t w i a tok)))" for t
    by (rule tokens.keeps_create)
      (use assms in \<open>simp_all add: conforming_def approvalTokenSchema_def new_token_def hashToken_def\<close>)
  then show ?thesis
    unfolding approve_def approve_apply_def using assms(1-4)
    by (intro keeps_bind keeps_ask keeps_case_option keeps_ret keeps_if keeps_throw conforming_plan_status conforming_audit)
      simp_all
qed

lemma conforming_execute_apply:
  assumes "w \<noteq> []" "a \<noteq> []" "cid \<noteq> []" "i \<noteq> []" "xi_idempotencyKey inp \<noteq> []" "t_id tok \<noteq> []"
  shows "keeps conforming (execute_apply env cfg clk w i a cid inp plan tok)"
proof -
  have x: "keeps conforming (tell db_executions db_executions_update (drv_create (e_executions env)
      (new_execution w i (t_id tok) a cid inp dry acc n m)))" for dry acc n m
    by (rule executions.keeps_create)
      (use assms in \<open>simp_all add: conforming_def remediationExecutionSchema_def new_execution_def\<close>)
  have t: "keeps conforming (save_doc db_tokens db_tokens_update (e_tokens env) q (\<lambda>t. t\<lparr>t_usedAt := v\<rparr>))" for q v
    by (rule tokens.keeps_save [where C = "\<lambda>t. approvalTokenSchema t \<and> t_id t \<noteq> []"])
      (simp_all add: conforming_def approvalTokenSchema_def)
  have r: "keeps conforming (save_doc db_resources db_resources_update (e_resources env) q f)" for q f
    by (rule keeps_save_doc) (simp add: conforming_def)
  have "keeps conforming (run_action env cfg plan acc b)" for acc b
    unfolding run_action_def Let_def
    by (intro keeps_case_option keeps_case_sum keeps_case_prod keeps_if keeps_bind keeps_ret keeps_throw r)
  with x t show ?thesis
    unfolding execute_apply_def set_plan_status_def using assms(1-3)
    by (intro keeps_bind keeps_ask keeps_for keeps_ret conforming_plan_status conforming_audit) simp_all
qed

lemma conforming_execute:
  assumes "w \<noteq> []" "a \<noteq> []" "cid \<noteq> []" "i \<noteq> []" "xi_idempotencyKey inp \<noteq> []"
  shows "keeps conforming (execute env cfg hash clk w i a cid inp)"
proof (rule keepsI)
  fix s assume s: "conforming s"
  obtain s' r where run: "execute env cfg hash clk w i a cid inp s = (s', r)" by fastforce
  then have "conforming s'"
  proof (cases rule: execute_cases)
    case (applied plan tok)
    have "t_id tok \<noteq> []"
      using s execute_checks_Inr(6) [OF applied(2)] by (simp add: conforming_def)
    from keepsD [OF conforming_execute_apply [OF assms this] s] applied(3) show ?thesis by (metis fst_conv)
  qed (use s in simp_all)
  with run show "conforming (fst (execute env cfg hash clk w i a cid inp s))" by simp
qed

lemma conforming_sync:
  assumes "w \<noteq> []" "a \<noteq> []" "cid \<noteq> []"
  shows "keeps conforming (sync env cfg clk w a cid q)"
proof -
  have "keeps conforming (for_io (sync_item env clk w) acc xs)" for acc xs
    unfolding sync_item_def by (intro keeps_for keeps_bind keeps_ret keeps_tell_frame) (simp add: conforming_def)
  then show ?thesis
    unfolding sync_def Let_def using assms
    by (intro keeps_case_sum keeps_throw keeps_bind keeps_ret conforming_audit) simp_all
qed

end

end
