(* ===== verification/Api_Isolation.thy ===== *)
theory Api_Isolation
  imports Api_Tenancy
begin

text \<open>
  The guarantee of the HTTP interface as a whole: who may make it write, what a request can change,
  and what a reply can show. \<open>answers Q m\<close> says that whatever \<open>m\<close> returns satisfies \<open>Q\<close>;
  \<open>shows_only w\<close> that a reply contains documents of workspace \<open>w\<close> only, and lists no more than 100.
\<close>

section \<open>What replies contain\<close>

definition answers :: "('a \<Rightarrow> bool) \<Rightarrow> 'a call \<Rightarrow> bool" where
  "answers Q m \<longleftrightarrow> (\<forall>s s' x. m s = (s', Inr x) \<longrightarrow> Q x)"

lemma answersI: "(\<And>s s' x. m s = (s', Inr x) \<Longrightarrow> Q x) \<Longrightarrow> answers Q m"
  by (auto simp: answers_def)

lemma answers_ret: "Q x \<Longrightarrow> answers Q (ret x)"
  by (simp add: answers_def)

lemma answers_throw: "answers Q (throw e)"
  by (simp add: answers_def)

lemma answers_bind: "answers R m \<Longrightarrow> (\<And>x. R x \<Longrightarrow> answers Q (f x)) \<Longrightarrow> answers Q (bind_io m f)"
  unfolding answers_def bind_io_Inr by blast

lemma answers_rest: "(\<And>x. answers Q (f x)) \<Longrightarrow> answers Q (bind_io m f)"
  unfolding answers_def bind_io_Inr by blast

lemma answers_if: "(b \<Longrightarrow> answers Q m) \<Longrightarrow> (\<not> b \<Longrightarrow> answers Q n) \<Longrightarrow> answers Q (if b then m else n)"
  by simp

lemma answers_case_option:
  "(v = None \<Longrightarrow> answers Q m) \<Longrightarrow> (\<And>x. v = Some x \<Longrightarrow> answers Q (f x)) \<Longrightarrow>
    answers Q (case v of None \<Rightarrow> m | Some x \<Rightarrow> f x)"
  by (cases v) auto

lemma answers_case_sum:
  "(\<And>e. v = Inl e \<Longrightarrow> answers Q (m e)) \<Longrightarrow> (\<And>x. v = Inr x \<Longrightarrow> answers Q (f x)) \<Longrightarrow>
    answers Q (case v of Inl e \<Rightarrow> m e | Inr x \<Rightarrow> f x)"
  by (cases v) auto

lemma answers_case_prod: "(\<And>x y. v = (x, y) \<Longrightarrow> answers Q (f x y)) \<Longrightarrow> answers Q (case v of (x, y) \<Rightarrow> f x y)"
  by (cases v) auto

lemma answers_guarded: "(\<And>x. check = Inr x \<Longrightarrow> answers Q (k x)) \<Longrightarrow> answers Q (guarded check k)"
  by (cases check) (simp_all add: guarded_def answers_throw)

lemma validate_Inr: "validate schema flatten input = Inr x \<longleftrightarrow> schema input = Some x"
  by (auto simp: validate_def split: option.splits)

context store
begin

lemma answers_findOne:
  "answers (\<lambda>found. \<forall>d. found = Some d \<longrightarrow> r_workspaceId d = w) (get_resource env w i)"
  "answers (\<lambda>found. \<forall>d. found = Some d \<longrightarrow> j_workspaceId d = w) (get_job env w i)"
  "answers (\<lambda>found. \<forall>d. found = Some d \<longrightarrow> p_workspaceId d = w)
    (ask db_plans (drv_findOne (e_plans env) (\<lambda>p. p_id p = i \<and> p_workspaceId p = w)))"
  "answers (\<lambda>found. \<forall>d. found = Some d \<longrightarrow> p_workspaceId d = w)
    (ask db_plans (drv_findOne (e_plans env) (\<lambda>p. p_workspaceId p = w \<and> p_idempotencyKey p = k)))"
  unfolding get_resource_def get_job_def
  by (rule answersI; auto simp: ask_Inr dest: resources.findOne_Some jobs.findOne_Some plans.findOne_Some)+

lemma answers_create_job: "answers (\<lambda>(j, _). j_workspaceId j = w) (create_job env svc clk w a c inp)"
proof (rule answersI)
  fix s s' x assume "create_job env svc clk w a c inp s = (s', Inr x)"
  then show "case x of (j, _) \<Rightarrow> j_workspaceId j = w"
  proof (cases rule: create_job_cases)
    case (created d)
    from created(2) have "j_workspaceId d = w" by (metis new_job_simps(2))
    with created(5) show ?thesis by simp
  next
    case (replayed j)
    then show ?thesis by (simp add: same_key_def)
  qed simp
qed

lemma answers_retry_job: "answers (\<lambda>j. j_workspaceId j = w) (retry_job env clk w i a c)"
proof (rule answersI)
  fix s s' j assume "retry_job env clk w i a c s = (s', Inr j)"
  then show "j_workspaceId j = w" by (rule retry_job_Inr) (simp add: doc_simps)
qed

lemma answers_createPlan: "answers (\<lambda>(p, _). p_workspaceId p = w) (createPlan env clk w a c inp)"
proof -
  have new: "answers (\<lambda>p. p_workspaceId p = w)
      (tell db_plans db_plans_update (drv_create (e_plans env) (new_plan w a c inp as)))" for as
  proof (rule answersI)
    fix s s' p
    assume "tell db_plans db_plans_update (drv_create (e_plans env) (new_plan w a c inp as)) s = (s', Inr p)"
    then have "p = new_plan w a c inp as (p_id p)"
      by (rule plans.tell_create_cases) (simp_all add: new_plan_def)
    then show "p_workspaceId p = w" by (simp add: new_plan_def) (metis plan.select_convs(2))
  qed
  show ?thesis
    unfolding createPlan_def
    by (rule answers_bind [OF answers_findOne(4)], rule answers_case_option, rule answers_rest,
        rule answers_if, rule answers_throw, rule answers_rest, rule answers_case_sum, rule answers_throw,
        rule answers_bind [OF new], rule answers_rest) (auto intro: answers_ret)
qed

lemma answers_approve: "answers (\<lambda>r. p_workspaceId (ap_plan r) = w) (approve env cfg hash clk tok w i a c)"
  unfolding approve_def approve_apply_def
  by (rule answers_bind [OF answers_findOne(3)], rule answers_case_option, rule answers_throw,
      rule answers_if, rule answers_throw, rule answers_rest, rule answers_rest, rule answers_rest)
    (auto intro: answers_ret)

lemma answers_execute: "answers (\<lambda>(x, _). x_workspaceId x = w) (execute env cfg hash clk w i a c inp)"
proof (rule answersI)
  fix s s' r assume "execute env cfg hash clk w i a c inp s = (s', Inr r)"
  then show "case r of (x, _) \<Rightarrow> x_workspaceId x = w"
  proof (cases rule: execute_cases)
    case (applied plan tok)
    have new: "answers (\<lambda>x. x_workspaceId x = w) (tell db_executions db_executions_update (drv_create (e_executions env)
      (new_execution w i (t_id tok) a c inp (p_dryRun plan) acc n m)))" for acc n m
    proof (rule answersI)
      fix s s' x
      assume "tell db_executions db_executions_update (drv_create (e_executions env)
        (new_execution w i (t_id tok) a c inp (p_dryRun plan) acc n m)) s = (s', Inr x)"
      then have "x = new_execution w i (t_id tok) a c inp (p_dryRun plan) acc n m (x_id x)"
        by (rule executions.tell_create_cases) (simp_all add: new_execution_def)
      then show "x_workspaceId x = w" by (simp add: new_execution_def) (metis execution.select_convs(2))
    qed
    have "answers (\<lambda>(x, _). x_workspaceId x = w) (execute_apply env cfg clk w i a c inp plan tok)"
      unfolding execute_apply_def
      by (rule answers_rest, rule answers_rest, rule answers_rest, rule answers_rest,
          rule answers_bind [OF new], rule answers_rest, rule answers_rest) (auto intro: answers_ret)
    with applied(3) show ?thesis by (auto simp: answers_def)
  qed simp_all
qed

lemma answers_sync: "answers (\<lambda>r. \<forall>d \<in> set (sr_items r). r_workspaceId d = w) (sync env cfg clk w a c query)"
proof (cases "listResources (providerFor cfg w) (clk 0) query")
  case (Inl err)
  then show ?thesis by (simp add: sync_def Let_def answers_throw)
next
  case (Inr xs)
  have up: "answers (\<lambda>d. r_workspaceId d = w) (tell db_resources db_resources_update (drv_upsert (e_resources env)
      (same_arn w (i_arn x)) (set_item x now) (new_resource x now)))" if "i_workspaceId x = w" for x now
  proof (rule answersI)
    fix s s' d assume "tell db_resources db_resources_update (drv_upsert (e_resources env)
      (same_arn w (i_arn x)) (set_item x now) (new_resource x now)) s = (s', Inr d)"
    then show "r_workspaceId d = w"
      using new_resource_simps(1)
    proof (cases rule: resources.tell_upsert_cases)
      case (updated c e)
      with that show ?thesis by (auto simp: set_item_def elim: one_updatedE)
    next
      case (inserted e)
      then have "res_key d = (i_workspaceId x, i_arn x)" using new_resource_simps(2) by (metis sum.inject(2))
      with that show ?thesis by (simp add: res_key_def)
    qed simp
  qed
  have "answers (\<lambda>ds. \<forall>d \<in> set ds. r_workspaceId d = w) (for_io (sync_item env clk w) acc xs)"
    if "\<forall>d \<in> set acc. r_workspaceId d = w" for acc
    using discovered_in_workspace [OF Inr] that
  proof (induction xs arbitrary: acc)
    case Nil
    from Nil(2) show ?case unfolding for_io.simps by (rule answers_ret)
  next
    case (Cons x xs)
    have "answers (\<lambda>ds. \<forall>d \<in> set ds. r_workspaceId d = w) (sync_item env clk w acc x)"
      unfolding sync_item_def by (rule answers_bind [OF up]) (use Cons.prems in \<open>auto intro!: answers_ret\<close>)
    then show ?case unfolding for_io.simps by (rule answers_bind) (use Cons in auto)
  qed
  from this [of "[]"] have "answers (\<lambda>ds. \<forall>d \<in> set ds. r_workspaceId d = w) (for_io (sync_item env clk w) [] xs)"
    by simp
  then show ?thesis
    unfolding sync_def Let_def Inr sum.case
    by (rule answers_bind) (rule answers_rest, rule answers_ret, simp)
qed

end

text \<open>The documents of a reply.\<close>

definition own_page :: "('d \<Rightarrow> string) \<Rightarrow> string \<Rightarrow> 'd page \<Rightarrow> bool" where
  "own_page ws w p \<longleftrightarrow> (\<forall>d \<in> set (pg_items p). ws d = w) \<and> length (pg_items p) \<le> 100"

definition shows_only :: "string \<Rightarrow> reply \<Rightarrow> bool" where
  "shows_only w reply \<longleftrightarrow>
     (case reply of
        SyncR r \<Rightarrow> \<forall>d \<in> set (sr_items r). r_workspaceId d = w
      | ResourcesR p \<Rightarrow> own_page r_workspaceId w p
      | ResourceR d \<Rightarrow> r_workspaceId d = w
      | JobCreatedR j _ \<Rightarrow> j_workspaceId j = w
      | JobsR p \<Rightarrow> own_page j_workspaceId w p
      | JobR j \<Rightarrow> j_workspaceId j = w
      | FindingsR p \<Rightarrow> own_page f_workspaceId w p
      | RecommendationsR p \<Rightarrow> own_page rec_workspaceId w p
      | PlanR p _ \<Rightarrow> p_workspaceId p = w
      | ApprovalR a \<Rightarrow> p_workspaceId (ap_plan a) = w
      | ExecutionR x _ \<Rightarrow> x_workspaceId x = w
      | AuditR p \<Rightarrow> own_page au_workspaceId w p
      | LoginR _ _ \<Rightarrow> False
      | ErrorR _ _ _ _ \<Rightarrow> True
      | NoRouteR \<Rightarrow> True)"

lemma own_page_of:
  assumes "page_of flt le pg lm docs p" "\<And>d. flt d \<Longrightarrow> ws d = w" "1 \<le> pg" "1 \<le> lm" "lm \<le> 100"
  shows "own_page ws w p"
proof -
  have sl: "slice_of flt le ((pg - 1) * lm) lm docs (pg_items p)" using assms(1) by (simp add: page_of_def)
  have "length (pg_items p) \<le> nat lm" using slice_length [OF sl] assms(3,4) by simp
  with slice_items [OF sl] assms(2,5) show ?thesis by (auto simp: own_page_def)
qed

context store
begin

lemma answers_lists:
  assumes "1 \<le> pg" "1 \<le> lm" "lm \<le> 100"
  shows "answers (own_page j_workspaceId w) (list_jobs env w pg lm st)"
    and "answers (own_page f_workspaceId w) (listFindings env w pg lm f1 f2 f3)"
    and "answers (own_page rec_workspaceId w) (listRecommendations env w pg lm f1 f2)"
    and "answers (own_page au_workspaceId w) (listAuditEvents env w pg lm f1 f2)"
    and "rq_page rq = pg \<Longrightarrow> rq_limit rq = lm \<Longrightarrow>
      answers (own_page r_workspaceId w) (list_resources env rx w rq)"
  using assms
  by (auto intro!: answersI own_page_of simp: resource_filter_def
      dest!: list_jobs_page listFindings_page listRecommendations_page listAuditEvents_page list_resources_page)

end

definition shown :: "string \<Rightarrow> response \<Rightarrow> bool" where
  "shown w resp \<longleftrightarrow> shows_only w (snd resp)"

lemma handle_shows_only:
  assumes "store (ap_env cfg)"
  shows "answers (shown (cl_workspace me)) (handle cfg dw c me req r)"
proof -
  note calls = store.answers_sync [OF assms] store.answers_create_job [OF assms]
    store.answers_retry_job [OF assms] store.answers_createPlan [OF assms]
    store.answers_approve [OF assms] store.answers_execute [OF assms]
  note finds = store.answers_findOne [OF assms]
  note lists = store.answers_lists [OF assms]
  let ?w = "cl_workspace me"
  have "answers (shown ?w) (sync_resources cfg dw c me req)"
    "answers (shown ?w) (post_diagnostics cfg dw c me req)"
    "answers (shown ?w) (post_retry cfg dw c me i)"
    "answers (shown ?w) (post_plan cfg dw c me req)"
    "answers (shown ?w) (post_approve cfg dw c me i)"
    "answers (shown ?w) (post_execute cfg dw c me i req)" for i
    unfolding sync_resources_def post_diagnostics_def post_retry_def post_plan_def post_approve_def
      post_execute_def for_roles_def with_body_def
    by (intro answers_guarded answers_bind [OF calls(1)] answers_bind [OF calls(2)] answers_bind [OF calls(3)]
        answers_bind [OF calls(4)] answers_bind [OF calls(5)] answers_bind [OF calls(6)] answers_case_prod;
      auto intro!: answers_ret simp: shown_def shows_only_def)+
  moreover have "answers (shown ?w) (get_one_resource cfg me i)" "answers (shown ?w) (get_one_job cfg me i)" for i
    unfolding get_one_resource_def get_one_job_def
    by (intro answers_guarded answers_bind [OF finds(1)] answers_bind [OF finds(2)] answers_case_option answers_throw;
      auto intro!: answers_ret simp: shown_def shows_only_def)+
  moreover have "answers (shown ?w) (get_resources cfg me req)" "answers (shown ?w) (get_jobs cfg me req)"
    "answers (shown ?w) (get_findings cfg me req)" "answers (shown ?w) (get_recommendations cfg me req)"
    "answers (shown ?w) (get_audit cfg c me req)"
    unfolding get_resources_def get_jobs_def get_findings_def get_recommendations_def get_audit_def
      for_roles_def with_query_def listJobsQuerySchema_def listFindingsQuerySchema_def
      listRecommendationsQuerySchema_def listAuditQuerySchema_def
    by (intro answers_guarded; unfold validate_Inr;
      (drule list_schema_bounds resources_schema_bounds)?;
      rule answers_bind, rule lists; auto intro!: answers_ret simp: shown_def shows_only_def)+
  ultimately show ?thesis by (cases r) (simp_all add: handle_def)
qed

lemma api_request_cases:
  assumes "api_request cfg dw req s = (s', r)"
  obtains (answered) resp where "dispatch cfg dw req s = (s', Inr resp)" "r = Inr resp"
  | (threw) err where "dispatch cfg dw req s = (s', Inl err)"
      "r = Inr (error_response (correlation_id (dw_uuid dw) req) err)"
proof (cases "dispatch cfg dw req s")
  case (Pair s1 q)
  show ?thesis
  proof (cases q)
    case (Inl err)
    with assms Pair have "s' = s1" "r = Inr (error_response (correlation_id (dw_uuid dw) req) err)"
      by (simp_all add: api_request_def catch_io_def)
    with Pair Inl show ?thesis by (intro threw [of err]) simp_all
  next
    case (Inr resp)
    with assms Pair have "s' = s1" "r = Inr resp" by (simp_all add: api_request_def catch_io_def)
    with Pair Inr show ?thesis by (intro answered [of resp]) simp_all
  qed
qed

lemma error_shown: "shown w (error_response cid err)"
  by (simp add: shown_def shows_only_def error_response_def Let_def)

text \<open>
  Tenant isolation of the HTTP interface. Every request is answered. A login changes nothing; without a
  token that verifies the answer is 401 and nothing changes; with one, whatever the request, the
  documents of all other workspaces stay as they are and identifiers stay unique, the reply shows
  documents of the caller's workspace only and at most 100 of them in a list, and if anything
  changed, then by a writing route whose role gate lists the caller's role (administrators only, for an
  approval).
\<close>

theorem api_tenant_isolation:
  assumes "store (ap_env cfg)" "unique_ids s" "api_request cfg dw req s = (s', r)"
  shows "\<exists>resp. r = Inr resp \<and>
    (if is_login req then s' = s
     else case authMiddleware (ap_jwt_verify cfg) (ac_JWT_SECRET (ap_auth cfg)) (aq_authorization req) of
       Inl e \<Rightarrow> s' = s \<and> fst resp = 401
     | Inr c \<Rightarrow> confined (claim_text (c_workspaceId c)) s s' \<and> shown (claim_text (c_workspaceId c)) resp \<and>
         (s' = s \<or> (\<exists>route. find_route (aq_method req) (aq_path req) = Some route \<and> writing route \<and>
            c_role c \<in> (JStr \<circ> role_str) ` set (writers route))))"
proof -
  obtain resp where r: "r = Inr resp"
    using assms(3) by (rule api_request_cases) simp_all
  let ?auth = "authMiddleware (ap_jwt_verify cfg) (ac_JWT_SECRET (ap_auth cfg)) (aq_authorization req)"
  have s': "s' = fst (dispatch cfg dw req s)"
    using assms(3) by (rule api_request_cases) simp_all
  show ?thesis
  proof (cases "is_login req")
    case True
    have "keeps (\<lambda>s'. s' = s) (dispatch cfg dw req)"
      unfolding dispatch_def if_P [OF True] post_login_def with_body_def
      by (intro keeps_guarded keeps_case_prod keeps_bind reads_only keeps_ret)
    with True r s' keepsD [of "\<lambda>s'. s' = s" "dispatch cfg dw req" s] show ?thesis by simp
  next
    case login: False
    show ?thesis
    proof (cases ?auth)
      case (Inl e)
      then have "ae_statusCode e = 401"
        by (auto simp: authMiddleware_def verifyAccessToken_def error_defs Let_def
            split: option.splits if_splits json.splits)
      with login Inl assms(3) r show ?thesis
        by (auto simp: api_request_def catch_io_def dispatch_def guarded_def error_response_def Let_def)
    next
      case (Inr c)
      let ?me = "caller_of c (correlation_id (dw_uuid dw) req)"
      let ?w = "claim_text (c_workspaceId c)"
      have w: "cl_workspace ?me = ?w" by (simp add: caller_of_def)
      show ?thesis
      proof (cases "find_route (aq_method req) (aq_path req)")
        case None
        with login Inr have "dispatch cfg dw req s = (s, Inr (404, NoRouteR))"
          by (simp add: dispatch_def guarded_def)
        with login Inr assms(2,3) r show ?thesis
          by (auto simp: api_request_def catch_io_def shown_def shows_only_def intro: confined_refl)
      next
        case (Some route)
        with login Inr have d: "dispatch cfg dw req = handle cfg dw c ?me req route"
          by (simp add: dispatch_def guarded_def)
        have "confined ?w s s'"
          using keepsD [OF handle_confined [OF assms(1)] confined_refl [OF assms(2)]] s' d w by metis
        moreover have "shown ?w resp"
          using assms(3)
        proof (cases rule: api_request_cases)
          case (answered resp')
          with handle_shows_only [OF assms(1)] d r w show ?thesis unfolding answers_def by (metis sum.inject(2))
        next
          case (threw err)
          from threw(2) r have "resp = error_response (correlation_id (dw_uuid dw) req) err" by simp
          then show ?thesis by (simp only: error_shown)
        qed
        moreover have "s' = s \<or> writing route \<and> c_role c \<in> (JStr \<circ> role_str) ` set (writers route)"
        proof (cases "writing route \<and> c_role c \<in> (JStr \<circ> role_str) ` set (writers route)")
          case False
          have "s' = s"
          proof (cases "writing route")
            case True
            with False have "handle cfg dw c ?me req route = throw (AppErr (ForbiddenError ''Insufficient permissions''))"
              by (intro handle_gate) auto
            with s' d show ?thesis by simp
          next
            case False
            from keepsD [OF handle_reads [OF False, of s]] s' d show ?thesis by simp
          qed
          then show ?thesis ..
        qed simp
        ultimately show ?thesis using login Inr Some r by auto
      qed
    qed
  qed
qed


text \<open>The API with the in-memory store and the demonstration tokens; an operator asks for a diagnostic.\<close>

definition demo_api :: api_config where
  "demo_api =
     \<lparr> ap_env = mem_env, ap_auth = demo_auth,
       ap_jobs = \<lparr>js_maxAttempts = 3, js_timeoutMs = 1000\<rparr>,
       ap_resources = demo_resources,
       ap_remediations = \<lparr>rc_APPROVAL_TTL_MS = 900000, rc_ENABLE_AWS_MUTATIONS = False,
         rc_CLOUD_PROVIDER = MockProvider\<rparr>,
       ap_jwt_verify = demo_verify, ap_jwt_sign = demo_sign, ap_bcrypt_compare = (=), ap_hash = (\<lambda>t. t),
       ap_regex = demo_rx, ap_is_email = (\<lambda>_. True), ap_body_issues = (\<lambda>_. []), ap_query_issues = (\<lambda>_. []) \<rparr>"

definition demo_draws :: draws where
  "demo_draws = \<lparr>dw_clock = (\<lambda>i. 7), dw_token = ''secret'', dw_uuid = ''c1''\<rparr>"

definition demo_request :: request where
  "demo_request =
     \<lparr> aq_method = ''POST'', aq_path = [''diagnostics''],
       aq_authorization = Some (''Bearer '' @ demo_sign (claims_json (user_claims demo_user)) [] []),
       aq_correlationHeader = None, aq_requestIdHeader = None, aq_query = [],
       aq_body = JObj [(''idempotencyKey'', JStr ''diag-2024'')] \<rparr>"

lemma demo_bearer: "authMiddleware demo_verify sec (Some (''Bearer '' @
    demo_sign (claims_json (user_claims demo_user)) [] [])) = Inr (claims_values (user_claims demo_user))"
proof -
  have "verifyAccessToken demo_verify (demo_sign (claims_json (user_claims demo_user)) [] []) sec =
      Inr (claims_values (user_claims demo_user))"
    by (rule verify_signed [where extra = "[]"])
      (simp_all add: demo_verify_def claims_json_def user_claims_def demo_user_def)
  then show ?thesis by (simp add: authMiddleware_def)
qed

theorem api_tenant_isolation_witness:
  "\<exists>resp. snd (api_request demo_api demo_draws demo_request demo_users) = Inr resp
     \<and> confined ''ws1'' demo_users (fst (api_request demo_api demo_draws demo_request demo_users))
     \<and> shown ''ws1'' resp"
proof -
  have "unique_ids demo_users"
    by (simp add: unique_ids_def demo_users_def res_indexed_def empty_db_def)
  moreover have "store (ap_env demo_api)" by (simp add: demo_api_def mem_store.store_axioms)
  moreover have "\<not> is_login demo_request" by (simp add: is_login_def demo_request_def)
  moreover have "authMiddleware (ap_jwt_verify demo_api) (ac_JWT_SECRET (ap_auth demo_api))
      (aq_authorization demo_request) = Inr (claims_values (user_claims demo_user))"
    using demo_bearer [of "ac_JWT_SECRET demo_auth"] by (simp add: demo_api_def demo_request_def)
  moreover have "claim_text (c_workspaceId (claims_values (user_claims demo_user))) = ''ws1''"
    by (simp add: claim_text_def claims_values_def user_claims_def demo_user_def)
  ultimately show ?thesis
    using api_tenant_isolation [of demo_api demo_users demo_draws demo_request] by (cases "api_request demo_api demo_draws demo_request demo_users") auto
qed

end
