(* ===== verification/Api_Documents.thy ===== *)
theory Api_Documents
  imports Document_Schemas Api_Isolation
begin

text \<open>
  No document the API creates is refused by its Mongoose schema: the request schemas, the correlation id and
  the claims of the token leave no required string empty.
\<close>

section \<open>Where the strings of a document come from\<close>

lemma sized_Some: "required (sized lo hi) v = Some k \<Longrightarrow> 0 < lo \<Longrightarrow> k \<noteq> []"
  by (auto simp: required_def sized_def z_string_def split: option.splits json.splits if_splits)

lemma job_key: "createDiagnosticJobSchema body = Some inp \<Longrightarrow> ji_idempotencyKey inp \<noteq> []"
  by (auto simp: createDiagnosticJobSchema_def dest: sized_Some split: option.splits)

lemma plan_key: "createRemediationPlanSchema body = Some inp \<Longrightarrow> pi_idempotencyKey inp \<noteq> []"
  by (auto simp: createRemediationPlanSchema_def dest: sized_Some split: option.splits if_splits)

lemma execution_key: "executeRemediationSchema body = Some inp \<Longrightarrow> xi_idempotencyKey inp \<noteq> []"
  by (auto simp: executeRemediationSchema_def dest: sized_Some split: option.splits)

lemma route_id: "routeId raw = Inr i \<longleftrightarrow> i = raw \<and> raw \<noteq> []"
  by (auto simp: routeId_def)

lemma correlation_id_nonempty: "uuid \<noteq> [] \<Longrightarrow> correlation_id uuid req \<noteq> []"
  by (auto simp: correlation_id_def Let_def)

lemma claims_truthy:
  assumes "authMiddleware jwt_verify secret header = Inr c"
  shows "js_truthy (Some (c_sub c))" "js_truthy (Some (c_workspaceId c))"
  using assms
  by (auto simp: authMiddleware_def verifyAccessToken_def Let_def split: option.splits if_splits)
    (metis js_truthy.simps(1) option.collapse)+

lemma claim_text_nonempty: "js_truthy (Some v) \<Longrightarrow> v = JStr t \<Longrightarrow> claim_text v \<noteq> []"
  by (simp add: claim_text_def)


section \<open>Every handler\<close>

lemma handle_conforming:
  assumes "store (ap_env cfg)" "cl_workspace me \<noteq> []" "cl_actor me \<noteq> []" "cl_correlationId me \<noteq> []"
    and "\<And>t. ap_hash cfg t \<noteq> []"
  shows "keeps conforming (handle cfg dw c me req r)"
proof (cases "writing r")
  case False
  have "keeps conforming m" if "\<And>s1. keeps (\<lambda>s. s = s1) m" for m :: "response call"
    by (rule keepsI) (use keepsD [OF that] in auto)
  with handle_reads [OF False] show ?thesis by blast
next
  case True
  note calls = store.conforming_sync [OF assms(1-4)] store.conforming_create_job [OF assms(1-4)]
    store.conforming_retry_job [OF assms(1-4)] store.conforming_createPlan [OF assms(1-4)]
    store.conforming_approve [OF assms(1-4) _ assms(5)] store.conforming_execute [OF assms(1-4)]
  have "keeps conforming (sync_resources cfg dw c me req)" "keeps conforming (post_diagnostics cfg dw c me req)"
    "keeps conforming (post_retry cfg dw c me i)" "keeps conforming (post_plan cfg dw c me req)"
    "keeps conforming (post_approve cfg dw c me i)" "keeps conforming (post_execute cfg dw c me i req)" for i
    unfolding sync_resources_def post_diagnostics_def post_retry_def post_plan_def post_approve_def
      post_execute_def for_roles_def with_body_def
    by (intro keeps_guarded keeps_bind calls keeps_ret keeps_case_prod;
      simp add: validate_Inr route_id job_key plan_key execution_key)+
  with True show ?thesis by (cases r) (simp_all add: handle_def writing_def)
qed

text \<open>
  C13. Everything the API stores is well-formed. Jobs, plans, executions, approval tokens and audit events
  conform to their schemas (no required field is empty) after any request if they did before it, so
  their validation never refuses what a handler creates. It is needed that the server's tokens carry
  strings, and that UUIDs and hashes are not empty.
\<close>

theorem api_documents_conform:
  assumes "store (ap_env cfg)" "conforming s" "dw_uuid dw \<noteq> []" "\<And>t. ap_hash cfg t \<noteq> []"
    and "\<And>c. authMiddleware (ap_jwt_verify cfg) (ac_JWT_SECRET (ap_auth cfg)) (aq_authorization req) = Inr c \<Longrightarrow>
      \<exists>user w. c_sub c = JStr user \<and> c_workspaceId c = JStr w"
    and "api_request cfg dw req s = (s', r)"
  shows "conforming s'"
proof -
  have "keeps conforming (dispatch cfg dw req)"
  proof (cases "is_login req")
    case True
    have "keeps conforming m" if "\<And>s1. keeps (\<lambda>s. s = s1) m" for m :: "response call"
      by (rule keepsI) (use keepsD [OF that] in auto)
    moreover have "keeps (\<lambda>s. s = s1) (dispatch cfg dw req)" for s1
      unfolding dispatch_def if_P [OF True] post_login_def with_body_def
      by (intro keeps_guarded keeps_case_prod keeps_bind reads_only keeps_ret)
    ultimately show ?thesis by blast
  next
    case False
    have "keeps conforming (handle cfg dw c (caller_of c (correlation_id (dw_uuid dw) req)) req route)"
      if c: "authMiddleware (ap_jwt_verify cfg) (ac_JWT_SECRET (ap_auth cfg)) (aq_authorization req) = Inr c" for c route
    proof (rule handle_conforming [OF assms(1) _ _ _ assms(4)])
      show "cl_workspace (caller_of c (correlation_id (dw_uuid dw) req)) \<noteq> []"
        "cl_actor (caller_of c (correlation_id (dw_uuid dw) req)) \<noteq> []"
        using assms(5) [OF c] claims_truthy [OF c] claim_text_nonempty by (auto simp: caller_of_def)
      show "cl_correlationId (caller_of c (correlation_id (dw_uuid dw) req)) \<noteq> []"
        using correlation_id_nonempty [OF assms(3)] by (simp add: caller_of_def)
    qed
    then show ?thesis
      unfolding dispatch_def if_not_P [OF False]
      by (intro keeps_guarded keeps_case_option keeps_ret)
  qed
  then have "keeps conforming (api_request cfg dw req)"
    unfolding api_request_def by (intro keeps_catch keeps_ret)
  from keepsD [OF this assms(2)] assms(6) show ?thesis by simp
qed

theorem api_documents_conform_witness:
  "conforming (fst (api_request (demo_api\<lparr>ap_hash := (\<lambda>t. ''sha256:'' @ t)\<rparr>) demo_draws demo_request demo_users))"
proof -
  let ?cfg = "demo_api\<lparr>ap_hash := (\<lambda>t. ''sha256:'' @ t)\<rparr>"
  let ?auth = "authMiddleware (ap_jwt_verify ?cfg) (ac_JWT_SECRET (ap_auth ?cfg)) (aq_authorization demo_request)"
  have db: "conforming demo_users" by (simp add: conforming_def demo_users_def empty_db_def)
  have st: "store (ap_env ?cfg)" by (simp add: demo_api_def mem_store.store_axioms)
  have uuid: "dw_uuid demo_draws \<noteq> []" by (simp add: demo_draws_def)
  have hash: "ap_hash ?cfg t \<noteq> []" for t by simp
  have "?auth = Inr (claims_values (user_claims demo_user))"
    using demo_bearer [of "ac_JWT_SECRET demo_auth"] by (simp add: demo_api_def demo_request_def)
  then have claims: "\<exists>user w. c_sub c = JStr user \<and> c_workspaceId c = JStr w" if "?auth = Inr c" for c
    using that by (auto simp: claims_values_def)
  show ?thesis
    by (rule api_documents_conform [OF st db uuid hash claims surjective_pairing])
qed

end
