(* ===== verification/Job_Queue.thy ===== *)
theory Job_Queue
  imports Store Backoff
begin

text \<open>
  \<^verbatim>\<open>packages/shared/src/jobs/queue.ts\<close>: the job queue on the collection of diagnostic jobs. Each
  method is a \<open>call\<close>; the filter and the update document of each MongoDB operation are functions on
  a job. \<open>now\<close> is the clock reading of the call, \<open>rnd\<close> the random draw of the backoff. The lemmas
  in \<open>store\<close> say what each answer of the driver means for the jobs; the theorems state the lease
  protocol: claims are exclusive, a live lease is never taken over, expired leases are returned,
  a failure is either retried later or dead-lettered.
\<close>

record queue_config =
  qc_leaseMs :: int
  qc_maxAttempts :: int
  qc_backoffBaseMs :: rat
  qc_backoffMaxMs :: rat

section \<open>Operations\<close>

definition claimable :: "int \<Rightarrow> job \<Rightarrow> bool" where
  "claimable now j \<longleftrightarrow>
     j_status j \<in> {Pending, RetryWait} \<and> j_nextRunAt j \<le> now \<and>
     (case j_leaseUntil j of None \<Rightarrow> True | Some l \<Rightarrow> l \<le> now)"

definition claim_job :: "queue_config \<Rightarrow> string \<Rightarrow> int \<Rightarrow> job \<Rightarrow> job" where
  "claim_job cfg workerId now j =
     j\<lparr>j_status := Running, j_claimedBy := Some workerId,
       j_leaseUntil := Some (now + qc_leaseMs cfg), j_heartbeatAt := Some now,
       j_attempts := j_attempts j + 1, j_version := j_version j + 1\<rparr>"

definition claim :: "env \<Rightarrow> queue_config \<Rightarrow> string \<Rightarrow> int \<Rightarrow> job option call" where
  "claim env cfg workerId now =
     tell db_jobs db_jobs_update
       (drv_updateOne (e_jobs env) (claimable now) (claim_job cfg workerId now))"

definition heartbeat_job :: "queue_config \<Rightarrow> int \<Rightarrow> job \<Rightarrow> job" where
  "heartbeat_job cfg now j =
     j\<lparr>j_heartbeatAt := Some now, j_leaseUntil := Some (now + qc_leaseMs cfg)\<rparr>"

definition heartbeat :: "env \<Rightarrow> queue_config \<Rightarrow> oid \<Rightarrow> string \<Rightarrow> int \<Rightarrow> job option call" where
  "heartbeat env cfg jobId workerId now =
     tell db_jobs db_jobs_update
       (drv_updateOne (e_jobs env)
         (\<lambda>j. j_id j = jobId \<and> j_claimedBy j = Some workerId \<and> j_status j = Running)
         (heartbeat_job cfg now))"

definition complete_job :: "summary \<Rightarrow> int \<Rightarrow> job \<Rightarrow> job" where
  "complete_job summary now j =
     j\<lparr>j_status := Completed, j_resultSummary := Some summary, j_completedAt := Some now,
       j_leaseUntil := None, j_lastError := None\<rparr>"

definition complete :: "env \<Rightarrow> oid \<Rightarrow> summary \<Rightarrow> int \<Rightarrow> job option call" where
  "complete env jobId summary now =
     tell db_jobs db_jobs_update
       (drv_updateOne (e_jobs env) (\<lambda>j. j_id j = jobId) (complete_job summary now))"

definition dead_letter_job :: "failure \<Rightarrow> int \<Rightarrow> job \<Rightarrow> job" where
  "dead_letter_job err now j =
     j\<lparr>j_status := DeadLettered, j_lastError := Some err, j_leaseUntil := None,
       j_completedAt := Some now\<rparr>"

definition retry_wait_job :: "failure \<Rightarrow> int \<Rightarrow> job \<Rightarrow> job" where
  "retry_wait_job err nextRunAt j =
     j\<lparr>j_status := RetryWait, j_lastError := Some err, j_leaseUntil := None,
       j_nextRunAt := nextRunAt\<rparr>"

text \<open>The branch of \<^verbatim>\<open>fail\<close>, decided on the job as it was read.\<close>

definition fail_update :: "queue_config \<Rightarrow> failure \<Rightarrow> int \<Rightarrow> rat \<Rightarrow> job \<Rightarrow> job \<Rightarrow> job" where
  "fail_update cfg err now rnd read =
     (if j_attempts read \<ge> j_maxAttempts read \<or> \<not> fl_retryable err
      then dead_letter_job err now
      else retry_wait_job err
             (now + exponentialBackoffWithJitter (j_attempts read) (qc_backoffBaseMs cfg)
                      (qc_backoffMaxMs cfg) None rnd))"

definition fail :: "env \<Rightarrow> queue_config \<Rightarrow> oid \<Rightarrow> failure \<Rightarrow> int \<Rightarrow> rat \<Rightarrow> job option call" where
  "fail env cfg jobId err now rnd =
     bind_io (ask db_jobs (drv_findOne (e_jobs env) (\<lambda>j. j_id j = jobId))) (\<lambda>job.
       case job of
         None \<Rightarrow> ret None
       | Some read \<Rightarrow>
           tell db_jobs db_jobs_update
             (drv_updateOne (e_jobs env) (\<lambda>j. j_id j = jobId) (fail_update cfg err now rnd read)))"

definition abandoned :: "int \<Rightarrow> job \<Rightarrow> bool" where
  "abandoned now j \<longleftrightarrow>
     j_status j = Running \<and> (case j_leaseUntil j of None \<Rightarrow> False | Some l \<Rightarrow> l \<le> now)"

definition recover_job :: "int \<Rightarrow> job \<Rightarrow> job" where
  "recover_job now j =
     j\<lparr>j_status := RetryWait, j_nextRunAt := now, j_leaseUntil := None, j_claimedBy := None\<rparr>"

definition recoverAbandoned :: "env \<Rightarrow> int \<Rightarrow> nat call" where
  "recoverAbandoned env now =
     tell db_jobs db_jobs_update (drv_updateMany (e_jobs env) (abandoned now) (recover_job now))"

definition pendingDepth :: "env \<Rightarrow> nat call" where
  "pendingDepth env =
     ask db_jobs (drv_count (e_jobs env) (\<lambda>j. j_status j \<in> {Pending, RetryWait}))"

lemmas job_updates = claim_job_def heartbeat_job_def complete_job_def dead_letter_job_def
  retry_wait_job_def recover_job_def

lemmas queue_ops = claim_def heartbeat_def complete_def fail_def recoverAbandoned_def

text \<open>The updates never touch the identity of a job.\<close>

lemma job_update_ids [doc_simps]:
  "j_id (claim_job cfg w n j) = j_id j" "j_id (heartbeat_job cfg n j) = j_id j"
  "j_id (complete_job sm n j) = j_id j" "j_id (dead_letter_job e n j) = j_id j"
  "j_id (retry_wait_job e n j) = j_id j" "j_id (recover_job n j) = j_id j"
  "j_id (fail_update cfg e n rnd r j) = j_id j"
  by (simp_all add: job_updates fail_update_def)

lemma job_update_keys [doc_simps]:
  "j_workspaceId (claim_job cfg w n j) = j_workspaceId j"
  "j_workspaceId (heartbeat_job cfg n j) = j_workspaceId j"
  "j_workspaceId (complete_job sm n j) = j_workspaceId j"
  "j_workspaceId (dead_letter_job e n j) = j_workspaceId j"
  "j_workspaceId (retry_wait_job e n j) = j_workspaceId j"
  "j_workspaceId (recover_job n j) = j_workspaceId j"
  "j_workspaceId (fail_update cfg e n rnd r j) = j_workspaceId j"
  "j_idempotencyKey (claim_job cfg w n j) = j_idempotencyKey j"
  "j_idempotencyKey (heartbeat_job cfg n j) = j_idempotencyKey j"
  "j_idempotencyKey (complete_job sm n j) = j_idempotencyKey j"
  "j_idempotencyKey (dead_letter_job e n j) = j_idempotencyKey j"
  "j_idempotencyKey (retry_wait_job e n j) = j_idempotencyKey j"
  "j_idempotencyKey (recover_job n j) = j_idempotencyKey j"
  "j_idempotencyKey (fail_update cfg e n rnd r j) = j_idempotencyKey j"
  by (simp_all add: job_updates fail_update_def)

lemma claimed_not_claimable [simp]: "\<not> claimable now' (claim_job cfg w now j)"
  by (simp add: claimable_def claim_job_def)

lemma running_not_claimable: "j_status j = Running \<Longrightarrow> \<not> claimable now j"
  by (simp add: claimable_def)


section \<open>What the answers of the driver mean for the jobs\<close>

lemma one_updated_keeps_others:
  assumes "one_updated p f s s' d'" "d \<in> set s"
  shows "d \<in> set s' \<or> p d \<and> f d \<in> set s'"
  using assms by (auto elim!: one_updatedE)

lemma recover_changes:
  assumes "abandoned now j"
  shows "recover_job now j \<noteq> j"
proof
  assume "recover_job now j = j"
  then have "j_status (recover_job now j) = j_status j" by (rule arg_cong)
  with assms show False by (simp add: abandoned_def recover_job_def)
qed

context store
begin

lemma claim_Inr_Some:
  assumes "claim env cfg w now s = (s', Inr (Some j))"
  shows "one_updated (claimable now) (claim_job cfg w now) (db_jobs s) (db_jobs s') j"
  using assms unfolding claim_def by (rule jobs_updateOne_cases) auto

lemma recover_Inr:
  assumes "recoverAbandoned env now s = (s', Inr n)"
  shows "db_jobs s' = map (\<lambda>j. if abandoned now j then recover_job now j else j) (db_jobs s)"
    and "n = length (filter (abandoned now) (db_jobs s))"
proof -
  obtain js where u: "drv_updateMany (e_jobs env) (abandoned now) (recover_job now) (db_jobs s) = Inr (js, n)"
    and s': "s' = db_jobs_update (\<lambda>_. js) s"
    using assms by (auto simp: recoverAbandoned_def tell_Inr)
  from jobs.updateMany_Inr [OF u] s'
  show "db_jobs s' = map (\<lambda>j. if abandoned now j then recover_job now j else j) (db_jobs s)" by simp
  have "(\<lambda>j. abandoned now j \<and> recover_job now j \<noteq> j) = abandoned now"
    using recover_changes by blast
  then show "n = length (filter (abandoned now) (db_jobs s))"
    using jobs.updateMany_Inr [OF u] by simp
qed

text \<open>\<^verbatim>\<open>fail\<close> on a stored job decides on that job and writes it back.\<close>

lemma fail_cases:
  assumes "fail env cfg i err now rnd s = (s', r)" "distinct (map j_id (db_jobs s))"
  obtains (unchanged) "s' = s" "\<And>x. r = Inr x \<Longrightarrow> x = None \<and> i \<notin> j_id ` set (db_jobs s)"
  | (updated) d where "d \<in> set (db_jobs s)" "j_id d = i"
      "r = Inr (Some (fail_update cfg err now rnd d d))"
      "one_updated (\<lambda>j. j_id j = i) (\<lambda>j. fail_update cfg err now rnd j j) (db_jobs s) (db_jobs s')
        (fail_update cfg err now rnd d d)"
proof (cases "drv_findOne (e_jobs env) (\<lambda>j. j_id j = i) (db_jobs s)")
  case (Inl e)
  with assms unchanged show ?thesis by (auto simp: fail_def bind_io_def ask_def)
next
  case (Inr found)
  show ?thesis
  proof (cases found)
    case None
    with Inr have "i \<notin> j_id ` set (db_jobs s)" using jobs.findOne_None by blast
    with assms Inr None unchanged show ?thesis by (auto simp: fail_def bind_io_def ask_def)
  next
    case (Some d)
    with Inr have d: "d \<in> set (db_jobs s)" "j_id d = i"
      using jobs.findOne_Some [of "\<lambda>j. j_id j = i" "db_jobs s" d] by simp_all
    from assms(1) Inr Some have "tell db_jobs db_jobs_update (drv_updateOne (e_jobs env)
        (\<lambda>j. j_id j = i) (fail_update cfg err now rnd d)) s = (s', r)"
      by (simp add: fail_def bind_io_def ask_def)
    then show ?thesis
    proof (cases rule: jobs_updateOne_cases)
      case unchanged
      with d that(1) show ?thesis by blast
    next
      case (updated d')
      then obtain xs e ys where e: "db_jobs s = xs @ e # ys" "j_id e = i"
        "db_jobs s' = xs @ fail_update cfg err now rnd d e # ys" "d' = fail_update cfg err now rnd d e"
        by (auto elim: one_updatedE)
      with d assms(2) have "e = d" by (auto simp: distinct_map inj_on_def image_iff)
      with e updated(1) d that(2) show ?thesis unfolding one_updated_def by blast
    qed
  qed
qed

end

lemmas fail_run_cases = store.fail_cases [consumes 3, case_names unchanged updated]

end
