(* ===== verification/Configuration.thy ===== *)
theory Configuration
  imports Schemas Job_Queue Circuit_Breaker "HOL-Library.Monad_Syntax"
begin

text \<open>
  \<^verbatim>\<open>apps/api/src/config.ts\<close> and \<^verbatim>\<open>apps/worker/src/config.ts\<close>: the environment of the process, read through a
  zod schema, and what the constructors of the components take from it. A number is what \<^verbatim>\<open>Number\<close> makes
  of the text; zod refuses \<^verbatim>\<open>NaN\<close> but not the infinities. The schema of a variable is total: a
  missing variable takes its default, only a malformed one (or a short \<^verbatim>\<open>JWT_SECRET\<close>) makes the start
  fail.
\<close>

section \<open>Reading variables\<close>

type_synonym environment = "string \<Rightarrow> string option"

text \<open>\<^verbatim>\<open>{ ...process.env, ...overrides }\<close>: an override that is present but \<^verbatim>\<open>undefined\<close> hides the variable.\<close>

definition with_overrides :: "environment \<Rightarrow> (string \<Rightarrow> string option option) \<Rightarrow> environment" where
  "with_overrides vars overrides = (\<lambda>k. case overrides k of None \<Rightarrow> vars k | Some v \<Rightarrow> v)"

datatype env_number = Finite rat | PlusInfinity | MinusInfinity

definition coerce_number :: "string \<Rightarrow> env_number option" where
  "coerce_number s =
     (if js_trim s \<in> {''Infinity'', ''+Infinity''} then Some PlusInfinity
      else if js_trim s = ''-Infinity'' then Some MinusInfinity
      else map_option Finite (js_number s))"

definition env_num :: "environment \<Rightarrow> string \<Rightarrow> rat \<Rightarrow> env_number option" where
  "env_num vars k dflt = (case vars k of None \<Rightarrow> Some (Finite dflt) | Some v \<Rightarrow> coerce_number v)"

definition env_str :: "environment \<Rightarrow> string \<Rightarrow> string \<Rightarrow> string" where
  "env_str vars k dflt = with_default (vars k) dflt"

definition env_flag :: "environment \<Rightarrow> string \<Rightarrow> string \<Rightarrow> bool" where
  "env_flag vars k dflt \<longleftrightarrow> env_str vars k dflt = ''true''"

definition env_min :: "environment \<Rightarrow> string \<Rightarrow> nat \<Rightarrow> string option" where
  "env_min vars k n = (case vars k of None \<Rightarrow> None | Some v \<Rightarrow> if n \<le> length v then Some v else None)"

definition env_provider :: "environment \<Rightarrow> string \<Rightarrow> provider_name option" where
  "env_provider vars k =
     (case vars k of
        None \<Rightarrow> Some MockProvider
      | Some v \<Rightarrow> if v = ''mock'' then Some MockProvider else if v = ''aws'' then Some Aws else None)"


section \<open>The API\<close>

record ApiConfig =
  ev_NODE_ENV :: string
  ev_LOG_LEVEL :: string
  ev_API_PORT :: env_number
  ev_MONGODB_URI :: string
  ev_JWT_SECRET :: string
  ev_JWT_EXPIRES_IN :: string
  ev_BCRYPT_ROUNDS :: env_number
  ev_DIAGNOSTICS_URL :: string
  ev_DIAGNOSTICS_TIMEOUT_MS :: env_number
  ev_CLOUD_PROVIDER :: provider_name
  ev_AWS_REGION :: string
  ev_AWS_READ_ONLY :: bool
  ev_ENABLE_AWS_MUTATIONS :: bool
  ev_AWS_MAX_ATTEMPTS :: env_number
  ev_AWS_REQUEST_TIMEOUT_MS :: env_number
  ev_AWS_ENDPOINT_URL :: string
  ev_CB_FAILURE_THRESHOLD :: env_number
  ev_CB_RESET_TIMEOUT_MS :: env_number
  ev_RATE_LIMIT_WINDOW_MS :: env_number
  ev_RATE_LIMIT_MAX :: env_number
  ev_APPROVAL_TTL_MS :: env_number
  ev_WORKER_MAX_ATTEMPTS :: env_number
  ev_WORKER_JOB_TIMEOUT_MS :: env_number
  ev_DEFAULT_WORKSPACE_ID :: string

definition envSchema :: "environment \<Rightarrow> ApiConfig option" where
  "envSchema vars = do {
     port \<leftarrow> env_num vars ''API_PORT'' 3000;
     secret \<leftarrow> env_min vars ''JWT_SECRET'' 16;
     rounds \<leftarrow> env_num vars ''BCRYPT_ROUNDS'' 10;
     diagTimeout \<leftarrow> env_num vars ''DIAGNOSTICS_TIMEOUT_MS'' 5000;
     mode \<leftarrow> env_provider vars ''CLOUD_PROVIDER'';
     awsAttempts \<leftarrow> env_num vars ''AWS_MAX_ATTEMPTS'' 3;
     awsTimeout \<leftarrow> env_num vars ''AWS_REQUEST_TIMEOUT_MS'' 4000;
     threshold \<leftarrow> env_num vars ''CB_FAILURE_THRESHOLD'' 5;
     resetAfter \<leftarrow> env_num vars ''CB_RESET_TIMEOUT_MS'' 15000;
     window \<leftarrow> env_num vars ''RATE_LIMIT_WINDOW_MS'' 60000;
     rate \<leftarrow> env_num vars ''RATE_LIMIT_MAX'' 120;
     ttl \<leftarrow> env_num vars ''APPROVAL_TTL_MS'' 900000;
     attempts \<leftarrow> env_num vars ''WORKER_MAX_ATTEMPTS'' 5;
     jobTimeout \<leftarrow> env_num vars ''WORKER_JOB_TIMEOUT_MS'' 20000;
     Some
       \<lparr> ev_NODE_ENV = env_str vars ''NODE_ENV'' ''development'',
         ev_LOG_LEVEL = env_str vars ''LOG_LEVEL'' ''info'',
         ev_API_PORT = port,
         ev_MONGODB_URI = env_str vars ''MONGODB_URI'' ''mongodb://localhost:27017/cloudops'',
         ev_JWT_SECRET = secret,
         ev_JWT_EXPIRES_IN = env_str vars ''JWT_EXPIRES_IN'' ''8h'',
         ev_BCRYPT_ROUNDS = rounds,
         ev_DIAGNOSTICS_URL = env_str vars ''DIAGNOSTICS_URL'' ''http://localhost:8000'',
         ev_DIAGNOSTICS_TIMEOUT_MS = diagTimeout,
         ev_CLOUD_PROVIDER = mode,
         ev_AWS_REGION = env_str vars ''AWS_REGION'' ''us-east-1'',
         ev_AWS_READ_ONLY = env_flag vars ''AWS_READ_ONLY'' ''true'',
         ev_ENABLE_AWS_MUTATIONS = env_flag vars ''ENABLE_AWS_MUTATIONS'' ''false'',
         ev_AWS_MAX_ATTEMPTS = awsAttempts,
         ev_AWS_REQUEST_TIMEOUT_MS = awsTimeout,
         ev_AWS_ENDPOINT_URL = env_str vars ''AWS_ENDPOINT_URL'' [],
         ev_CB_FAILURE_THRESHOLD = threshold,
         ev_CB_RESET_TIMEOUT_MS = resetAfter,
         ev_RATE_LIMIT_WINDOW_MS = window,
         ev_RATE_LIMIT_MAX = rate,
         ev_APPROVAL_TTL_MS = ttl,
         ev_WORKER_MAX_ATTEMPTS = attempts,
         ev_WORKER_JOB_TIMEOUT_MS = jobTimeout,
         ev_DEFAULT_WORKSPACE_ID = env_str vars ''DEFAULT_WORKSPACE_ID'' ''ws_demo_acme'' \<rparr>
   }"

definition loadConfig :: "environment \<Rightarrow> (string \<Rightarrow> string option option) \<Rightarrow> ApiConfig option" where
  "loadConfig vars overrides = envSchema (with_overrides vars overrides)"


section \<open>The worker\<close>

record WorkerConfig =
  wv_LOG_LEVEL :: string
  wv_MONGODB_URI :: string
  wv_DIAGNOSTICS_URL :: string
  wv_DIAGNOSTICS_TIMEOUT_MS :: env_number
  wv_WORKER_ID :: string
  wv_WORKER_CONCURRENCY :: env_number
  wv_WORKER_POLL_INTERVAL_MS :: env_number
  wv_WORKER_LEASE_MS :: env_number
  wv_WORKER_HEARTBEAT_MS :: env_number
  wv_WORKER_MAX_ATTEMPTS :: env_number
  wv_WORKER_JOB_TIMEOUT_MS :: env_number
  wv_WORKER_BACKOFF_BASE_MS :: env_number
  wv_WORKER_BACKOFF_MAX_MS :: env_number
  wv_WORKER_METRICS_PORT :: env_number
  wv_CB_FAILURE_THRESHOLD :: env_number
  wv_CB_RESET_TIMEOUT_MS :: env_number

definition workerEnvSchema :: "environment \<Rightarrow> WorkerConfig option" where
  "workerEnvSchema vars = do {
     diagTimeout \<leftarrow> env_num vars ''DIAGNOSTICS_TIMEOUT_MS'' 5000;
     concurrency \<leftarrow> env_num vars ''WORKER_CONCURRENCY'' 2;
     poll \<leftarrow> env_num vars ''WORKER_POLL_INTERVAL_MS'' 1000;
     lease \<leftarrow> env_num vars ''WORKER_LEASE_MS'' 30000;
     beat \<leftarrow> env_num vars ''WORKER_HEARTBEAT_MS'' 8000;
     attempts \<leftarrow> env_num vars ''WORKER_MAX_ATTEMPTS'' 5;
     jobTimeout \<leftarrow> env_num vars ''WORKER_JOB_TIMEOUT_MS'' 20000;
     backoffBase \<leftarrow> env_num vars ''WORKER_BACKOFF_BASE_MS'' 500;
     backoffMax \<leftarrow> env_num vars ''WORKER_BACKOFF_MAX_MS'' 15000;
     port \<leftarrow> env_num vars ''WORKER_METRICS_PORT'' 9091;
     threshold \<leftarrow> env_num vars ''CB_FAILURE_THRESHOLD'' 5;
     resetAfter \<leftarrow> env_num vars ''CB_RESET_TIMEOUT_MS'' 15000;
     Some
       \<lparr> wv_LOG_LEVEL = env_str vars ''LOG_LEVEL'' ''info'',
         wv_MONGODB_URI = env_str vars ''MONGODB_URI'' ''mongodb://localhost:27017/cloudops'',
         wv_DIAGNOSTICS_URL = env_str vars ''DIAGNOSTICS_URL'' ''http://localhost:8000'',
         wv_DIAGNOSTICS_TIMEOUT_MS = diagTimeout,
         wv_WORKER_ID = env_str vars ''WORKER_ID'' ''worker-1'',
         wv_WORKER_CONCURRENCY = concurrency,
         wv_WORKER_POLL_INTERVAL_MS = poll,
         wv_WORKER_LEASE_MS = lease,
         wv_WORKER_HEARTBEAT_MS = beat,
         wv_WORKER_MAX_ATTEMPTS = attempts,
         wv_WORKER_JOB_TIMEOUT_MS = jobTimeout,
         wv_WORKER_BACKOFF_BASE_MS = backoffBase,
         wv_WORKER_BACKOFF_MAX_MS = backoffMax,
         wv_WORKER_METRICS_PORT = port,
         wv_CB_FAILURE_THRESHOLD = threshold,
         wv_CB_RESET_TIMEOUT_MS = resetAfter \<rparr>
   }"

definition loadWorkerConfig ::
  "environment \<Rightarrow> (string \<Rightarrow> string option option) \<Rightarrow> WorkerConfig option" where
  "loadWorkerConfig vars overrides = workerEnvSchema (with_overrides vars overrides)"


section \<open>What the components are built with\<close>

text \<open>A date truncates to whole milliseconds, and a date at infinity is invalid.\<close>

fun whole_ms :: "env_number \<Rightarrow> int option" where
  "whole_ms (Finite x) = Some \<lfloor>x\<rfloor>"
| "whole_ms _ = None"

fun finite_number :: "env_number \<Rightarrow> rat option" where
  "finite_number (Finite x) = Some x"
| "finite_number _ = None"

definition auth_config_of :: "ApiConfig \<Rightarrow> auth_config" where
  "auth_config_of c = \<lparr>ac_JWT_SECRET = ev_JWT_SECRET c, ac_JWT_EXPIRES_IN = ev_JWT_EXPIRES_IN c\<rparr>"

definition remediation_config_of :: "ApiConfig \<Rightarrow> rem_config option" where
  "remediation_config_of c = do {
     ttl \<leftarrow> whole_ms (ev_APPROVAL_TTL_MS c);
     Some \<lparr> rc_APPROVAL_TTL_MS = ttl, rc_ENABLE_AWS_MUTATIONS = ev_ENABLE_AWS_MUTATIONS c,
            rc_CLOUD_PROVIDER = ev_CLOUD_PROVIDER c \<rparr>
   }"

definition queue_config_of :: "WorkerConfig \<Rightarrow> queue_config option" where
  "queue_config_of c = do {
     lease \<leftarrow> whole_ms (wv_WORKER_LEASE_MS c);
     attempts \<leftarrow> whole_ms (wv_WORKER_MAX_ATTEMPTS c);
     backoffBase \<leftarrow> finite_number (wv_WORKER_BACKOFF_BASE_MS c);
     backoffMax \<leftarrow> finite_number (wv_WORKER_BACKOFF_MAX_MS c);
     Some \<lparr> qc_leaseMs = lease, qc_maxAttempts = attempts, qc_backoffBaseMs = backoffBase,
            qc_backoffMaxMs = backoffMax \<rparr>
   }"


section \<open>What a parsed environment guarantees\<close>

lemma envSchema_Some:
  assumes "envSchema vars = Some c"
  shows "vars ''JWT_SECRET'' = Some (ev_JWT_SECRET c)" "16 \<le> length (ev_JWT_SECRET c)"
    and "ev_CLOUD_PROVIDER c = Aws \<longleftrightarrow> vars ''CLOUD_PROVIDER'' = Some ''aws''"
    and "ev_ENABLE_AWS_MUTATIONS c \<longleftrightarrow> vars ''ENABLE_AWS_MUTATIONS'' = Some ''true''"
    and "ev_AWS_READ_ONLY c \<longleftrightarrow> vars ''AWS_READ_ONLY'' \<in> {None, Some ''true''}"
proof -
  obtain secret mode where s: "env_min vars ''JWT_SECRET'' 16 = Some secret"
    and m: "env_provider vars ''CLOUD_PROVIDER'' = Some mode"
    and c: "ev_JWT_SECRET c = secret" "ev_CLOUD_PROVIDER c = mode"
      "ev_ENABLE_AWS_MUTATIONS c = env_flag vars ''ENABLE_AWS_MUTATIONS'' ''false''"
      "ev_AWS_READ_ONLY c = env_flag vars ''AWS_READ_ONLY'' ''true''"
    using assms by (auto simp: envSchema_def bind_eq_Some_conv)
  show "vars ''JWT_SECRET'' = Some (ev_JWT_SECRET c)" "16 \<le> length (ev_JWT_SECRET c)"
    using s by (auto simp: c env_min_def split: option.splits if_splits)
  show "ev_CLOUD_PROVIDER c = Aws \<longleftrightarrow> vars ''CLOUD_PROVIDER'' = Some ''aws''"
    using m by (auto simp: c env_provider_def split: option.splits if_splits)
  show "ev_ENABLE_AWS_MUTATIONS c \<longleftrightarrow> vars ''ENABLE_AWS_MUTATIONS'' = Some ''true''"
    by (auto simp: c env_flag_def env_str_def with_default_def split: option.splits)
  show "ev_AWS_READ_ONLY c \<longleftrightarrow> vars ''AWS_READ_ONLY'' \<in> {None, Some ''true''}"
    by (auto simp: c env_flag_def env_str_def with_default_def split: option.splits)
qed

text \<open>With nothing but a secret the API starts on the mock provider; the worker needs no variable at all, and
  its heartbeats come three times within a lease.\<close>

lemma default_config:
  assumes "16 \<le> length secret"
  obtains c where "loadConfig [''JWT_SECRET'' \<mapsto> secret] (\<lambda>_. None) = Some c" "ev_CLOUD_PROVIDER c = MockProvider"
    "\<not> ev_ENABLE_AWS_MUTATIONS c" "remediation_config_of c =
      Some \<lparr>rc_APPROVAL_TTL_MS = 900000, rc_ENABLE_AWS_MUTATIONS = False, rc_CLOUD_PROVIDER = MockProvider\<rparr>"
  using assms
  by (simp add: loadConfig_def with_overrides_def envSchema_def env_num_def env_min_def env_provider_def
      env_flag_def env_str_def with_default_def remediation_config_of_def)

lemma default_worker_config:
  obtains c where "loadWorkerConfig (\<lambda>_. None) (\<lambda>_. None) = Some c"
    "queue_config_of c = Some \<lparr>qc_leaseMs = 30000, qc_maxAttempts = 5, qc_backoffBaseMs = 500, qc_backoffMaxMs = 15000\<rparr>"
    "wv_WORKER_HEARTBEAT_MS c = Finite 8000" "wv_WORKER_CONCURRENCY c = Finite 2"
  by (simp add: loadWorkerConfig_def with_overrides_def workerEnvSchema_def env_num_def queue_config_of_def)

end
