(* ===== verification/Remediation_Effects.thy ===== *)
theory Remediation_Effects
  imports Remediation_Safety
begin

text \<open>
  What a successful execution does: \<open>apply_plan\<close> is the specification of a plan on one resource (the
  actions on it, in order), and the loop of \<open>execute_apply\<close> refines it: the stored resources of the
  workspace are exactly those of the specification, or untouched for a dry run.
\<close>

definition remediate :: "action \<Rightarrow> cloud_resource \<Rightarrow> cloud_resource" where
  "remediate a r = (case applySimulatedAction (res_state_of r) a of
     Inl e \<Rightarrow> r | Inr (st, result) \<Rightarrow> with_state st (r_version r + 1) r)"

definition apply_plan :: "action list \<Rightarrow> cloud_resource \<Rightarrow> cloud_resource" where
  "apply_plan as r = fold (\<lambda>a r. if a_resourceId a = r_id r then remediate a r else r) as r"

lemma remediate_ids [simp]: "r_id (remediate a r) = r_id r" "r_workspaceId (remediate a r) = r_workspaceId r"
  by (simp_all add: remediate_def with_state_def split: sum.split prod.split)

lemma apply_plan_ids [simp]:
  "r_id (apply_plan as r) = r_id r" "r_workspaceId (apply_plan as r) = r_workspaceId r"
  by (induction as arbitrary: r) (simp_all add: apply_plan_def)

lemma apply_plan_Nil [simp]: "apply_plan [] r = r"
  by (simp add: apply_plan_def)

lemma apply_plan_snoc: "apply_plan (as @ [a]) r =
    (if a_resourceId a = r_id r then remediate a (apply_plan as r) else apply_plan as r)"
proof -
  have "r_id (fold (\<lambda>a r. if a_resourceId a = r_id r then remediate a r else r) as r) = r_id r"
    using apply_plan_ids(1) [of as r] by (simp add: apply_plan_def)
  then show ?thesis by (simp add: apply_plan_def)
qed

lemma apply_plan_other: "r_id r \<notin> a_resourceId ` set as \<Longrightarrow> apply_plan as r = r"
  by (induction as arbitrary: r) (auto simp: apply_plan_def)

text \<open>The loop, from the resources \<open>rs\<close> and the map \<open>m\<close> of those the plan may touch.\<close>

definition loop_inv ::
  "rem_config \<Rightarrow> plan \<Rightarrow> cloud_resource list \<Rightarrow> (oid \<Rightarrow> cloud_resource option) \<Rightarrow>
    action list \<Rightarrow> exec_acc \<Rightarrow> db \<Rightarrow> bool" where
  "loop_inv cfg plan rs m ys acc s \<longleftrightarrow>
     (if persists cfg plan
      then db_resources s = map (\<lambda>r. if m (r_id r) = None then r else apply_plan ys r) rs
        \<and> ea_byId acc = (\<lambda>i. map_option (apply_plan ys) (m i))
      else db_resources s = rs \<and> ea_byId acc = m)
     \<and> map ar_ok (ea_results acc) = map (\<lambda>a. m (a_resourceId a) \<noteq> None) ys
     \<and> map ar_resourceId (ea_results acc) = map a_resourceId ys"

definition map_in :: "(oid \<Rightarrow> cloud_resource option) \<Rightarrow> cloud_resource list \<Rightarrow> bool" where
  "map_in m rs \<longleftrightarrow> distinct (map r_id rs) \<and> (\<forall>i r. m i = Some r \<longrightarrow> r \<in> set rs \<and> r_id r = i)"

lemma loop_step:
  assumes "map_in m rs" "m i = Some r"
  shows "apply_plan (ys @ [a]) r = (if a_resourceId a = i then remediate a (apply_plan ys r) else apply_plan ys r)"
  using assms by (auto simp: apply_plan_snoc map_in_def)

lemma loop_missing:
  assumes "map_in m rs" "m (a_resourceId a) = None" "loop_inv cfg plan rs m ys acc s"
  shows "loop_inv cfg plan rs m (ys @ [a]) (acc\<lparr>ea_results := ea_results acc @ [missing_result a]\<rparr>) s"
proof -
  have "map_option (apply_plan (ys @ [a])) (m i) = map_option (apply_plan ys) (m i)" for i
    using loop_step [OF assms(1)] assms(2) by (cases "m i") auto
  moreover have "(if m (r_id r) = None then r else apply_plan (ys @ [a]) r) =
      (if m (r_id r) = None then r else apply_plan ys r)" for r
    using assms(2) by (auto simp: apply_plan_snoc)
  ultimately show ?thesis
    using assms(2,3) by (simp add: loop_inv_def missing_result_def cong: if_cong)
qed

lemma loop_found:
  assumes "map_in m rs" "m (a_resourceId a) = Some r0" "loop_inv cfg plan rs m ys acc s"
    and "ar_ok x" "ar_resourceId x = a_resourceId a" "ea_results acc' = ea_results acc @ [x]"
    and "if persists cfg plan
      then ea_byId acc' = (ea_byId acc)(a_resourceId a \<mapsto> remediate a (apply_plan ys r0)) \<and>
        db_resources s' = map (\<lambda>d. if r_id d = a_resourceId a then remediate a (apply_plan ys r0) else d) (db_resources s)
      else ea_byId acc' = ea_byId acc \<and> db_resources s' = db_resources s"
  shows "loop_inv cfg plan rs m (ys @ [a]) acc' s'"
proof -
  have "((\<lambda>i. map_option (apply_plan ys) (m i))(a_resourceId a \<mapsto> remediate a (apply_plan ys r0))) i =
      map_option (apply_plan (ys @ [a])) (m i)" for i
    using loop_step [OF assms(1)] assms(2) by (cases "m i") auto
  then have map: "(\<lambda>i. map_option (apply_plan ys) (m i))(a_resourceId a \<mapsto> remediate a (apply_plan ys r0)) =
      (\<lambda>i. map_option (apply_plan (ys @ [a])) (m i))" by blast
  have r0: "r0 \<in> set rs" "r_id r0 = a_resourceId a" "distinct (map r_id rs)"
    using assms(1,2) by (auto simp: map_in_def)
  have "(if r_id r = a_resourceId a then remediate a (apply_plan ys r0)
        else if m (r_id r) = None then r else apply_plan ys r) =
      (if m (r_id r) = None then r else apply_plan (ys @ [a]) r)" if "r \<in> set rs" for r
    using that r0 assms(2) distinct_key_unique [of r_id rs r r0] by (auto simp: apply_plan_snoc)
  then have "map (\<lambda>d. if r_id d = a_resourceId a then remediate a (apply_plan ys r0) else d)
        (map (\<lambda>r. if m (r_id r) = None then r else apply_plan ys r) rs) =
      map (\<lambda>r. if m (r_id r) = None then r else apply_plan (ys @ [a]) r) rs"
    by (simp add: if_distrib [of r_id] cong: if_cong)
  with map show ?thesis
    using assms(2-7) by (auto simp: loop_inv_def split: if_splits)
qed

lemma loop_start:
  assumes "db_resources s = rs" "ea_byId acc = m" "ea_results acc = []"
  shows "loop_inv cfg plan rs m [] acc s"
proof -
  have "map_option (apply_plan []) (m i) = m i" for i by (cases "m i") simp_all
  with assms show ?thesis by (simp add: loop_inv_def cong: if_cong)
qed

lemma loop_unique:
  assumes "map_in m rs" "m i = Some r0" "r \<in> set rs"
    and "r_id (if m (r_id r) = None then r else apply_plan ys r) = i"
  shows "(if m (r_id r) = None then r else apply_plan ys r) = apply_plan ys r0"
proof -
  have "r_id r = i" using assms(4) by (simp split: if_splits)
  moreover have "r0 \<in> set rs" "r_id r0 = i" "distinct (map r_id rs)"
    using assms(1,2) by (auto simp: map_in_def)
  ultimately show ?thesis
    using assms(2,3) distinct_key_unique [of r_id rs r r0] by simp
qed

text \<open>What the results and the resources are after a plan ran.\<close>

definition recorded :: "rem_config \<Rightarrow> plan \<Rightarrow> string \<Rightarrow> cloud_resource list \<Rightarrow> action_result list \<Rightarrow>
    cloud_resource list \<Rightarrow> bool" where
  "recorded cfg plan w rs results rs' \<longleftrightarrow>
     map ar_resourceId results = map a_resourceId (p_actions plan) \<and>
     map ar_ok results = map (\<lambda>a. \<exists>r \<in> set rs. r_id r = a_resourceId a \<and> r_workspaceId r = w) (p_actions plan) \<and>
     rs' = (if persists cfg plan
       then map (\<lambda>r. if r_workspaceId r = w then apply_plan (p_actions plan) r else r) rs else rs)"

context store
begin

lemma hoare_run_action:
  assumes "map_in m rs"
  shows "hoare (loop_inv cfg plan rs m ys acc) (run_action env cfg plan acc a)
    (\<lambda>acc'. loop_inv cfg plan rs m (ys @ [a]) acc') (\<lambda>_ _. True)"
proof (rule hoareI)
  fix s s' acc'
  assume inv: "loop_inv cfg plan rs m ys acc s" and run: "run_action env cfg plan acc a s = (s', Inr acc')"
  let ?i = "a_resourceId a"
  show "loop_inv cfg plan rs m (ys @ [a]) acc' s'"
  proof (cases "m ?i")
    case None
    with inv have "ea_byId acc ?i = None" by (auto simp: loop_inv_def split: if_splits)
    with run loop_missing [OF assms None inv] show ?thesis by (simp add: run_action_def)
  next
    case (Some r0)
    let ?r = "if persists cfg plan then apply_plan ys r0 else r0"
    have r: "ea_byId acc ?i = Some ?r" using Some inv by (simp add: loop_inv_def split: if_splits)
    with run obtain st x where x: "applySimulatedAction (res_state_of ?r) a = Inr (st, x)"
      by (auto simp: run_action_def Let_def split: sum.splits)
    show ?thesis
    proof (cases "persists cfg plan")
      case False
      with run r x have "s' = s" "ea_byId acc' = ea_byId acc" "ea_results acc' = ea_results acc @ [x]"
        by (auto simp: run_action_def Let_def)
      with False loop_found [OF assms Some inv engine_result_fields [OF x], of acc' s'] show ?thesis by simp
    next
      case True
      let ?f = "with_state st (r_version ?r + 1)"
      have "\<forall>i r. m i = Some r \<longrightarrow> r_id r = i" using assms by (simp add: map_in_def)
      with Some have id: "r_id r0 = ?i" by simp
      from True run r x obtain u where
        save: "save_doc db_resources db_resources_update (e_resources env) (\<lambda>d. r_id d = ?i) ?f s = (s', Inr u)"
        and acc': "ea_byId acc' = (ea_byId acc)(?i \<mapsto> ?f ?r)" "ea_results acc' = ea_results acc @ [x]"
        by (auto simp: run_action_def Let_def bind_io_Inr id)
      have dist: "distinct (map r_id (db_resources s))"
        using inv assms True by (simp add: loop_inv_def map_in_def comp_def if_distrib [of r_id] cong: if_cong)
      from save dist have "db_resources s' = map (\<lambda>d. if r_id d = ?i then ?f d else d) (db_resources s)"
        by (cases rule: resources.save_doc_cases) auto
      moreover have "d = ?r" if "d \<in> set (db_resources s)" "r_id d = ?i" for d
        using inv True Some that loop_unique [OF assms Some, of _ ys] by (auto simp: loop_inv_def)
      moreover have "?f ?r = remediate a (apply_plan ys r0)"
        using x True by (simp add: remediate_def)
      ultimately have "db_resources s' = map (\<lambda>d. if r_id d = ?i then remediate a (apply_plan ys r0) else d) (db_resources s)"
        using True by auto
      with True acc' \<open>?f ?r = _\<close> loop_found [OF assms Some inv engine_result_fields [OF x], of acc' s']
      show ?thesis by simp
    qed
  qed
qed simp

lemma found_map:
  assumes "drv_find (e_resources env) p rs = Inr ds" "distinct (map r_id rs)"
  shows "map_of (rev (map (\<lambda>r. (r_id r, r)) ds)) i = Some r \<longleftrightarrow> r \<in> set rs \<and> p r \<and> r_id r = i"
proof -
  have "distinct (map fst (map (\<lambda>r. (r_id r, r)) ds))"
    using resources.find_distinct [OF assms] by (simp add: comp_def)
  then have "map_of (rev (map (\<lambda>r. (r_id r, r)) ds)) i = Some r \<longleftrightarrow> (i, r) \<in> set (map (\<lambda>r. (r_id r, r)) ds)"
    by (simp only: map_of_rev_distinct map_of_eq_Some_iff)
  with resources.find_mem [OF assms(1)] show ?thesis by auto
qed

lemma loop_recorded:
  assumes "drv_find (e_resources env) (\<lambda>r. r_workspaceId r = w \<and> r_id r \<in> set (map a_resourceId (p_actions plan))) rs = Inr ds"
    and "distinct (map r_id rs)"
    and "loop_inv cfg plan rs (map_of (rev (map (\<lambda>r. (r_id r, r)) ds))) (p_actions plan) acc s"
  shows "recorded cfg plan w rs (ea_results acc) (db_resources s)"
proof -
  let ?m = "map_of (rev (map (\<lambda>r. (r_id r, r)) ds))" and ?as = "p_actions plan"
  note m = found_map [OF assms(1,2)]
  have "(if ?m (r_id r) = None then r else apply_plan ?as r) =
      (if r_workspaceId r = w then apply_plan ?as r else r)" if "r \<in> set rs" for r
  proof (cases "?m (r_id r)")
    case None
    then have "r_workspaceId r \<noteq> w \<or> r_id r \<notin> a_resourceId ` set ?as"
      using m [of "r_id r" r] that by auto
    with None show ?thesis by (auto simp: apply_plan_other)
  next
    case (Some r')
    with m [of "r_id r" r'] that assms(2) have "r' = r" by (metis distinct_key_unique)
    with Some m [of "r_id r" r] show ?thesis by simp
  qed
  moreover have "(?m (a_resourceId a) \<noteq> None) = (\<exists>r \<in> set rs. r_id r = a_resourceId a \<and> r_workspaceId r = w)"
    if "a \<in> set ?as" for a
    using m [of "a_resourceId a"] that by (cases "?m (a_resourceId a)") auto
  ultimately show ?thesis
    using assms(3) by (auto simp: recorded_def loop_inv_def split: if_splits)
qed

lemma hoare_apply_effect:
  assumes "distinct (map r_id rs)"
  shows "hoare (\<lambda>s. db_resources s = rs) (execute_apply env cfg clk w planId a c inp plan tok)
    (\<lambda>(x, b) s. x_dryRun x = p_dryRun plan \<and> x_planId x = planId \<and> x_approvalTokenId x = t_id tok \<and>
        x_status x = execution_status (x_results x) \<and> recorded cfg plan w rs (x_results x) (db_resources s))
    (\<lambda>_ _. True)"
proof -
  let ?find = "drv_find (e_resources env) (\<lambda>r. r_workspaceId r = w \<and> r_id r \<in> set (map a_resourceId (p_actions plan)))"
  let ?f = "\<lambda>ds. ?find rs = Inr ds"
  let ?m = "\<lambda>ds. map_of (rev (map (\<lambda>r. (r_id r, r)) ds))"
  let ?acc = "\<lambda>ds. \<lparr>ea_byId = ?m ds, ea_before = [], ea_after = [], ea_results = []\<rparr>"
  let ?I = "\<lambda>ds s. db_resources s = rs \<and> ?f ds"
  let ?J = "\<lambda>acc s. recorded cfg plan w rs (ea_results acc) (db_resources s)"
  let ?X = "\<lambda>acc x s. x_dryRun x = p_dryRun plan \<and> x_planId x = planId \<and> x_approvalTokenId x = t_id tok \<and>
      x_results x = ea_results acc \<and> x_status x = execution_status (ea_results acc) \<and> ?J acc s"
  have look: "hoare (\<lambda>s. db_resources s = rs) (ask db_resources ?find) ?I (\<lambda>_ _. True)"
    by (rule hoare_ask) auto
  have start: "hoare (?I ds) (set_plan_status env (p_id plan) Executing) (\<lambda>_. (?I ds)) (\<lambda>_ _. True)" for ds
    unfolding set_plan_status_def by (rule hoare_keeps [OF keeps_save_doc]) auto
  have consume: "hoare (?I ds) (save_doc db_tokens db_tokens_update (e_tokens env) (\<lambda>t. t_id t = t_id tok)
      (\<lambda>t. t\<lparr>t_usedAt := Some (clk 1)\<rparr>)) (\<lambda>_. (?I ds)) (\<lambda>_ _. True)" for ds
    by (rule hoare_keeps [OF keeps_save_doc]) auto
  have loop: "hoare (?I ds) (for_io (run_action env cfg plan) (?acc ds) (p_actions plan)) ?J (\<lambda>_ _. True)" for ds
  proof (cases "?f ds")
    case True
    have m: "map_in (?m ds) rs" using found_map [OF True assms] assms by (simp add: map_in_def)
    have "hoare (loop_inv cfg plan rs (?m ds) [] (?acc ds)) (for_io (run_action env cfg plan) (?acc ds) (p_actions plan))
        (\<lambda>acc. loop_inv cfg plan rs (?m ds) ([] @ p_actions plan) acc) (\<lambda>_ _. True)"
      by (rule hoare_for) (rule hoare_run_action [OF m])
    then show ?thesis
      by (rule hoare_conseq)
        (auto intro: loop_start loop_recorded [OF True assms])
  qed (simp add: hoare_def)
  have create: "hoare (?J acc) (tell db_executions db_executions_update (drv_create (e_executions env)
      (new_execution w planId (t_id tok) a c inp (p_dryRun plan) acc (clk 2) (clk 3)))) (?X acc) (\<lambda>_ _. True)" for acc
    by (rule executions.hoare_create) (auto simp: new_execution_def)
  have finish: "keeps (?X acc x) (bind_io (set_plan_status env (p_id plan) st) (\<lambda>_.
      record_audit env (clk 4) w a act rt rid c md))" for acc x st act rt rid md
    unfolding set_plan_status_def by (intro keeps_rules keeps_save_doc) auto
  show ?thesis
    unfolding execute_apply_def
    by (rule hoare_bind [OF look], rule hoare_bind [OF start], rule hoare_bind [OF consume],
        rule hoare_bind [OF loop], rule hoare_bind [OF create], unfold bind_io_assoc [symmetric],
        rule hoare_bind [OF hoare_keeps [OF finish]], assumption, simp, rule hoare_ret, simp)
qed

end


section \<open>Executions that run to the end\<close>

text \<open>With a database that answers, \<open>execute_apply\<close> always returns when its plan, its token and the
  resources are stored, the actions are on the allowlist and the key is free.\<close>

definition ready :: "plan \<Rightarrow> approval_token \<Rightarrow> execution list \<Rightarrow> db \<Rightarrow> bool" where
  "ready plan tok xs s \<longleftrightarrow>
     distinct (map p_id (db_plans s)) \<and> p_id plan \<in> p_id ` set (db_plans s) \<and>
     distinct (map t_id (db_tokens s)) \<and> t_id tok \<in> t_id ` set (db_tokens s) \<and>
     distinct (map r_id (db_resources s)) \<and> db_executions s = xs"

definition stored_map :: "(oid \<Rightarrow> cloud_resource option) \<Rightarrow> db \<Rightarrow> bool" where
  "stored_map m s \<longleftrightarrow> (\<forall>i r. m i = Some r \<longrightarrow> r_id r = i \<and> i \<in> r_id ` set (db_resources s))"

lemma readyD:
  assumes "ready plan tok xs s"
  shows "distinct (map p_id (db_plans s))" "p_id plan \<in> p_id ` set (db_plans s)"
    "distinct (map t_id (db_tokens s))" "t_id tok \<in> t_id ` set (db_tokens s)"
    "distinct (map r_id (db_resources s))" "db_executions s = xs"
  using assms unfolding ready_def by blast+

lemma stored_map_frame [simp]:
  "stored_map m (db_plans_update f s) = stored_map m s"
  "stored_map m (db_tokens_update g s) = stored_map m s"
  by (simp_all add: stored_map_def)

lemma ids_after_update:
  assumes "\<And>d. k (f d) = k d"
  shows "map k (map (\<lambda>d. if k d = i then f d else d) s) = map k s"
    and "k ` set (map (\<lambda>d. if k d = i then f d else d) s) = k ` set s"
proof -
  show "map k (map (\<lambda>d. if k d = i then f d else d) s) = map k s" by (simp add: assms)
  then show "k ` set (map (\<lambda>d. if k d = i then f d else d) s) = k ` set s" by (metis list.set_map)
qed

lemma ready_plan_status:
  "ready plan tok xs s \<Longrightarrow> ready plan tok xs
    (db_plans_update (\<lambda>_. map (\<lambda>p. if p_id p = i then p\<lparr>p_status := st\<rparr> else p) (db_plans s)) s)"
  using ids_after_update [of p_id "p_status_update (\<lambda>_. st)" i "db_plans s"]
  by (simp add: ready_def del: map_map set_map)

lemma ready_token:
  "ready plan tok xs s \<Longrightarrow> ready plan tok xs
    (db_tokens_update (\<lambda>_. map (\<lambda>t. if t_id t = i then t\<lparr>t_usedAt := Some n\<rparr> else t) (db_tokens s)) s)"
  using ids_after_update [of t_id "t_usedAt_update (\<lambda>_. Some n)" i "db_tokens s"]
  by (simp add: ready_def del: map_map set_map)

lemma ready_resource:
  assumes "ready plan tok xs s" "stored_map m s"
  shows "ready plan tok xs
      (db_resources_update (\<lambda>_. map (\<lambda>r. if r_id r = i then with_state st v r else r) (db_resources s)) s)"
    and "r_id r = i \<Longrightarrow> i \<in> r_id ` set (db_resources s) \<Longrightarrow> stored_map (m(i \<mapsto> with_state st v r))
      (db_resources_update (\<lambda>_. map (\<lambda>r. if r_id r = i then with_state st v r else r) (db_resources s)) s)"
proof -
  have "r_id (with_state st v r) = r_id r" for r by (simp add: with_state_def)
  note ids = ids_after_update [where k = r_id and f = "with_state st v", OF this, of i "db_resources s"]
  show "ready plan tok xs
      (db_resources_update (\<lambda>_. map (\<lambda>r. if r_id r = i then with_state st v r else r) (db_resources s)) s)"
    using assms(1) ids by (simp add: ready_def del: map_map set_map)
  show "r_id r = i \<Longrightarrow> i \<in> r_id ` set (db_resources s) \<Longrightarrow> stored_map (m(i \<mapsto> with_state st v r))
      (db_resources_update (\<lambda>_. map (\<lambda>r. if r_id r = i then with_state st v r else r) (db_resources s)) s)"
    using assms(2) ids(2) by (simp add: stored_map_def with_state_def del: map_map set_map)
qed

context reliable_store
begin

lemma hoare_run_action_ok:
  assumes "a_actionType a \<in> set ALLOWLISTED_ACTIONS"
  shows "hoare (\<lambda>s. ready plan tok xs s \<and> stored_map (ea_byId acc) s) (run_action env cfg plan acc a)
    (\<lambda>acc' s. ready plan tok xs s \<and> stored_map (ea_byId acc') s) E"
proof (cases "ea_byId acc (a_resourceId a)")
  case None
  then show ?thesis by (auto simp: run_action_def intro: hoare_ret)
next
  case (Some r)
  obtain st msg where st: "applySimulatedAction (res_state_of r) a = Inr (st, engine_result a msg)"
    using apply_allowlisted [OF assms] by metis
  show ?thesis
  proof (cases "persists cfg plan")
    case False
    with Some st show ?thesis by (auto simp: run_action_def Let_def intro: hoare_ret)
  next
    case True
    let ?P = "\<lambda>s. ready plan tok xs s \<and> stored_map (ea_byId acc) s"
    let ?r = "with_state st (r_version r + 1) r"
    have "hoare ?P (save_doc db_resources db_resources_update (e_resources env)
        (\<lambda>d. r_id d = r_id r) (with_state st (r_version r + 1)))
        (\<lambda>_ s. ready plan tok xs s \<and> stored_map ((ea_byId acc)(a_resourceId a \<mapsto> ?r)) s) E"
    proof (rule resources.hoare_save_doc_ok)
      fix s assume s: "?P s"
      then show "distinct (map r_id (db_resources s))" by (simp add: ready_def)
      from s Some have r: "r_id r = a_resourceId a" "a_resourceId a \<in> r_id ` set (db_resources s)"
        by (auto simp: stored_map_def)
      then show "r_id r \<in> r_id ` set (db_resources s)" by simp
      show "ready plan tok xs (db_resources_update (\<lambda>_. map (\<lambda>d. if r_id d = r_id r
            then with_state st (r_version r + 1) d else d) (db_resources s)) s) \<and>
          stored_map ((ea_byId acc)(a_resourceId a \<mapsto> ?r)) (db_resources_update (\<lambda>_. map (\<lambda>d. if r_id d = r_id r
            then with_state st (r_version r + 1) d else d) (db_resources s)) s)"
        unfolding r(1) using s r by (intro conjI ready_resource) auto
    qed
    then show ?thesis
      unfolding run_action_def Some option.case st sum.case prod.case Let_def if_P [OF True]
      by (rule hoare_bind) (auto intro: hoare_ret)
  qed
qed

lemma hoare_run_actions_ok:
  assumes "\<forall>a \<in> set as. a_actionType a \<in> set ALLOWLISTED_ACTIONS"
  shows "hoare (\<lambda>s. ready plan tok xs s \<and> stored_map (ea_byId acc) s) (for_io (run_action env cfg plan) acc as)
    (\<lambda>_. ready plan tok xs) E"
  using assms
proof (induction as arbitrary: acc)
  case Nil
  show ?case unfolding for_io.simps by (rule hoare_ret) simp
next
  case (Cons a as)
  then show ?case unfolding for_io.simps by (intro hoare_bind [OF hoare_run_action_ok]) auto
qed

lemma hoare_apply_ok:
  assumes "\<forall>a \<in> set (p_actions plan). a_actionType a \<in> set ALLOWLISTED_ACTIONS"
    and "\<forall>x \<in> set xs. x_workspaceId x = w \<longrightarrow> x_idempotencyKey x \<noteq> xi_idempotencyKey inp"
  shows "hoare (ready plan tok xs) (execute_apply env cfg clk w planId a c inp plan tok)
    (\<lambda>(x, b) s. \<not> b \<and> x_planId x = planId \<and> x_approvalTokenId x = t_id tok \<and>
      x_workspaceId x = w \<and> x_idempotencyKey x = xi_idempotencyKey inp \<and> ready plan tok (xs @ [x]) s)
    (\<lambda>_ _. False)"
proof -
  let ?find = "drv_find (e_resources env) (\<lambda>r. r_workspaceId r = w \<and> r_id r \<in> set (map a_resourceId (p_actions plan)))"
  let ?m = "\<lambda>ds. map_of (rev (map (\<lambda>r. (r_id r, r)) ds))"
  let ?I = "\<lambda>ds s. ready plan tok xs s \<and> stored_map (?m ds) s"
  let ?X = "\<lambda>x s. x_planId x = planId \<and> x_approvalTokenId x = t_id tok \<and>
      x_workspaceId x = w \<and> x_idempotencyKey x = xi_idempotencyKey inp \<and> ready plan tok (xs @ [x]) s"
  have look: "hoare (ready plan tok xs) (ask db_resources ?find) ?I (\<lambda>_ _. False)"
  proof (rule hoare_ask_ok)
    fix s ds assume "ready plan tok xs s" "?find (db_resources s) = Inr ds"
    then show "?I ds s"
      using found_map [of _ "db_resources s" ds] by (auto simp: stored_map_def ready_def)
  qed (rule resources.find_answers)
  have start: "hoare (?I ds) (set_plan_status env (p_id plan) Executing) (\<lambda>_. ?I ds) (\<lambda>_ _. False)" for ds
    unfolding set_plan_status_def
    by (rule plans.hoare_save_doc_ok) (blast dest: readyD, blast dest: readyD, simp add: ready_plan_status)
  have consume: "hoare (?I ds) (save_doc db_tokens db_tokens_update (e_tokens env) (\<lambda>t. t_id t = t_id tok)
      (\<lambda>t. t\<lparr>t_usedAt := Some (clk 1)\<rparr>)) (\<lambda>_. ?I ds) (\<lambda>_ _. False)" for ds
    by (rule tokens.hoare_save_doc_ok) (blast dest: readyD, blast dest: readyD, simp add: ready_token)
  have loop: "hoare (?I ds) (for_io (run_action env cfg plan) \<lparr>ea_byId = ?m ds, ea_before = [], ea_after = [],
      ea_results = []\<rparr> (p_actions plan)) (\<lambda>_. ready plan tok xs) (\<lambda>_ _. False)" for ds
    using hoare_run_actions_ok [OF assms(1), of plan tok xs "\<lparr>ea_byId = ?m ds, ea_before = [],
      ea_after = [], ea_results = []\<rparr>"] by simp
  have create: "hoare (ready plan tok xs) (tell db_executions db_executions_update (drv_create (e_executions env)
      (new_execution w planId (t_id tok) a c inp (p_dryRun plan) acc (clk 2) (clk 3)))) ?X (\<lambda>_ _. False)" for acc
    by (rule executions.hoare_create_ok)
      (use assms(2) in \<open>auto simp: new_execution_def ready_def execution_clash_def\<close>)
  have finish: "hoare (?X x) (set_plan_status env (p_id plan) st) (\<lambda>_. ?X x) (\<lambda>_ _. False)" for x st
    unfolding set_plan_status_def
    by (rule plans.hoare_save_doc_ok) (blast dest: readyD, blast dest: readyD, simp add: ready_plan_status)
  have audit: "hoare (?X x) (record_audit env now w a act rt rid c md) (\<lambda>_. ?X x) (\<lambda>_ _. False)"
    for x now act rt rid md
    by (rule hoare_audit_ok) (simp add: ready_def)
  show ?thesis
    unfolding execute_apply_def
    by (rule hoare_bind [OF look], rule hoare_bind [OF start], rule hoare_bind [OF consume],
        rule hoare_bind [OF loop], rule hoare_bind [OF create], rule hoare_bind [OF finish],
        rule hoare_bind [OF audit], rule hoare_ret, simp)
qed

lemma apply_answers:
  assumes "ready plan tok xs s" "\<forall>a \<in> set (p_actions plan). a_actionType a \<in> set ALLOWLISTED_ACTIONS"
    and "\<forall>x \<in> set xs. x_workspaceId x = w \<longrightarrow> x_idempotencyKey x \<noteq> xi_idempotencyKey inp"
  obtains s' x where "execute_apply env cfg clk w planId a c inp plan tok s = (s', Inr (x, False))"
    "x_planId x = planId" "x_approvalTokenId x = t_id tok" "x_workspaceId x = w"
    "x_idempotencyKey x = xi_idempotencyKey inp" "ready plan tok (xs @ [x]) s'"
proof -
  obtain s' xb where "execute_apply env cfg clk w planId a c inp plan tok s = (s', Inr xb)"
    "case xb of (x, b) \<Rightarrow> \<not> b \<and> x_planId x = planId \<and> x_approvalTokenId x = t_id tok \<and>
      x_workspaceId x = w \<and> x_idempotencyKey x = xi_idempotencyKey inp \<and> ready plan tok (xs @ [x]) s'"
    by (rule hoare_returns [OF hoare_apply_ok [OF assms(2,3), where cfg = cfg and clk = clk
          and planId = planId and a = a and c = c] assms(1)]) (auto simp: case_prod_beta)
  then show ?thesis using that by (cases xb) auto
qed

text \<open>The checks pass on an approved plan with one matching token.\<close>

lemma checks_pass:
  assumes "rem_inv s" "plan \<in> set (db_plans s)" "p_workspaceId plan = w" "p_status plan = Approved"
    and "\<forall>t \<in> set (db_tokens s). t_workspaceId t = w \<and> t_planId t = p_id plan
          \<and> t_tokenHash t = hash (xi_approvalToken inp) \<longleftrightarrow> t = tok"
    and "tok \<in> set (db_tokens s)" "t_usedAt tok = None" "now \<le> t_expiresAt tok"
    and "p_dryRun plan \<or> rc_CLOUD_PROVIDER cfg = MockProvider \<or> rc_ENABLE_AWS_MUTATIONS cfg"
  shows "execute_checks env cfg hash now w (p_id plan) inp s = (s, Inr (plan, tok))"
proof -
  let ?p = "\<lambda>p. p_id p = p_id plan \<and> p_workspaceId p = w"
  let ?t = "\<lambda>t. t_workspaceId t = w \<and> t_planId t = p_id plan"
  let ?m = "\<lambda>a. hash (xi_approvalToken inp) = t_tokenHash a"
  obtain p' where "drv_findOne (e_plans env) ?p (db_plans s) = Inr (Some p')" "p' \<in> set (db_plans s)" "?p p'"
    using plans.findOne_finds [of plan "db_plans s" ?p] assms(2,3) by blast
  with assms(1,2) have p: "drv_findOne (e_plans env) ?p (db_plans s) = Inr (Some plan)"
    using distinct_key_unique [of p_id "db_plans s" p' plan] by (simp add: rem_inv_def)
  obtain ts where t: "drv_find (e_tokens env) ?t (db_tokens s) = Inr ts" by (rule tokens.find_total)
  have m: "u \<in> set ts \<and> ?m u \<longleftrightarrow> u = tok" for u
    using tokens.find_mem [OF t, of u] assms(5,6) by metis
  then have "List.find ?m ts = Some tok"
  proof (cases "List.find ?m ts")
    case None
    with m show ?thesis by (auto simp: find_None_iff)
  next
    case (Some u)
    then have "u \<in> set ts \<and> ?m u" by (auto simp: find_Some_iff)
    then have "u = tok" by (rule m [THEN iffD1])
    with Some show ?thesis by simp
  qed
  with assms(7-9) have "token_gate cfg hash now inp plan ts = Inr tok"
    by (auto simp: token_gate_def rejectMutationsIfDisabled_def)
  with p t assms(4) show ?thesis by (simp add: execute_checks_def bind_io_def ask_def)
qed

lemma execute_applies:
  assumes "rem_inv s"
    and "\<forall>x \<in> set (db_executions s). x_workspaceId x = w \<longrightarrow> x_idempotencyKey x \<noteq> xi_idempotencyKey inp"
    and "plan \<in> set (db_plans s)" "p_workspaceId plan = w" "p_status plan = Approved"
    and "\<forall>t \<in> set (db_tokens s). t_workspaceId t = w \<and> t_planId t = p_id plan
          \<and> t_tokenHash t = hash (xi_approvalToken inp) \<longleftrightarrow> t = tok"
    and "tok \<in> set (db_tokens s)" "t_usedAt tok = None" "clk 0 \<le> t_expiresAt tok"
    and "p_dryRun plan \<or> rc_CLOUD_PROVIDER cfg = MockProvider \<or> rc_ENABLE_AWS_MUTATIONS cfg"
  shows "execute env cfg hash clk w (p_id plan) a c inp s =
    execute_apply env cfg clk w (p_id plan) a c inp plan tok s"
proof -
  let ?k = "\<lambda>x. x_workspaceId x = w \<and> x_idempotencyKey x = xi_idempotencyKey inp"
  obtain r where r: "drv_findOne (e_executions env) ?k (db_executions s) = Inr r"
    by (rule executions.findOne_total)
  with assms(2) have "r = None" using executions.findOne_Some by (cases r) blast+
  with r checks_pass [where hash = hash and now = "clk 0", OF assms(1,3-10)] show ?thesis by (simp add: execute_def bind_io_def ask_def)
qed

end

end
