(* ===== verification/Remediation_Guarantees.thy ===== *)
theory Remediation_Guarantees
  imports Remediation_Effects
begin

text \<open>
  The guarantees of the remediation service, from the invariant of \<open>Remediation_Safety\<close> and the
  effects of \<open>Remediation_Effects\<close>: what an execution requires, that plans and tokens are used at
  most once by calls that run one after the other, what an execution does to the resources, when it
  succeeds, and that two concurrent requests can run one plan twice.
\<close>

section \<open>Data of the examples\<close>

definition demo_resource :: cloud_resource where
  "demo_resource = \<lparr>r_id = ''r1'', r_workspaceId = ''ws1'', r_provider = MockProvider, r_type = S3,
     r_region = ''us-east-1'', r_arn = ''arn:1'', r_name = ''logs'', r_tags = [],
     r_config = \<lparr>cf_publicAccess = Some True, cf_backupEnabled = None, cf_alarms = Some [],
       cf_healthCheckStatus = None, cf_instanceState = None, cf_runtime = None, cf_encryption = None\<rparr>,
     r_metrics = \<lparr>m_cpuUtilizationAvg = None, m_consecutiveLowUtilizationPeriods = None,
       m_errorRate = None, m_errorCount = None, m_p99LatencyMs = None, m_failureRateDelta = None,
       m_requestCount = None\<rparr>,
     r_lastSyncedAt = 0, r_version = 1\<rparr>"

definition demo_action :: action where
  "demo_action = \<lparr>a_actionType = ''restrict_public_storage'', a_resourceId = ''r1'',
     a_findingId = ''f1'', a_params = []\<rparr>"

definition demo_plan :: plan where
  "demo_plan = \<lparr>p_id = ''p1'', p_workspaceId = ''ws1'', p_findingIds = [''f1''], p_actions = [demo_action],
     p_dryRun = False, p_status = Approved, p_createdBy = ''u1'', p_correlationId = ''c1'',
     p_idempotencyKey = ''plan-0001'', p_version = 1\<rparr>"

definition demo_token :: approval_token where
  "demo_token = \<lparr>t_id = ''t1'', t_workspaceId = ''ws1'', t_planId = ''p1'', t_tokenHash = ''secret'',
     t_expiresAt = 100, t_usedAt = None, t_createdBy = ''u2''\<rparr>"

definition demo_approved :: db where
  "demo_approved = empty_db\<lparr>db_resources := [demo_resource], db_plans := [demo_plan], db_tokens := [demo_token]\<rparr>"

definition demo_rem :: rem_config where
  "demo_rem = \<lparr>rc_APPROVAL_TTL_MS = 900000, rc_ENABLE_AWS_MUTATIONS = False, rc_CLOUD_PROVIDER = MockProvider\<rparr>"

definition demo_exec :: "string \<Rightarrow> exec_input" where
  "demo_exec k = \<lparr>xi_approvalToken = ''secret'', xi_idempotencyKey = k\<rparr>"

lemmas demo_rem_defs = demo_resource_def demo_action_def demo_plan_def demo_token_def demo_approved_def
  demo_rem_def demo_exec_def

lemma demo_db_simps [simp]:
  "db_resources demo_approved = [demo_resource]" "db_plans demo_approved = [demo_plan]"
  "db_tokens demo_approved = [demo_token]" "db_executions demo_approved = []"
  by (simp_all add: demo_approved_def empty_db_def)

lemma demo_inv: "rem_inv demo_approved"
  by (simp add: rem_inv_def) (simp add: demo_plan_def demo_action_def ALLOWLISTED_ACTIONS_def)

lemma demo_checks: "execute_checks mem_env demo_rem (\<lambda>t. t) 5 ''ws1'' ''p1'' (demo_exec k) s = (s, Inr (demo_plan, demo_token))"
  if "db_plans s = [demo_plan]" "db_tokens s = [demo_token]"
  using that
  by (simp add: execute_checks_def bind_io_def ask_def token_gate_def rejectMutationsIfDisabled_def)
    (simp add: demo_plan_def demo_token_def demo_exec_def demo_rem_def)


section \<open>Once only\<close>

text \<open>
  C1. Whatever planning, approval and execution calls run one after the other, from an empty database
  and with every call possibly failing half way: no plan and no approval token is ever used by two
  executions, every execution consumed a token that was issued for its plan, a plan is
  completed only if its execution succeeded, and every action ever planned is on the allowlist.
\<close>

theorem plans_execute_at_most_once:
  assumes "store env" "db_plans s = []" "db_tokens s = []" "db_executions s = []"
    and "s' = run (rem_step env) s evs"
  shows "distinct (map x_planId (db_executions s')) \<and> distinct (map x_approvalTokenId (db_executions s'))
    \<and> (\<forall>x \<in> set (db_executions s'). \<exists>t \<in> set (db_tokens s').
          t_id t = x_approvalTokenId x \<and> t_planId t = x_planId x \<and> t_usedAt t \<noteq> None)
    \<and> (\<forall>p \<in> set (db_plans s'). p_status p = PlanCompleted \<longrightarrow>
          (\<exists>x \<in> set (db_executions s'). x_planId x = p_id p \<and> x_status x = Succeeded))
    \<and> (\<forall>p \<in> set (db_plans s'). \<forall>a \<in> set (p_actions p). a_actionType a \<in> set ALLOWLISTED_ACTIONS)"
proof -
  have "rem_inv s" using assms(2-4) by (simp add: rem_inv_def)
  then have "rem_inv s'"
    unfolding assms(5) by (rule store.rem_run [OF assms(1)])
  then show ?thesis by (auto simp: rem_inv_defs)
qed

theorem plans_execute_at_most_once_witness:
  "distinct (map x_planId (db_executions (run (rem_step mem_env) empty_db
     [RPlan (\<lambda>_. 0) ''ws1'' ''u1'' ''c1'' \<lparr>pi_findingIds = [], pi_dryRun = True, pi_idempotencyKey = ''plan-0001''\<rparr>,
      RApprove demo_rem (\<lambda>t. t) (\<lambda>_. 1) ''secret'' ''ws1'' ''0'' ''u2'' ''c2'',
      RExecute demo_rem (\<lambda>t. t) (\<lambda>_. 2) ''ws1'' ''0'' ''u1'' ''c3'' (demo_exec ''run-0001'')])))"
  by (rule plans_execute_at_most_once [OF mem_store.store_axioms _ _ _ refl, THEN conjunct1])
    (simp_all add: empty_db_def)

text \<open>
  C6. What an execution requires: a call that answers with a new execution (not a replay) found the
  plan in the caller's workspace, approved, and an approval token of that plan that hashes to the
  stored value, was unused and had not expired; and a real run happens only on the mock provider or
  with mutations enabled. When the call refuses at a check, it has written nothing.
\<close>

theorem execution_requires_approval:
  assumes "store env" "execute env cfg hash clk w planId a c inp s = (s', Inr (x, False))"
  shows "\<exists>p \<in> set (db_plans s). \<exists>t \<in> set (db_tokens s).
    p_id p = planId \<and> p_workspaceId p = w \<and> p_status p = Approved
    \<and> t_planId t = planId \<and> t_workspaceId t = w \<and> t_tokenHash t = hash (xi_approvalToken inp)
    \<and> t_usedAt t = None \<and> clk 0 \<le> t_expiresAt t
    \<and> (p_dryRun p \<or> rc_CLOUD_PROVIDER cfg = MockProvider \<or> rc_ENABLE_AWS_MUTATIONS cfg)"
  using assms(1,2)
proof (cases rule: store.execute_cases [consumes 2, case_names refused replay applied])
  case (applied plan tok)
  from store.execute_checks_Inr [OF assms(1) applied(2)] show ?thesis by metis
qed simp_all


lemma demo_checks': "execute_checks mem_env demo_rem (\<lambda>t. t) 5 ''ws1'' ''p1'' (demo_exec k) demo_approved =
    (demo_approved, Inr (demo_plan, demo_token))"
  by (rule demo_checks) simp_all

lemma demo_ready: "ready demo_plan demo_token [] demo_approved"
  by (simp add: ready_def)

lemma demo_execute_applies: "execute mem_env demo_rem (\<lambda>t. t) (\<lambda>i. 5) ''ws1'' ''p1'' ''u1'' ''c1'' (demo_exec k) demo_approved =
    execute_apply mem_env demo_rem (\<lambda>i. 5) ''ws1'' ''p1'' ''u1'' ''c1'' (demo_exec k) demo_plan demo_token demo_approved"
  by (simp add: execute_def demo_checks' bind_io_def ask_def)

lemma demo_executes: "\<exists>s' x. execute mem_env demo_rem (\<lambda>t. t) (\<lambda>i. 5) ''ws1'' ''p1'' ''u1'' ''c1'' (demo_exec k)
    demo_approved = (s', Inr (x, False))"
proof -
  have al: "\<forall>a \<in> set (p_actions demo_plan). a_actionType a \<in> set ALLOWLISTED_ACTIONS"
    by (simp add: demo_plan_def demo_action_def ALLOWLISTED_ACTIONS_def)
  then show ?thesis
    unfolding demo_execute_applies
    by (rule mem_store.apply_answers [OF demo_ready, where inp = "demo_exec k" and w = "''ws1''"]) auto
qed

theorem execution_requires_approval_witness:
  "\<exists>s' x. execute mem_env demo_rem (\<lambda>t. t) (\<lambda>i. 5) ''ws1'' ''p1'' ''u1'' ''c1'' (demo_exec ''run-0001'')
      demo_approved = (s', Inr (x, False))
    \<and> (\<exists>p \<in> set (db_plans demo_approved). p_status p = Approved)"
proof -
  obtain s' x where e: "execute mem_env demo_rem (\<lambda>t. t) (\<lambda>i. 5) ''ws1'' ''p1'' ''u1'' ''c1'' (demo_exec ''run-0001'')
      demo_approved = (s', Inr (x, False))"
    using demo_executes by blast
  from execution_requires_approval [OF mem_store.store_axioms e] e show ?thesis by blast
qed

lemma execution_status_iff: "execution_status rs = (if list_all ar_ok rs then Succeeded
    else if list_ex ar_ok rs then PartialFailure else ExecFailed)"
proof -
  have "failed_results rs = 0 \<longleftrightarrow> list_all ar_ok rs"
    by (auto simp: failed_results_def filter_empty_conv list_all_iff)
  moreover have "failed_results rs = length rs \<longleftrightarrow> \<not> list_ex ar_ok rs"
    using length_filter_less [of _ rs "\<lambda>r. \<not> ar_ok r"]
    by (fastforce simp: failed_results_def list_ex_iff filter_id_conv)
  ultimately show ?thesis by (simp add: execution_status_def Let_def)
qed

text \<open>
  C4. What an execution does. It has one result for each action of the plan, in order, which is a
  success exactly when the resource is in the caller's workspace; its status is succeeded, failed or
  partial accordingly; and afterwards the stored resources are exactly those that the plan specifies:
  every resource of the workspace with the plan's actions on it applied, one version for each, and
  all other resources untouched. A dry run (and a real AWS run) leaves all resources untouched.
\<close>

theorem execution_effect:
  assumes "store env" "distinct (map r_id (db_resources s))"
    and "execute env cfg hash clk w planId a c inp s = (s', Inr (x, False))"
  shows "\<exists>plan \<in> set (db_plans s). p_id plan = planId \<and> x_dryRun x = p_dryRun plan
    \<and> map ar_resourceId (x_results x) = map a_resourceId (p_actions plan)
    \<and> map ar_ok (x_results x) =
        map (\<lambda>b. \<exists>r \<in> set (db_resources s). r_id r = a_resourceId b \<and> r_workspaceId r = w) (p_actions plan)
    \<and> x_status x = (if list_all ar_ok (x_results x) then Succeeded
        else if list_ex ar_ok (x_results x) then PartialFailure else ExecFailed)
    \<and> db_resources s' = (if \<not> p_dryRun plan \<and> (rc_CLOUD_PROVIDER cfg = MockProvider \<or> \<not> rc_ENABLE_AWS_MUTATIONS cfg)
        then map (\<lambda>r. if r_workspaceId r = w then apply_plan (p_actions plan) r else r) (db_resources s)
        else db_resources s)"
  using assms(1,3)
proof (cases rule: store.execute_cases [consumes 2, case_names refused replay applied])
  case (applied plan tok)
  note plan = store.execute_checks_Inr [OF assms(1) applied(2)]
  have e: "x_dryRun x = p_dryRun plan" "x_status x = execution_status (x_results x)"
    "recorded cfg plan w (db_resources s) (x_results x) (db_resources s')"
    using hoare_Inr [OF store.hoare_apply_effect [OF assms(1,2)] refl applied(3)] by simp_all
  with e plan(2,3) show ?thesis
    by (auto simp: recorded_def persists_def execution_status_iff)
qed simp_all


theorem execution_effect_witness:
  "\<exists>s' x. execute mem_env demo_rem (\<lambda>t. t) (\<lambda>i. 5) ''ws1'' ''p1'' ''u1'' ''c1'' (demo_exec ''run-0001'')
      demo_approved = (s', Inr (x, False))
    \<and> x_status x = Succeeded \<and> db_resources s' = [apply_plan [demo_action] demo_resource]"
proof -
  obtain s' x where e: "execute mem_env demo_rem (\<lambda>t. t) (\<lambda>i. 5) ''ws1'' ''p1'' ''u1'' ''c1'' (demo_exec ''run-0001'')
      demo_approved = (s', Inr (x, False))"
    using demo_executes by blast
  have data: "p_actions demo_plan = [demo_action]" "\<not> p_dryRun demo_plan"
    "rc_CLOUD_PROVIDER demo_rem = MockProvider" "r_id demo_resource = a_resourceId demo_action"
    "r_workspaceId demo_resource = ''ws1''"
    by (simp_all add: demo_rem_defs)
  from execution_effect [OF mem_store.store_axioms _ e]
  have "map ar_ok (x_results x) = [True] \<and> x_status x = (if list_all ar_ok (x_results x) then Succeeded
        else if list_ex ar_ok (x_results x) then PartialFailure else ExecFailed)
      \<and> db_resources s' = [apply_plan [demo_action] demo_resource]"
    by (simp add: data)
  with e show ?thesis by (auto simp: Cons_eq_map_conv)
qed

text \<open>
  An approved plan does get executed: when the database answers, the plan is stored and approved,
  exactly one unused and unexpired token of it matches, mutations are allowed, and the key
  is new in the workspace, the call returns a new execution of this plan with this token, stored as the
  last one, whatever the resources are.
\<close>

theorem approved_plan_executes:
  assumes "reliable_store env" "rem_inv s" "distinct (map r_id (db_resources s))"
    and "\<forall>x \<in> set (db_executions s). x_workspaceId x = w \<longrightarrow> x_idempotencyKey x \<noteq> xi_idempotencyKey inp"
    and "plan \<in> set (db_plans s)" "p_workspaceId plan = w" "p_status plan = Approved"
    and "\<forall>t \<in> set (db_tokens s). t_workspaceId t = w \<and> t_planId t = p_id plan
          \<and> t_tokenHash t = hash (xi_approvalToken inp) \<longleftrightarrow> t = tok"
    and "tok \<in> set (db_tokens s)" "t_usedAt tok = None" "clk 0 \<le> t_expiresAt tok"
    and "p_dryRun plan \<or> rc_CLOUD_PROVIDER cfg = MockProvider \<or> rc_ENABLE_AWS_MUTATIONS cfg"
  shows "\<exists>s' x. execute env cfg hash clk w (p_id plan) a c inp s = (s', Inr (x, False))
    \<and> db_executions s' = db_executions s @ [x] \<and> x_planId x = p_id plan \<and> x_approvalTokenId x = t_id tok"
proof -
  have "ready plan tok (db_executions s) s"
    using assms(2,3,5,9) by (simp add: ready_def rem_inv_def)
  moreover have "\<forall>a \<in> set (p_actions plan). a_actionType a \<in> set ALLOWLISTED_ACTIONS"
    using assms(2,5) by (simp add: rem_inv_def)
  ultimately obtain s' x where
    "execute_apply env cfg clk w (p_id plan) a c inp plan tok s = (s', Inr (x, False))"
    "x_planId x = p_id plan" "x_approvalTokenId x = t_id tok" "ready plan tok (db_executions s @ [x]) s'"
    by (rule reliable_store.apply_answers [OF assms(1) _ _ assms(4)])
  moreover have "execute env cfg hash clk w (p_id plan) a c inp s =
      execute_apply env cfg clk w (p_id plan) a c inp plan tok s"
    by (rule reliable_store.execute_applies [where hash = hash and clk = clk, OF assms(1,2,4-12)])
  ultimately show ?thesis by (simp add: ready_def)
qed


theorem approved_plan_executes_witness:
  "\<exists>s' x. execute mem_env demo_rem (\<lambda>t. t) (\<lambda>i. 5) ''ws1'' (p_id demo_plan) ''u1'' ''c1'' (demo_exec ''run-0001'')
      demo_approved = (s', Inr (x, False)) \<and> db_executions s' = db_executions demo_approved @ [x]
    \<and> x_planId x = p_id demo_plan \<and> x_approvalTokenId x = t_id demo_token"
  by (rule approved_plan_executes [OF mem_store.reliable_store_axioms demo_inv])
    (simp_all, simp_all add: demo_plan_def demo_token_def demo_rem_def demo_exec_def)

text \<open>
  C39. The guarantee of single use does not survive concurrent requests: the checks and the writes of
  an execution are separate database calls, so when two requests with different keys have both
  passed the checks before either writes, both run the plan to the end, with the same token.
\<close>

theorem concurrent_requests_execute_twice:
  assumes "reliable_store env" "rem_inv s" "distinct (map r_id (db_resources s))"
    and "execute_checks env cfg hash now1 w planId inp1 s = (s, Inr (plan, tok))"
    and "execute_checks env cfg hash now2 w planId inp2 s = (s, Inr (plan, tok))"
    and "\<forall>x \<in> set (db_executions s). x_workspaceId x = w \<longrightarrow>
          x_idempotencyKey x \<notin> {xi_idempotencyKey inp1, xi_idempotencyKey inp2}"
    and "xi_idempotencyKey inp1 \<noteq> xi_idempotencyKey inp2"
  shows "\<exists>s1 x1 s2 x2. execute_apply env cfg clk w planId a1 c1 inp1 plan tok s = (s1, Inr (x1, False))
    \<and> execute_apply env cfg clk' w planId a2 c2 inp2 plan tok s1 = (s2, Inr (x2, False))
    \<and> db_executions s2 = db_executions s @ [x1, x2] \<and> x_planId x1 = planId \<and> x_planId x2 = planId
    \<and> x_approvalTokenId x1 = t_id tok \<and> x_approvalTokenId x2 = t_id tok \<and> \<not> rem_inv s2"
proof -
  have store: "store env" using assms(1) by (rule reliable_store_is_store)
  note c = store.execute_checks_Inr [OF store assms(4)]
  have al: "\<forall>b \<in> set (p_actions plan). a_actionType b \<in> set ALLOWLISTED_ACTIONS"
    using assms(2) c(2) by (simp add: rem_inv_def)
  have "ready plan tok (db_executions s) s"
    using assms(2,3) c(2,6) by (simp add: ready_def rem_inv_def)
  then obtain s1 x1 where
    x1: "execute_apply env cfg clk w planId a1 c1 inp1 plan tok s = (s1, Inr (x1, False))"
      "x_planId x1 = planId" "x_approvalTokenId x1 = t_id tok" "x_workspaceId x1 = w"
      "x_idempotencyKey x1 = xi_idempotencyKey inp1" and r1: "ready plan tok (db_executions s @ [x1]) s1"
    by (rule reliable_store.apply_answers [OF assms(1) _ al, where inp = inp1 and w = w]) (use assms(6) in auto)
  have "\<forall>x \<in> set (db_executions s @ [x1]). x_workspaceId x = w \<longrightarrow> x_idempotencyKey x \<noteq> xi_idempotencyKey inp2"
    using assms(6,7) x1(5) by auto
  from r1 al this obtain s2 x2 where
    x2: "execute_apply env cfg clk' w planId a2 c2 inp2 plan tok s1 = (s2, Inr (x2, False))"
      "x_planId x2 = planId" "x_approvalTokenId x2 = t_id tok"
      "ready plan tok ((db_executions s @ [x1]) @ [x2]) s2"
    by (rule reliable_store.apply_answers [OF assms(1)])
  then have "db_executions s2 = db_executions s @ [x1, x2]" by (simp add: ready_def)
  moreover from this have "\<not> rem_inv s2" using x1(2) x2(2) by (simp add: rem_inv_def)
  ultimately show ?thesis using x1 x2 by blast
qed

theorem concurrent_requests_execute_twice_witness:
  "\<exists>s1 x1 s2 x2.
     execute_apply mem_env demo_rem (\<lambda>_. 5) ''ws1'' ''p1'' ''u1'' ''c1'' (demo_exec ''run-0001'') demo_plan demo_token
       demo_approved = (s1, Inr (x1, False))
   \<and> execute_apply mem_env demo_rem (\<lambda>_. 6) ''ws1'' ''p1'' ''u3'' ''c2'' (demo_exec ''run-0002'') demo_plan demo_token
       s1 = (s2, Inr (x2, False))
   \<and> db_executions s2 = [x1, x2] \<and> x_approvalTokenId x1 = x_approvalTokenId x2"
  using concurrent_requests_execute_twice [OF mem_store.reliable_store_axioms demo_inv _
      demo_checks' [of "''run-0001''"] demo_checks' [of "''run-0002''"], where ?a1.0 = "''u1''" and ?a2.0 = "''u3''"
      and ?c1.0 = "''c1''" and ?c2.0 = "''c2''" and clk = "\<lambda>_. 5" and clk' = "\<lambda>_. 6"]
  by (auto simp: demo_exec_def)

text \<open>
  An execution request is idempotent in its key: when an execution with the key is stored in the
  workspace (keys being unique), the call answers with it, marked as a replay, and writes nothing,
  whatever plan and token it names.
\<close>

theorem execution_replays:
  assumes "store env" "x \<in> set (db_executions s)" "x_workspaceId x = w"
    and "x_idempotencyKey x = xi_idempotencyKey inp"
    and "\<forall>y \<in> set (db_executions s). execution_clash x y \<longrightarrow> y = x"
    and "execute env cfg hash clk w planId a c inp s = (s', r)"
  shows "s' = s \<and> (\<forall>v. r = Inr v \<longrightarrow> v = (x, True))"
  using assms(1,6)
proof (cases rule: store.execute_cases [consumes 2, case_names refused replay applied])
  case (replay y)
  with assms(3-5) show ?thesis by (auto simp: execution_clash_def)
next
  case (applied plan tok)
  with assms(2-4) show ?thesis by blast
qed simp

theorem execution_replays_witness:
  "fst (execute mem_env demo_rem (\<lambda>t. t) (\<lambda>_. 0) ''ws1'' ''other'' ''u1'' ''c1'' (demo_exec ''run-0001'')
     (db_executions_update (\<lambda>_. [new_execution ''ws1'' ''p1'' ''t1'' ''u1'' ''c1'' (demo_exec ''run-0001'') True
        \<lparr>ea_byId = Map.empty, ea_before = [], ea_after = [], ea_results = []\<rparr> 1 2 ''x1'']) empty_db)) =
   db_executions_update (\<lambda>_. [new_execution ''ws1'' ''p1'' ''t1'' ''u1'' ''c1'' (demo_exec ''run-0001'') True
        \<lparr>ea_byId = Map.empty, ea_before = [], ea_after = [], ea_results = []\<rparr> 1 2 ''x1'']) empty_db"
  by (rule execution_replays [OF mem_store.store_axioms _ _ _ _ prod.collapse [symmetric], THEN conjunct1])
    (simp_all add: new_execution_def, simp_all add: new_execution_def)


section \<open>Planning\<close>

context store
begin

lemma createPlan_Inr:
  assumes "createPlan env clk w a c inp s = (s', Inr (p, False))"
  obtains fs recs as where
    "drv_find (e_findings env) (\<lambda>f. f_workspaceId f = w \<and> f_id f \<in> set (pi_findingIds inp)) (db_findings s) = Inr fs"
    "length fs = length (pi_findingIds inp)" "plan_actions recs fs = Inr as"
    "p = new_plan w a c inp as (p_id p)" "db_plans s' = db_plans s @ [p]"
    "\<forall>q \<in> set (db_plans s). \<not> (p_workspaceId q = w \<and> p_idempotencyKey q = pi_idempotencyKey inp)"
proof -
  let ?k = "\<lambda>q. p_workspaceId q = w \<and> p_idempotencyKey q = pi_idempotencyKey inp"
  from assms obtain ex where ex: "drv_findOne (e_plans env) ?k (db_plans s) = Inr ex"
    by (auto simp: createPlan_def bind_io_def ask_def split: sum.splits)
  with assms have none: "ex = None"
    by (cases ex) (auto simp: createPlan_def bind_io_def ask_def)
  from assms ex none obtain fs where
    fs: "drv_find (e_findings env) (\<lambda>f. f_workspaceId f = w \<and> f_id f \<in> set (pi_findingIds inp)) (db_findings s) = Inr fs"
    by (auto simp: createPlan_def bind_io_def ask_def split: sum.splits)
  from assms ex none fs have len: "length fs = length (pi_findingIds inp)"
    by (auto simp: createPlan_def bind_io_def ask_def split: if_splits)
  from assms ex none fs len obtain recs where
    recs: "drv_find (e_recommendations env) (\<lambda>r. rec_workspaceId r = w \<and> rec_findingId r \<in> set (map f_id fs))
      (db_recommendations s) = Inr recs"
    by (auto simp: createPlan_def bind_io_def ask_def split: sum.splits)
  from assms ex none fs len recs obtain as where as: "plan_actions recs fs = Inr as"
    by (cases "plan_actions recs fs") (auto simp: createPlan_def bind_io_def ask_def)
  from assms ex none fs len recs as obtain s1 s2 x where
    cr: "tell db_plans db_plans_update (drv_create (e_plans env) (new_plan w a c inp as)) s = (s1, Inr p)"
    and au: "record_audit env (clk 0) w a ''remediation.plan'' ''RemediationPlan'' (Some (p_id p)) c
       (Some [(''dryRun'', JBool (pi_dryRun inp)), (''actions'', JNum (of_nat (length as)))]) s1 = (s2, Inr x)"
    and s2: "s' = s2"
    by (auto simp: createPlan_def bind_io_Inr ask_Inr)
  have "db_plans s' = db_plans s1" using record_audit_Inr [OF au] s2 by simp
  moreover from cr have "p = new_plan w a c inp as (p_id p) \<and> db_plans s1 = db_plans s @ [p]"
    by (rule plans.tell_create_cases) (auto simp: new_plan_def)
  moreover from ex none have "\<forall>q \<in> set (db_plans s). \<not> ?k q" using plans.findOne_None by blast
  ultimately show ?thesis using that fs len as by auto
qed

end

lemma matching_distinct:
  assumes "distinct (map k ds)" "\<forall>d \<in> set ds. k d \<in> set is" "length ds = length is"
  shows "distinct is \<and> set is = k ` set ds"
proof -
  have sub: "set (map k ds) \<subseteq> set is" using assms(2) by auto
  have card: "card (set (map k ds)) = length is" using assms(1,3) by (simp add: distinct_card del: set_map)
  then have "card (set is) = length is"
    using card_mono [OF _ sub] card_length [of "is"] by simp
  then have "distinct is" by (rule card_distinct)
  moreover have "set (map k ds) = set is"
    using sub card \<open>card (set is) = length is\<close> by (intro card_subset_eq) auto
  ultimately show ?thesis by simp
qed

text \<open>
  A new plan is made of its findings and nothing else: the request named existing findings of the
  caller's workspace, each once; the plan waits for approval and carries the request's mode; every
  action of it is allowlisted and stems from one of these findings, on that finding's resource;
  and no plan with this key existed in the workspace.
\<close>

theorem plan_stems_from_findings:
  assumes "store env" "distinct (map f_id (db_findings s))"
    and "createPlan env clk w a c inp s = (s', Inr (p, False))"
  shows "db_plans s' = db_plans s @ [p] \<and> p_status p = AwaitingApproval \<and> p_dryRun p = pi_dryRun inp
    \<and> distinct (pi_findingIds inp)
    \<and> set (pi_findingIds inp) \<subseteq> f_id ` {f \<in> set (db_findings s). f_workspaceId f = w}
    \<and> (\<forall>b \<in> set (p_actions p). a_actionType b \<in> set ALLOWLISTED_ACTIONS \<and>
        (\<exists>f \<in> set (db_findings s). f_workspaceId f = w \<and> f_id f \<in> set (pi_findingIds inp) \<and>
          a_findingId b = f_id f \<and> a_resourceId b = f_resourceId f))
    \<and> (\<forall>q \<in> set (db_plans s). \<not> plan_clash p q)"
proof -
  obtain fs recs as where
    f: "drv_find (e_findings env) (\<lambda>f. f_workspaceId f = w \<and> f_id f \<in> set (pi_findingIds inp)) (db_findings s) = Inr fs"
    and len: "length fs = length (pi_findingIds inp)" and as: "plan_actions recs fs = Inr as"
    and p: "p = new_plan w a c inp as (p_id p)" "db_plans s' = db_plans s @ [p]"
    and new: "\<forall>q \<in> set (db_plans s). \<not> (p_workspaceId q = w \<and> p_idempotencyKey q = pi_idempotencyKey inp)"
    by (rule store.createPlan_Inr [OF assms(1,3)])
  have findings: "mongo (e_findings env) f_id finding_clash" using assms(1) by (simp add: store_def)
  note mem = mongo.find_mem [OF findings f]
  have ids: "distinct (pi_findingIds inp) \<and> set (pi_findingIds inp) = f_id ` set fs"
    by (rule matching_distinct [OF mongo.find_distinct [OF findings f assms(2)] _ len]) (simp add: mem)
  have fields: "p_actions p = as" "p_status p = AwaitingApproval" "p_dryRun p = pi_dryRun inp"
    "p_workspaceId p = w" "p_idempotencyKey p = pi_idempotencyKey inp"
    by (subst p(1), simp add: new_plan_def)+
  have "\<forall>b \<in> set as. a_actionType b \<in> set ALLOWLISTED_ACTIONS \<and>
      (\<exists>f \<in> set fs. a_findingId b = f_id f \<and> a_resourceId b = f_resourceId f)"
    using plan_actions_Inr [OF as] by auto
  then have acts: "\<forall>b \<in> set as. a_actionType b \<in> set ALLOWLISTED_ACTIONS \<and>
      (\<exists>f \<in> set (db_findings s). f_workspaceId f = w \<and> f_id f \<in> set (pi_findingIds inp) \<and>
        a_findingId b = f_id f \<and> a_resourceId b = f_resourceId f)"
    using mem by metis
  have "set (pi_findingIds inp) \<subseteq> f_id ` {f \<in> set (db_findings s). f_workspaceId f = w}"
  proof
    fix i assume "i \<in> set (pi_findingIds inp)"
    then obtain f where "f \<in> set fs" "i = f_id f" using ids by blast
    with mem [of f] show "i \<in> f_id ` {f \<in> set (db_findings s). f_workspaceId f = w}" by blast
  qed
  moreover have "\<forall>q \<in> set (db_plans s). \<not> plan_clash p q"
    using new fields by (metis plan_clash_def)
  ultimately show ?thesis using ids acts p(2) fields by simp
qed

definition demo_finding :: finding where
  "demo_finding = \<lparr>f_id = ''f1'', f_workspaceId = ''ws1'', f_jobId = ''j1'', f_resourceId = ''r1'',
     f_ruleId = ''s3.public_access'', f_severity = ''critical'', f_title = ''t'', f_description = ''d'',
     f_evidence = [], f_correlationId = ''c1'', f_createdAt = 0\<rparr>"

theorem plan_stems_from_findings_witness:
  "\<exists>s' p. createPlan mem_env (\<lambda>_. 0) ''ws1'' ''u1'' ''c1''
      \<lparr>pi_findingIds = [''f1''], pi_dryRun = True, pi_idempotencyKey = ''plan-0001''\<rparr>
      (db_findings_update (\<lambda>_. [demo_finding]) empty_db) = (s', Inr (p, False))
    \<and> db_plans s' = [p] \<and> p_status p = AwaitingApproval"
proof -
  have act: "plan_actions [] [demo_finding] = Inr [\<lparr>a_actionType = ''restrict_public_storage'',
      a_resourceId = ''r1'', a_findingId = ''f1'', a_params = []\<rparr>]"
    by (simp add: plan_action_def plan_action_type_def recByFinding_def demo_finding_def action_of_rule_def
        ACTION_BY_RULE_def assertAllowlisted_def ALLOWLISTED_ACTIONS_def defaultParams_def)
  have f: "f_workspaceId demo_finding = ''ws1''" "f_id demo_finding = ''f1''"
    by (simp_all add: demo_finding_def)
  obtain s' p where e: "createPlan mem_env (\<lambda>_. 0) ''ws1'' ''u1'' ''c1''
      \<lparr>pi_findingIds = [''f1''], pi_dryRun = True, pi_idempotencyKey = ''plan-0001''\<rparr>
      (db_findings_update (\<lambda>_. [demo_finding]) empty_db) = (s', Inr (p, False))"
    using act by (simp add: createPlan_def bind_io_def ask_def tell_def empty_db_def mem_create_def Let_def
        record_audit_def no_clash_def f del: plan_actions.simps)
  from plan_stems_from_findings [OF mem_store.store_axioms _ e] e show ?thesis
    by (simp add: empty_db_def)
qed

end
