(* ===== verification/Configured_Runs.thy ===== *)
theory Configured_Runs
  imports Configuration Remediation_Guarantees
begin

text \<open>
  From the environment of the process to what an execution may do: the promise of the README that
  nothing in AWS is touched unless the operator has said so.
\<close>

section \<open>Runs that store nothing\<close>

lemma keeps_run_action_unsaved:
  "\<not> persists cfg plan \<Longrightarrow> keeps I (run_action env cfg plan acc a)"
  unfolding run_action_def Let_def by (intro keeps_rules) simp_all

lemma keeps_apply_unsaved:
  assumes "\<not> persists cfg plan"
  shows "keeps (\<lambda>s. db_resources s = rs) (execute_apply env cfg clk w planId a c inp plan tok)"
  unfolding execute_apply_def set_plan_status_def
  by (intro keeps_rules keeps_save_doc keeps_tell_frame keeps_run_action_unsaved [OF assms]) simp_all

lemma aws_never_persists: "rc_CLOUD_PROVIDER cfg = Aws \<Longrightarrow>
    p_dryRun plan \<or> rc_ENABLE_AWS_MUTATIONS cfg \<Longrightarrow> \<not> persists cfg plan"
  by (auto simp: persists_def)

text \<open>
  C32. Nothing of AWS is changed. An API that has started has a secret of at least 16 characters; when it
  works on AWS, somebody has set \<^verbatim>\<open>CLOUD_PROVIDER=aws\<close>, and no execution, whatever it answers, changes
  a resource. An execution that is not a dry run takes place only when \<^verbatim>\<open>ENABLE_AWS_MUTATIONS\<close> is exactly
  \<^verbatim>\<open>true\<close>; it changes nothing even then, though its record says that its actions succeeded.
\<close>

theorem aws_resources_are_never_changed:
  assumes "store env" "distinct (map r_id (db_resources s))"
    and "loadConfig vars overrides = Some c" "remediation_config_of c = Some cfg"
    and "ev_CLOUD_PROVIDER c = Aws"
    and "execute env cfg hash clk w planId actor cid inp s = (s', r)"
  shows "with_overrides vars overrides ''CLOUD_PROVIDER'' = Some ''aws'' \<and> 16 \<le> length (ev_JWT_SECRET c)
    \<and> db_resources s' = db_resources s
    \<and> (\<forall>x. r = Inr (x, False) \<longrightarrow>
        (x_dryRun x \<or> with_overrides vars overrides ''ENABLE_AWS_MUTATIONS'' = Some ''true'') \<and>
        (list_all ar_ok (x_results x) \<longleftrightarrow> x_status x = Succeeded))"
proof -
  note parsed = envSchema_Some [OF assms(3) [unfolded loadConfig_def]]
  have cfg: "rc_CLOUD_PROVIDER cfg = Aws" "rc_ENABLE_AWS_MUTATIONS cfg = ev_ENABLE_AWS_MUTATIONS c"
    using assms(4,5) by (auto simp: remediation_config_of_def bind_eq_Some_conv)
  have run: "db_resources s' = db_resources s \<and> (\<forall>x. r = Inr (x, False) \<longrightarrow>
      (x_dryRun x \<or> ev_ENABLE_AWS_MUTATIONS c) \<and> (list_all ar_ok (x_results x) \<longleftrightarrow> x_status x = Succeeded))"
    using assms(1,6)
  proof (cases rule: store.execute_cases [consumes 2, case_names refused replay applied])
    case (applied plan tok)
    have ok: "p_dryRun plan \<or> ev_ENABLE_AWS_MUTATIONS c"
      using store.execute_checks_Inr(12) [OF assms(1) applied(2)] cfg by simp
    then have "\<not> persists cfg plan" using aws_never_persists cfg by simp
    from keepsD [OF keeps_apply_unsaved [OF this] refl] applied(3)
    have "db_resources s' = db_resources s" by (metis fst_conv)
    moreover have "x_dryRun x = p_dryRun plan \<and> x_status x = execution_status (x_results x)"
      if "r = Inr (x, False)" for x
      using hoare_Inr [OF store.hoare_apply_effect [OF assms(1,2)] refl applied(3) [unfolded that]] by simp
    ultimately show ?thesis using ok by (auto simp: execution_status_iff split: if_splits)
  qed simp_all
  with parsed assms(5) show ?thesis by simp
qed

text \<open>An operator has switched mutations on, and an approved plan is executed for real.\<close>

definition demo_vars :: environment where
  "demo_vars = [''JWT_SECRET'' \<mapsto> ''0123456789abcdef'', ''CLOUD_PROVIDER'' \<mapsto> ''aws'',
     ''ENABLE_AWS_MUTATIONS'' \<mapsto> ''true'']"

definition demo_aws_rem :: rem_config where
  "demo_aws_rem = \<lparr>rc_APPROVAL_TTL_MS = 900000, rc_ENABLE_AWS_MUTATIONS = True, rc_CLOUD_PROVIDER = Aws\<rparr>"

lemma demo_aws_config:
  obtains c where "loadConfig demo_vars (\<lambda>_. None) = Some c" "ev_CLOUD_PROVIDER c = Aws"
    "remediation_config_of c = Some demo_aws_rem"
  by (simp add: loadConfig_def with_overrides_def envSchema_def env_num_def env_min_def env_provider_def
      env_flag_def env_str_def with_default_def remediation_config_of_def demo_vars_def demo_aws_rem_def)

theorem aws_resources_are_never_changed_witness:
  "\<exists>s' x. execute mem_env demo_aws_rem (\<lambda>t. t) (\<lambda>i. 5) ''ws1'' ''p1'' ''u1'' ''c1'' (demo_exec ''run-0001'')
      demo_approved = (s', Inr (x, False)) \<and> db_resources s' = [demo_resource]"
proof -
  have pid: "p_id demo_plan = ''p1''" by (simp add: demo_plan_def)
  have "execute mem_env demo_aws_rem (\<lambda>t. t) (\<lambda>i. 5) ''ws1'' (p_id demo_plan) ''u1'' ''c1''
      (demo_exec ''run-0001'') demo_approved =
    execute_apply mem_env demo_aws_rem (\<lambda>i. 5) ''ws1'' (p_id demo_plan) ''u1'' ''c1''
      (demo_exec ''run-0001'') demo_plan demo_token demo_approved"
    by (rule mem_store.execute_applies [OF demo_inv])
      (simp_all, simp_all add: demo_plan_def demo_token_def demo_aws_rem_def demo_exec_def)
  moreover have "\<forall>a \<in> set (p_actions demo_plan). a_actionType a \<in> set ALLOWLISTED_ACTIONS"
    by (simp add: demo_plan_def demo_action_def ALLOWLISTED_ACTIONS_def)
  ultimately obtain s' x where run: "execute mem_env demo_aws_rem (\<lambda>t. t) (\<lambda>i. 5) ''ws1'' ''p1'' ''u1'' ''c1''
      (demo_exec ''run-0001'') demo_approved = (s', Inr (x, False))"
    unfolding pid by (metis mem_store.apply_answers [OF demo_ready] empty_iff list.set(1))
  obtain c where "loadConfig demo_vars (\<lambda>_. None) = Some c" "ev_CLOUD_PROVIDER c = Aws"
    "remediation_config_of c = Some demo_aws_rem"
    by (rule demo_aws_config)
  from aws_resources_are_never_changed [OF mem_store.store_axioms _ this(1,3,2) run] run
  show ?thesis by simp
qed

end
