(* ===== verification/Diagnostics_Service.thy ===== *)
theory Diagnostics_Service
  imports Diagnostics_Client Auth "HOL-Library.Sublist"
begin

text \<open>
  The diagnostics service, \<^verbatim>\<open>services/diagnostics/app\<close>: a Python program that the worker asks over HTTP.
  The nine rules of \<^verbatim>\<open>engine.py\<close> are functions from a resource to a finding or \<^verbatim>\<open>None\<close>; \<^verbatim>\<open>evaluate\<close> collects
  what they find, and the endpoint of \<^verbatim>\<open>main.py\<close> does so for every resource of a request and counts the
  request. \<^verbatim>\<open>dict.get\<close> is \<open>None\<close> for a missing key; \<^verbatim>\<open>x or 0\<close> is \<open>with_default x 0\<close>. FastAPI and pydantic, which
  parse the request and render the answer, are third-party; the records are those of the client.
\<close>

section \<open>Python\<close>

text \<open>\<^verbatim>\<open>int(x)\<close> drops the fraction.\<close>

definition py_int :: "rat \<Rightarrow> int" where
  "py_int x = (if x < 0 then \<lceil>x\<rceil> else \<lfloor>x\<rfloor>)"

text \<open>\<^verbatim>\<open>', '.join(xs)\<close>\<close>

fun comma_join :: "string list \<Rightarrow> string" where
  "comma_join [] = []"
| "comma_join [x] = x"
| "comma_join (x # xs) = x @ '', '' @ comma_join xs"

text \<open>A value of the configuration as JSON; a missing key is \<^verbatim>\<open>None\<close>, which is rendered as \<^verbatim>\<open>null\<close>.\<close>

definition got :: "('a \<Rightarrow> json) \<Rightarrow> 'a option \<Rightarrow> json" where
  "got f v = (case v of None \<Rightarrow> JNull | Some x \<Rightarrow> f x)"


section \<open>Rules\<close>

definition REQUIRED_TAGS_PY :: "string list" where
  "REQUIRED_TAGS_PY = [''Environment'', ''Owner'', ''CostCenter'', ''Service'']"

definition STATEFUL_TYPES :: "resource_type list" where
  "STATEFUL_TYPES = [Ec2, S3]"

definition PRODUCTION_HINTS :: "string list" where
  "PRODUCTION_HINTS = [''prod'', ''production'']"

definition is_prod :: "diag_resource \<Rightarrow> bool" where
  "is_prod resource =
     (let e = toLowerCase (with_default (map_of (dq_tags resource) ''Environment'') [])
      in e \<in> set PRODUCTION_HINTS \<or> sublist ''prod'' (toLowerCase (dq_name resource)))"

definition rule_low_utilization :: "diag_resource \<Rightarrow> diag_finding option" where
  "rule_low_utilization resource =
     (let cpu = with_default (m_cpuUtilizationAvg (dq_metrics resource)) 0;
          periods = py_int (with_default (m_consecutiveLowUtilizationPeriods (dq_metrics resource)) 0)
      in if dq_type resource \<noteq> Ec2 then None
         else if cpu < 10 \<and> periods \<ge> 3 then Some
           \<lparr> df_resourceId = dq_id resource, df_ruleId = ''ec2.low_utilization'', df_severity = ''medium'',
             df_title = ''EC2 instance has persistently low utilization'',
             df_description = ''Average CPU has stayed below 10% across consecutive observation '' @
               ''periods. This is a rightsizing signal, not an automatic stop.'',
             df_evidence = [(''cpuUtilizationAvg'', JNum cpu),
               (''consecutiveLowUtilizationPeriods'', JNum (of_int periods)),
               (''threshold'', JObj [(''cpu'', JNum 10), (''periods'', JNum 3)])],
             df_actionType = ''manual_review'',
             df_explanation = ''Review instance family and schedule; do not auto-terminate production compute.'',
             df_estimatedImpact = ''Potential compute cost reduction with downtime risk if sized incorrectly.'',
             df_confidence = 82 / 100 \<rparr>
         else None)"

definition missing_tags :: "tags \<Rightarrow> string list" where
  "missing_tags tags = filter (\<lambda>tag. case map_of tags tag of None \<Rightarrow> True | Some v \<Rightarrow> v = []) REQUIRED_TAGS_PY"

definition rule_missing_tags :: "diag_resource \<Rightarrow> diag_finding option" where
  "rule_missing_tags resource =
     (let missing = missing_tags (dq_tags resource)
      in if missing = [] then None
         else Some
           \<lparr> df_resourceId = dq_id resource, df_ruleId = ''resource.missing_tags'',
             df_severity = (if \<not> is_prod resource then ''low'' else ''medium''),
             df_title = ''Resource is missing required operational tags'',
             df_description = ''Cost allocation, ownership, and incident routing depend on Environment, Owner, CostCenter, and Service.'',
             df_evidence = [(''missingTags'', JArr (map JStr missing)),
               (''presentTags'', JObj (map (\<lambda>(k, v). (k, JStr v)) (dq_tags resource)))],
             df_actionType = ''add_missing_tag'',
             df_explanation = ''Add missing tags '' @ comma_join missing @ '' using the allowlisted tagging action.'',
             df_estimatedImpact = ''No runtime impact; improves ownership and cost reporting.'',
             df_confidence = 96 / 100 \<rparr>)"

definition rule_public_s3 :: "diag_resource \<Rightarrow> diag_finding option" where
  "rule_public_s3 resource =
     (if dq_type resource \<noteq> S3 then None
      else if cf_publicAccess (dq_config resource) = Some True then Some
        \<lparr> df_resourceId = dq_id resource, df_ruleId = ''s3.public_access'', df_severity = ''high'',
          df_title = ''S3 bucket allows public access'',
          df_description = ''Public ACLs or a disabled public access block increase data-exfiltration risk.'',
          df_evidence = [(''publicAccess'', JBool True),
            (''encryption'', got JBool (cf_encryption (dq_config resource)))],
          df_actionType = ''restrict_public_storage'',
          df_explanation = ''Enable public access block settings unless the bucket is an approved static website.'',
          df_estimatedImpact = ''May break anonymous reads; confirm CDN origin behavior first.'',
          df_confidence = 9 / 10 \<rparr>
      else None)"

definition rule_missing_alarms :: "diag_resource \<Rightarrow> diag_finding option" where
  "rule_missing_alarms resource =
     (if dq_type resource = Cloudwatch then None
      else let alarms = with_default (cf_alarms (dq_config resource)) []
        in if is_prod resource \<and> length alarms = 0 then Some
          \<lparr> df_resourceId = dq_id resource, df_ruleId = ''cloudwatch.missing_alarms'', df_severity = ''medium'',
            df_title = ''Production resource has no CloudWatch alarms'',
            df_description = ''Without alarms, failure detection depends on human observation of dashboards.'',
            df_evidence = [(''alarms'', JArr (map JStr alarms)), (''environmentHint'', JStr ''prod'')],
            df_actionType = ''create_alarm'',
            df_explanation = ''Create a simulated availability/error alarm as a starting SLO signal.'',
            df_estimatedImpact = ''Low; additional CloudWatch cost and possible alert noise.'',
            df_confidence = 78 / 100 \<rparr>
        else None)"

fun health_str :: "health \<Rightarrow> string" where
  "health_str Healthy = ''healthy''"
| "health_str Unhealthy = ''unhealthy''"
| "health_str UnknownHealth = ''unknown''"
| "health_str Degraded = ''degraded''"

definition rule_unhealthy_service :: "diag_resource \<Rightarrow> diag_finding option" where
  "rule_unhealthy_service resource =
     (let status = cf_healthCheckStatus (dq_config resource)
      in if status = Some Unhealthy then Some
        \<lparr> df_resourceId = dq_id resource, df_ruleId = ''service.unhealthy'', df_severity = ''critical'',
          df_title = ''Service health check is failing'',
          df_description = ''The resource is reporting an unhealthy status from its configured check.'',
          df_evidence = [(''healthCheckStatus'', got (\<lambda>h. JStr (health_str h)) status),
            (''instanceState'', got JStr (cf_instanceState (dq_config resource)))],
          df_actionType = ''restart_unhealthy_service'',
          df_explanation = ''Restart the simulated service after confirming the blast radius.'',
          df_estimatedImpact = ''Brief interruption; in-flight requests may fail.'',
          df_confidence = 74 / 100 \<rparr>
      else None)"

definition rule_missing_backup :: "diag_resource \<Rightarrow> diag_finding option" where
  "rule_missing_backup resource =
     (if dq_type resource \<notin> set STATEFUL_TYPES then None
      else if cf_backupEnabled (dq_config resource) = Some False \<and> is_prod resource then Some
        \<lparr> df_resourceId = dq_id resource, df_ruleId = ''resource.missing_backup'', df_severity = ''high'',
          df_title = ''Stateful production resource has no backup configuration'',
          df_description = ''A failure or accidental deletion would not have a restore point.'',
          df_evidence = [(''backupEnabled'', JBool False), (''type'', JStr (resource_type_str (dq_type resource)))],
          df_actionType = ''enable_backup_policy'',
          df_explanation = ''Enable a simulated backup policy (retention to be confirmed by the owner).'',
          df_estimatedImpact = ''Storage cost increase; no immediate runtime impact.'',
          df_confidence = 88 / 100 \<rparr>
      else None)"

definition rule_repeated_errors :: "diag_resource \<Rightarrow> diag_finding option" where
  "rule_repeated_errors resource =
     (let error_rate = with_default (m_errorRate (dq_metrics resource)) 0;
          error_count = py_int (with_default (m_errorCount (dq_metrics resource)) 0)
      in if error_rate > 5 / 100 \<and> error_count > 10 then Some
        \<lparr> df_resourceId = dq_id resource, df_ruleId = ''app.repeated_errors'', df_severity = ''high'',
          df_title = ''Repeated application errors exceed error-budget threshold'',
          df_description = ''Error rate is above 5% with a meaningful absolute error count.'',
          df_evidence = [(''errorRate'', JNum error_rate), (''errorCount'', JNum (of_int error_count)),
            (''threshold'', JNum (5 / 100))],
          df_actionType = ''restart_unhealthy_service'',
          df_explanation = ''If errors correlate with a wedged process, restart; otherwise investigate application logs.'',
          df_estimatedImpact = ''Possible brief availability hit; may not fix application defects.'',
          df_confidence = 7 / 10 \<rparr>
      else None)"

definition rule_elevated_latency :: "diag_resource \<Rightarrow> diag_finding option" where
  "rule_elevated_latency resource =
     (let p99 = with_default (m_p99LatencyMs (dq_metrics resource)) 0
      in if p99 > 1000 then Some
        \<lparr> df_resourceId = dq_id resource, df_ruleId = ''api.elevated_latency'', df_severity = ''medium'',
          df_title = ''Elevated API p99 latency'',
          df_description = ''p99 latency exceeds 1000ms, which typically breaches user-facing SLOs.'',
          df_evidence = [(''p99LatencyMs'', JNum p99), (''thresholdMs'', JNum 1000)],
          df_actionType = ''create_alarm'',
          df_explanation = ''Create a latency alarm and inspect dependency saturation before scaling.'',
          df_estimatedImpact = ''Alerting only; no direct user impact from the remediation itself.'',
          df_confidence = 76 / 100 \<rparr>
      else None)"

definition rule_failure_rate_increase :: "diag_resource \<Rightarrow> diag_finding option" where
  "rule_failure_rate_increase resource =
     (let delta = with_default (m_failureRateDelta (dq_metrics resource)) 0
      in if delta > 1 / 10 then Some
        \<lparr> df_resourceId = dq_id resource, df_ruleId = ''reliability.failure_rate_increase'', df_severity = ''high'',
          df_title = ''Unusual increase in failure rate'',
          df_description = ''Failure rate rose by more than 10 percentage points versus the previous window.'',
          df_evidence = [(''failureRateDelta'', JNum delta), (''threshold'', JNum (1 / 10))],
          df_actionType = ''create_alarm'',
          df_explanation = ''Page on further increases and capture a rollback decision record.'',
          df_estimatedImpact = ''Operational attention; alarm creation is low risk.'',
          df_confidence = 8 / 10 \<rparr>
      else None)"

definition RULES :: "(diag_resource \<Rightarrow> diag_finding option) list" where
  "RULES = [rule_low_utilization, rule_missing_tags, rule_public_s3, rule_missing_alarms,
     rule_unhealthy_service, rule_missing_backup, rule_repeated_errors, rule_elevated_latency,
     rule_failure_rate_increase]"

text \<open>\<^verbatim>\<open>evaluate\<close>: the loop over the rules, with the findings so far.\<close>

fun evaluate_from :: "diag_finding list \<Rightarrow> (diag_resource \<Rightarrow> diag_finding option) list \<Rightarrow> diag_resource \<Rightarrow> diag_finding list" where
  "evaluate_from findings [] resource = findings"
| "evaluate_from findings (rule # rules) resource =
     (case rule resource of
        Some result \<Rightarrow> evaluate_from (findings @ [result]) rules resource
      | None \<Rightarrow> evaluate_from findings rules resource)"

definition evaluate :: "diag_resource \<Rightarrow> diag_finding list" where
  "evaluate resource = evaluate_from [] RULES resource"


section \<open>The endpoint\<close>

record analyze_response =
  as_engine :: string
  as_findings :: "diag_finding list"

text \<open>The counter of requests by result, and the durations observed.\<close>

record service_metrics =
  sv_requests :: "(string \<times> nat) list"
  sv_durations :: "rat list"

definition analyze_endpoint ::
  "rat \<Rightarrow> rat \<Rightarrow> diag_request \<Rightarrow> service_metrics \<Rightarrow> service_metrics \<times> analyze_response" where
  "analyze_endpoint started ended payload m =
     (let findings = foldl (\<lambda>findings resource. findings @ evaluate resource) [] (dr_resources payload);
          n = with_default (map_of (sv_requests m) ''ok'') 0
      in (m\<lparr>sv_durations := sv_durations m @ [ended - started],
            sv_requests := AList.update ''ok'' (n + 1) (sv_requests m)\<rparr>,
          \<lparr>as_engine = ''deterministic-operational-policies'', as_findings = findings\<rparr>))"


section \<open>What the rules find\<close>

text \<open>The policy as a table: the rule, the action it recommends and when it applies.\<close>

definition metric :: "(res_metrics \<Rightarrow> rat option) \<Rightarrow> diag_resource \<Rightarrow> rat" where
  "metric m r = with_default (m (dq_metrics r)) 0"

definition policy :: "(string \<times> string \<times> (diag_resource \<Rightarrow> bool)) list" where
  "policy =
     [(''ec2.low_utilization'', ''manual_review'', \<lambda>r. dq_type r = Ec2 \<and> metric m_cpuUtilizationAvg r < 10 \<and>
         3 \<le> metric m_consecutiveLowUtilizationPeriods r),
      (''resource.missing_tags'', ''add_missing_tag'', \<lambda>r. missing_tags (dq_tags r) \<noteq> []),
      (''s3.public_access'', ''restrict_public_storage'', \<lambda>r. dq_type r = S3 \<and> cf_publicAccess (dq_config r) = Some True),
      (''cloudwatch.missing_alarms'', ''create_alarm'', \<lambda>r. dq_type r \<noteq> Cloudwatch \<and> is_prod r \<and>
         with_default (cf_alarms (dq_config r)) [] = []),
      (''service.unhealthy'', ''restart_unhealthy_service'', \<lambda>r. cf_healthCheckStatus (dq_config r) = Some Unhealthy),
      (''resource.missing_backup'', ''enable_backup_policy'', \<lambda>r. dq_type r \<in> {Ec2, S3} \<and> is_prod r \<and>
         cf_backupEnabled (dq_config r) = Some False),
      (''app.repeated_errors'', ''restart_unhealthy_service'', \<lambda>r. 5 / 100 < metric m_errorRate r \<and>
         11 \<le> metric m_errorCount r),
      (''api.elevated_latency'', ''create_alarm'', \<lambda>r. 1000 < metric m_p99LatencyMs r),
      (''reliability.failure_rate_increase'', ''create_alarm'', \<lambda>r. 1 / 10 < metric m_failureRateDelta r)]"

definition implements :: "(diag_resource \<Rightarrow> diag_finding option) \<Rightarrow> string \<times> string \<times> (diag_resource \<Rightarrow> bool) \<Rightarrow> bool" where
  "implements rule entry \<longleftrightarrow> (case entry of (i, a, applies) \<Rightarrow>
     \<forall>r. case rule r of
       None \<Rightarrow> \<not> applies r
     | Some x \<Rightarrow> applies r \<and> df_ruleId x = i \<and> df_actionType x = a \<and> df_resourceId x = dq_id r \<and>
         df_severity x \<in> set [''critical'', ''high'', ''medium'', ''low''] \<and>
         df_title x \<noteq> [] \<and> df_description x \<noteq> [] \<and> df_explanation x \<noteq> [] \<and> df_estimatedImpact x \<noteq> [] \<and>
         0 \<le> df_confidence x \<and> df_confidence x \<le> 1)"

lemma py_int_ge: "0 < n \<Longrightarrow> n \<le> py_int x \<longleftrightarrow> of_int n \<le> x"
proof -
  assume n: "0 < n"
  show ?thesis
  proof (cases "x < 0")
    case True
    have "\<lceil>x\<rceil> < n" by (rule le_less_trans [OF _ n]) (use True in simp)
    moreover have "x < of_int n" using True n by (meson less_trans of_int_0_less_iff)
    ultimately show ?thesis using True by (simp only: py_int_def if_True not_le [symmetric]) simp
  next
    case False
    then show ?thesis by (simp add: py_int_def le_floor_iff)
  qed
qed

lemma rules_implement:
  "implements rule_low_utilization (policy ! 0)" "implements rule_missing_tags (policy ! 1)"
  "implements rule_public_s3 (policy ! 2)" "implements rule_missing_alarms (policy ! 3)"
  "implements rule_unhealthy_service (policy ! 4)" "implements rule_missing_backup (policy ! 5)"
  "implements rule_repeated_errors (policy ! 6)" "implements rule_elevated_latency (policy ! 7)"
  "implements rule_failure_rate_increase (policy ! 8)"
proof -
  have ten: "(10 < py_int x) = (11 \<le> x)" for x using py_int_ge [of 11 x] by (simp, linarith)
  show "implements rule_low_utilization (policy ! 0)"
    by (simp add: implements_def policy_def rule_low_utilization_def metric_def py_int_ge Let_def)
  show "implements rule_missing_tags (policy ! 1)"
    by (simp add: implements_def policy_def rule_missing_tags_def Let_def)
  show "implements rule_public_s3 (policy ! 2)"
    by (simp add: implements_def policy_def rule_public_s3_def)
  show "implements rule_missing_alarms (policy ! 3)"
    by (simp add: implements_def policy_def rule_missing_alarms_def Let_def)
  show "implements rule_unhealthy_service (policy ! 4)"
    by (simp add: implements_def policy_def rule_unhealthy_service_def Let_def)
  show "implements rule_missing_backup (policy ! 5)"
    by (simp add: implements_def policy_def rule_missing_backup_def STATEFUL_TYPES_def) blast
  show "implements rule_repeated_errors (policy ! 6)"
    by (simp add: implements_def policy_def rule_repeated_errors_def metric_def ten Let_def)
  show "implements rule_elevated_latency (policy ! 7)"
    by (simp add: implements_def policy_def rule_elevated_latency_def metric_def Let_def)
  show "implements rule_failure_rate_increase (policy ! 8)"
    by (simp add: implements_def policy_def rule_failure_rate_increase_def metric_def Let_def)
qed

lemma implementsD:
  assumes "implements rule (i, a, applies)"
  shows "rule r = None \<Longrightarrow> \<not> applies r"
    "rule r = Some x \<Longrightarrow> applies r \<and> df_ruleId x = i \<and> df_actionType x = a"
  using assms unfolding implements_def prod.case by (auto dest!: spec [of _ r])

lemma rules_policy: "list_all2 implements RULES policy"
proof -
  have "policy = [policy ! 0, policy ! 1, policy ! 2, policy ! 3, policy ! 4, policy ! 5, policy ! 6, policy ! 7, policy ! 8]"
    by (simp add: policy_def)
  moreover have "list_all2 implements RULES \<dots>" by (simp only: RULES_def list_all2_Cons list.rel_inject list_all2_Nil rules_implement simp_thms)
  ultimately show ?thesis by simp
qed

lemma evaluate_from_append: "evaluate_from findings rules r = findings @ List.map_filter (\<lambda>rule. rule r) rules"
  by (induction rules arbitrary: findings) (simp_all add: map_filter_simps split: option.splits)

lemma evaluate_rules: "evaluate r = List.map_filter (\<lambda>rule. rule r) RULES"
  by (simp add: evaluate_def evaluate_from_append)

lemma map_filter_implements:
  assumes "list_all2 implements rules pol"
  shows "map (\<lambda>x. (df_ruleId x, df_actionType x)) (List.map_filter (\<lambda>rule. rule r) rules) =
    map (\<lambda>(i, a, _). (i, a)) (filter (\<lambda>(_, _, applies). applies r) pol)"
  using assms
proof (induction rules pol rule: list_all2_induct)
  case (Cons rule rules entry pol)
  obtain i a c where e: "entry = (i, a, c)" by (cases entry)
  show ?case
  proof (cases "rule r")
    case None
    with Cons.IH implementsD(1) [OF Cons.hyps(1) [unfolded e]] show ?thesis by (simp add: e map_filter_simps)
  next
    case (Some x)
    with Cons.IH implementsD(2) [OF Cons.hyps(1) [unfolded e]] show ?thesis by (simp add: e map_filter_simps)
  qed
qed (simp add: map_filter_simps)

lemma evaluate_members:
  assumes "x \<in> set (evaluate r)"
  shows "df_resourceId x = dq_id r" "df_severity x \<in> set [''critical'', ''high'', ''medium'', ''low'']"
    "df_title x \<noteq> []" "df_description x \<noteq> []" "df_explanation x \<noteq> []" "df_estimatedImpact x \<noteq> []"
    "0 \<le> df_confidence x" "df_confidence x \<le> 1"
proof -
  from assms obtain rule where "rule \<in> set RULES" "rule r = Some x"
    by (auto simp: evaluate_rules List.map_filter_def)
  moreover obtain entry where "implements rule entry"
    using rules_policy \<open>rule \<in> set RULES\<close> by (metis in_set_conv_nth list_all2_nthD)
  ultimately have "df_resourceId x = dq_id r \<and> df_severity x \<in> set [''critical'', ''high'', ''medium'', ''low''] \<and>
         df_title x \<noteq> [] \<and> df_description x \<noteq> [] \<and> df_explanation x \<noteq> [] \<and> df_estimatedImpact x \<noteq> [] \<and>
         0 \<le> df_confidence x \<and> df_confidence x \<le> 1"
    by (auto simp: implements_def split: option.splits prod.splits)
  then show "df_resourceId x = dq_id r" "df_severity x \<in> set [''critical'', ''high'', ''medium'', ''low'']"
    "df_title x \<noteq> []" "df_description x \<noteq> []" "df_explanation x \<noteq> []" "df_estimatedImpact x \<noteq> []"
    "0 \<le> df_confidence x" "df_confidence x \<le> 1" by blast+
qed

lemma evaluate_policy:
  "map (\<lambda>x. (df_ruleId x, df_actionType x)) (evaluate r) =
    map (\<lambda>(i, a, _). (i, a)) (filter (\<lambda>(_, _, applies). applies r) policy)"
  unfolding evaluate_rules by (rule map_filter_implements [OF rules_policy])

lemma evaluate_iff:
  "(\<exists>x \<in> set (evaluate r). df_ruleId x = i \<and> df_actionType x = a) \<longleftrightarrow>
    (\<exists>applies. (i, a, applies) \<in> set policy \<and> applies r)"
proof -
  have "(i, a) \<in> set (map (\<lambda>x. (df_ruleId x, df_actionType x)) (evaluate r)) \<longleftrightarrow>
      (i, a) \<in> set (map (\<lambda>(i, a, _). (i, a)) (filter (\<lambda>(_, _, applies). applies r) policy))"
    by (simp only: evaluate_policy)
  then show ?thesis by (force simp: image_iff)
qed

lemma evaluate_rule_set: "df_ruleId ` set (evaluate r) = {i. \<exists>a applies. (i, a, applies) \<in> set policy \<and> applies r}"
  unfolding evaluate_iff [symmetric] by auto

text \<open>A name that merely contains \<^verbatim>\<open>prod\<close> makes a resource a production resource, whatever its environment.\<close>

lemma prod_by_substring:
  "is_prod \<lparr>dq_id = ''b1'', dq_type = S3, dq_region = ''us-east-1'', dq_name = ''product-images'',
     dq_tags = [(''Environment'', ''dev'')], dq_config = cf, dq_metrics = m\<rparr>"
proof -
  have "sublist ''prod'' (toLowerCase ''product-images'')" by code_simp
  then show ?thesis by (simp add: is_prod_def Let_def)
qed

lemma policy_rules_distinct: "distinct (map fst policy)"
  by (simp add: policy_def)

lemma evaluate_rules_distinct: "distinct (map df_ruleId (evaluate r))"
proof -
  have "map df_ruleId (evaluate r) = map fst (map (\<lambda>x. (df_ruleId x, df_actionType x)) (evaluate r))"
    by (simp add: comp_def)
  also have "\<dots> = map fst (filter (\<lambda>(_, _, applies). applies r) policy)"
    unfolding evaluate_policy by (simp add: case_prod_beta comp_def)
  finally show ?thesis using policy_rules_distinct by (simp add: distinct_map_filter)
qed

lemma evaluate_rule_ids: "x \<in> set (evaluate r) \<Longrightarrow> df_ruleId x \<noteq> [] \<and> df_actionType x \<noteq> []"
proof -
  assume "x \<in> set (evaluate r)"
  then obtain applies where "(df_ruleId x, df_actionType x, applies) \<in> set policy" using evaluate_iff by blast
  moreover have "\<forall>e \<in> set policy. fst e \<noteq> [] \<and> fst (snd e) \<noteq> []" by (simp add: policy_def)
  ultimately show ?thesis by auto
qed

text \<open>The findings of a request, and the state that the endpoint changes.\<close>

definition service_findings :: "diag_request \<Rightarrow> diag_finding list" where
  "service_findings q = concat (map evaluate (dr_resources q))"

lemma foldl_append: "foldl (\<lambda>ys x. ys @ f x) acc xs = acc @ concat (map f xs)"
  by (induction xs arbitrary: acc) simp_all

lemma analyze_endpoint_findings: "as_findings (snd (analyze_endpoint started ended q m)) = service_findings q"
  by (simp add: analyze_endpoint_def Let_def foldl_append service_findings_def)

text \<open>
  C10. The rules implement the policy. What the service reports on a resource is, in the order of the table and each
  at most once, exactly the rules that apply to it, each with the action of the table: a low utilization means an EC2
  instance below 10% for at least three periods, repeated errors a rate above 5% with at least eleven errors, and
  so on; missing values count as zero or empty.
\<close>

theorem evaluate_follows_policy:
  "map (\<lambda>x. (df_ruleId x, df_actionType x)) (evaluate r) =
    map (\<lambda>(rule, action, _). (rule, action)) (filter (\<lambda>(_, _, applies). applies r) policy)"
  by (rule evaluate_policy)

end
