(* ===== verification/Job_Lifecycle.thy ===== *)
theory Job_Lifecycle
  imports Job_Queue Job_Service
begin

text \<open>
  The life of the diagnostic jobs under the API (\<^verbatim>\<open>JobService\<close>) and any number of workers
  (\<^verbatim>\<open>JobQueue\<close>): one event for each call, in any order. \<open>job_step\<close> runs the call of an event;
  a call that throws leaves what it had written. The locale \<open>job_invariant\<close> is the interface
  between the updates of the queue and the runs: a property of a job that every update keeps holds
  of every job along every run. It is interpreted for the well-formedness of a job, for the
  attempt ceiling and for the lease of a claimed job.
\<close>

datatype job_event =
    EvCreate job_service "nat \<Rightarrow> int" string string string job_input
  | EvRetry "nat \<Rightarrow> int" string oid string string
  | EvClaim string int
  | EvHeartbeat oid string int
  | EvComplete oid summary int
  | EvFail oid failure int rat
  | EvRecover int

fun job_step :: "env \<Rightarrow> queue_config \<Rightarrow> db \<Rightarrow> job_event \<Rightarrow> db" where
  "job_step env cfg s (EvCreate svc clk w a c inp) = fst (create_job env svc clk w a c inp s)"
| "job_step env cfg s (EvRetry clk w i a c) = fst (retry_job env clk w i a c s)"
| "job_step env cfg s (EvClaim w now) = fst (claim env cfg w now s)"
| "job_step env cfg s (EvHeartbeat i w now) = fst (heartbeat env cfg i w now s)"
| "job_step env cfg s (EvComplete i sm now) = fst (complete env i sm now s)"
| "job_step env cfg s (EvFail i e now rnd) = fst (fail env cfg i e now rnd s)"
| "job_step env cfg s (EvRecover now) = fst (recoverAbandoned env now s)"

section \<open>Invariants of jobs along runs\<close>

definition jobs_inv :: "oid set \<Rightarrow> (job \<Rightarrow> bool) \<Rightarrow> db \<Rightarrow> bool" where
  "jobs_inv R I s \<longleftrightarrow>
     job_keys_distinct s \<and> R \<subseteq> j_id ` set (db_jobs s) \<and> (\<forall>j \<in> set (db_jobs s). I j)"

lemma jobs_inv_same_jobs: "db_jobs s' = db_jobs s \<Longrightarrow> jobs_inv R I s' = jobs_inv R I s"
  by (simp add: jobs_inv_def job_keys_distinct_def)

lemma jobs_inv_updated:
  assumes "one_updated p f (db_jobs s) (db_jobs s') d" "jobs_inv R I s"
    and "\<And>j. j_id (f j) = j_id j" "\<And>j. j_workspaceId (f j) = j_workspaceId j"
    and "\<And>j. j_idempotencyKey (f j) = j_idempotencyKey j"
    and "\<And>j. j \<in> set (db_jobs s) \<Longrightarrow> p j \<Longrightarrow> I j \<Longrightarrow> I (f j)"
  shows "jobs_inv R I s'"
proof -
  have ids: "map j_id (db_jobs s') = map j_id (db_jobs s)"
    using assms(1,3) by (rule one_updated_map)
  moreover have "map (\<lambda>j. (j_workspaceId j, j_idempotencyKey j)) (db_jobs s') =
      map (\<lambda>j. (j_workspaceId j, j_idempotencyKey j)) (db_jobs s)"
    using assms(1) by (rule one_updated_map) (simp add: assms)
  moreover have "\<forall>j \<in> set (db_jobs s'). I j"
    using assms(1,2,6) by (auto simp: jobs_inv_def elim!: one_updatedE)
  moreover have "j_id ` set (db_jobs s') = j_id ` set (db_jobs s)"
    using ids by (metis list.set_map)
  ultimately show ?thesis
    using assms(2) by (simp add: jobs_inv_def job_keys_distinct_def)
qed

lemma jobs_inv_append:
  assumes "db_jobs s' = db_jobs s @ [d]" "jobs_inv R I s" "I d"
    and "j_id d \<notin> j_id ` set (db_jobs s)"
    and "\<forall>e \<in> set (db_jobs s). \<not> same_key (j_workspaceId d) (j_idempotencyKey d) e"
  shows "jobs_inv R I s'"
  using assms by (auto simp: jobs_inv_def job_keys_distinct_def same_key_def)

lemma jobs_inv_map:
  assumes "db_jobs s' = map (\<lambda>j. if p j then f j else j) (db_jobs s)" "jobs_inv R I s"
    and "\<And>j. j_id (f j) = j_id j" "\<And>j. j_workspaceId (f j) = j_workspaceId j"
    and "\<And>j. j_idempotencyKey (f j) = j_idempotencyKey j"
    and "\<And>j. p j \<Longrightarrow> I j \<Longrightarrow> I (f j)"
  shows "jobs_inv R I s'"
proof -
  have ids: "map j_id (db_jobs s') = map j_id (db_jobs s)"
    and keys: "map (\<lambda>j. (j_workspaceId j, j_idempotencyKey j)) (db_jobs s') =
      map (\<lambda>j. (j_workspaceId j, j_idempotencyKey j)) (db_jobs s)"
    using assms(1,3-5) by auto
  have "\<forall>j \<in> set (db_jobs s'). I j"
    using assms(1,2,6) by (auto simp: jobs_inv_def)
  moreover have "j_id ` set (db_jobs s') = j_id ` set (db_jobs s)"
    using ids by (metis list.set_map)
  ultimately show ?thesis
    using assms(2) ids keys by (simp add: jobs_inv_def job_keys_distinct_def)
qed

locale job_invariant =
  fixes cfg :: queue_config
    and R :: "oid set"
    and allowed :: "job_event \<Rightarrow> bool"
    and I :: "job \<Rightarrow> bool"
  assumes new_ok: "allowed (EvCreate svc clk w a c inp) \<Longrightarrow> i \<notin> R \<Longrightarrow> I (new_job svc clk w a c inp i)"
    and reset_ok: "allowed (EvRetry clk w i a c) \<Longrightarrow> I j \<Longrightarrow> j_status j \<in> {Failed, DeadLettered} \<Longrightarrow>
        I (reset_job (clk 0) j)"
    and claim_ok: "allowed (EvClaim w now) \<Longrightarrow> I j \<Longrightarrow> claimable now j \<Longrightarrow> I (claim_job cfg w now j)"
    and heartbeat_ok: "allowed (EvHeartbeat (j_id j) w now) \<Longrightarrow> I j \<Longrightarrow> j_claimedBy j = Some w \<Longrightarrow>
        j_status j = Running \<Longrightarrow> I (heartbeat_job cfg now j)"
    and complete_ok: "allowed (EvComplete (j_id j) sm now) \<Longrightarrow> I j \<Longrightarrow> I (complete_job sm now j)"
    and fail_ok: "allowed (EvFail (j_id j) e now rnd) \<Longrightarrow> I j \<Longrightarrow> I (fail_update cfg e now rnd j j)"
    and recover_ok: "allowed (EvRecover now) \<Longrightarrow> I j \<Longrightarrow> abandoned now j \<Longrightarrow> I (recover_job now j)"
begin

lemma updateOne_keeps:
  assumes "store env" "jobs_inv R I s"
    and "tell db_jobs db_jobs_update (drv_updateOne (e_jobs env) p f) s = (s', r)"
    and "\<And>j. j_id (f j) = j_id j" "\<And>j. j_workspaceId (f j) = j_workspaceId j"
    and "\<And>j. j_idempotencyKey (f j) = j_idempotencyKey j"
    and "\<And>j. p j \<Longrightarrow> I j \<Longrightarrow> I (f j)"
  shows "jobs_inv R I s'"
  using assms(1,3)
proof (cases rule: updateOne_cases)
  case unchanged
  with assms(2) show ?thesis by simp
next
  case (updated d)
  show ?thesis by (rule jobs_inv_updated [OF updated(2) assms(2)]) (simp_all add: assms(4-7))
qed

lemma create_keeps:
  assumes "store env" "allowed (EvCreate svc clk w a c inp)" "jobs_inv R I s"
  shows "jobs_inv R I (fst (create_job env svc clk w a c inp s))"
proof -
  obtain s' r where run: "create_job env svc clk w a c inp s = (s', r)" by fastforce
  with assms(1) have "jobs_inv R I s'"
  proof (cases rule: create_run_cases)
    case (created d)
    then have key: "j_workspaceId d = w" "j_idempotencyKey d = ji_idempotencyKey inp"
      by (metis new_job_simps)+
    have "j_id d \<notin> R" using created(3) assms(3) by (auto simp: jobs_inv_def)
    with assms(2) created(2) have "I d" by (metis new_ok)
    with created key assms(3) show ?thesis by (intro jobs_inv_append [of s' s d]) auto
  next
    case (replayed j)
    then show ?thesis using assms(3) by (simp add: jobs_inv_def job_keys_distinct_def)
  next
    case (failed e)
    then show ?thesis using assms(3) by (simp add: jobs_inv_def job_keys_distinct_def)
  qed
  with run show ?thesis by simp
qed

lemma fail_keeps:
  assumes "store env" "allowed (EvFail i e now rnd)" "jobs_inv R I s"
  shows "jobs_inv R I (fst (fail env cfg i e now rnd s))"
proof -
  obtain s' r where run: "fail env cfg i e now rnd s = (s', r)" by fastforce
  from assms(3) have "distinct (map j_id (db_jobs s))"
    by (simp add: jobs_inv_def job_keys_distinct_def)
  with assms(1) run have "jobs_inv R I s'"
  proof (cases rule: fail_run_cases)
    case unchanged
    with assms(3) show ?thesis by simp
  next
    case (updated d)
    show ?thesis
      by (rule jobs_inv_updated [OF updated(4) assms(3)]) (use assms(2) fail_ok in \<open>auto simp: doc_simps\<close>)
  qed
  with run show ?thesis by simp
qed

lemma retry_keeps:
  assumes "store env" "allowed (EvRetry clk w i a c)" "jobs_inv R I s"
  shows "jobs_inv R I (fst (retry_job env clk w i a c s))"
proof -
  obtain s' r where run: "retry_job env clk w i a c s = (s', r)" by fastforce
  from assms(3) have "distinct (map j_id (db_jobs s))"
    by (simp add: jobs_inv_def job_keys_distinct_def)
  with assms(1) run have "jobs_inv R I s'"
  proof (cases rule: retry_run_cases)
    case unchanged
    then show ?thesis using assms(3) by (simp add: jobs_inv_def job_keys_distinct_def)
  next
    case (updated d)
    show ?thesis
      by (rule jobs_inv_updated [OF updated(5) assms(3)])
        (use updated(4) assms(2) reset_ok in \<open>auto simp: doc_simps\<close>)
  qed
  with run show ?thesis by simp
qed

lemma recover_keeps:
  assumes "store env" "allowed (EvRecover now)" "jobs_inv R I s"
  shows "jobs_inv R I (fst (recoverAbandoned env now s))"
proof -
  obtain s' r where run: "recoverAbandoned env now s = (s', r)" by fastforce
  have "jobs_inv R I s'"
  proof (cases r)
    case (Inl e)
    with run assms(3) show ?thesis by (auto simp: recoverAbandoned_def tell_Inl)
  next
    case (Inr n)
    from store.recover_Inr(1) [OF assms(1) run [unfolded Inr]] assms(3) show ?thesis
      by (rule jobs_inv_map) (use assms(2) recover_ok in \<open>auto simp: doc_simps\<close>)
  qed
  with run show ?thesis by simp
qed

lemma step_keeps:
  assumes "store env" "allowed ev" "jobs_inv R I s"
  shows "jobs_inv R I (job_step env cfg s ev)"
proof (cases ev)
  case (EvClaim w now)
  obtain s' r where run: "claim env cfg w now s = (s', r)" by fastforce
  have "jobs_inv R I s'"
    by (rule updateOne_keeps [OF assms(1,3) run [unfolded claim_def]])
      (use assms(2) EvClaim claim_ok in \<open>auto simp: doc_simps\<close>)
  with run EvClaim show ?thesis by simp
next
  case (EvHeartbeat i w now)
  obtain s' r where run: "heartbeat env cfg i w now s = (s', r)" by fastforce
  have "jobs_inv R I s'"
    by (rule updateOne_keeps [OF assms(1,3) run [unfolded heartbeat_def]])
      (use assms(2) EvHeartbeat heartbeat_ok in \<open>auto simp: doc_simps\<close>)
  with run EvHeartbeat show ?thesis by simp
next
  case (EvComplete i sm now)
  obtain s' r where run: "complete env i sm now s = (s', r)" by fastforce
  have "jobs_inv R I s'"
    by (rule updateOne_keeps [OF assms(1,3) run [unfolded complete_def]])
      (use assms(2) EvComplete complete_ok in \<open>auto simp: doc_simps\<close>)
  with run EvComplete show ?thesis by simp
qed (use assms create_keeps retry_keeps fail_keeps recover_keeps in auto)

lemma run_keeps:
  assumes "store env" "\<forall>ev \<in> set evs. allowed ev" "jobs_inv R I s"
  shows "jobs_inv R I (run (job_step env cfg) s evs)"
proof -
  have "invariant_system (job_step env cfg) allowed (jobs_inv R I)"
    by unfold_locales (rule step_keeps [OF assms(1)])
  from invariant_system.inv_run [OF this assms(2,3)] show ?thesis .
qed

end


section \<open>A well-formed job\<close>

definition job_ok :: "job \<Rightarrow> bool" where
  "job_ok j \<longleftrightarrow>
     j_status j \<in> {Pending, Running, RetryWait, Completed, DeadLettered} \<and>
     (j_status j = Running \<longleftrightarrow> j_leaseUntil j \<noteq> None) \<and>
     (j_status j = Running \<longrightarrow> j_claimedBy j \<noteq> None \<and> j_heartbeatAt j \<noteq> None \<and> 1 \<le> j_attempts j) \<and>
     (j_status j = Pending \<longrightarrow> j_attempts j = 0 \<and> j_claimedBy j = None \<and> j_lastError j = None) \<and>
     (j_status j = Completed \<longrightarrow>
        j_resultSummary j \<noteq> None \<and> j_completedAt j \<noteq> None \<and> j_lastError j = None) \<and>
     (j_status j = DeadLettered \<longrightarrow> j_completedAt j \<noteq> None \<and>
        (\<exists>e. j_lastError j = Some e \<and> (j_maxAttempts j \<le> j_attempts j \<or> \<not> fl_retryable e))) \<and>
     0 \<le> j_attempts j \<and> j_attempts j < j_version j"

interpretation ok: job_invariant cfg "{}" "\<lambda>_. True" job_ok for cfg
  by unfold_locales
    (auto simp: job_ok_def new_job_def reset_job_def job_updates fail_update_def claimable_def)

lemma jobs_inv_empty: "db_jobs s = [] \<Longrightarrow> jobs_inv {} I s"
  by (simp add: jobs_inv_def job_keys_distinct_def)

lemma jobs_ok_run:
  "store env \<Longrightarrow> db_jobs s = [] \<Longrightarrow> jobs_inv {} job_ok (run (job_step env cfg) s evs)"
  by (rule ok.run_keeps) (simp_all add: jobs_inv_empty)

text \<open>Data of the examples: a configuration, a service, a request, and a run of one worker.\<close>

definition demo_cfg :: queue_config where
  "demo_cfg = \<lparr>qc_leaseMs = 30, qc_maxAttempts = 3, qc_backoffBaseMs = 50, qc_backoffMaxMs = 200\<rparr>"

definition demo_input :: job_input where
  "demo_input = \<lparr>ji_resourceIds = None, ji_resourceTypes = None, ji_idempotencyKey = ''demo-job-0001''\<rparr>"

definition demo_create :: "int \<Rightarrow> job_event" where
  "demo_create n = EvCreate \<lparr>js_maxAttempts = n, js_timeoutMs = 20000\<rparr> (\<lambda>_. 0) ''ws1'' ''u1'' ''c1'' demo_input"

definition demo_failure :: failure where
  "demo_failure = \<lparr>fl_code = ''TIMEOUT'', fl_message = ''timed out'', fl_retryable = True,
     fl_cause = None, fl_at = 0\<rparr>"

definition demo_summary :: summary where
  "demo_summary = \<lparr>sm_resourcesScanned = 2, sm_findingsCreated = 1, sm_recommendationsCreated = 1\<rparr>"

lemmas demo_defs = demo_cfg_def demo_input_def demo_create_def demo_failure_def demo_summary_def

text \<open>The first job of an empty in-memory database has the identifier \<open>''0''\<close>.\<close>

lemma demo_created:
  "db_jobs (job_step mem_env cfg empty_db (EvCreate svc clk w a c inp)) = [new_job svc clk w a c inp ''0'']"
proof -
  obtain s' r where run: "create_job mem_env svc clk w a c inp empty_db = (s', r)" by fastforce
  have "create_job_insert mem_env svc clk w a c inp empty_db = (s', r)"
    using run by (simp add: create_job_def bind_io_def ask_def empty_db_def)
  then have "db_jobs s' = [new_job svc clk w a c inp ''0'']"
    by (auto simp: create_job_insert_def catch_io_def bind_io_def tell_def empty_db_def mem_create_def
        fresh_oid_def record_audit_def Let_def split: if_splits)
  with run show ?thesis by simp
qed

text \<open>
  C5. Every job that any sequence of API and worker calls can produce is well-formed: it is running
  exactly when it holds a lease (and then has an owner, a heartbeat and at least one attempt), a
  completed job has a summary and no error, a dead-lettered job has its error and has either used up
  its attempts or met an error that is not retryable, and the statuses \<^verbatim>\<open>failed\<close> and
  \<^verbatim>\<open>cancelled\<close> never occur.
\<close>

theorem reachable_jobs_well_formed:
  assumes "store env" "db_jobs s = []" "j \<in> set (db_jobs (run (job_step env cfg) s evs))"
  shows "job_ok j"
  using jobs_ok_run [OF assms(1,2)] assms(3) by (simp add: jobs_inv_def)

theorem reachable_jobs_well_formed_witness:
  "job_ok (new_job \<lparr>js_maxAttempts = 3, js_timeoutMs = 20000\<rparr> (\<lambda>_. 0) ''ws1'' ''u1'' ''c1'' demo_input ''0'')"
  by (rule reachable_jobs_well_formed [of mem_env empty_db _ demo_cfg "[demo_create 3]"])
    (simp_all add: mem_store.store_axioms demo_created demo_create_def del: job_step.simps, simp add: empty_db_def)


section \<open>The attempt ceiling\<close>

fun not_recovery :: "job_event \<Rightarrow> bool" where
  "not_recovery (EvRecover now) = False"
| "not_recovery (EvCreate svc clk w a c inp) = (1 \<le> js_maxAttempts svc)"
| "not_recovery _ = True"

definition within_attempts :: "job \<Rightarrow> bool" where
  "within_attempts j \<longleftrightarrow> 1 \<le> j_maxAttempts j \<and> j_attempts j \<le> j_maxAttempts j \<and>
     (j_status j = Pending \<longrightarrow> j_attempts j = 0) \<and>
     (j_status j = RetryWait \<longrightarrow> j_attempts j < j_maxAttempts j)"

interpretation ceiling: job_invariant cfg "{}" not_recovery within_attempts for cfg
  by unfold_locales
    (auto simp: within_attempts_def new_job_def reset_job_def job_updates fail_update_def claimable_def)


text \<open>One job in the in-memory database: what each queue call makes of it.\<close>

lemma mem_single:
  assumes "db_jobs s = [j]"
  shows "db_jobs (job_step mem_env cfg s (EvClaim w now)) =
      [if claimable now j then claim_job cfg w now j else j]"
    and "db_jobs (job_step mem_env cfg s (EvRecover now)) =
      [if abandoned now j then recover_job now j else j]"
    and "db_jobs (job_step mem_env cfg s (EvComplete i sm now)) =
      [if j_id j = i then complete_job sm now j else j]"
    and "db_jobs (job_step mem_env cfg s (EvFail i e now rnd)) =
      [if j_id j = i then fail_update cfg e now rnd j j else j]"
  using assms
  by (simp_all add: queue_ops tell_def ask_def bind_io_def)


text \<open>Workers that crash: claim, let the lease run out, be recovered; \<open>n\<close> times from time \<open>t\<close>.\<close>

fun crash_cycles :: "queue_config \<Rightarrow> string \<Rightarrow> int \<Rightarrow> nat \<Rightarrow> job_event list" where
  "crash_cycles cfg w t 0 = []"
| "crash_cycles cfg w t (Suc n) =
     EvClaim w t # EvRecover (t + qc_leaseMs cfg) # crash_cycles cfg w (t + qc_leaseMs cfg) n"

lemma crash_cycles_attempts:
  assumes "db_jobs s = [j]" "claimable t j" "j_nextRunAt j \<le> t"
  shows "\<exists>j'. db_jobs (run (job_step mem_env cfg) s
        (crash_cycles cfg w t n @ [EvClaim w (t + int n * qc_leaseMs cfg)])) = [j'] \<and>
      j_status j' = Running \<and> j_attempts j' = j_attempts j + int n + 1 \<and>
      j_maxAttempts j' = j_maxAttempts j"
  using assms
proof (induction n arbitrary: s j t)
  case 0
  then show ?case by (simp add: mem_single(1) claim_job_def del: job_step.simps)
next
  case (Suc n)
  let ?t = "t + qc_leaseMs cfg" and ?j1 = "claim_job cfg w t j"
  let ?s1 = "job_step mem_env cfg s (EvClaim w t)"
  let ?s2 = "job_step mem_env cfg ?s1 (EvRecover ?t)"
  have "db_jobs ?s1 = [?j1]" using Suc.prems by (simp add: mem_single(1) del: job_step.simps)
  moreover have "abandoned ?t ?j1" by (simp add: abandoned_def claim_job_def)
  ultimately have "db_jobs ?s2 = [recover_job ?t ?j1]" by (simp add: mem_single(2) del: job_step.simps)
  moreover have "claimable ?t (recover_job ?t ?j1)" "j_nextRunAt (recover_job ?t ?j1) \<le> ?t"
    by (simp_all add: claimable_def recover_job_def)
  ultimately obtain j' where j': "db_jobs (run (job_step mem_env cfg) ?s2
        (crash_cycles cfg w ?t n @ [EvClaim w (?t + int n * qc_leaseMs cfg)])) = [j']"
      "j_status j' = Running" "j_attempts j' = j_attempts (recover_job ?t ?j1) + int n + 1"
      "j_maxAttempts j' = j_maxAttempts (recover_job ?t ?j1)"
    using Suc.IH by blast
  have eq: "t + int (Suc n) * qc_leaseMs cfg = ?t + int n * qc_leaseMs cfg"
    by (simp add: algebra_simps)
  have attempts: "j_attempts (recover_job ?t ?j1) = j_attempts j + 1"
    "j_maxAttempts (recover_job ?t ?j1) = j_maxAttempts j"
    by (simp_all add: recover_job_def claim_job_def)
  show ?case
    unfolding eq crash_cycles.simps append_Cons run.simps
    by (rule exI [of _ j'], intro conjI) (fact j', use j'(2-) attempts in simp_all)
qed

text \<open>
  C37. Recovery does not look at the attempts: a job whose workers keep crashing is claimed once more
  after every expired lease, \<open>n + 1\<close> times for every \<open>n\<close>, whatever its \<^verbatim>\<open>maxAttempts\<close>, and is
  never dead-lettered.
\<close>

theorem recovery_ignores_max_attempts:
  "\<exists>j. db_jobs (run (job_step mem_env cfg) empty_db
        (EvCreate svc clk w a c inp #
         crash_cycles cfg worker (clk 0) n @ [EvClaim worker (clk 0 + int n * qc_leaseMs cfg)])) = [j] \<and>
     j_status j = Running \<and> j_attempts j = int n + 1 \<and> j_maxAttempts j = js_maxAttempts svc"
proof -
  let ?j = "new_job svc clk w a c inp ''0''"
  have "db_jobs (job_step mem_env cfg empty_db (EvCreate svc clk w a c inp)) = [?j]"
    by (rule demo_created)
  moreover have "claimable (clk 0) ?j" "j_nextRunAt ?j \<le> clk 0"
    by (simp_all add: claimable_def new_job_def)
  ultimately show ?thesis
    using crash_cycles_attempts [where w = worker and n = n and cfg = cfg and t = "clk 0" and j = ?j]
    by (simp add: new_job_def del: job_step.simps)
qed

text \<open>
  C38. A worker that lost its lease can undo a finished job: after its job was recovered, claimed and
  completed by another worker, its own late \<^verbatim>\<open>fail\<close> (which selects the job by identifier only) puts
  the completed job back into \<^verbatim>\<open>retry_wait\<close>, and it is claimed and run again.
\<close>

theorem stale_failure_reopens_completed_job:
  assumes "2 < js_maxAttempts svc" "fl_retryable e"
  shows "\<exists>j. db_jobs (run (job_step mem_env cfg) empty_db
        [EvCreate svc clk w a c inp, EvClaim ''A'' (clk 0), EvRecover (clk 0 + qc_leaseMs cfg),
         EvClaim ''B'' (clk 0 + qc_leaseMs cfg), EvComplete ''0'' sm done, EvFail ''0'' e late rnd]) = [j]
    \<and> j_status j = RetryWait \<and> j_resultSummary j = Some sm \<and> j_lastError j = Some e
    \<and> claimable (j_nextRunAt j) j"
proof -
  let ?t = "clk 0 + qc_leaseMs cfg"
  let ?j0 = "new_job svc clk w a c inp ''0''"
  let ?j1 = "claim_job cfg ''A'' (clk 0) ?j0"
  let ?j2 = "recover_job ?t ?j1"
  let ?j3 = "claim_job cfg ''B'' ?t ?j2"
  let ?j4 = "complete_job sm done ?j3"
  have "claimable (clk 0) ?j0" "abandoned ?t ?j1" "claimable ?t ?j2"
    by (simp_all add: claimable_def abandoned_def new_job_def claim_job_def recover_job_def)
  then have "db_jobs (run (job_step mem_env cfg) empty_db
      [EvCreate svc clk w a c inp, EvClaim ''A'' (clk 0), EvRecover ?t, EvClaim ''B'' ?t,
       EvComplete ''0'' sm done, EvFail ''0'' e late rnd]) = [fail_update cfg e late rnd ?j4 ?j4]"
    by (simp add: demo_created mem_single doc_simps del: job_step.simps)
  moreover have "j_attempts ?j4 < j_maxAttempts ?j4"
    using assms(1) by (simp add: job_updates new_job_def)
  then have "j_status (fail_update cfg e late rnd ?j4 ?j4) = RetryWait \<and>
      j_resultSummary (fail_update cfg e late rnd ?j4 ?j4) = Some sm \<and>
      j_lastError (fail_update cfg e late rnd ?j4 ?j4) = Some e \<and>
      claimable (j_nextRunAt (fail_update cfg e late rnd ?j4 ?j4)) (fail_update cfg e late rnd ?j4 ?j4)"
    using assms(2) by (simp add: fail_update_def retry_wait_job_def complete_job_def claimable_def)
  ultimately show ?thesis by blast
qed

theorem stale_failure_reopens_completed_job_witness:
  "\<exists>j. db_jobs (run (job_step mem_env demo_cfg) empty_db
        [EvCreate \<lparr>js_maxAttempts = 5, js_timeoutMs = 20000\<rparr> (\<lambda>_. 0) ''ws1'' ''u1'' ''c1'' demo_input,
         EvClaim ''A'' 0, EvRecover (0 + qc_leaseMs demo_cfg), EvClaim ''B'' (0 + qc_leaseMs demo_cfg),
         EvComplete ''0'' demo_summary 40, EvFail ''0'' demo_failure 50 0]) = [j]
    \<and> j_status j = RetryWait \<and> j_resultSummary j = Some demo_summary \<and> j_lastError j = Some demo_failure
    \<and> claimable (j_nextRunAt j) j"
  by (rule stale_failure_reopens_completed_job) (simp_all add: demo_failure_def)


section \<open>The lease of a claimed job\<close>

fun respects_lease :: "oid \<Rightarrow> int \<Rightarrow> int \<Rightarrow> job_event \<Rightarrow> bool" where
  "respects_lease i t0 expiry (EvComplete k sm now) = (k \<noteq> i)"
| "respects_lease i t0 expiry (EvFail k e now rnd) = (k \<noteq> i)"
| "respects_lease i t0 expiry (EvHeartbeat k w now) = (k = i \<longrightarrow> t0 \<le> now)"
| "respects_lease i t0 expiry (EvRecover now) = (now < expiry)"
| "respects_lease i t0 expiry _ = True"

definition leased :: "oid \<Rightarrow> string \<Rightarrow> int \<Rightarrow> job \<Rightarrow> bool" where
  "leased i w expiry j \<longleftrightarrow> (j_id j = i \<longrightarrow>
     j_status j = Running \<and> j_claimedBy j = Some w \<and>
     (\<exists>l. j_leaseUntil j = Some l \<and> expiry \<le> l))"

interpretation lease: job_invariant cfg "{i}" "respects_lease i t0 (t0 + qc_leaseMs cfg)"
    "leased i w (t0 + qc_leaseMs cfg)" for cfg i w t0
  by unfold_locales
    (auto simp: leased_def doc_simps claimable_def abandoned_def heartbeat_job_def)

lemma claimed_leased:
  assumes "store env" "job_keys_distinct s" "claim env cfg w t0 s = (s', Inr (Some j))"
  shows "jobs_inv {j_id j} (leased (j_id j) w (t0 + qc_leaseMs cfg)) s'"
proof -
  obtain xs d ys where s: "db_jobs s = xs @ d # ys" and s': "db_jobs s' = xs @ j # ys"
    and j: "j = claim_job cfg w t0 d"
    using store.claim_Inr_Some [OF assms(1,3)] by (auto elim: one_updatedE)
  have "job_keys_distinct s'"
    using assms(2) by (simp add: job_keys_distinct_def s s' j doc_simps)
  moreover have "leased (j_id j) w (t0 + qc_leaseMs cfg) k" if "k \<in> set (db_jobs s')" for k
  proof (cases "k = j")
    case True
    then show ?thesis by (simp add: leased_def j claim_job_def)
  next
    case False
    with that \<open>job_keys_distinct s'\<close> have "j_id k \<noteq> j_id j"
      using distinct_key_unique [of j_id "db_jobs s'" k j] by (auto simp: job_keys_distinct_def s')
    then show ?thesis by (simp add: leased_def)
  qed
  ultimately show ?thesis by (simp add: jobs_inv_def s')
qed

text \<open>
  C3. A claimed job belongs to its worker for the whole lease: whatever calls other workers and the
  API make, in any order, as long as nobody reports the outcome of this job and no recovery runs at
  or after the expiry of the lease, the job stays in the database, running, owned by the worker that
  claimed it, and no other claim is ever given this job.
\<close>

theorem lease_exclusive:
  assumes "store env" "job_keys_distinct s" "claim env cfg w t0 s = (s1, Inr (Some j))"
    and "\<forall>ev \<in> set evs. respects_lease (j_id j) t0 (t0 + qc_leaseMs cfg) ev"
  shows "(\<exists>k \<in> set (db_jobs (run (job_step env cfg) s1 evs)). j_id k = j_id j \<and>
            j_status k = Running \<and> j_claimedBy k = Some w) \<and>
         (\<forall>w' now s3 k. claim env cfg w' now (run (job_step env cfg) s1 evs) = (s3, Inr (Some k)) \<longrightarrow>
            j_id k \<noteq> j_id j)"
proof -
  let ?s2 = "run (job_step env cfg) s1 evs"
  have inv: "jobs_inv {j_id j} (leased (j_id j) w (t0 + qc_leaseMs cfg)) ?s2"
    by (rule lease.run_keeps [OF assms(1,4) claimed_leased [OF assms(1-3)]])
  moreover have "j_id k \<noteq> j_id j" if c: "claim env cfg w' now ?s2 = (s3, Inr (Some k))" for w' now s3 k
  proof -
    obtain d where "d \<in> set (db_jobs ?s2)" "claimable now d" "k = claim_job cfg w' now d"
      using one_updated_source [OF store.claim_Inr_Some [OF assms(1) c]] by blast
    with inv show ?thesis by (auto simp: jobs_inv_def leased_def claimable_def doc_simps)
  qed
  ultimately show ?thesis by (fastforce simp: jobs_inv_def leased_def)
qed


text \<open>The database after the demo request, and after worker \<open>w1\<close> claimed its job.\<close>

definition demo_job :: job where
  "demo_job = new_job \<lparr>js_maxAttempts = 3, js_timeoutMs = 20000\<rparr> (\<lambda>_. 0) ''ws1'' ''u1'' ''c1'' demo_input ''0''"

definition demo_db :: db where
  "demo_db = job_step mem_env demo_cfg empty_db (demo_create 3)"

lemma demo_db_jobs: "db_jobs demo_db = [demo_job]"
  by (simp add: demo_db_def demo_job_def demo_create_def demo_created del: job_step.simps)

lemma demo_job_claimable: "0 \<le> now \<Longrightarrow> claimable now demo_job"
  by (simp add: demo_job_def new_job_def claimable_def)

lemma demo_claim: "0 \<le> now \<Longrightarrow> claim mem_env cfg w now demo_db =
    (db_jobs_update (\<lambda>_. [claim_job cfg w now demo_job]) demo_db, Inr (Some (claim_job cfg w now demo_job)))"
  by (simp add: claim_def tell_def demo_db_jobs demo_job_claimable)

theorem lease_exclusive_witness:
  "\<exists>k \<in> set (db_jobs (run (job_step mem_env demo_cfg)
       (db_jobs_update (\<lambda>_. [claim_job demo_cfg ''w1'' 5 demo_job]) demo_db)
       [EvRecover 20, EvClaim ''w2'' 21])).
     j_id k = ''0'' \<and> j_status k = Running \<and> j_claimedBy k = Some ''w1''"
  using lease_exclusive [of mem_env demo_db demo_cfg "''w1''" 5 _ _ "[EvRecover 20, EvClaim ''w2'' 21]",
      OF mem_store.store_axioms _ demo_claim, THEN conjunct1]
  by (simp add: job_keys_distinct_def demo_db_jobs doc_simps demo_cfg_def del: run.simps)
    (simp add: demo_job_def new_job_def)


section \<open>A finished job is left alone\<close>

fun no_outcome :: "oid \<Rightarrow> job_event \<Rightarrow> bool" where
  "no_outcome i (EvComplete k sm now) = (k \<noteq> i)"
| "no_outcome i (EvFail k e now rnd) = (k \<noteq> i)"
| "no_outcome i _ = True"

definition finished_as :: "job \<Rightarrow> job \<Rightarrow> bool" where
  "finished_as j0 j \<longleftrightarrow> (j_id j = j_id j0 \<longrightarrow> j = j0 \<and> j_status j = Completed)"

interpretation finished: job_invariant cfg "{j_id j0}" "no_outcome (j_id j0)" "finished_as j0" for cfg j0
  by unfold_locales (auto simp: finished_as_def doc_simps claimable_def abandoned_def)

text \<open>
  A completed job is final as far as the queue and the API decide: claims, heartbeats,
  recoveries, retries and new requests never change it or hand it out; only a second outcome
  reported under its own identifier can.
\<close>

theorem completed_job_stays:
  assumes "store env" "job_keys_distinct s" "j \<in> set (db_jobs s)" "j_status j = Completed"
    and "\<forall>ev \<in> set evs. no_outcome (j_id j) ev"
  shows "j \<in> set (db_jobs (run (job_step env cfg) s evs))"
proof -
  have "finished_as j k" if "k \<in> set (db_jobs s)" for k
    using assms(2-4) that distinct_key_unique [of j_id "db_jobs s" k j]
    by (auto simp: finished_as_def job_keys_distinct_def)
  with assms(2,3) have "jobs_inv {j_id j} (finished_as j) s" by (simp add: jobs_inv_def)
  from finished.run_keeps [OF assms(1,5) this, of cfg] show ?thesis
    by (auto simp: jobs_inv_def finished_as_def)
qed

theorem completed_job_stays_witness:
  "complete_job demo_summary 30 (claim_job demo_cfg ''w1'' 5 demo_job) \<in> set (db_jobs
     (run (job_step mem_env demo_cfg)
       (db_jobs_update (\<lambda>_. [complete_job demo_summary 30 (claim_job demo_cfg ''w1'' 5 demo_job)]) demo_db)
       [EvRecover 90, EvClaim ''w2'' 91, EvRetry (\<lambda>_. 92) ''ws1'' ''0'' ''u1'' ''c2'']))"
  by (rule completed_job_stays)
    (simp_all add: mem_store.store_axioms job_keys_distinct_def, simp_all add: complete_job_def)

end
