(* ===== verification/Job_Progress.thy ===== *)
theory Job_Progress
  imports Job_Lifecycle
begin

text \<open>
  What the queue and the job service achieve when the database answers (\<open>reliable_store\<close>): a worker
  that asks gets a claimable job whenever there is one, a reported failure has exactly the documented
  outcome, abandoned jobs all come back, a job that keeps failing is dead-lettered after exactly
  \<^verbatim>\<open>maxAttempts\<close> attempts, and creating a job is idempotent.
\<close>

section \<open>Single calls\<close>

lemma default_backoff_range:
  assumes "0 \<le> b" "0 \<le> m" "0 \<le> rnd" "rnd < 1"
  shows "0 \<le> exponentialBackoffWithJitter a b m None rnd"
    and "exponentialBackoffWithJitter a b m None rnd \<le> js_round (m * (6 / 5))"
proof -
  have x: "0 \<le> backoff_exp b m a" "backoff_exp b m a \<le> m"
    using assms(1,2) by (simp_all add: backoff_exp_nonneg backoff_exp_le_max)
  have "js_round (of_int 0) \<le> js_round (backoff_exp b m a * (1 + 1 / 5 * rnd))"
    using x(1) assms(3) by (intro js_round_mono) simp
  then show "0 \<le> exponentialBackoffWithJitter a b m None rnd"
    by (simp only: backoff_as_factor option.case js_round_of_int)
  have "backoff_exp b m a * (1 + 1 / 5 * rnd) \<le> m * (6 / 5)"
    using x assms(3,4) by (intro mult_mono) auto
  then show "exponentialBackoffWithJitter a b m None rnd \<le> js_round (m * (6 / 5))"
    by (simp only: backoff_as_factor option.case js_round_mono)
qed

context reliable_store
begin

lemma claim_answers:
  obtains (none) "claim env cfg w now s = (s, Inr None)" "\<forall>j \<in> set (db_jobs s). \<not> claimable now j"
  | (some) s' j where "claim env cfg w now s = (s', Inr (Some j))"
      "one_updated (claimable now) (claim_job cfg w now) (db_jobs s) (db_jobs s') j"
proof -
  obtain js r where u: "drv_updateOne (e_jobs env) (claimable now) (claim_job cfg w now) (db_jobs s) = Inr (js, r)"
    by (rule jobs.updateOne_total)
  then have c: "claim env cfg w now s = (db_jobs_update (\<lambda>_. js) s, Inr r)"
    by (simp add: claim_def tell_def)
  show ?thesis
  proof (cases r)
    case None
    with u have "js = db_jobs s \<and> (\<forall>j \<in> set (db_jobs s). \<not> claimable now j)"
      using jobs.updateOne_None by blast
    with c None none show ?thesis by simp
  next
    case (Some j)
    with u c some show ?thesis using jobs.updateOne_Some by fastforce
  qed
qed

text \<open>Reading and saving a stored job by its identifier.\<close>

lemma job_found:
  assumes "distinct (map j_id (db_jobs s))" "j \<in> set (db_jobs s)"
  shows "drv_findOne (e_jobs env) (\<lambda>k. j_id k = j_id j \<and> j_workspaceId k = j_workspaceId j) (db_jobs s) = Inr (Some j)"
proof -
  obtain d where "drv_findOne (e_jobs env) (\<lambda>k. j_id k = j_id j \<and> j_workspaceId k = j_workspaceId j)
      (db_jobs s) = Inr (Some d)" "d \<in> set (db_jobs s)" "j_id d = j_id j"
    using jobs.findOne_finds [of j "db_jobs s" "\<lambda>k. j_id k = j_id j \<and> j_workspaceId k = j_workspaceId j"]
      assms(2) by blast
  with assms show ?thesis by (metis distinct_key_unique)
qed

lemma job_hidden:
  assumes "distinct (map j_id (db_jobs s))" "j \<in> set (db_jobs s)" "j_workspaceId j \<noteq> w"
  shows "drv_findOne (e_jobs env) (\<lambda>k. j_id k = j_id j \<and> j_workspaceId k = w) (db_jobs s) = Inr None"
proof -
  obtain r where r: "drv_findOne (e_jobs env) (\<lambda>k. j_id k = j_id j \<and> j_workspaceId k = w) (db_jobs s) = Inr r"
    by (rule jobs.findOne_total)
  show ?thesis
  proof (cases r)
    case (Some d)
    with r have "d \<in> set (db_jobs s) \<and> j_id d = j_id j \<and> j_workspaceId d = w"
      using jobs.findOne_Some by blast
    with assms show ?thesis by (metis distinct_key_unique)
  qed (use r in simp)
qed

lemma job_saved:
  assumes "distinct (map j_id (db_jobs s))" "j \<in> set (db_jobs s)"
  obtains s' where "tell db_jobs db_jobs_update (drv_updateOne (e_jobs env) (\<lambda>k. j_id k = j_id j) f) s =
      (s', Inr (Some (f j)))" "db_jobs s' = map (\<lambda>k. if j_id k = j_id j then f j else k) (db_jobs s)"
    "db_audit s' = db_audit s"
proof -
  obtain js r where u: "drv_updateOne (e_jobs env) (\<lambda>k. j_id k = j_id j) f (db_jobs s) = Inr (js, r)"
    by (rule jobs.updateOne_total)
  from jobs.updateOne_by_key [OF u assms(1)] assms
  have "r = Some (f j) \<and> js = map (\<lambda>k. if j_id k = j_id j then f k else k) (db_jobs s)"
    by (auto split: option.splits dest: distinct_key_unique [of j_id])
  moreover have "map (\<lambda>k. if j_id k = j_id j then f k else k) (db_jobs s) =
      map (\<lambda>k. if j_id k = j_id j then f j else k) (db_jobs s)"
    using assms distinct_key_unique [of j_id "db_jobs s" _ j] by auto
  ultimately show ?thesis using that [of "db_jobs_update (\<lambda>_. js) s"] u by (simp add: tell_def)
qed

lemma fail_answers:
  assumes "distinct (map j_id (db_jobs s))" "j \<in> set (db_jobs s)"
  obtains s' where "fail env cfg (j_id j) err now rnd s = (s', Inr (Some (fail_update cfg err now rnd j j)))"
    "db_jobs s' = map (\<lambda>k. if j_id k = j_id j then fail_update cfg err now rnd j j else k) (db_jobs s)"
proof -
  obtain d where "drv_findOne (e_jobs env) (\<lambda>k. j_id k = j_id j) (db_jobs s) = Inr (Some d)"
    "d \<in> set (db_jobs s)" "j_id d = j_id j"
    using jobs.findOne_finds [of j "db_jobs s" "\<lambda>k. j_id k = j_id j"] assms(2) by blast
  with assms have f: "drv_findOne (e_jobs env) (\<lambda>k. j_id k = j_id j) (db_jobs s) = Inr (Some j)"
    by (metis distinct_key_unique)
  obtain s' where "tell db_jobs db_jobs_update (drv_updateOne (e_jobs env) (\<lambda>k. j_id k = j_id j)
        (fail_update cfg err now rnd j)) s = (s', Inr (Some (fail_update cfg err now rnd j j)))"
    "db_jobs s' = map (\<lambda>k. if j_id k = j_id j then fail_update cfg err now rnd j j else k) (db_jobs s)"
    using job_saved [OF assms, of "fail_update cfg err now rnd j"] by blast
  with f that show ?thesis by (simp add: fail_def bind_io_def ask_def)
qed

text \<open>One job in the collection: the answers are determined.\<close>

lemma single_updateOne:
  assumes "p d" "drv_updateOne (e_jobs env) p f [d] = Inr (ds, r)"
  shows "ds = [f d] \<and> r = Some (f d)"
proof (cases r)
  case None
  with assms jobs.updateOne_None show ?thesis by fastforce
next
  case (Some e)
  with assms(2) have "one_updated p f [d] ds e" by (simp add: jobs.updateOne_Some)
  with Some show ?thesis by (auto simp: Cons_eq_append_conv elim!: one_updatedE)
qed

lemma single_claim:
  assumes "db_jobs s = [j]" "claimable now j"
  shows "db_jobs (job_step env cfg s (EvClaim w now)) = [claim_job cfg w now j]"
proof -
  obtain ds r where "drv_updateOne (e_jobs env) (claimable now) (claim_job cfg w now) [j] = Inr (ds, r)"
    by (rule jobs.updateOne_total)
  with single_updateOne [of "claimable now", OF assms(2) this] show ?thesis
    by (simp add: claim_def tell_def assms(1))
qed

lemma single_fail:
  assumes "db_jobs s = [j]"
  shows "db_jobs (job_step env cfg s (EvFail (j_id j) e now rnd)) = [fail_update cfg e now rnd j j]"
proof -
  have "distinct (map j_id (db_jobs s))" "j \<in> set (db_jobs s)" by (simp_all add: assms)
  then obtain s' where "fail env cfg (j_id j) e now rnd s = (s', Inr (Some (fail_update cfg e now rnd j j)))"
    "db_jobs s' = map (\<lambda>k. if j_id k = j_id j then fail_update cfg e now rnd j j else k) (db_jobs s)"
    by (rule fail_answers)
  then show ?thesis by (simp add: assms)
qed

end


text \<open>
  C22. A worker that asks for work gets some whenever there is any: the claim answers nothing exactly
  when no job is pending or waiting with its time reached and no live lease, and then nothing
  changes; otherwise exactly one such job is now running, leased to this worker until
  \<^verbatim>\<open>now + leaseMs\<close>, with one more attempt, and every other job is as before.
\<close>

theorem claim_progress:
  assumes "reliable_store env"
  shows "case claim env cfg w now s of
      (s', Inl e) \<Rightarrow> False
    | (s', Inr None) \<Rightarrow> s' = s \<and> filter (claimable now) (db_jobs s) = []
    | (s', Inr (Some j)) \<Rightarrow> \<exists>xs d ys. db_jobs s = xs @ d # ys \<and> claimable now d \<and>
        db_jobs s' = xs @ j # ys \<and> j_id j = j_id d \<and> j_status j = Running \<and> j_claimedBy j = Some w \<and>
        j_leaseUntil j = Some (now + qc_leaseMs cfg) \<and> j_attempts j = j_attempts d + 1"
  using assms
proof (cases rule: reliable_store.claim_answers [of env cfg w now s, consumes 1, case_names none some])
  case none
  then show ?thesis by (simp add: filter_empty_conv)
next
  case (some s' j)
  then show ?thesis by (fastforce simp: claim_job_def one_updated_def)
qed

theorem claim_progress_witness:
  "snd (claim mem_env demo_cfg ''w1'' 5 demo_db) = Inr (Some (claim_job demo_cfg ''w1'' 5 demo_job))
    \<and> (\<exists>xs d ys. db_jobs demo_db = xs @ d # ys \<and> claimable 5 d)"
  using claim_progress [OF mem_store.reliable_store_axioms,
      where s = demo_db and w = "''w1''" and now = 5 and cfg = demo_cfg]
  by (auto simp: demo_claim)

text \<open>
  C23. A reported failure has the documented outcome: with attempts left and a retryable error the
  job waits, and may run again after a delay between nothing and 1.2 times the configured maximum;
  otherwise it is dead-lettered at once. The error is recorded, the lease released, and no other job
  changes.
\<close>

theorem fail_outcome:
  assumes "reliable_store env" "distinct (map j_id (db_jobs s))" "j \<in> set (db_jobs s)"
    and "0 \<le> qc_backoffBaseMs cfg" "0 \<le> qc_backoffMaxMs cfg" "0 \<le> rnd" "rnd < 1"
  shows "\<exists>s' k. fail env cfg (j_id j) err now rnd s = (s', Inr (Some k)) \<and>
    db_jobs s' = map (\<lambda>d. if j_id d = j_id j then k else d) (db_jobs s) \<and>
    j_lastError k = Some err \<and> j_leaseUntil k = None \<and> j_attempts k = j_attempts j \<and>
    (if j_attempts j < j_maxAttempts j \<and> fl_retryable err
     then j_status k = RetryWait \<and> j_completedAt k = j_completedAt j \<and>
          now \<le> j_nextRunAt k \<and> j_nextRunAt k \<le> now + js_round (qc_backoffMaxMs cfg * (6 / 5))
     else j_status k = DeadLettered \<and> j_completedAt k = Some now)"
proof -
  obtain s' where f: "fail env cfg (j_id j) err now rnd s = (s', Inr (Some (fail_update cfg err now rnd j j)))"
    "db_jobs s' = map (\<lambda>k. if j_id k = j_id j then fail_update cfg err now rnd j j else k) (db_jobs s)"
    by (rule reliable_store.fail_answers [OF assms(1-3)])
  show ?thesis
    by (rule exI [of _ s'], rule exI [of _ "fail_update cfg err now rnd j j"])
      (use f default_backoff_range [OF assms(4-7)] in
        \<open>simp add: fail_update_def retry_wait_job_def dead_letter_job_def not_less\<close>)
qed

theorem fail_outcome_witness:
  "\<exists>s' k. fail mem_env demo_cfg (j_id (claim_job demo_cfg ''w1'' 5 demo_job)) demo_failure 20 (1/2)
      (db_jobs_update (\<lambda>_. [claim_job demo_cfg ''w1'' 5 demo_job]) demo_db) = (s', Inr (Some k)) \<and>
    j_status k = RetryWait \<and> 20 \<le> j_nextRunAt k \<and> j_nextRunAt k \<le> 260"
proof -
  let ?j = "claim_job demo_cfg ''w1'' 5 demo_job"
  have "j_attempts ?j < j_maxAttempts ?j" "fl_retryable demo_failure"
    by (simp_all add: claim_job_def demo_job_def new_job_def demo_failure_def)
  moreover have "0 \<le> qc_backoffBaseMs demo_cfg" "0 \<le> qc_backoffMaxMs demo_cfg"
    "js_round (qc_backoffMaxMs demo_cfg * (6 / 5)) = 240"
    using js_round_of_int [of 240] by (simp_all add: demo_cfg_def)
  ultimately show ?thesis
    using fail_outcome [OF mem_store.reliable_store_axioms,
        where s = "db_jobs_update (\<lambda>_. [?j]) demo_db" and j = ?j and cfg = demo_cfg and rnd = "1/2"
          and err = demo_failure and now = 20]
    by fastforce
qed


text \<open>
  Recovery returns every abandoned job and nothing else: exactly the running jobs whose lease has
  expired become claimable at once, without owner; the others are as before; the answer is
  their number; and no job is left running with an expired lease.
\<close>

theorem recovery_is_exact:
  assumes "store env" "recoverAbandoned env now s = (s', Inr n)"
  shows "db_jobs s' = map (\<lambda>j. if abandoned now j then recover_job now j else j) (db_jobs s)
    \<and> n = length (filter (abandoned now) (db_jobs s))
    \<and> (\<forall>j \<in> set (db_jobs s). abandoned now j \<longrightarrow>
         claimable now (recover_job now j) \<and> j_claimedBy (recover_job now j) = None
         \<and> j_attempts (recover_job now j) = j_attempts j)
    \<and> (\<forall>j \<in> set (db_jobs s'). \<not> abandoned now j)"
  using store.recover_Inr [OF assms]
  by (auto simp: recover_job_def claimable_def abandoned_def)

theorem recovery_is_exact_witness:
  "filter (abandoned 99) [recover_job 99 (claim_job demo_cfg ''w1'' 5 demo_job)] = []
    \<and> claimable 99 (recover_job 99 (claim_job demo_cfg ''w1'' 5 demo_job))"
proof -
  let ?s = "db_jobs_update (\<lambda>_. [claim_job demo_cfg ''w1'' 5 demo_job]) demo_db"
  have a: "abandoned 99 (claim_job demo_cfg ''w1'' 5 demo_job)"
    by (simp add: abandoned_def claim_job_def demo_cfg_def)
  obtain s' n where r: "recoverAbandoned mem_env 99 ?s = (s', Inr n)"
    by (simp add: recoverAbandoned_def tell_def)
  from recovery_is_exact [OF mem_store.store_axioms r] a show ?thesis by auto
qed


section \<open>A job that keeps failing\<close>

text \<open>A worker claims the only job when its time comes and reports a failure, \<open>n\<close> times.\<close>

fun failing_worker ::
  "env \<Rightarrow> queue_config \<Rightarrow> string \<Rightarrow> failure \<Rightarrow> (nat \<Rightarrow> rat) \<Rightarrow> nat \<Rightarrow> db \<Rightarrow> db" where
  "failing_worker env cfg w err rnd 0 s = s"
| "failing_worker env cfg w err rnd (Suc n) s =
     (case db_jobs s of
        [] \<Rightarrow> s
      | j # _ \<Rightarrow>
          let s1 = job_step env cfg s (EvClaim w (j_nextRunAt j))
          in failing_worker env cfg w err rnd n
               (job_step env cfg s1 (EvFail (j_id j) err (j_nextRunAt j) (rnd n))))"

lemma failing_worker_step:
  assumes "reliable_store env" "db_jobs s = [j]" "claimable (j_nextRunAt j) j"
  shows "\<exists>s'. failing_worker env cfg w err rnd (Suc n) s = failing_worker env cfg w err rnd n s' \<and>
    db_jobs s' = [let c = claim_job cfg w (j_nextRunAt j) j in fail_update cfg err (j_nextRunAt j) (rnd n) c c]"
proof -
  let ?c = "claim_job cfg w (j_nextRunAt j) j"
  have "db_jobs (job_step env cfg s (EvClaim w (j_nextRunAt j))) = [?c]"
    using assms by (rule reliable_store.single_claim)
  from reliable_store.single_fail [OF assms(1) this, of cfg err "j_nextRunAt j" "rnd n"]
  show ?thesis
    by (intro exI conjI) (simp_all add: assms(2) Let_def doc_simps del: job_step.simps)
qed

lemma failing_worker_result:
  assumes "reliable_store env" "fl_retryable err" "db_jobs s = [j]" "claimable (j_nextRunAt j) j"
    and "j_attempts j + int (Suc n) \<le> j_maxAttempts j"
  shows "\<exists>j'. db_jobs (failing_worker env cfg w err rnd (Suc n) s) = [j'] \<and>
    j_attempts j' = j_attempts j + int (Suc n) \<and> j_maxAttempts j' = j_maxAttempts j \<and>
    j_lastError j' = Some err \<and> j_leaseUntil j' = None \<and>
    (if j_attempts j + int (Suc n) < j_maxAttempts j
     then j_status j' = RetryWait else j_status j' = DeadLettered)"
  using assms(3-5)
proof (induction n arbitrary: s j)
  case 0
  obtain s' where "failing_worker env cfg w err rnd (Suc 0) s = failing_worker env cfg w err rnd 0 s'"
    "db_jobs s' = [let c = claim_job cfg w (j_nextRunAt j) j in fail_update cfg err (j_nextRunAt j) (rnd 0) c c]"
    using failing_worker_step [OF assms(1) 0(1,2)] by blast
  with 0(3) assms(2) show ?case
    by (simp add: Let_def fail_update_def job_updates del: failing_worker.simps(2))
next
  case (Suc n)
  let ?c = "claim_job cfg w (j_nextRunAt j) j"
  let ?f = "fail_update cfg err (j_nextRunAt j) (rnd (Suc n)) ?c ?c"
  obtain s' where s': "failing_worker env cfg w err rnd (Suc (Suc n)) s = failing_worker env cfg w err rnd (Suc n) s'"
    "db_jobs s' = [?f]"
    using failing_worker_step [OF assms(1) Suc.prems(1,2), of cfg w err rnd "Suc n"]
    unfolding Let_def by blast
  have f: "j_attempts ?f = j_attempts j + 1" "j_maxAttempts ?f = j_maxAttempts j"
    "claimable (j_nextRunAt ?f) ?f"
    using Suc.prems(3) assms(2) by (simp_all add: fail_update_def job_updates claimable_def)
  with Suc.prems(3) have "j_attempts ?f + int (Suc n) \<le> j_maxAttempts ?f" by simp
  moreover have "j_attempts j + 1 + int (Suc n) = j_attempts j + int (Suc (Suc n))" by simp
  ultimately show ?case
    using Suc.IH [OF s'(2) f(3)] unfolding s'(1) f(1,2) by metis
qed




section \<open>Creating and retrying\<close>

interpretation any: job_invariant cfg "{}" "\<lambda>_. True" "\<lambda>_. True" for cfg
  by unfold_locales simp_all

interpretation keyed: job_invariant cfg "{i}" "\<lambda>_. True" "\<lambda>j. j_id j = i \<longrightarrow> same_key w k j" for cfg i w k
  by unfold_locales (auto simp: same_key_def doc_simps)

lemma created_keyed:
  assumes "store env" "job_keys_distinct s" "create_job env svc clk w a c inp s = (s1, Inr (j, r))"
  shows "jobs_inv {j_id j} (\<lambda>d. j_id d = j_id j \<longrightarrow> same_key w (ji_idempotencyKey inp) d) s1"
proof -
  have "jobs_inv {} (\<lambda>_. True) (job_step env cfg s (EvCreate svc clk w a c inp))" for cfg
    using assms(1,2) by (intro any.step_keeps) (simp_all add: jobs_inv_def)
  then have inv: "jobs_inv {} (\<lambda>_. True) s1" using assms(3) by simp
  have "j \<in> set (db_jobs s1) \<and> same_key w (ji_idempotencyKey inp) j"
    using assms(1,3)
  proof (cases rule: create_run_cases)
    case (created d)
    then have "j = d" by simp
    moreover have "same_key w (ji_idempotencyKey inp) d"
      by (subst created(2)) (simp add: same_key_def doc_simps)
    ultimately show ?thesis using created(1) by simp
  qed auto
  with inv show ?thesis
    using distinct_key_unique [of j_id "db_jobs s1"] by (auto simp: jobs_inv_def job_keys_distinct_def)
qed




text \<open>
  C24. A retry request does what it says for a dead-lettered (or failed) job of the caller's
  workspace: the job is pending again with no attempts, no error and its time reached, and the
  request is audited. It refuses a job of another workspace as not found and a job in any other status
  with a conflict, changing nothing.
\<close>

theorem retry_outcome:
  assumes "reliable_store env" "distinct (map j_id (db_jobs s))" "j \<in> set (db_jobs s)"
  shows "if j_workspaceId j \<noteq> w
         then retry_job env clk w (j_id j) a c s = (s, Inl (AppErr (NotFoundError ''Job not found'')))
         else if j_status j \<notin> {Failed, DeadLettered}
         then retry_job env clk w (j_id j) a c s = (s, Inl (AppErr (ConflictError
                (''Job cannot be retried from status '' @ job_status_str (j_status j)) None)))
         else \<exists>s' k ev. retry_job env clk w (j_id j) a c s = (s', Inr k) \<and>
                db_jobs s' = map (\<lambda>d. if j_id d = j_id j then k else d) (db_jobs s) \<and>
                j_status k = Pending \<and> j_attempts k = 0 \<and> j_lastError k = None \<and> claimable (clk 0) k \<and>
                db_audit s' = db_audit s @ [ev] \<and> au_action ev = ''jobs.retry'' \<and> au_actorId ev = a"
proof (cases "j_workspaceId j = w")
  case False
  have "drv_findOne (e_jobs env) (\<lambda>k. j_id k = j_id j \<and> j_workspaceId k = w) (db_jobs s) = Inr None"
    by (rule reliable_store.job_hidden [OF assms False])
  with False show ?thesis by (simp add: retry_job_def bind_io_def ask_def)
next
  case True
  then have f: "drv_findOne (e_jobs env) (\<lambda>k. j_id k = j_id j \<and> j_workspaceId k = w) (db_jobs s) = Inr (Some j)"
    using reliable_store.job_found [OF assms] by simp
  obtain s1 where u: "tell db_jobs db_jobs_update (drv_updateOne (e_jobs env) (\<lambda>k. j_id k = j_id j)
        (reset_job (clk 0))) s = (s1, Inr (Some (reset_job (clk 0) j)))"
    "db_jobs s1 = map (\<lambda>k. if j_id k = j_id j then reset_job (clk 0) j else k) (db_jobs s)"
    "db_audit s1 = db_audit s"
    by (rule reliable_store.job_saved [OF assms])
  obtain ev where "record_audit env (clk 1) w a ''jobs.retry'' ''DiagnosticJob'' (Some (j_id j)) c None s1 =
      (db_audit_update (\<lambda>_. db_audit s1 @ [ev]) s1, Inr ev)" "au_action ev = ''jobs.retry''" "au_actorId ev = a"
    by (rule reliable_store.record_audit_answers [OF assms(1)])
  with True f u show ?thesis
    by (auto simp: retry_job_def bind_io_def ask_def reset_job_def claimable_def)
qed


theorem retry_outcome_witness:
  "\<exists>s' k ev. retry_job mem_env (\<lambda>_. 9) ''ws1'' ''0'' ''u1'' ''c9''
      (db_jobs_update (\<lambda>_. [dead_letter_job demo_failure 8 demo_job]) demo_db) = (s', Inr k) \<and>
    db_jobs s' = [k] \<and> j_status k = Pending \<and> db_audit s' = db_audit demo_db @ [ev]"
proof -
  let ?j = "dead_letter_job demo_failure 8 demo_job"
  have "j_id ?j = ''0''" "j_workspaceId ?j = ''ws1''" "j_status ?j = DeadLettered"
    by (simp_all add: doc_simps demo_job_def) (simp add: dead_letter_job_def)
  then show ?thesis
    using retry_outcome [OF mem_store.reliable_store_axioms, where j = ?j and w = "''ws1''"
        and s = "db_jobs_update (\<lambda>_. [?j]) demo_db" and clk = "\<lambda>_. 9" and a = "''u1''" and c = "''c9''"]
    by simp metis
qed

end
