(* ===== verification/Job_Processor.thy ===== *)
theory Job_Processor
  imports Job_Queue Diagnostics_Client "HOL-Library.Sublist"
begin

text \<open>
  \<^verbatim>\<open>apps/worker/src/processor.ts\<close>: claiming a job, running its analysis, storing what was found and
  reporting the outcome to the queue. The state is the worker's circuit breaker and the database.
  \<open>pace\<close> says how far the run has come when \<^verbatim>\<open>withTimeout\<close> settles, \<open>beats\<close> the clock readings of the
  heartbeat timer; a heartbeat that throws is an unhandled rejection, which ends the process before
  anything is reported. \<open>err_text\<close> gives the name and message of the driver's errors.
\<close>

type_synonym 'a work = "(breaker \<times> db, thrown, 'a) io"

definition on_db :: "'a call \<Rightarrow> 'a work" where
  "on_db m = (\<lambda>(b, s). case m s of (s', r) \<Rightarrow> ((b, s'), r))"

section \<open>Storing the findings\<close>

definition matches_finding :: "string \<Rightarrow> string \<Rightarrow> diag_finding \<Rightarrow> finding \<Rightarrow> bool" where
  "matches_finding workspaceId jobId x f \<longleftrightarrow>
     f_workspaceId f = workspaceId \<and> f_jobId f = jobId \<and>
     f_resourceId f = df_resourceId x \<and> f_ruleId f = df_ruleId x"

definition set_finding :: "string \<Rightarrow> diag_finding \<Rightarrow> finding \<Rightarrow> finding" where
  "set_finding correlationId x f =
     f\<lparr>f_severity := df_severity x, f_title := df_title x, f_description := df_description x,
       f_evidence := df_evidence x, f_correlationId := correlationId\<rparr>"

definition new_finding ::
  "string \<Rightarrow> string \<Rightarrow> string \<Rightarrow> int \<Rightarrow> diag_finding \<Rightarrow> oid \<Rightarrow> finding" where
  "new_finding workspaceId jobId correlationId now x i =
     \<lparr> f_id = i, f_workspaceId = workspaceId, f_jobId = jobId, f_resourceId = df_resourceId x,
       f_ruleId = df_ruleId x, f_severity = df_severity x, f_title = df_title x,
       f_description = df_description x, f_evidence = df_evidence x,
       f_correlationId = correlationId, f_createdAt = now \<rparr>"

definition matches_recommendation :: "string \<Rightarrow> oid \<Rightarrow> recommendation \<Rightarrow> bool" where
  "matches_recommendation workspaceId findingId r \<longleftrightarrow>
     rec_workspaceId r = workspaceId \<and> rec_findingId r = findingId"

definition set_recommendation ::
  "string \<Rightarrow> string \<Rightarrow> diag_finding \<Rightarrow> recommendation \<Rightarrow> recommendation" where
  "set_recommendation jobId correlationId x r =
     r\<lparr>rec_jobId := jobId, rec_resourceId := df_resourceId x, rec_actionType := df_actionType x,
       rec_explanation := df_explanation x, rec_estimatedImpact := df_estimatedImpact x,
       rec_confidence := df_confidence x, rec_correlationId := correlationId\<rparr>"

definition new_recommendation ::
  "string \<Rightarrow> string \<Rightarrow> string \<Rightarrow> int \<Rightarrow> diag_finding \<Rightarrow> oid \<Rightarrow> oid \<Rightarrow> recommendation" where
  "new_recommendation workspaceId jobId correlationId now x findingId i =
     \<lparr> rec_id = i, rec_workspaceId = workspaceId, rec_jobId = jobId, rec_findingId = findingId,
       rec_resourceId = df_resourceId x, rec_actionType = df_actionType x,
       rec_explanation = df_explanation x, rec_estimatedImpact = df_estimatedImpact x,
       rec_confidence = df_confidence x, rec_correlationId = correlationId, rec_createdAt = now \<rparr>"

definition new_health_check :: "string \<Rightarrow> int \<Rightarrow> diag_finding \<Rightarrow> oid \<Rightarrow> health_check" where
  "new_health_check workspaceId now x i =
     \<lparr> h_id = i, h_workspaceId = workspaceId, h_resourceId = df_resourceId x,
       h_status = (if df_severity x = ''critical'' \<or> df_severity x = ''high'' then Unhealthy else Degraded),
       h_checks = [(df_ruleId x, False, df_title x)], h_observedAt = now \<rparr>"

text \<open>The loop body; its variables are the two counters. The clock is read once for each document.\<close>

definition store_finding ::
  "env \<Rightarrow> (nat \<Rightarrow> int) \<Rightarrow> string \<Rightarrow> string \<Rightarrow> string \<Rightarrow> nat \<times> nat \<Rightarrow> diag_finding \<Rightarrow> (nat \<times> nat) call" where
  "store_finding env clk workspaceId jobId correlationId = (\<lambda>(findingsCreated, recommendationsCreated) x.
     bind_io (tell db_findings db_findings_update (drv_upsert (e_findings env)
       (matches_finding workspaceId jobId x) (set_finding correlationId x)
       (new_finding workspaceId jobId correlationId (clk (3 * findingsCreated)) x))) (\<lambda>stored.
     bind_io (tell db_recommendations db_recommendations_update (drv_upsert (e_recommendations env)
       (matches_recommendation workspaceId (f_id stored)) (set_recommendation jobId correlationId x)
       (new_recommendation workspaceId jobId correlationId (clk (3 * findingsCreated + 1)) x
          (f_id stored)))) (\<lambda>_.
     bind_io (tell db_healthChecks db_healthChecks_update (drv_create (e_healthChecks env)
       (new_health_check workspaceId (clk (3 * findingsCreated + 2)) x))) (\<lambda>_.
     ret (findingsCreated + 1, recommendationsCreated + 1)))))"

definition store_findings ::
  "env \<Rightarrow> (nat \<Rightarrow> int) \<Rightarrow> string \<Rightarrow> string \<Rightarrow> string \<Rightarrow> diag_result \<Rightarrow> (nat \<times> nat) call" where
  "store_findings env clk workspaceId jobId correlationId findings =
     for_io (store_finding env clk workspaceId jobId correlationId) (0, 0) findings"


section \<open>Running a job\<close>

text \<open>A list restricts the resources only when it is given and not empty.\<close>

definition selected :: "string list option \<Rightarrow> string \<Rightarrow> bool" where
  "selected wanted v \<longleftrightarrow> (case wanted of None \<Rightarrow> True | Some [] \<Rightarrow> True | Some vs \<Rightarrow> v \<in> set vs)"

definition in_scope :: "job \<Rightarrow> cloud_resource \<Rightarrow> bool" where
  "in_scope j r \<longleftrightarrow> r_workspaceId r = j_workspaceId j \<and> selected (j_resourceIds j) (r_id r) \<and>
     selected (j_resourceTypes j) (resource_type_str (r_type r))"

definition diag_payload :: "cloud_resource \<Rightarrow> diag_resource" where
  "diag_payload r =
     \<lparr> dq_id = r_id r, dq_type = r_type r, dq_region = r_region r, dq_name = r_name r,
       dq_tags = r_tags r, dq_config = r_config r, dq_metrics = r_metrics r \<rparr>"

definition job_request :: "job \<Rightarrow> cloud_resource list \<Rightarrow> diag_request" where
  "job_request j resources =
     \<lparr> dr_workspaceId = j_workspaceId j, dr_correlationId = j_correlationId j,
       dr_resources = map diag_payload resources \<rparr>"

record worker =
  wk_id :: string
  wk_env :: env
  wk_queue :: queue_config
  wk_client :: diag_client
  wk_fetch :: fetch_post
  wk_clock :: "nat \<Rightarrow> int"
  wk_err_text :: "db_error \<Rightarrow> string \<times> string"

definition run_job :: "worker \<Rightarrow> int \<Rightarrow> int \<Rightarrow> job \<Rightarrow> summary work" where
  "run_job wk now later j =
     bind_io (on_db (ask db_resources (drv_find (e_resources (wk_env wk)) (in_scope j)))) (\<lambda>resources.
     bind_io (analyze (wk_client wk) (wk_fetch wk) now later (job_request j resources)) (\<lambda>findings.
     bind_io (on_db (store_findings (wk_env wk) (wk_clock wk) (j_workspaceId j) (j_id j)
                       (j_correlationId j) findings)) (\<lambda>(findingsCreated, recommendationsCreated).
     ret \<lparr> sm_resourcesScanned = length resources, sm_findingsCreated = findingsCreated,
           sm_recommendationsCreated = recommendationsCreated \<rparr>)))"

text \<open>
  How far the run is when the race against the timer is decided: it settles in time, or the timer
  fires while the resources or the analysis are awaited, or after \<open>n\<close> findings were stored.
\<close>

datatype pace = InTime | LateWaiting | LateStoring nat

definition timed_out :: thrown where
  "timed_out = JsErr ''Error'' ''Job execution timed out''"

definition run_in_time :: "worker \<Rightarrow> pace \<Rightarrow> int \<Rightarrow> int \<Rightarrow> job \<Rightarrow> summary work" where
  "run_in_time wk pace now later j =
     (case pace of
        InTime \<Rightarrow> run_job wk now later j
      | LateWaiting \<Rightarrow> throw timed_out
      | LateStoring n \<Rightarrow>
          bind_io (on_db (ask db_resources (drv_find (e_resources (wk_env wk)) (in_scope j)))) (\<lambda>resources.
          bind_io (analyze (wk_client wk) (wk_fetch wk) now later (job_request j resources)) (\<lambda>findings.
          bind_io (on_db (store_findings (wk_env wk) (wk_clock wk) (j_workspaceId j) (j_id j)
                            (j_correlationId j) (take n findings))) (\<lambda>_.
          throw timed_out))))"


section \<open>Reporting the outcome\<close>

text \<open>\<^verbatim>\<open>message.includes(part)\<close> is \<open>sublist part message\<close>.\<close>

definition job_failure :: "(db_error \<Rightarrow> string \<times> string) \<Rightarrow> thrown \<Rightarrow> int \<Rightarrow> failure" where
  "job_failure err_text err now =
     (case thrown_text err_text err of (name, message) \<Rightarrow>
        \<lparr> fl_code = (if sublist ''timed out'' message then ''TIMEOUT'' else ''PROCESSING_ERROR''),
          fl_message = message, fl_retryable = (\<not> sublist ''not retryable'' message),
          fl_cause = Some name, fl_at = now \<rparr>)"

text \<open>The rest of the \<^verbatim>\<open>try\<close> block and the handler, once the run has settled.\<close>

definition report :: "worker \<Rightarrow> int \<Rightarrow> rat \<Rightarrow> job \<Rightarrow> thrown + summary \<Rightarrow> unit call" where
  "report wk now rnd j outcome =
     catch_io
       (case outcome of
          Inl err \<Rightarrow> throw err
        | Inr result \<Rightarrow> bind_io (complete (wk_env wk) (j_id j) result now) (\<lambda>_. ret ()))
       (\<lambda>err. bind_io (fail (wk_env wk) (wk_queue wk) (j_id j) (job_failure (wk_err_text wk) err now) now rnd)
                (\<lambda>_. ret ()))"

definition settled :: "('s, 'e, 'a) io \<Rightarrow> ('s, 'e, 'e + 'a) io" where
  "settled m = (\<lambda>s. case m s of (s', r) \<Rightarrow> (s', Inr r))"

text \<open>The heartbeats of a run are placed between its end and its report: the run does not touch the queue.\<close>

definition beat :: "worker \<Rightarrow> job \<Rightarrow> unit \<Rightarrow> int \<Rightarrow> unit call" where
  "beat wk j u t = bind_io (heartbeat (wk_env wk) (wk_queue wk) (j_id j) (wk_id wk) t) (\<lambda>_. ret ())"

definition processNext ::
  "worker \<Rightarrow> pace \<Rightarrow> int \<Rightarrow> int \<Rightarrow> int \<Rightarrow> int \<Rightarrow> int list \<Rightarrow> rat \<Rightarrow> bool work" where
  "processNext wk pace claimed sent answered reported beats rnd =
     bind_io (on_db (claim (wk_env wk) (wk_queue wk) (wk_id wk) claimed)) (\<lambda>job.
       case job of
         None \<Rightarrow> ret False
       | Some j \<Rightarrow>
           bind_io (settled (run_in_time wk pace sent answered j)) (\<lambda>outcome.
           bind_io (on_db (for_io (beat wk j) () beats)) (\<lambda>_.
           bind_io (on_db (report wk reported rnd j outcome)) (\<lambda>_.
           ret True))))"

end
