(* ===== verification/Job_Findings.thy ===== *)
theory Job_Findings
  imports Job_Processor
begin

text \<open>
  What the processor stores. \<open>stored\<close> says that a finding of the analysis has its one document, with
  the finding's content, and that document its one recommendation. Storing a list of findings reaches
  that for every element; storing it again, wholly or up to a time-out or a failure, changes neither
  collection. Findings of other jobs are never touched.
\<close>

definition finding_index :: "finding \<Rightarrow> string \<times> string \<times> string \<times> string" where
  "finding_index f = (f_workspaceId f, f_jobId f, f_resourceId f, f_ruleId f)"

definition recommendation_index :: "recommendation \<Rightarrow> string \<times> string" where
  "recommendation_index r = (rec_workspaceId r, rec_findingId r)"

text \<open>The unique indexes hold.\<close>

definition indexed :: "db \<Rightarrow> bool" where
  "indexed s \<longleftrightarrow> distinct (map f_id (db_findings s)) \<and> distinct (map finding_index (db_findings s)) \<and>
     distinct (map recommendation_index (db_recommendations s))"

definition stored :: "string \<Rightarrow> string \<Rightarrow> string \<Rightarrow> db \<Rightarrow> diag_finding \<Rightarrow> bool" where
  "stored w j c s x \<longleftrightarrow> (\<exists>d \<in> set (db_findings s). matches_finding w j x d \<and> set_finding c x d = d \<and>
     (\<exists>r \<in> set (db_recommendations s). matches_recommendation w (f_id d) r \<and> set_recommendation j c x r = r))"

definition diag_key :: "diag_finding \<Rightarrow> string \<times> string" where
  "diag_key x = (df_resourceId x, df_ruleId x)"

definition of_other_jobs :: "string \<Rightarrow> string \<Rightarrow> finding list \<Rightarrow> finding list" where
  "of_other_jobs w j = filter (\<lambda>f. \<not> (f_workspaceId f = w \<and> f_jobId f = j))"

text \<open>The resources and rules of the findings of a job.\<close>

definition job_keys :: "string \<Rightarrow> string \<Rightarrow> db \<Rightarrow> (string \<times> string) set" where
  "job_keys w j s = (\<lambda>f. (f_resourceId f, f_ruleId f)) `
     {f \<in> set (db_findings s). f_workspaceId f = w \<and> f_jobId f = j}"

lemmas finding_doc_defs = matches_finding_def set_finding_def new_finding_def finding_index_def
  matches_recommendation_def set_recommendation_def new_recommendation_def recommendation_index_def

lemma set_finding_simps [simp]:
  "f_id (set_finding c x d) = f_id d" "finding_index (set_finding c x d) = finding_index d"
  "matches_finding w j y (set_finding c x d) = matches_finding w j y d"
  "set_finding c x (set_finding c x d) = set_finding c x d"
  by (simp_all add: finding_doc_defs)

lemma new_finding_simps [simp]:
  "f_id (new_finding w j c now x i) = i" "matches_finding w j x (new_finding w j c now x i)"
  "set_finding c x (new_finding w j c now x i) = new_finding w j c now x i"
  by (simp_all add: finding_doc_defs)

lemma set_recommendation_simps [simp]:
  "rec_id (set_recommendation j c x r) = rec_id r"
  "recommendation_index (set_recommendation j c x r) = recommendation_index r"
  "matches_recommendation w i (set_recommendation j c x r) = matches_recommendation w i r"
  "set_recommendation j c x (set_recommendation j c x r) = set_recommendation j c x r"
  by (simp_all add: finding_doc_defs)

lemma new_recommendation_simps [simp]:
  "rec_id (new_recommendation w j c now x fi i) = i"
  "matches_recommendation w fi (new_recommendation w j c now x fi i)"
  "set_recommendation j c x (new_recommendation w j c now x fi i) = new_recommendation w j c now x fi i"
  by (simp_all add: finding_doc_defs)

lemma matches_same_key: "matches_finding w j x d \<Longrightarrow> matches_finding w j y d \<Longrightarrow> diag_key x = diag_key y"
  by (simp add: matches_finding_def diag_key_def)

lemma matches_unique:
  assumes "distinct (map finding_index fs)" "d \<in> set fs" "e \<in> set fs"
    and "matches_finding w j x d" "matches_finding w j x e"
  shows "d = e"
  using assms(1-3) by (rule distinct_key_unique)
    (use assms(4,5) in \<open>simp add: finding_index_def matches_finding_def\<close>)

lemma matches_recommendation_unique:
  assumes "distinct (map recommendation_index rs)" "d \<in> set rs" "e \<in> set rs"
    and "matches_recommendation w i d" "matches_recommendation w i e"
  shows "d = e"
  using assms(1-3) by (rule distinct_key_unique)
    (use assms(4,5) in \<open>simp add: recommendation_index_def matches_recommendation_def\<close>)

lemma finding_clash_index: "finding_clash d e \<longleftrightarrow> finding_index d = finding_index e"
  by (simp add: finding_clash_def finding_index_def)

lemma recommendation_clash_index:
  "recommendation_clash d e \<longleftrightarrow> recommendation_index d = recommendation_index e"
  by (simp add: recommendation_clash_def recommendation_index_def)


section \<open>One finding\<close>

context store
begin

text \<open>The first call of the loop body.\<close>

lemma upsert_finding_cases:
  assumes "tell db_findings db_findings_update (drv_upsert (e_findings env) (matches_finding w j x)
      (set_finding c x) (new_finding w j c now x)) s = (s', r)" "indexed s"
  obtains (failed) e where "s' = s" "r = Inl e"
  | (there) d fs where "s' = db_findings_update (\<lambda>_. fs) s" "r = Inr d" "d \<in> set fs"
      "matches_finding w j x d" "set_finding c x d = d" "indexed s'"
      "\<And>e. e \<in> set (db_findings s) \<Longrightarrow> \<not> matches_finding w j x e \<Longrightarrow> e \<in> set fs"
      "of_other_jobs w j fs = of_other_jobs w j (db_findings s)"
  using assms(1) new_finding_simps(1)
proof (cases rule: findings.tell_upsert_cases)
  case (updated fs d)
  then obtain xs e ys where o: "db_findings s = xs @ e # ys" "matches_finding w j x e"
    "fs = xs @ set_finding c x e # ys" "d = set_finding c x e" by (auto elim: one_updatedE)
  have "indexed s'"
    using assms(2) updated(1) one_updated_map [OF updated(3), of f_id]
      one_updated_map [OF updated(3), of finding_index] by (simp add: indexed_def)
  moreover have "of_other_jobs w j fs = of_other_jobs w j (db_findings s)"
    using o by (auto simp: of_other_jobs_def matches_finding_def set_finding_def)
  ultimately show ?thesis using updated o there [of fs d] by auto
next
  case (inserted d)
  have "d \<in> set (db_findings s @ [d])" by simp
  moreover have "matches_finding w j x d" "set_finding c x d = d"
    using inserted(4) new_finding_simps(2,3) by metis+
  moreover have "indexed s'"
    using assms(2) inserted(1,5,6) by (auto simp: indexed_def finding_clash_index)
  moreover have "of_other_jobs w j (db_findings s @ [d]) = of_other_jobs w j (db_findings s)"
    using \<open>matches_finding w j x d\<close> by (simp add: of_other_jobs_def matches_finding_def)
  ultimately show ?thesis using inserted there by auto
qed (rule failed)

lemma upsert_recommendation_cases:
  assumes "tell db_recommendations db_recommendations_update (drv_upsert (e_recommendations env)
      (matches_recommendation w i) (set_recommendation j c x) (new_recommendation w j c now x i)) s = (s', r)"
    "indexed s"
  obtains (failed) e where "s' = s" "r = Inl e"
  | (there) d rs where "s' = db_recommendations_update (\<lambda>_. rs) s" "r = Inr d" "d \<in> set rs"
      "matches_recommendation w i d" "set_recommendation j c x d = d" "indexed s'"
      "\<And>e. e \<in> set (db_recommendations s) \<Longrightarrow> \<not> matches_recommendation w i e \<Longrightarrow> e \<in> set rs"
  using assms(1) new_recommendation_simps(1)
proof (cases rule: recommendations.tell_upsert_cases)
  case (updated rs d)
  then obtain xs e ys where o: "db_recommendations s = xs @ e # ys" "matches_recommendation w i e"
    "rs = xs @ set_recommendation j c x e # ys" "d = set_recommendation j c x e" by (auto elim: one_updatedE)
  have "indexed s'"
    using assms(2) updated(1) one_updated_map [OF updated(3), of recommendation_index]
    by (simp add: indexed_def)
  then show ?thesis using updated o there [of rs d] by auto
next
  case (inserted d)
  have "d \<in> set (db_recommendations s @ [d])" by simp
  moreover have "matches_recommendation w i d" "set_recommendation j c x d = d"
    using inserted(4) new_recommendation_simps(2,3) by metis+
  moreover have "indexed s'"
    using assms(2) inserted(1,6) by (auto simp: indexed_def recommendation_clash_index)
  ultimately show ?thesis using inserted there by auto
qed (rule failed)

lemma create_health_check_frame:
  "tell db_healthChecks db_healthChecks_update op s = (s', r) \<Longrightarrow>
    db_findings s' = db_findings s \<and> db_recommendations s' = db_recommendations s"
  by (auto simp: tell_def split: sum.splits)

lemma stored_frame:
  "db_findings s' = db_findings s \<Longrightarrow> db_recommendations s' = db_recommendations s \<Longrightarrow>
    indexed s' = indexed s \<and> stored w j c s' x = stored w j c s x"
  by (simp add: indexed_def stored_def)

lemma store_finding_split:
  assumes "store_finding env clk w j c acc x s = (s', r)"
  obtains (first) e where "tell db_findings db_findings_update (drv_upsert (e_findings env)
       (matches_finding w j x) (set_finding c x)
       (new_finding w j c (clk (3 * fst acc)) x)) s = (s', Inl e)" "r = Inl e"
  | (second) s1 d e where "tell db_findings db_findings_update (drv_upsert (e_findings env)
       (matches_finding w j x) (set_finding c x)
       (new_finding w j c (clk (3 * fst acc)) x)) s = (s1, Inr d)"
      "tell db_recommendations db_recommendations_update (drv_upsert (e_recommendations env)
       (matches_recommendation w (f_id d)) (set_recommendation j c x)
       (new_recommendation w j c (clk (3 * fst acc + 1)) x (f_id d))) s1 = (s', Inl e)" "r = Inl e"
  | (third) s1 d s2 m where "tell db_findings db_findings_update (drv_upsert (e_findings env)
       (matches_finding w j x) (set_finding c x)
       (new_finding w j c (clk (3 * fst acc)) x)) s = (s1, Inr d)"
      "tell db_recommendations db_recommendations_update (drv_upsert (e_recommendations env)
       (matches_recommendation w (f_id d)) (set_recommendation j c x)
       (new_recommendation w j c (clk (3 * fst acc + 1)) x (f_id d))) s1 = (s2, Inr m)"
      "db_findings s' = db_findings s2" "db_recommendations s' = db_recommendations s2"
      "\<And>v. r = Inr v \<Longrightarrow> v = (fst acc + 1, snd acc + 1)"
proof -
  let ?up = "tell db_findings db_findings_update (drv_upsert (e_findings env) (matches_finding w j x)
      (set_finding c x) (new_finding w j c (clk (3 * fst acc)) x)) s"
  let ?ur = "\<lambda>d. tell db_recommendations db_recommendations_update (drv_upsert (e_recommendations env)
       (matches_recommendation w (f_id d)) (set_recommendation j c x)
       (new_recommendation w j c (clk (3 * fst acc + 1)) x (f_id d)))"
  let ?h = "tell db_healthChecks db_healthChecks_update (drv_create (e_healthChecks env)
       (new_health_check w (clk (3 * fst acc + 2)) x))"
  have run: "bind_io (\<lambda>_. ?up) (\<lambda>d. bind_io (?ur d) (\<lambda>_. bind_io ?h (\<lambda>_. ret (fst acc + 1, snd acc + 1)))) s = (s', r)"
    using assms by (simp add: store_finding_def case_prod_beta bind_io_def)
  obtain s1 r1 where u: "?up = (s1, r1)" by fastforce
  show ?thesis
  proof (cases r1)
    case (Inl e)
    with run u first show ?thesis by (simp add: bind_io_def)
  next
    case (Inr d)
    obtain s2 r2 where v: "?ur d s1 = (s2, r2)" by fastforce
    show ?thesis
    proof (cases r2)
      case (Inl e)
      with run u v Inr second show ?thesis by (simp add: bind_io_def)
    next
      case R: (Inr m)
      obtain s3 r3 where h: "?h s2 = (s3, r3)" by fastforce
      from run u v h Inr R have "s' = s3" "\<And>v. r = Inr v \<Longrightarrow> v = (fst acc + 1, snd acc + 1)"
        by (auto simp: bind_io_def split: sum.splits)
      with create_health_check_frame [OF h] u v Inr R third show ?thesis by simp
    qed
  qed
qed

lemma stored_after_finding:
  assumes "indexed s" "stored w j c s y" "diag_key y \<noteq> diag_key x"
    and "s' = db_findings_update (\<lambda>_. fs) s"
    and "\<And>e. e \<in> set (db_findings s) \<Longrightarrow> \<not> matches_finding w j x e \<Longrightarrow> e \<in> set fs"
  shows "stored w j c s' y"
proof -
  obtain e r where e: "e \<in> set (db_findings s)" "matches_finding w j y e" "set_finding c y e = e"
    and r: "r \<in> set (db_recommendations s)" "matches_recommendation w (f_id e) r"
      "set_recommendation j c y r = r"
    using assms(2) by (auto simp: stored_def)
  have "\<not> matches_finding w j x e" using assms(3) e(2) matches_same_key by metis
  with assms(5) e(1) have "e \<in> set fs" by blast
  with e r show ?thesis unfolding stored_def assms(4) by auto
qed

lemma stored_after_recommendation:
  assumes "indexed s" "stored w j c s y" "diag_key y \<noteq> diag_key x"
    and "d \<in> set (db_findings s)" "matches_finding w j x d"
    and "s' = db_recommendations_update (\<lambda>_. rs) s"
    and "\<And>e. e \<in> set (db_recommendations s) \<Longrightarrow> \<not> matches_recommendation w (f_id d) e \<Longrightarrow> e \<in> set rs"
  shows "stored w j c s' y"
proof -
  obtain e r where e: "e \<in> set (db_findings s)" "matches_finding w j y e" "set_finding c y e = e"
    and r: "r \<in> set (db_recommendations s)" "matches_recommendation w (f_id e) r"
      "set_recommendation j c y r = r"
    using assms(2) by (auto simp: stored_def)
  have "e \<noteq> d" using assms(3,5) e(2) matches_same_key by metis
  with assms(1,4) e(1) have "f_id e \<noteq> f_id d"
    by (auto simp: indexed_def dest: distinct_key_unique)
  with r(2) have "\<not> matches_recommendation w (f_id d) r" by (simp add: matches_recommendation_def)
  with assms(6,7) e r show ?thesis by (auto simp: stored_def)
qed

lemma store_finding_step:
  assumes "store_finding env clk w j c acc x s = (s', r)" "indexed s"
  shows "indexed s'" "of_other_jobs w j (db_findings s') = of_other_jobs w j (db_findings s)"
    and "stored w j c s y \<Longrightarrow> diag_key y \<noteq> diag_key x \<Longrightarrow> stored w j c s' y"
    and "r = Inr v \<Longrightarrow> v = (fst acc + 1, snd acc + 1) \<and> stored w j c s' x"
proof -
  have "indexed s' \<and> of_other_jobs w j (db_findings s') = of_other_jobs w j (db_findings s) \<and>
    (stored w j c s y \<and> diag_key y \<noteq> diag_key x \<longrightarrow> stored w j c s' y) \<and>
    (r = Inr v \<longrightarrow> v = (fst acc + 1, snd acc + 1) \<and> stored w j c s' x)"
    using assms(1)
  proof (cases rule: store_finding_split)
    case (first e)
    from first(1) assms(2) have "s' = s" by (cases rule: upsert_finding_cases) simp_all
    with assms(2) first(2) show ?thesis by simp
  next
    case (second s1 d e)
    from second(1) assms(2) obtain fs where f: "s1 = db_findings_update (\<lambda>_. fs) s" "indexed s1"
      "\<And>e. e \<in> set (db_findings s) \<Longrightarrow> \<not> matches_finding w j x e \<Longrightarrow> e \<in> set fs"
      "of_other_jobs w j fs = of_other_jobs w j (db_findings s)"
      by (cases rule: upsert_finding_cases) auto
    from second(2) f(2) have "s' = s1" by (cases rule: upsert_recommendation_cases) simp_all
    with f second(3) stored_after_finding [OF assms(2) _ _ f(1,3)] show ?thesis by auto
  next
    case (third s1 d s2 m)
    from third(1) assms(2) obtain fs where f: "s1 = db_findings_update (\<lambda>_. fs) s" "indexed s1"
      "d \<in> set fs" "matches_finding w j x d" "set_finding c x d = d"
      "\<And>e. e \<in> set (db_findings s) \<Longrightarrow> \<not> matches_finding w j x e \<Longrightarrow> e \<in> set fs"
      "of_other_jobs w j fs = of_other_jobs w j (db_findings s)"
      by (cases rule: upsert_finding_cases) auto
    from third(2) f(2) obtain rs where g: "s2 = db_recommendations_update (\<lambda>_. rs) s1" "indexed s2"
      "m \<in> set rs" "matches_recommendation w (f_id d) m" "set_recommendation j c x m = m"
      "\<And>e. e \<in> set (db_recommendations s1) \<Longrightarrow> \<not> matches_recommendation w (f_id d) e \<Longrightarrow> e \<in> set rs"
      by (cases rule: upsert_recommendation_cases) auto
    have d: "d \<in> set (db_findings s1)" using f(1,3) by simp
    have new: "stored w j c s2 x" using f g by (auto simp: stored_def)
    have old: "stored w j c s2 y" if "stored w j c s y" "diag_key y \<noteq> diag_key x"
      using stored_after_recommendation [OF f(2) stored_after_finding [OF assms(2) that f(1,6)] that(2) d f(4) g(1,6)] .
    show ?thesis
      using f g new old third(3-5) stored_frame [OF third(3,4)] by auto
  qed
  then show "indexed s'" "of_other_jobs w j (db_findings s') = of_other_jobs w j (db_findings s)"
    "stored w j c s y \<Longrightarrow> diag_key y \<noteq> diag_key x \<Longrightarrow> stored w j c s' y"
    "r = Inr v \<Longrightarrow> v = (fst acc + 1, snd acc + 1) \<and> stored w j c s' x" by blast+
qed

text \<open>A finding that is stored already is stored again without any change.\<close>

lemma store_finding_again:
  assumes "store_finding env clk w j c acc x s = (s', r)" "indexed s" "stored w j c s x"
  shows "db_findings s' = db_findings s" "db_recommendations s' = db_recommendations s"
proof -
  obtain d m where d: "d \<in> set (db_findings s)" "matches_finding w j x d" "set_finding c x d = d"
    and m: "m \<in> set (db_recommendations s)" "matches_recommendation w (f_id d) m"
      "set_recommendation j c x m = m"
    using assms(3) by (auto simp: stored_def)
  have one: "s1 = s \<and> (\<forall>d'. r1 = Inr d' \<longrightarrow> d' = d)"
    if "tell db_findings db_findings_update (drv_upsert (e_findings env) (matches_finding w j x)
      (set_finding c x) (new_finding w j c now x)) s = (s1, r1)" for s1 r1 now
    using that new_finding_simps(1)
  proof (cases rule: findings.tell_upsert_cases)
    case (updated fs d')
    have "set_finding c x e = e" if "e \<in> set (db_findings s)" "matches_finding w j x e" for e
      using assms(2) d that matches_unique [of "db_findings s" d e] by (auto simp: indexed_def)
    from one_updated_same [OF updated(3) this] updated(1,2) d assms(2)
      matches_unique [of "db_findings s" d' d] show ?thesis by (auto simp: indexed_def)
  next
    case (inserted e)
    with d show ?thesis by blast
  qed simp
  have two: "s1 = s"
    if "tell db_recommendations db_recommendations_update (drv_upsert (e_recommendations env)
       (matches_recommendation w (f_id d)) (set_recommendation j c x)
       (new_recommendation w j c now x (f_id d))) s = (s1, r1)" for s1 r1 now
    using that new_recommendation_simps(1)
  proof (cases rule: recommendations.tell_upsert_cases)
    case (updated rs m')
    have "set_recommendation j c x e = e"
      if "e \<in> set (db_recommendations s)" "matches_recommendation w (f_id d) e" for e
      using assms(2) m that matches_recommendation_unique [of "db_recommendations s" m e]
      by (auto simp: indexed_def)
    from one_updated_same [OF updated(3) this] updated(1) show ?thesis by simp
  next
    case (inserted e)
    with m show ?thesis by blast
  qed simp
  have "db_findings s' = db_findings s \<and> db_recommendations s' = db_recommendations s"
    using assms(1)
  proof (cases rule: store_finding_split)
    case (first e)
    with one show ?thesis by blast
  next
    case (second s1 d' e)
    with one two show ?thesis by blast
  next
    case (third s1 d' s2 m')
    with one two show ?thesis by metis
  qed
  then show "db_findings s' = db_findings s" "db_recommendations s' = db_recommendations s" by simp_all
qed


section \<open>All findings of an analysis\<close>

lemma store_list:
  assumes "for_io (store_finding env clk w j c) acc xs s = (s', r)" "indexed s"
    and "distinct (map diag_key (ys @ xs))" "\<forall>y \<in> set ys. stored w j c s y"
  shows "indexed s' \<and> of_other_jobs w j (db_findings s') = of_other_jobs w j (db_findings s) \<and>
    (\<forall>v. r = Inr v \<longrightarrow> v = (fst acc + length xs, snd acc + length xs) \<and>
      (\<forall>x \<in> set (ys @ xs). stored w j c s' x))"
  using assms
proof (induction xs arbitrary: acc ys s)
  case Nil
  then show ?case by auto
next
  case (Cons x xs)
  obtain s1 r1 where f: "store_finding env clk w j c acc x s = (s1, r1)" by fastforce
  note st = store_finding_step [OF f Cons.prems(2)]
  show ?case
  proof (cases r1)
    case (Inl e)
    with Cons.prems(1) f have "s' = s1" "r = Inl e" by (auto simp: bind_io_def)
    with st(1,2) show ?thesis by simp
  next
    case (Inr v)
    with Cons.prems(1) f have rest: "for_io (store_finding env clk w j c) v xs s1 = (s', r)"
      by (simp add: bind_io_def)
    have "\<forall>y \<in> set (ys @ [x]). stored w j c s1 y"
      using Cons.prems(3,4) st(3) st(4) [OF Inr] by (auto simp: image_iff)
    moreover have "distinct (map diag_key ((ys @ [x]) @ xs))" using Cons.prems(3) by simp
    ultimately have "indexed s' \<and> of_other_jobs w j (db_findings s') = of_other_jobs w j (db_findings s1) \<and>
      (\<forall>u. r = Inr u \<longrightarrow> u = (fst v + length xs, snd v + length xs) \<and>
        (\<forall>z \<in> set ((ys @ [x]) @ xs). stored w j c s' z))"
      using Cons.IH [OF rest st(1)] by blast
    with st(2) st(4) [OF Inr] show ?thesis by auto
  qed
qed

lemma store_list_again:
  assumes "for_io (store_finding env clk w j c) acc xs s = (s', r)" "indexed s"
    and "\<forall>x \<in> set xs. stored w j c s x"
  shows "db_findings s' = db_findings s \<and> db_recommendations s' = db_recommendations s"
  using assms
proof (induction xs arbitrary: acc s)
  case Nil
  then show ?case by simp
next
  case (Cons x xs)
  obtain s1 r1 where f: "store_finding env clk w j c acc x s = (s1, r1)" by fastforce
  have same: "db_findings s1 = db_findings s" "db_recommendations s1 = db_recommendations s"
    using store_finding_again [OF f Cons.prems(2)] Cons.prems(3) by simp_all
  show ?case
  proof (cases r1)
    case (Inl e)
    with Cons.prems(1) f same show ?thesis by (auto simp: bind_io_def)
  next
    case (Inr v)
    with Cons.prems(1) f have "for_io (store_finding env clk w j c) v xs s1 = (s', r)"
      by (simp add: bind_io_def)
    from Cons.IH [OF this] Cons.prems(2,3) stored_frame [OF same] same show ?thesis by simp
  qed
qed

text \<open>Nothing else is stored for the job.\<close>

lemma store_list_keys:
  assumes "for_io (store_finding env clk w j c) acc xs s = (s', r)"
  shows "job_keys w j s' \<subseteq> job_keys w j s \<union> diag_key ` set xs"
proof -
  let ?K = "job_keys w j s \<union> diag_key ` set xs"
  let ?C = "\<lambda>f. f_workspaceId f = w \<and> f_jobId f = j \<longrightarrow> (f_resourceId f, f_ruleId f) \<in> ?K"
  let ?I = "\<lambda>s. \<forall>f \<in> set (db_findings s). ?C f"
  have step: "keeps ?I (store_finding env clk w j c acc x)" if "x \<in> set xs" for acc x
  proof -
    obtain n m where acc: "acc = (n, m)" by (cases acc)
    have up: "keeps ?I (tell db_findings db_findings_update (drv_upsert (e_findings env) (matches_finding w j x)
        (set_finding c x) (new_finding w j c t x)))" for t
    proof (rule findings.keeps_upsert [where C = ?C])
      show "?C (new_finding w j c t x i)" for i using that by (simp add: new_finding_def diag_key_def)
    qed (simp_all add: new_finding_def set_finding_def)
    show ?thesis
      unfolding acc store_finding_def prod.case
      by (intro keeps_bind [OF up] keeps_bind keeps_ret keeps_tell_frame) simp_all
  qed
  have all: "keeps ?I (for_io (store_finding env clk w j c) acc xs)" by (rule keeps_for_in) (rule step)
  have "?I s" by (auto simp: job_keys_def)
  from keepsD [OF all this] have "?I s'" unfolding assms fst_conv .
  then show ?thesis by (auto simp: job_keys_def)
qed

lemma job_keys_index: "job_keys w j s = {(a, b). (w, j, a, b) \<in> finding_index ` set (db_findings s)}"
  by (auto simp: job_keys_def finding_index_def image_iff)

lemma store_list_keeps_keys:
  assumes "for_io (store_finding env clk w j c) acc xs s = (s', r)"
  shows "job_keys w j s \<subseteq> job_keys w j s'"
proof
  fix k assume k: "k \<in> job_keys w j s"
  let ?I = "\<lambda>s. k \<in> job_keys w j s"
  have up: "keeps ?I (tell db_findings db_findings_update (drv_upsert (e_findings env) (matches_finding w j x)
      (set_finding c x) (new_finding w j c t x)))" for x t
  proof (rule keepsI)
    fix s assume s: "?I s"
    obtain s1 r1 where u: "tell db_findings db_findings_update (drv_upsert (e_findings env) (matches_finding w j x)
      (set_finding c x) (new_finding w j c t x)) s = (s1, r1)" by fastforce
    from u new_finding_simps(1) have "?I s1"
    proof (cases rule: findings.tell_upsert_cases)
      case (updated fs d)
      have "map finding_index fs = map finding_index (db_findings s)" by (rule one_updated_map [OF updated(3)]) simp
      then have "finding_index ` set fs = finding_index ` set (db_findings s)" by (metis list.set_map)
      with s updated(1) show ?thesis by (simp add: job_keys_index)
    qed (use s in \<open>auto simp: job_keys_def\<close>)
    with u show "?I (fst (tell db_findings db_findings_update (drv_upsert (e_findings env) (matches_finding w j x)
      (set_finding c x) (new_finding w j c t x)) s))" by simp
  qed
  have "keeps ?I (store_finding env clk w j c acc x)" for acc x
    unfolding store_finding_def
    by (cases acc) (simp only: prod.case, intro keeps_bind [OF up] keeps_bind keeps_ret keeps_tell_frame,
      simp_all add: job_keys_def)
  then have "keeps ?I (for_io (store_finding env clk w j c) acc xs)" by (rule keeps_for)
  from keepsD [OF this k] assms show "k \<in> job_keys w j s'" by simp
qed

lemma stored_key: "stored w j c s x \<Longrightarrow> diag_key x \<in> job_keys w j s"
  by (auto simp: stored_def job_keys_def diag_key_def matches_finding_def image_iff)

end

text \<open>
  C11. Processing a job is idempotent: once the findings of an analysis (at most one for each resource and
  rule) are stored, each has its document and its recommendation, the counters are their number,
  and findings of other jobs and workspaces are untouched. When the job is run again with
  the same analysis, wholly or cut short by a time-out or a failure, no finding and no
  recommendation is added or changed.
\<close>

theorem rerun_stores_nothing_new:
  assumes "store env" "indexed s" "distinct (map diag_key xs)"
    and "store_findings env clk w j c xs s = (s1, Inr counts)"
    and "store_findings env clk' w j c (take n xs) s1 = (s2, r)"
  shows "counts = (length xs, length xs) \<and> (\<forall>x \<in> set xs. stored w j c s1 x)
    \<and> of_other_jobs w j (db_findings s1) = of_other_jobs w j (db_findings s)
    \<and> db_findings s2 = db_findings s1 \<and> db_recommendations s2 = db_recommendations s1"
proof -
  have one: "indexed s1 \<and> of_other_jobs w j (db_findings s1) = of_other_jobs w j (db_findings s) \<and>
    counts = (length xs, length xs) \<and> (\<forall>x \<in> set xs. stored w j c s1 x)"
    using store.store_list [OF assms(1) assms(4) [unfolded store_findings_def] assms(2), of "[]"] assms(3)
    by simp
  then have "\<forall>x \<in> set (take n xs). stored w j c s1 x" by (auto dest: in_set_takeD)
  with one store.store_list_again [OF assms(1) assms(5) [unfolded store_findings_def]] show ?thesis by blast
qed

definition demo_diag :: "string \<Rightarrow> diag_finding" where
  "demo_diag rule =
     \<lparr> df_resourceId = ''r1'', df_ruleId = rule, df_severity = ''high'', df_title = ''t'',
       df_description = ''d'', df_evidence = [], df_actionType = ''create_alarm'',
       df_explanation = ''e'', df_estimatedImpact = ''i'', df_confidence = 1 / 2 \<rparr>"

theorem rerun_stores_nothing_new_witness:
  "\<exists>s1 s2 r. store_findings mem_env (\<lambda>_. 5) ''ws1'' ''j1'' ''c1''
      [demo_diag ''s3.public_access'', demo_diag ''service.unhealthy''] empty_db = (s1, Inr (2, 2))
    \<and> store_findings mem_env (\<lambda>_. 9) ''ws1'' ''j1'' ''c1''
      (take 1 [demo_diag ''s3.public_access'', demo_diag ''service.unhealthy'']) s1 = (s2, r)
    \<and> db_findings s2 = db_findings s1 \<and> length (db_findings s1) = 2"
proof -
  let ?xs = "[demo_diag ''s3.public_access'', demo_diag ''service.unhealthy'']"
  have ix: "indexed empty_db" by (simp add: indexed_def empty_db_def)
  have dk: "distinct (map diag_key ?xs)" by (simp add: diag_key_def demo_diag_def)
  obtain s1 where s1: "store_findings mem_env (\<lambda>_. 5) ''ws1'' ''j1'' ''c1'' ?xs empty_db = (s1, Inr (2, 2))"
    "length (db_findings s1) = 2"
    by (simp add: store_findings_def store_finding_def bind_io_def tell_def empty_db_def mem_create_def
        fresh_oid_def Let_def finding_doc_defs clash_defs new_health_check_def demo_diag_def)
  obtain s2 r where s2: "store_findings mem_env (\<lambda>_. 9) ''ws1'' ''j1'' ''c1'' (take 1 ?xs) s1 = (s2, r)"
    by fastforce
  from rerun_stores_nothing_new [OF mem_store.store_axioms ix dk s1(1) s2] s1 s2 show ?thesis by blast
qed

end
