(* ===== verification/Job_Worker.thy ===== *)
theory Job_Worker
  imports Job_Progress Job_Findings
begin

text \<open>
  The processor and the queue together: every job that a worker claims is settled, as completed with the
  summary of its run or as failed with its error, whatever happens during the run; nothing else in
  the queue changes.
\<close>

section \<open>The run does not touch the queue\<close>

lemma keeps_on_db: "keeps I m \<Longrightarrow> keeps (\<lambda>(b, s). I s) (on_db m)"
  by (rule keepsI) (auto simp: on_db_def split: prod.splits dest: keepsD)

lemma keeps_analyze: "keeps (\<lambda>(b, s). I s) (analyze cl fetch now later payload)"
proof (rule keepsI)
  fix bs :: "breaker \<times> 'a" assume "case bs of (b, s) \<Rightarrow> I s"
  moreover have "snd (fst (analyze cl fetch now later payload bs)) = snd bs"
    by (metis analyze_state surj_pair snd_conv fst_conv)
  ultimately show "case fst (analyze cl fetch now later payload bs) of (b, s) \<Rightarrow> I s"
    by (simp add: case_prod_beta)
qed

lemma keeps_store_findings:
  "keeps (\<lambda>s. db_jobs s = js) (store_findings env clk w j c xs)"
proof -
  have "keeps (\<lambda>s. db_jobs s = js) (store_finding env clk w j c acc x)" for acc x
    unfolding store_finding_def
    by (cases acc) (simp only: prod.case, intro keeps_bind keeps_ret keeps_tell_frame, simp_all)
  then show ?thesis unfolding store_findings_def by (rule keeps_for)
qed

lemma keeps_run_in_time:
  "keeps (\<lambda>(b, s). db_jobs s = js) (run_in_time wk pace now later j)"
proof (cases pace)
  case InTime
  then show ?thesis
    unfolding run_in_time_def run_job_def
    by (simp only: pace.case)
      (intro keeps_bind keeps_on_db keeps_ask keeps_analyze keeps_store_findings keeps_ret keeps_case_prod)
next
  case LateWaiting
  then show ?thesis by (simp add: run_in_time_def keeps_throw)
next
  case (LateStoring n)
  then show ?thesis
    unfolding run_in_time_def
    by (simp only: pace.case)
      (intro keeps_bind keeps_on_db keeps_ask keeps_analyze keeps_store_findings keeps_throw)
qed

lemma run_in_time_jobs:
  "run_in_time wk pace now later j (b, s) = ((b', s'), r) \<Longrightarrow> db_jobs s' = db_jobs s"
  using keepsD [OF keeps_run_in_time, of "db_jobs s" "(b, s)" wk pace now later j] by simp


section \<open>Replacing one job\<close>

definition with_job :: "oid \<Rightarrow> job \<Rightarrow> job list \<Rightarrow> job list" where
  "with_job i k js = map (\<lambda>d. if j_id d = i then k else d) js"

lemma with_job_ids: "j_id k = i \<Longrightarrow> map j_id (with_job i k js) = map j_id js"
  by (simp add: with_job_def)

lemma with_job_member: "i \<in> j_id ` set js \<Longrightarrow> k \<in> set (with_job i k js)"
  by (auto simp: with_job_def)

lemma with_job_again: "j_id k = i \<Longrightarrow> with_job i k' (with_job i k js) = with_job i k' js"
  by (auto simp: with_job_def)

lemma with_job_map:
  "j_id k = i \<Longrightarrow> map (\<lambda>d. if j_id d = i then f d else d) (with_job i k js) = with_job i (f k) js"
  by (auto simp: with_job_def)

lemma one_updated_with_job:
  assumes "one_updated p f js js' k" "distinct (map j_id js)" "\<And>d. j_id (f d) = j_id d"
  obtains d where "d \<in> set js" "p d" "k = f d" "js' = with_job (j_id d) k js"
proof -
  from assms(1) obtain xs d ys where o: "js = xs @ d # ys" "p d" "js' = xs @ f d # ys" "k = f d"
    by (rule one_updatedE)
  have "map (\<lambda>e. if j_id e = j_id d then k else e) xs = xs"
    "map (\<lambda>e. if j_id e = j_id d then k else e) ys = ys"
    using o(1) assms(2) by (auto intro!: map_idI simp: image_iff)
  moreover have "js' = xs @ k # ys" by (simp add: o(3,4))
  ultimately have "js' = with_job (j_id d) k js" by (simp add: with_job_def o(1))
  moreover have "d \<in> set js" by (simp add: o(1))
  ultimately show ?thesis using that o(2,4) by blast
qed

text \<open>The job while it is being run: only its lease and heartbeat move.\<close>

definition same_run :: "job \<Rightarrow> job \<Rightarrow> bool" where
  "same_run j k \<longleftrightarrow> j_id k = j_id j \<and> j_attempts k = j_attempts j \<and> j_maxAttempts k = j_maxAttempts j \<and>
     j_workspaceId k = j_workspaceId j"

text \<open>What is left in the queue when the outcome of a run has been reported.\<close>

definition settled_as :: "worker \<Rightarrow> int \<Rightarrow> rat \<Rightarrow> thrown + summary \<Rightarrow> job \<Rightarrow> job" where
  "settled_as wk now rnd outcome k =
     (case outcome of
        Inr result \<Rightarrow> complete_job result now k
      | Inl err \<Rightarrow> fail_update (wk_queue wk) (job_failure (wk_err_text wk) err now) now rnd k k)"

lemma same_run_refl: "same_run j j"
  by (simp add: same_run_def)

context reliable_store
begin

lemma beat_keeps_run:
  assumes "db_jobs s = with_job i k js" "same_run j k" "j_id j = i" "wk_env wk = env"
    "distinct (map j_id js)"
  obtains s' k' where "beat wk j u t s = (s', Inr ())" "db_jobs s' = with_job i k' js" "same_run j k'"
proof -
  let ?p = "\<lambda>d. j_id d = j_id j \<and> j_claimedBy d = Some (wk_id wk) \<and> j_status d = Running"
  let ?f = "heartbeat_job (wk_queue wk) t"
  obtain js' r where u: "drv_updateOne (e_jobs env) ?p ?f (db_jobs s) = Inr (js', r)"
    by (rule jobs.updateOne_total)
  then have run: "beat wk j u t s = (db_jobs_update (\<lambda>_. js') s, Inr ())"
    by (simp add: beat_def heartbeat_def tell_def bind_io_def assms(4))
  show ?thesis
  proof (cases r)
    case None
    with u have "js' = db_jobs s" using jobs.updateOne_None by blast
    with run that assms(1,2) show ?thesis by simp
  next
    case (Some d)
    with u have o: "one_updated ?p ?f (db_jobs s) js' d" by (simp add: jobs.updateOne_Some)
    have "distinct (map j_id (db_jobs s))"
      using assms(1,2,3,5) by (simp add: with_job_ids same_run_def)
    from one_updated_by_key [OF o this, of i] assms(3)
    have "js' = map (\<lambda>d. if j_id d = i then ?f d else d) (db_jobs s)" by blast
    then have "js' = with_job i (?f k) js"
      using assms(1-3) by (simp add: with_job_map same_run_def)
    moreover have "same_run j (?f k)" using assms(2) by (simp add: same_run_def heartbeat_job_def)
    ultimately show ?thesis using run that [of "db_jobs_update (\<lambda>_. js') s" "?f k"] by simp
  qed
qed

lemma beats_keep_run:
  assumes "db_jobs s = with_job i k js" "same_run j k" "j_id j = i" "wk_env wk = env"
    "distinct (map j_id js)"
  shows "\<exists>s' k'. for_io (beat wk j) () beats s = (s', Inr ()) \<and> db_jobs s' = with_job i k' js \<and> same_run j k'"
  using assms
proof (induction beats arbitrary: s k)
  case Nil
  then show ?case by auto
next
  case (Cons t ts)
  obtain s1 k1 where b: "beat wk j () t s = (s1, Inr ())" "db_jobs s1 = with_job i k1 js" "same_run j k1"
    by (rule beat_keeps_run [OF Cons.prems])
  from Cons.IH [OF b(2,3) Cons.prems(3-5)] b(1) show ?case by (simp add: bind_io_def)
qed

lemma report_settles:
  assumes "db_jobs s = with_job i k js" "j_id k = i" "j_id j = i" "i \<in> j_id ` set js" "wk_env wk = env"
    "distinct (map j_id js)"
  obtains s' where "report wk now rnd j outcome s = (s', Inr ())"
    "db_jobs s' = with_job i (settled_as wk now rnd outcome k) js"
proof -
  have d: "distinct (map j_id (db_jobs s))" "k \<in> set (db_jobs s)"
    using assms by (simp_all add: with_job_ids with_job_member)
  show ?thesis
  proof (cases outcome)
    case (Inl err)
    then have out: "settled_as wk now rnd outcome k =
        fail_update (wk_queue wk) (job_failure (wk_err_text wk) err now) now rnd k k"
      by (simp add: settled_as_def)
    obtain s' where f: "fail env (wk_queue wk) (j_id k) (job_failure (wk_err_text wk) err now) now rnd s =
        (s', Inr (Some (settled_as wk now rnd outcome k)))"
      "db_jobs s' = map (\<lambda>d. if j_id d = j_id k then settled_as wk now rnd outcome k else d) (db_jobs s)"
      unfolding out by (rule fail_answers [OF d])
    then have "db_jobs s' = with_job i (settled_as wk now rnd outcome k) (with_job i k js)"
      using assms(1,2) by (simp add: with_job_def)
    moreover have "report wk now rnd j outcome s = (s', Inr ())"
      using f(1) assms(2,3,5) Inl by (simp add: report_def catch_io_def bind_io_def)
    ultimately show ?thesis using that assms(2) by (simp add: with_job_again)
  next
    case (Inr result)
    obtain s' where f: "complete env (j_id k) result now s = (s', Inr (Some (complete_job result now k)))"
      "db_jobs s' = map (\<lambda>d. if j_id d = j_id k then complete_job result now k else d) (db_jobs s)"
      unfolding complete_def by (rule job_saved [OF d, of "complete_job result now"])
    then have "db_jobs s' = with_job i (settled_as wk now rnd outcome k) (with_job i k js)"
      using assms(1,2) Inr by (simp add: with_job_def settled_as_def)
    moreover have "report wk now rnd j outcome s = (s', Inr ())"
      using f(1) assms(2,3,5) Inr by (simp add: report_def catch_io_def bind_io_def)
    ultimately show ?thesis using that assms(2) by (simp add: with_job_again)
  qed
qed

end

text \<open>One turn up to the report: what was claimed, how the run came out, and the job as the heartbeats left it.\<close>

lemma worker_turn:
  assumes "reliable_store (wk_env wk)" "distinct (map j_id (db_jobs s))"
  obtains (idle) "filter (claimable claimed) (db_jobs s) = []"
      "claim (wk_env wk) (wk_queue wk) (wk_id wk) claimed s = (s, Inr None)"
  | (busy) s1 j j1 b2 s2 outcome s3 k where "j \<in> set (db_jobs s)" "claimable claimed j"
      "j1 = claim_job (wk_queue wk) (wk_id wk) claimed j"
      "claim (wk_env wk) (wk_queue wk) (wk_id wk) claimed s = (s1, Inr (Some j1))"
      "run_in_time wk pace sent answered j1 (b, s1) = ((b2, s2), outcome)"
      "for_io (beat wk j1) () beats s2 = (s3, Inr ())"
      "db_jobs s3 = with_job (j_id j) k (db_jobs s)" "same_run j1 k"
  using assms(1)
proof (cases rule: reliable_store.claim_answers
    [of "wk_env wk" "wk_queue wk" "wk_id wk" claimed s, consumes 1, case_names none some])
  case none
  then show ?thesis by (intro idle) (simp_all add: filter_empty_conv)
next
  case (some s1 j1)
  obtain j where j: "j \<in> set (db_jobs s)" "claimable claimed j"
    "j1 = claim_job (wk_queue wk) (wk_id wk) claimed j" "db_jobs s1 = with_job (j_id j) j1 (db_jobs s)"
    using one_updated_with_job [OF some(2) assms(2) job_update_ids(1)] by blast
  have j1: "j_id j1 = j_id j" by (simp add: j(3) claim_job_def)
  obtain b2 s2 outcome where run: "run_in_time wk pace sent answered j1 (b, s1) = ((b2, s2), outcome)"
    by (metis surj_pair)
  have s2: "db_jobs s2 = with_job (j_id j) j1 (db_jobs s)"
    using run_in_time_jobs [OF run] j(4) by simp
  obtain s3 k where "for_io (beat wk j1) () beats s2 = (s3, Inr ())"
    "db_jobs s3 = with_job (j_id j) k (db_jobs s)" "same_run j1 k"
    using reliable_store.beats_keep_run [OF assms(1) s2 same_run_refl j1 refl assms(2)] by blast
  then show ?thesis by (rule busy [OF j(1-3) some(1) run])
qed

lemma settled_fields:
  assumes "same_run (claim_job qc w t0 j) k"
  shows "j_id (settled_as wk now rnd outcome k) = j_id j" "j_attempts (settled_as wk now rnd outcome k) = j_attempts j + 1"
    "j_leaseUntil (settled_as wk now rnd outcome k) = None"
    "case outcome of
       Inr sm \<Rightarrow> j_status (settled_as wk now rnd outcome k) = Completed \<and>
         j_resultSummary (settled_as wk now rnd outcome k) = Some sm \<and>
         j_lastError (settled_as wk now rnd outcome k) = None
     | Inl err \<Rightarrow> j_lastError (settled_as wk now rnd outcome k) = Some (job_failure (wk_err_text wk) err now) \<and>
         j_status (settled_as wk now rnd outcome k) = (if j_maxAttempts j \<le> j_attempts j + 1 \<or>
           sublist ''not retryable'' (snd (thrown_text (wk_err_text wk) err))
           then DeadLettered else RetryWait)"
proof -
  have k: "j_id k = j_id j" "j_attempts k = j_attempts j + 1" "j_maxAttempts k = j_maxAttempts j"
    using assms by (simp_all add: same_run_def claim_job_def)
  then show "j_id (settled_as wk now rnd outcome k) = j_id j" "j_attempts (settled_as wk now rnd outcome k) = j_attempts j + 1"
    "j_leaseUntil (settled_as wk now rnd outcome k) = None"
    "case outcome of
       Inr sm \<Rightarrow> j_status (settled_as wk now rnd outcome k) = Completed \<and>
         j_resultSummary (settled_as wk now rnd outcome k) = Some sm \<and>
         j_lastError (settled_as wk now rnd outcome k) = None
     | Inl err \<Rightarrow> j_lastError (settled_as wk now rnd outcome k) = Some (job_failure (wk_err_text wk) err now) \<and>
         j_status (settled_as wk now rnd outcome k) = (if j_maxAttempts j \<le> j_attempts j + 1 \<or>
           sublist ''not retryable'' (snd (thrown_text (wk_err_text wk) err))
           then DeadLettered else RetryWait)"
    by (cases outcome; simp add: settled_as_def complete_job_def fail_update_def
        dead_letter_job_def retry_wait_job_def job_failure_def case_prod_beta)+
qed

text \<open>
  C8. A worker settles what it claims. When no job is claimable, \<^verbatim>\<open>processNext\<close> answers false and changes
  nothing. Otherwise it answers true, and of the queue exactly one claimable job has changed: with
  one more attempt and no lease it is completed with the summary of its run, or, when the run threw or
  timed out, it carries the error with its classification and is dead-lettered (attempts used up, or
  a message that says \<^verbatim>\<open>not retryable\<close>) or waits for a retry.
\<close>

theorem worker_settles_its_job:
  assumes "reliable_store (wk_env wk)" "distinct (map j_id (db_jobs s))"
    and "processNext wk pace t0 t1 t2 t3 beats rnd (b, s) = ((b', s'), r)"
  shows "if filter (claimable t0) (db_jobs s) = [] then r = Inr False \<and> b' = b \<and> s' = s
    else r = Inr True \<and> (\<exists>j k s1 outcome. j \<in> set (db_jobs s) \<and> claimable t0 j \<and>
      db_jobs s' = with_job (j_id j) k (db_jobs s) \<and> j_id k = j_id j \<and>
      j_attempts k = j_attempts j + 1 \<and> j_leaseUntil k = None \<and>
      claim (wk_env wk) (wk_queue wk) (wk_id wk) t0 s =
        (s1, Inr (Some (claim_job (wk_queue wk) (wk_id wk) t0 j))) \<and>
      snd (run_in_time wk pace t1 t2 (claim_job (wk_queue wk) (wk_id wk) t0 j) (b, s1)) = outcome \<and>
      (case outcome of
         Inr sm \<Rightarrow> j_status k = Completed \<and> j_resultSummary k = Some sm \<and> j_lastError k = None
       | Inl err \<Rightarrow> j_lastError k = Some (job_failure (wk_err_text wk) err t3) \<and>
           j_status k = (if j_maxAttempts j \<le> j_attempts j + 1 \<or>
             sublist ''not retryable'' (snd (thrown_text (wk_err_text wk) err))
             then DeadLettered else RetryWait)))"
proof (cases rule: worker_turn [OF assms(1,2), where claimed = t0 and pace = pace and
      sent = t1 and answered = t2 and
      b = b and beats = beats])
  case 1
  with assms(3) show ?thesis by (simp add: processNext_def bind_io_def on_db_def)
next
  case (2 s1 j j1 b2 s2 outcome s3 k)
  have ids: "j_id j1 = j_id j" "j_id k = j_id j"
    using 2(8) by (simp_all add: 2(3) same_run_def claim_job_def)
  obtain s4 where rep: "report wk t3 rnd j1 outcome s3 = (s4, Inr ())"
    "db_jobs s4 = with_job (j_id j) (settled_as wk t3 rnd outcome k) (db_jobs s)"
    using reliable_store.report_settles [OF assms(1) 2(7) ids(2,1) _ refl assms(2)] 2(1) by blast
  have end_state: "s' = s4" "r = Inr True"
    using assms(3)
    by (simp_all add: processNext_def bind_io_def settled_def 2(5) on_db_def 2(4) 2(6) rep(1))
  let ?k = "settled_as wk t3 rnd outcome k"
  have ne: "filter (claimable t0) (db_jobs s) \<noteq> []" using 2(1,2) by (auto simp: filter_empty_conv)
  have out: "snd (run_in_time wk pace t1 t2 (claim_job (wk_queue wk) (wk_id wk) t0 j) (b, s1)) = outcome"
    using 2(5) by (simp add: 2(3))
  have jobs: "db_jobs s' = with_job (j_id j) ?k (db_jobs s)" by (simp only: end_state(1) rep(2))
  show ?thesis
    unfolding if_not_P [OF ne]
    by (intro conjI exI [of _ j] exI [of _ ?k] exI [of _ s1] exI [of _ outcome])
      (rule end_state(2) 2(1,2) jobs settled_fields [OF 2(8) [unfolded 2(3)]] out 2(4) [unfolded 2(3)])+
qed

definition demo_worker :: worker where
  "demo_worker =
     \<lparr> wk_id = ''w1'', wk_env = mem_env, wk_queue = demo_cfg,
       wk_client = \<lparr>dc_baseUrl = ''http://d'', dc_timeoutMs = 5000\<rparr>,
       wk_fetch = (\<lambda>q t. Some (Inr \<lparr>rsp_status = 200, rsp_json = Inr [demo_diag ''s3.public_access'']\<rparr>)),
       wk_clock = (\<lambda>i. 7), wk_err_text = (\<lambda>e. (''MongoServerError'', ''E11000'')) \<rparr>"

theorem worker_settles_its_job_witness:
  "\<exists>b' s' k. processNext demo_worker InTime 5 6 7 8 [6] 0 (CircuitBreaker 5 15000, demo_db) = ((b', s'), Inr True)
    \<and> db_jobs s' = [k] \<and> j_attempts k = 1 \<and> j_leaseUntil k = None"
proof -
  obtain b' s' r where run:
    "processNext demo_worker InTime 5 6 7 8 [6] 0 (CircuitBreaker 5 15000, demo_db) = ((b', s'), r)"
    by (metis surj_pair)
  have w: "reliable_store (wk_env demo_worker)"
    using mem_store.reliable_store_axioms by (simp add: demo_worker_def)
  have d: "distinct (map j_id (db_jobs demo_db))" by (simp add: demo_db_jobs)
  have "filter (claimable 5) (db_jobs demo_db) \<noteq> []" by (simp add: demo_db_jobs demo_job_claimable)
  from worker_settles_its_job [OF w d run, unfolded if_not_P [OF this]]
  obtain j k where "r = Inr True" "j \<in> set (db_jobs demo_db)" "db_jobs s' = with_job (j_id j) k (db_jobs demo_db)"
    "j_attempts k = j_attempts j + 1" "j_leaseUntil k = None" by blast
  with run show ?thesis by (auto simp: demo_db_jobs with_job_def demo_job_def new_job_def)
qed

end
