(* ===== verification/Seed.thy ===== *)
theory Seed
  imports Resource_Catalog Configuration Backoff
begin

text \<open>
  \<^verbatim>\<open>apps/api/src/seed.ts\<close> and \<^verbatim>\<open>packages/shared/src/db/connection.ts\<close>: connecting with retries, and the
  script that fills an empty or used database with the demonstration workspace. \<open>seed_world\<close> holds what the
  script draws from outside: the attempts to connect, bcrypt, the signature of tokens, the clock.
  Log lines and the exit of the process are left out; what the script prints is its answer.
\<close>

section \<open>Connecting\<close>

definition connect_options :: "thrown retry_options" where
  "connect_options = \<lparr>ro_maxAttempts = 8, ro_baseMs = 400, ro_maxMs = 4000, ro_retryOn = None\<rparr>"

definition connectMongo :: "(int \<Rightarrow> thrown + unit) \<Rightarrow> (int \<Rightarrow> rat) \<Rightarrow> (thrown option + unit) \<times> int list" where
  "connectMongo connect rnd = withRetry connect connect_options rnd"

text \<open>One success among the first eight attempts is enough; eight failures are the end.\<close>

lemma connects:
  assumes "1 \<le> k" "k \<le> 8" "connect k = Inr ()" "\<And>i. 1 \<le> i \<Longrightarrow> i < k \<Longrightarrow> \<exists>e. connect i = Inl e"
  shows "fst (connectMongo connect rnd) = Inr ()"
proof -
  have "withRetry connect connect_options rnd = (Inr (), map (retry_delay connect_options rnd) [1..k - 1])"
    unfolding withRetry_def
    by (rule retry_loop_until) (use assms in \<open>auto simp: connect_options_def is_retryable_def\<close>)
  then show ?thesis by (simp add: connectMongo_def)
qed

lemma connect_gives_up:
  assumes "\<And>i. 1 \<le> i \<Longrightarrow> i \<le> 8 \<Longrightarrow> connect i = Inl (e i)"
  shows "fst (connectMongo connect rnd) = Inl (Some (e 8)) \<and> length (snd (connectMongo connect rnd)) = 7"
proof -
  have "withRetry connect connect_options rnd = (Inl (Some (e 8)), map (retry_delay connect_options rnd) [1..8 - 1])"
    unfolding withRetry_def
    by (rule retry_loop_until) (use assms in \<open>auto simp: connect_options_def is_retryable_def\<close>)
  then show ?thesis by (simp add: connectMongo_def)
qed


section \<open>The script\<close>

record seed_world =
  sd_connect :: "int \<Rightarrow> thrown + unit"
  sd_rnd :: "int \<Rightarrow> rat"
  sd_bcrypt_hash :: "string \<Rightarrow> env_number \<Rightarrow> thrown + string"
  sd_jwt_sign :: "(string \<times> json) list \<Rightarrow> string \<Rightarrow> string \<Rightarrow> string"
  sd_clock :: "nat \<Rightarrow> int"
  sd_issues :: string

record seeded =
  so_workspaceId :: string
  so_password :: string
  so_tokens :: "(string \<times> role \<times> string) list"
  so_synced :: nat

definition hashPassword :: "(string \<Rightarrow> env_number \<Rightarrow> thrown + string) \<Rightarrow> string \<Rightarrow> env_number \<Rightarrow> thrown + string" where
  "hashPassword bcrypt_hash plain rounds = bcrypt_hash plain rounds"

definition seed_users :: "(string \<times> role) list" where
  "seed_users = [(''admin@cloudops.local'', Admin), (''operator@cloudops.local'', Operator),
     (''viewer@cloudops.local'', Viewer)]"

definition seed_workspace :: "env \<Rightarrow> string \<Rightarrow> workspace call" where
  "seed_workspace env name =
     tell db_workspaces db_workspaces_update (drv_upsert (e_workspaces env) (\<lambda>x. ws_name x = name)
       (\<lambda>x. x) (\<lambda>i. \<lparr>ws_id = i, ws_name = name\<rparr>))"

definition set_user :: "string \<Rightarrow> role \<Rightarrow> string \<Rightarrow> user \<Rightarrow> user" where
  "set_user workspaceId rl passwordHash u =
     u\<lparr>u_role := rl, u_passwordHash := passwordHash, u_active := True, u_workspaceId := workspaceId\<rparr>"

definition new_user :: "string \<Rightarrow> string \<Rightarrow> role \<Rightarrow> string \<Rightarrow> oid \<Rightarrow> user" where
  "new_user workspaceId email rl passwordHash i =
     \<lparr>u_id = i, u_workspaceId = workspaceId, u_email = email, u_role = rl, u_passwordHash = passwordHash,
       u_active = True\<rparr>"

definition seed_user :: "env \<Rightarrow> string \<Rightarrow> string \<Rightarrow> user list \<Rightarrow> string \<times> role \<Rightarrow> user list call" where
  "seed_user env workspaceId passwordHash created x =
     (case x of (email, rl) \<Rightarrow>
       bind_io (tell db_users db_users_update (drv_upsert (e_users env)
         (\<lambda>u. u_workspaceId u = workspaceId \<and> u_email u = email)
         (set_user workspaceId rl passwordHash) (new_user workspaceId email rl passwordHash))) (\<lambda>doc.
       ret (created @ [doc])))"

definition seed_token :: "seed_world \<Rightarrow> ApiConfig \<Rightarrow> user \<Rightarrow> string \<times> role \<times> string" where
  "seed_token sd config u =
     (u_email u, u_role u,
      signAccessToken (sd_jwt_sign sd) (user_claims u) (ev_JWT_SECRET config) (Some (ev_JWT_EXPIRES_IN config)))"

definition seed_run :: "env \<Rightarrow> seed_world \<Rightarrow> environment \<Rightarrow> ApiConfig \<Rightarrow> seeded call" where
  "seed_run env sd vars config =
     (let workspaceId = env_str vars ''DEFAULT_WORKSPACE_ID'' ''ws_demo_acme'';
          workspaceName = env_str vars ''DEFAULT_WORKSPACE_NAME'' ''acme-platform'';
          password = env_str vars ''DEMO_PASSWORD'' ''CloudOps!demo''
      in bind_io (seed_workspace env workspaceName) (\<lambda>_.
         case hashPassword (sd_bcrypt_hash sd) password (ev_BCRYPT_ROUNDS config) of
           Inl err \<Rightarrow> throw err
         | Inr passwordHash \<Rightarrow>
         bind_io (for_io (seed_user env workspaceId passwordHash) [] seed_users) (\<lambda>createdUsers.
         bind_io (for_io (sync_item env (sd_clock sd) workspaceId) [] (buildMockInventory (sd_clock sd 0) workspaceId))
           (\<lambda>synced.
         ret \<lparr> so_workspaceId = workspaceId, so_password = password,
               so_tokens = map (seed_token sd config) createdUsers, so_synced = length synced \<rparr>))))"

definition seed :: "env \<Rightarrow> seed_world \<Rightarrow> environment \<Rightarrow> seeded call" where
  "seed env sd vars =
     (case loadConfig vars (\<lambda>_. None) of
        None \<Rightarrow> throw (JsErr ''ZodError'' (sd_issues sd))
      | Some config \<Rightarrow>
          (case fst (connectMongo (sd_connect sd) (sd_rnd sd)) of
             Inl err \<Rightarrow> throw (with_default err (JsErr [] ''undefined''))
           | Inr _ \<Rightarrow> seed_run env sd vars config))"


section \<open>What the script leaves behind\<close>

definition user_key :: "user \<Rightarrow> string \<times> string" where
  "user_key u = (u_workspaceId u, u_email u)"

lemma user_clash_key: "user_clash a b \<longleftrightarrow> user_key a = user_key b"
  by (simp add: user_clash_def user_key_def)

definition seeded_as :: "string \<Rightarrow> string \<Rightarrow> string \<times> role \<Rightarrow> user \<Rightarrow> bool" where
  "seeded_as w ph x u \<longleftrightarrow> user_key u = (w, fst x) \<and> u_role u = snd x \<and> u_passwordHash u = ph \<and> u_active u"

context reliable_store
begin

lemma seed_workspace_answers:
  obtains s1 x where "seed_workspace env name s = (s1, Inr x)" "db_users s1 = db_users s"
    "db_resources s1 = db_resources s"
proof -
  obtain s1 r where u: "seed_workspace env name s = (s1, r)" by fastforce
  have mk: "ws_id \<lparr>ws_id = i, ws_name = name\<rparr> = i" for i by simp
  from u [unfolded seed_workspace_def] mk show ?thesis
  proof (cases rule: workspaces.tell_upsert_cases)
    case (failed e)
    then obtain d where d: "drv_upsert (e_workspaces env) (\<lambda>x. ws_name x = name) (\<lambda>x. x)
        (\<lambda>i. \<lparr>ws_id = i, ws_name = name\<rparr>) (db_workspaces s) = Inl d"
      using u by (auto simp: seed_workspace_def tell_def split: sum.splits prod.splits)
    then have "d = DuplicateKey" by (rule workspaces.upsert_answers)
    with d workspaces.upsert_Dup [OF _ mk] show ?thesis by (auto simp: workspace_clash_def)
  qed (use u that in simp_all)
qed

text \<open>One user: stored with the role and the password under its key, all other users untouched.\<close>

lemma seed_user_step:
  assumes "distinct (map user_key (db_users s))"
  obtains s1 d where "seed_user env w ph acc x s = (s1, Inr (acc @ [d]))" "seeded_as w ph x d"
    "d \<in> set (db_users s1)" "distinct (map user_key (db_users s1))" "db_resources s1 = db_resources s"
    "\<forall>u. user_key u \<noteq> (w, fst x) \<longrightarrow> (u \<in> set (db_users s1) \<longleftrightarrow> u \<in> set (db_users s))"
proof -
  obtain email rl where x: "x = (email, rl)" by (cases x)
  let ?p = "\<lambda>u. u_workspaceId u = w \<and> u_email u = email"
  let ?f = "set_user w rl ph" and ?mk = "new_user w email rl ph"
  have mk: "u_id (?mk i) = i" for i by (simp add: new_user_def)
  have p: "?p u \<longleftrightarrow> user_key u = (w, email)" for u by (simp add: user_key_def)
  obtain s1 r where u: "tell db_users db_users_update (drv_upsert (e_users env) ?p ?f ?mk) s = (s1, r)"
    by fastforce
  have "\<exists>d. r = Inr d \<and> seeded_as w ph x d \<and> d \<in> set (db_users s1) \<and> distinct (map user_key (db_users s1)) \<and>
    db_resources s1 = db_resources s \<and>
    (\<forall>u. user_key u \<noteq> (w, email) \<longrightarrow> (u \<in> set (db_users s1) \<longleftrightarrow> u \<in> set (db_users s)))"
    using u mk
  proof (cases rule: users.tell_upsert_cases)
    case (failed e)
    then obtain d where d: "drv_upsert (e_users env) ?p ?f ?mk (db_users s) = Inl d"
      using u by (auto simp: tell_def split: sum.splits prod.splits)
    then have "d = DuplicateKey" by (rule users.upsert_answers)
    with d have "drv_upsert (e_users env) ?p ?f ?mk (db_users s) = Inl DuplicateKey" by simp
    from users.upsert_Dup [OF this mk] show ?thesis
      by (auto simp: user_clash_def new_user_def)
  next
    case (updated c d)
    then obtain xs u0 ys where o: "db_users s = xs @ u0 # ys" "?p u0" "c = xs @ ?f u0 # ys" "d = ?f u0"
      by (auto elim: one_updatedE)
    then have k: "user_key (?f u0) = (w, email)" "user_key u0 = (w, email)"
      by (simp_all add: user_key_def set_user_def)
    with o x have "seeded_as w ph x d" by (simp add: seeded_as_def) (simp add: set_user_def)
    with o k updated(1,2) assms show ?thesis by auto
  next
    case (inserted d)
    then have k: "user_key d = (w, email)" "seeded_as w ph x d"
      using x inserted(4) by (metis new_user_def user.select_convs user_key_def,
        metis fst_conv new_user_def seeded_as_def snd_conv user.select_convs user_key_def)
    with inserted assms show ?thesis by (auto simp: user_clash_key)
  qed
  then obtain d where d: "r = Inr d" "seeded_as w ph x d" "d \<in> set (db_users s1)"
    "distinct (map user_key (db_users s1))" "db_resources s1 = db_resources s"
    "\<forall>u. user_key u \<noteq> (w, email) \<longrightarrow> (u \<in> set (db_users s1) \<longleftrightarrow> u \<in> set (db_users s))" by blast
  with u x show ?thesis
    by (intro that [of s1 d]) (simp_all add: seed_user_def bind_io_def)
qed

lemma seed_users_step:
  assumes "distinct (map user_key (db_users s))" "distinct (map fst xs)"
  shows "\<exists>s1 ds. for_io (seed_user env w ph) acc xs s = (s1, Inr (acc @ ds)) \<and>
    list_all2 (\<lambda>x d. seeded_as w ph x d \<and> d \<in> set (db_users s1)) xs ds \<and>
    distinct (map user_key (db_users s1)) \<and> db_resources s1 = db_resources s \<and>
    (\<forall>u. user_key u \<notin> Pair w ` fst ` set xs \<longrightarrow> (u \<in> set (db_users s1) \<longleftrightarrow> u \<in> set (db_users s)))"
  using assms
proof (induction xs arbitrary: s acc)
  case Nil
  then show ?case by auto
next
  case (Cons x xs)
  obtain s1 d where d: "seed_user env w ph acc x s = (s1, Inr (acc @ [d]))" "seeded_as w ph x d"
    "d \<in> set (db_users s1)" "distinct (map user_key (db_users s1))" "db_resources s1 = db_resources s"
    "\<forall>u. user_key u \<noteq> (w, fst x) \<longrightarrow> (u \<in> set (db_users s1) \<longleftrightarrow> u \<in> set (db_users s))"
    by (rule seed_user_step [OF Cons.prems(1), where w = w and ph = ph and acc = acc and x = x])
  obtain s2 ds where ds: "for_io (seed_user env w ph) (acc @ [d]) xs s1 = (s2, Inr ((acc @ [d]) @ ds))"
    "list_all2 (\<lambda>x d. seeded_as w ph x d \<and> d \<in> set (db_users s2)) xs ds"
    "distinct (map user_key (db_users s2))" "db_resources s2 = db_resources s1"
    "\<forall>u. user_key u \<notin> Pair w ` fst ` set xs \<longrightarrow> (u \<in> set (db_users s2) \<longleftrightarrow> u \<in> set (db_users s1))"
    using Cons.IH [OF d(4), of "acc @ [d]"] Cons.prems(2) by auto
  have "user_key d \<notin> Pair w ` fst ` set xs"
    using d(2) Cons.prems(2) by (auto simp: seeded_as_def)
  with d(3) ds(5) have "d \<in> set (db_users s2)" by blast
  with d ds show ?case
    by (intro exI [of _ s2] exI [of _ "d # ds"]) (auto simp: bind_io_def)
qed

text \<open>A login of the only user with an address.\<close>

lemma login_of_the_only:
  assumes "u \<in> set (db_users s)" "toLowerCase email = u_email u" "u_active u" "bc pw (u_passwordHash u)"
    and "\<And>v. v \<in> set (db_users s) \<Longrightarrow> u_email v = u_email u \<Longrightarrow> v = u"
  shows "login env bc sign cfg email pw s = (s, Inr (signAccessToken sign (user_claims u) (ac_JWT_SECRET cfg)
    (Some (ac_JWT_EXPIRES_IN cfg)), serialize (user_doc u)))"
proof -
  let ?p = "\<lambda>u. u_email u = toLowerCase email \<and> u_active u"
  obtain v where "drv_findOne (e_users env) ?p (db_users s) = Inr (Some v)" "v \<in> set (db_users s)" "?p v"
    by (rule users.findOne_finds [of u "db_users s" ?p]) (use assms(1-3) in simp_all)
  moreover from this(2,3) assms(2) have "v = u" by (intro assms(5)) simp_all
  ultimately show ?thesis
    using assms(4) by (simp add: login_def bind_io_def ask_def verifyPassword_def)
qed

end

lemma keeps_sync_item_users:
  "keeps (\<lambda>s. db_users s = us) (for_io (sync_item env clk w) acc xs)"
  unfolding sync_item_def by (intro keeps_rules keeps_tell_frame) simp

lemma list_all2_partner: "list_all2 P xs ys \<Longrightarrow> x \<in> set xs \<Longrightarrow> \<exists>y \<in> set ys. P x y"
  by (induction rule: list_all2_induct) auto

lemma seed_emails [simp]: "x \<in> set seed_users \<Longrightarrow> toLowerCase (fst x) = fst x"
proof -
  have "\<forall>x \<in> set seed_users. toLowerCase (fst x) = fst x" by code_simp
  then show "x \<in> set seed_users \<Longrightarrow> toLowerCase (fst x) = fst x" by blast
qed

lemma seed_emails_distinct: "distinct (map fst seed_users)"
  by code_simp

lemma seed_returns:
  assumes "reliable_store env" "res_indexed s" "distinct (map user_key (db_users s))"
    and "w = env_str vars ''DEFAULT_WORKSPACE_ID'' ''ws_demo_acme''"
    and "pw = env_str vars ''DEMO_PASSWORD'' ''CloudOps!demo''"
    and "loadConfig vars (\<lambda>_. None) = Some c"
    and "1 \<le> k" "k \<le> 8" "sd_connect sd k = Inr ()" "\<And>i. 1 \<le> i \<Longrightarrow> i < k \<Longrightarrow> \<exists>e. sd_connect sd i = Inl e"
    and "sd_bcrypt_hash sd pw (ev_BCRYPT_ROUNDS c) = Inr ph"
  obtains s' ds n where "seed env sd vars s = (s', Inr \<lparr>so_workspaceId = w, so_password = pw,
      so_tokens = map (seed_token sd c) ds, so_synced = n\<rparr>)"
    "list_all2 (\<lambda>x d. seeded_as w ph x d \<and> d \<in> set (db_users s')) seed_users ds"
    "distinct (map user_key (db_users s'))"
    "\<forall>u. user_key u \<notin> Pair w ` fst ` set seed_users \<longrightarrow> (u \<in> set (db_users s') \<longleftrightarrow> u \<in> set (db_users s))"
    "\<forall>w'. catalog s' w' = (if w' = w then fold catalog_update (buildMockInventory (sd_clock sd 0) w) (catalog s w)
      else catalog s w')"
proof -
  let ?inv = "buildMockInventory (sd_clock sd 0) w"
  have con: "fst (connectMongo (sd_connect sd) (sd_rnd sd)) = Inr ()"
    using assms(7-10) by (rule connects [of k "sd_connect sd"])
  obtain s1 x where s1: "seed_workspace env (env_str vars ''DEFAULT_WORKSPACE_NAME'' ''acme-platform'') s = (s1, Inr x)"
    "db_users s1 = db_users s" "db_resources s1 = db_resources s"
    by (rule reliable_store.seed_workspace_answers [OF assms(1)])
  obtain s2 ds where s2: "for_io (seed_user env w ph) [] seed_users s1 = (s2, Inr ds)"
    "list_all2 (\<lambda>x d. seeded_as w ph x d \<and> d \<in> set (db_users s2)) seed_users ds"
    "distinct (map user_key (db_users s2))" "db_resources s2 = db_resources s1"
    "\<forall>u. user_key u \<notin> Pair w ` fst ` set seed_users \<longrightarrow> (u \<in> set (db_users s2) \<longleftrightarrow> u \<in> set (db_users s1))"
    using reliable_store.seed_users_step [OF assms(1), of s1 seed_users w ph "[]"] assms(3) s1(2)
      seed_emails_distinct by auto
  have res: "catalog s2 = catalog s" "res_indexed s2"
    using catalog_frame [of s2 s] s1(3) s2(4) assms(2) by simp_all
  have inv: "\<forall>x \<in> set ?inv. i_workspaceId x = w" by (auto dest: mock_workspace)
  obtain s3 docs where s3: "for_io (sync_item env (sd_clock sd) w) [] ?inv s2 = (s3, Inr docs)"
    "\<forall>w'. catalog s3 w' = (if w' = w then fold catalog_update ?inv (catalog s2 w) else catalog s2 w')"
    using reliable_store.sync_list [OF assms(1) res(2) inv, of "sd_clock sd" "[]"] by auto
  have users: "db_users s3 = db_users s2"
    using keepsD [OF keeps_sync_item_users [of "db_users s2" env "sd_clock sd" w "[]" ?inv], of s2] s3(1) by simp
  have "seed env sd vars s = (s3, Inr \<lparr>so_workspaceId = w, so_password = pw, so_tokens = map (seed_token sd c) ds,
      so_synced = length docs\<rparr>)"
    using s1(1) s2(1) s3(1) assms(11)
    by (simp add: seed_def assms(6) con seed_run_def hashPassword_def Let_def bind_io_def flip: assms(4,5))
  then show ?thesis by (rule that) (use s1(2) s2(2,3,5) s3(2) res(1) users in simp_all)
qed

text \<open>A seeded user whose address no other workspace has logs in.\<close>

lemma seeded_user_logs_in:
  assumes "reliable_store env" "u \<in> set (db_users s)" "seeded_as w ph x u" "x \<in> set seed_users" "bc pw ph"
    and "distinct (map user_key (db_users s))"
    and "\<And>v. v \<in> set (db_users s) \<Longrightarrow> u_email v = fst x \<Longrightarrow> u_workspaceId v = w"
  shows "login env bc sign cfg (fst x) pw s = (s, Inr (signAccessToken sign (user_claims u) (ac_JWT_SECRET cfg)
    (Some (ac_JWT_EXPIRES_IN cfg)), serialize (user_doc u)))"
proof (rule reliable_store.login_of_the_only [OF assms(1,2)])
  have u: "user_key u = (w, fst x)" "u_email u = fst x" "u_passwordHash u = ph" "u_active u"
    using assms(3) by (simp_all add: seeded_as_def user_key_def)
  then show "toLowerCase (fst x) = u_email u" "u_active u" "bc pw (u_passwordHash u)"
    using assms(4,5) by simp_all
  fix v assume v: "v \<in> set (db_users s)" "u_email v = u_email u"
  with assms(7) u(1,2) have "user_key v = user_key u" by (simp add: user_key_def)
  with assms(2,6) v(1) show "v = u" by (auto simp: distinct_map dest: inj_onD)
qed


text \<open>Seeding an empty database with nothing configured but a secret.\<close>

definition demo_world :: seed_world where
  "demo_world = \<lparr>sd_connect = (\<lambda>i. if i < 3 then Inl (JsErr ''MongoServerSelectionError'' []) else Inr ()),
     sd_rnd = (\<lambda>_. 0), sd_bcrypt_hash = (\<lambda>plain rounds. Inr (''salt'' @ plain)), sd_jwt_sign = demo_sign,
     sd_clock = (\<lambda>_. 7), sd_issues = []\<rparr>"


end
