(* ===== verification/Worker_Documents.thy ===== *)
theory Worker_Documents
  imports Document_Schemas Job_Worker Seed
begin

text \<open>
  The documents of the worker and of the seed script. Findings and recommendations are upserted, which
  validates nothing, so they conform exactly as far as the diagnostics service keeps to its own contract
  (\<open>diag_conforms\<close>, proved of the service in \<open>Served_Diagnosis\<close>); health checks are created, so a diagnosis that
  breaks it makes the job fail halfway.
\<close>

section \<open>What the worker stores\<close>

definition diag_conforms :: "diag_finding \<Rightarrow> bool" where
  "diag_conforms x \<longleftrightarrow> df_resourceId x \<noteq> [] \<and> df_ruleId x \<noteq> [] \<and> df_severity x \<in> set FINDING_SEVERITIES \<and>
     df_title x \<noteq> [] \<and> df_description x \<noteq> [] \<and> df_actionType x \<noteq> [] \<and> df_explanation x \<noteq> [] \<and>
     df_estimatedImpact x \<noteq> [] \<and> 0 \<le> df_confidence x \<and> df_confidence x \<le> 1"

definition good_job :: "job \<Rightarrow> bool" where
  "good_job j \<longleftrightarrow> diagnosticJobSchema j \<and> j_id j \<noteq> []"

definition good_finding :: "finding \<Rightarrow> bool" where
  "good_finding f \<longleftrightarrow> findingSchema f \<and> f_id f \<noteq> []"

definition worker_conforming :: "db \<Rightarrow> bool" where
  "worker_conforming s \<longleftrightarrow>
     (\<forall>j \<in> set (db_jobs s). good_job j) \<and> (\<forall>f \<in> set (db_findings s). good_finding f) \<and>
     (\<forall>r \<in> set (db_recommendations s). recommendationSchema r) \<and>
     (\<forall>h \<in> set (db_healthChecks s). healthCheckSchema h) \<and> (\<forall>r \<in> set (db_resources s). r_id r \<noteq> [])"

lemma new_documents_conform:
  assumes "diag_conforms x" "w \<noteq> []" "j \<noteq> []" "c \<noteq> []" "i \<noteq> []"
  shows "good_finding (new_finding w j c now x i)"
    and "f \<noteq> [] \<Longrightarrow> recommendationSchema (new_recommendation w j c now x f i)"
    and "healthCheckSchema (new_health_check w now x i)"
  using assms
  by (simp_all add: diag_conforms_def good_finding_def findingSchema_def recommendationSchema_def
      healthCheckSchema_def new_finding_def new_recommendation_def new_health_check_def)

lemma set_documents_conform:
  assumes "diag_conforms x" "j \<noteq> []" "c \<noteq> []"
  shows "good_finding d \<Longrightarrow> good_finding (set_finding c x d)"
    and "recommendationSchema e \<Longrightarrow> recommendationSchema (set_recommendation j c x e)"
  using assms
  by (simp_all add: diag_conforms_def good_finding_def findingSchema_def recommendationSchema_def
      set_finding_def set_recommendation_def)

lemma good_job_updates:
  assumes "good_job j"
  shows "good_job (claim_job qc i now j)" "good_job (heartbeat_job qc now j)" "good_job (complete_job sm now j)"
    "good_job (fail_update qc e now rnd d j)"
  using assms
  by (simp_all add: good_job_def diagnosticJobSchema_def job_updates fail_update_def)

lemma hoare_known: "(Q \<Longrightarrow> hoare I m R E) \<Longrightarrow> hoare (\<lambda>s. I s \<and> Q) m R E"
  by (auto simp: hoare_def)

lemma keeps_settled: "keeps I m \<Longrightarrow> keeps I (settled m)"
  by (rule keepsI) (auto simp: settled_def split: prod.splits dest: keepsD)

lemma hoare_on_db:
  "hoare P m Q E \<Longrightarrow> hoare (\<lambda>(b, s). P s) (on_db m) (\<lambda>x (b, s). Q x s) (\<lambda>e (b, s). E e s)"
  by (auto simp: hoare_def on_db_def split: prod.splits sum.splits)

lemma keeps_bind_known:
  assumes "hoare I m (\<lambda>x s. I s \<and> R x) (\<lambda>_. I)" "\<And>x. R x \<Longrightarrow> keeps I (f x)"
  shows "keeps I (bind_io m f)"
  by (rule hoare_keepsI [OF hoare_bind [OF assms(1)]]) (rule hoare_known, use assms(2) in \<open>simp add: keeps_def\<close>)

lemma keeps_bind_result:
  assumes "keeps I m" "\<And>s s' x. m s = (s', Inr x) \<Longrightarrow> R x" "\<And>x. R x \<Longrightarrow> keeps I (f x)"
  shows "keeps I (bind_io m f)"
proof (rule keeps_bind_known [OF _ assms(3)])
  show "hoare I m (\<lambda>x s. I s \<and> R x) (\<lambda>_. I)"
  proof (rule hoareI)
    fix s s' x assume "I s" "m s = (s', Inr x)"
    then show "I s' \<and> R x" using keepsD [OF assms(1)] assms(2) by (metis fst_conv)
  next
    fix s s' e assume "I s" "m s = (s', Inl e)"
    then show "I s'" using keepsD [OF assms(1)] by (metis fst_conv)
  qed
qed

text \<open>The contract of the diagnostics service: asked about resources that have an identifier, it answers with
  findings that conform.\<close>

definition named :: "diag_request \<Rightarrow> bool" where
  "named q \<longleftrightarrow> (\<forall>d \<in> set (dr_resources q). dq_id d \<noteq> [])"

definition diag_answers_conform :: "fetch_post \<Rightarrow> bool" where
  "diag_answers_conform fetch \<longleftrightarrow>
     (\<forall>q t rsp xs. fetch q t = Some (Inr rsp) \<and> rsp_ok rsp \<and> rsp_json rsp = Inr xs \<and> named (hp_body q) \<longrightarrow>
        (\<forall>x \<in> set xs. diag_conforms x))"

lemma analyze_answer:
  assumes "analyze cl fetch now later payload bs = (bs', Inr xs)"
  obtains rsp where "fetch (analyze_request cl payload) (dc_timeoutMs cl) = Some (Inr rsp)"
    "rsp_ok rsp" "rsp_json rsp = Inr xs"
proof -
  obtain b s where "bs = (b, s)" by (cases bs)
  with assms have "analyze cl fetch now later payload (b, s) = (bs', Inr xs)" by simp
  then have "analyze_fn cl fetch payload = Inr xs" by (rule analyze_cases) simp_all
  with that show ?thesis
    by (auto simp: analyze_fn_def withTimeout_def split: option.splits sum.splits if_splits)
qed

lemma analyze_result_conforms:
  assumes "diag_answers_conform fetch" "named payload" "analyze cl fetch now later payload bs = (bs', Inr xs)"
  shows "\<forall>x \<in> set xs. diag_conforms x"
  using assms(3)
proof (rule analyze_answer)
  fix rsp assume "fetch (analyze_request cl payload) (dc_timeoutMs cl) = Some (Inr rsp)" "rsp_ok rsp" "rsp_json rsp = Inr xs"
  moreover have "named (hp_body (analyze_request cl payload))" using assms(2) by (simp add: analyze_request_def)
  ultimately show ?thesis using assms(1) unfolding diag_answers_conform_def by blast
qed

context store
begin

lemma worker_conforming_store_finding:
  assumes "diag_conforms x" "w \<noteq> []" "j \<noteq> []" "c \<noteq> []"
  shows "keeps worker_conforming (store_finding env clk w j c acc x)"
proof -
  obtain n m where acc: "acc = (n, m)" by (cases acc)
  have f: "hoare worker_conforming (tell db_findings db_findings_update (drv_upsert (e_findings env)
      (matches_finding w j x) (set_finding c x) (new_finding w j c t x)))
      (\<lambda>d s. worker_conforming s \<and> good_finding d) (\<lambda>_. worker_conforming)" for t
  proof (rule findings.hoare_upsert)
    show "f_id (new_finding w j c t x i) = i" for i by (simp add: new_finding_def)
    show "good_finding (new_finding w j c t x i)" if "i \<noteq> []" for i
      using that by (rule new_documents_conform(1) [OF assms])
    show "good_finding (set_finding c x d)" if "good_finding d" for d
      using that by (rule set_documents_conform(1) [OF assms(1,3,4)])
  qed (simp_all add: worker_conforming_def)
  have r: "keeps worker_conforming (tell db_recommendations db_recommendations_update (drv_upsert
      (e_recommendations env) (matches_recommendation w f) (set_recommendation j c x)
      (new_recommendation w j c t x f)))" if "f \<noteq> []" for f t
  proof -
    have "hoare worker_conforming (tell db_recommendations db_recommendations_update (drv_upsert
        (e_recommendations env) (matches_recommendation w f) (set_recommendation j c x)
        (new_recommendation w j c t x f)))
        (\<lambda>d s. worker_conforming s \<and> recommendationSchema d) (\<lambda>_. worker_conforming)"
    proof (rule recommendations.hoare_upsert)
      show "rec_id (new_recommendation w j c t x f i) = i" for i by (simp add: new_recommendation_def)
      show "recommendationSchema (new_recommendation w j c t x f i)" if "i \<noteq> []" for i
        using that \<open>f \<noteq> []\<close> by (rule new_documents_conform(2) [OF assms])
      show "recommendationSchema (set_recommendation j c x d)" if "recommendationSchema d" for d
        using that by (rule set_documents_conform(2) [OF assms(1,3,4)])
    qed (simp_all add: worker_conforming_def)
    then show ?thesis unfolding keeps_def by (rule hoare_conseq) simp_all
  qed
  have h: "keeps worker_conforming (tell db_healthChecks db_healthChecks_update (drv_create (e_healthChecks env)
      (new_health_check w t x)))" for t
    by (rule healthChecks.keeps_create)
      (use new_documents_conform(3) [OF assms] in \<open>auto simp: worker_conforming_def new_health_check_def\<close>)
  have rest: "hoare worker_conforming (bind_io (tell db_recommendations db_recommendations_update (drv_upsert
      (e_recommendations env) (matches_recommendation w (f_id d)) (set_recommendation j c x)
      (new_recommendation w j c t x (f_id d)))) k) (\<lambda>_. worker_conforming) (\<lambda>_. worker_conforming)"
    if "good_finding d" "\<And>y. keeps worker_conforming (k y)" for d t and k :: "recommendation \<Rightarrow> (nat \<times> nat) call"
    using keeps_bind [OF r that(2), of "f_id d"] that(1) by (simp add: keeps_def good_finding_def)
  show ?thesis
    unfolding acc store_finding_def prod.case
    by (rule hoare_keepsI, rule hoare_bind [OF f], rule hoare_known, rule rest) (assumption, intro keeps_bind h keeps_ret)
qed

lemma worker_conforming_claim:
  "hoare worker_conforming (claim env qc i now)
    (\<lambda>found s. worker_conforming s \<and> (case found of None \<Rightarrow> True | Some j \<Rightarrow> good_job j)) (\<lambda>_. worker_conforming)"
proof -
  have k: "keeps worker_conforming (claim env qc i now)"
    unfolding claim_def
    by (rule jobs.keeps_update [where C = good_job]) (simp_all add: worker_conforming_def good_job_updates)
  show ?thesis
  proof (rule hoareI)
    fix s s' found assume s: "worker_conforming s" and c: "claim env qc i now s = (s', Inr found)"
    have s': "worker_conforming s'" using keepsD [OF k s] c by simp
    moreover have "good_job j" if "found = Some j" for j
      using one_updated_member [OF claim_Inr_Some [OF c [unfolded that]]] s' by (simp add: worker_conforming_def)
    ultimately show "worker_conforming s' \<and> (case found of None \<Rightarrow> True | Some j \<Rightarrow> good_job j)"
      by (cases found) simp_all
  next
    fix s s' e assume "worker_conforming s" "claim env qc i now s = (s', Inl e)"
    then show "worker_conforming s'" using keepsD [OF k] by (metis fst_conv)
  qed
qed

lemma worker_conforming_reports:
  "keeps worker_conforming (heartbeat env qc i w now)" "keeps worker_conforming (complete env i sm now)"
  "keeps worker_conforming (fail env qc i e now rnd)"
  unfolding heartbeat_def complete_def fail_def
  by (intro keeps_bind keeps_ask keeps_case_option keeps_ret jobs.keeps_update [where C = good_job];
      simp add: worker_conforming_def good_job_updates)+

end

section \<open>A whole run\<close>

context store
begin

lemma worker_conforming_store_findings:
  assumes "good_job j" "\<forall>x \<in> set xs. diag_conforms x"
  shows "keeps worker_conforming (store_findings env clk (j_workspaceId j) (j_id j) (j_correlationId j) xs)"
  unfolding store_findings_def
  by (intro keeps_for_in worker_conforming_store_finding)
    (use assms in \<open>simp_all add: good_job_def diagnosticJobSchema_def\<close>)

lemma hoare_scope:
  "hoare (\<lambda>(b, s). worker_conforming s) (on_db (ask db_resources (drv_find (e_resources env) p)))
    (\<lambda>rs bs. (case bs of (b, s) \<Rightarrow> worker_conforming s) \<and> named (job_request j rs)) (\<lambda>_ (b, s). worker_conforming s)"
  by (rule hoareI)
    (auto simp: on_db_def ask_def worker_conforming_def named_def job_request_def diag_payload_def resources.find_mem
      split: sum.splits)

lemma worker_conforming_run:
  assumes "wk_env wk = env" "good_job j" "diag_answers_conform (wk_fetch wk)"
  shows "keeps (\<lambda>(b, s). worker_conforming s) (run_in_time wk pace now later j)"
proof -
  have st: "keeps (\<lambda>(b, s). worker_conforming s) (on_db (store_findings (wk_env wk) (wk_clock wk)
      (j_workspaceId j) (j_id j) (j_correlationId j) xs))" if "\<forall>x \<in> set xs. diag_conforms x" for xs
    unfolding assms(1) by (intro keeps_on_db worker_conforming_store_findings assms(2) that)
  have tk: "\<forall>x \<in> set (take n xs). diag_conforms x" if "\<forall>x \<in> set xs. diag_conforms x" for n xs
    using that by (auto dest: in_set_takeD)
  note scope = keeps_bind_known [OF hoare_scope [of "in_scope j" j, folded assms(1)]]
  note an = keeps_bind_result [where R = "\<lambda>xs. \<forall>x \<in> set xs. diag_conforms x", OF keeps_analyze
    analyze_result_conforms [OF assms(3)]]
  show ?thesis
  proof (cases pace)
    case InTime
    show ?thesis
      unfolding InTime run_in_time_def run_job_def pace.case
      by (rule scope, rule an, assumption, assumption)
        (intro keeps_bind st keeps_ret keeps_case_prod, assumption)
  next
    case LateWaiting
    show ?thesis unfolding LateWaiting run_in_time_def pace.case by (rule keeps_throw)
  next
    case (LateStoring n)
    show ?thesis
      unfolding LateStoring run_in_time_def pace.case
      by (rule scope, rule an, assumption, assumption)
        (intro keeps_bind st tk keeps_throw, assumption)
  qed
qed

lemma worker_conforming_processNext:
  assumes "wk_env wk = env" "diag_answers_conform (wk_fetch wk)"
  shows "keeps (\<lambda>(b, s). worker_conforming s) (processNext wk pace claimed sent answered reported beats rnd)"
proof -
  have beats: "keeps worker_conforming (for_io (beat wk j) () beats)" for j
    unfolding beat_def assms(1) by (intro keeps_for keeps_bind keeps_ret worker_conforming_reports)
  have rep: "keeps worker_conforming (report wk reported rnd j outcome)" for j outcome
    unfolding report_def assms(1)
    by (intro keeps_catch keeps_case_sum keeps_throw keeps_bind keeps_ret worker_conforming_reports)
  have rest: "keeps (\<lambda>(b, s). worker_conforming s)
      (bind_io (settled (run_in_time wk pace sent answered j)) (\<lambda>outcome.
       bind_io (on_db (for_io (beat wk j) () beats)) (\<lambda>_.
       bind_io (on_db (report wk reported rnd j outcome)) (\<lambda>_. ret True))))" if "good_job j" for j
    by (intro keeps_bind keeps_settled keeps_on_db worker_conforming_run assms that beats rep keeps_ret)
  show ?thesis
    unfolding processNext_def
  proof (rule hoare_keepsI, rule hoare_bind)
    show "hoare (\<lambda>(b, s). worker_conforming s) (on_db (claim (wk_env wk) (wk_queue wk) (wk_id wk) claimed))
        (\<lambda>found (b, s). worker_conforming s \<and> (case found of None \<Rightarrow> True | Some j \<Rightarrow> good_job j))
        (\<lambda>e (b, s). worker_conforming s)"
      unfolding assms(1) by (rule hoare_on_db [OF worker_conforming_claim])
    fix found
    show "hoare (\<lambda>(b, s). worker_conforming s \<and> (case found of None \<Rightarrow> True | Some j \<Rightarrow> good_job j))
        (case found of None \<Rightarrow> ret False | Some j \<Rightarrow>
           bind_io (settled (run_in_time wk pace sent answered j)) (\<lambda>outcome.
           bind_io (on_db (for_io (beat wk j) () beats)) (\<lambda>_.
           bind_io (on_db (report wk reported rnd j outcome)) (\<lambda>_. ret True))))
        (\<lambda>_ (b, s). worker_conforming s) (\<lambda>_ (b, s). worker_conforming s)"
    proof (cases found)
      case None
      then show ?thesis by (simp add: hoare_ret)
    next
      case (Some j)
      show ?thesis
        unfolding Some option.case
        by (rule hoare_pre [where P' = "\<lambda>p. (case p of (b, s) \<Rightarrow> worker_conforming s) \<and> good_job j"])
          (auto intro!: hoare_known rest [unfolded keeps_def])
    qed
  qed
qed

end

text \<open>
  What the worker stores is as well-formed as what the diagnostics service answers. If every finding in an
  answer of the service keeps to the service's contract, then jobs, findings, recommendations and health
  checks conform to their schemas after any \<^verbatim>\<open>processNext\<close>, if they did before it: also after a
  timeout in the middle of the storing, a database error, a failed report or a rejected diagnosis. The
  contract is needed, since upserts are not validated.
\<close>

theorem worker_documents_conform:
  assumes "store (wk_env wk)" "diag_answers_conform (wk_fetch wk)" "worker_conforming s"
    and "processNext wk pace claimed sent answered reported beats rnd (b, s) = ((b', s'), r)"
  shows "worker_conforming s'"
  using keepsD [OF store.worker_conforming_processNext [OF assms(1) refl assms(2)], of "(b, s)" pace claimed
      sent answered reported beats rnd] assms(3,4)
  by simp

theorem worker_documents_conform_witness:
  "worker_conforming (snd (fst (processNext demo_worker (LateStoring 1) 5 6 7 8 [6] 0
    (CircuitBreaker 5 15000, empty_db\<lparr>db_jobs := [demo_job]\<rparr>))))"
proof -
  have st: "store (wk_env demo_worker)" by (simp add: demo_worker_def mem_store.store_axioms)
  have fetch: "diag_answers_conform (wk_fetch demo_worker)"
    by (auto simp: diag_answers_conform_def demo_worker_def diag_conforms_def demo_diag_def FINDING_SEVERITIES_def)
  have db: "worker_conforming (empty_db\<lparr>db_jobs := [demo_job]\<rparr>)"
    by (simp add: worker_conforming_def empty_db_def good_job_def diagnosticJobSchema_def demo_job_def new_job_def
        demo_input_def)
  obtain b' s' r where run: "processNext demo_worker (LateStoring 1) 5 6 7 8 [6] 0
      (CircuitBreaker 5 15000, empty_db\<lparr>db_jobs := [demo_job]\<rparr>) = ((b', s'), r)" by (metis surj_pair)
  from worker_documents_conform [OF st fetch db run] run show ?thesis by simp
qed


section \<open>What the seed script stores\<close>

definition catalog_conforming :: "db \<Rightarrow> bool" where
  "catalog_conforming s \<longleftrightarrow> (\<forall>r \<in> set (db_resources s). resourceSchema r) \<and>
     (\<forall>u \<in> set (db_users s). userSchema u) \<and> (\<forall>x \<in> set (db_workspaces s). workspaceSchema x)"

lemma mock_items_conform:
  "x \<in> set (buildMockInventory now w) \<Longrightarrow>
    i_workspaceId x = w \<and> i_region x \<noteq> [] \<and> i_arn x \<noteq> [] \<and> i_name x \<noteq> []"
  by (auto simp: buildMockInventory_def mock_ec2_def mock_s3_def mock_lambda_def mock_cloudwatch_def resource_def)

context store
begin

lemma catalog_conforming_seed_user:
  assumes "w \<noteq> []" "ph \<noteq> []" "fst x \<noteq> []"
  shows "keeps catalog_conforming (seed_user env w ph acc x)"
proof -
  obtain email rl where x: "x = (email, rl)" by (cases x)
  have "keeps catalog_conforming (tell db_users db_users_update (drv_upsert (e_users env)
      (\<lambda>u. u_workspaceId u = w \<and> u_email u = email) (set_user w rl ph) (new_user w email rl ph)))"
    by (rule users.keeps_upsert [where C = userSchema])
      (use assms x in \<open>simp_all add: catalog_conforming_def userSchema_def set_user_def new_user_def\<close>)
  then show ?thesis unfolding seed_user_def x prod.case by (intro keeps_bind keeps_ret)
qed

lemma catalog_conforming_sync_item:
  assumes "i_workspaceId x \<noteq> []" "i_region x \<noteq> []" "i_arn x \<noteq> []" "i_name x \<noteq> []"
  shows "keeps catalog_conforming (sync_item env clk w acc x)"
proof -
  have "keeps catalog_conforming (tell db_resources db_resources_update (drv_upsert (e_resources env)
      (same_arn w (i_arn x)) (set_item x t) (new_resource x t)))" for t
    by (rule resources.keeps_upsert [where C = resourceSchema])
      (use assms in \<open>simp_all add: catalog_conforming_def resourceSchema_def set_item_def new_resource_def\<close>)
  then show ?thesis unfolding sync_item_def by (intro keeps_bind keeps_ret)
qed

lemma catalog_conforming_seed_workspace:
  assumes "name \<noteq> []"
  shows "keeps catalog_conforming (seed_workspace env name)"
  unfolding seed_workspace_def
  by (rule workspaces.keeps_upsert [where C = workspaceSchema])
    (use assms in \<open>simp_all add: catalog_conforming_def workspaceSchema_def\<close>)

end

text \<open>
  Seeding keeps the users, the workspaces and the catalog conforming, unless a variable of the environment is
  set to the empty string: \<^verbatim>\<open>??\<close> takes the default only for an unset one, and upserts are not validated.
\<close>

theorem seed_documents_conform:
  assumes "store env" "catalog_conforming s"
    and "env_str vars ''DEFAULT_WORKSPACE_ID'' ''ws_demo_acme'' \<noteq> []"
    and "env_str vars ''DEFAULT_WORKSPACE_NAME'' ''acme-platform'' \<noteq> []"
    and "\<And>p n h. sd_bcrypt_hash sd p n = Inr h \<Longrightarrow> h \<noteq> []"
    and "seed env sd vars s = (s', r)"
  shows "catalog_conforming s'"
proof -
  let ?w = "env_str vars ''DEFAULT_WORKSPACE_ID'' ''ws_demo_acme''"
  have users: "keeps catalog_conforming (for_io (seed_user env ?w ph) [] seed_users)"
    if "sd_bcrypt_hash sd p n = Inr ph" for ph p n
    by (rule keeps_for_in, rule store.catalog_conforming_seed_user [OF assms(1,3) assms(5) [OF that]])
      (auto simp: seed_users_def)
  have inv: "keeps catalog_conforming (for_io (sync_item env clk ?w) [] (buildMockInventory t ?w))" for clk t
    by (rule keeps_for_in, rule store.catalog_conforming_sync_item [OF assms(1)])
      (drule mock_items_conform, simp add: assms(3))+
  have "keeps catalog_conforming (seed_run env sd vars c)" for c
    unfolding seed_run_def Let_def hashPassword_def
    by (intro keeps_bind keeps_case_sum keeps_throw keeps_ret users inv
        store.catalog_conforming_seed_workspace [OF assms(1,4)])
  then have "keeps catalog_conforming (seed env sd vars)"
    unfolding seed_def by (intro keeps_case_option keeps_case_sum keeps_throw)
  from keepsD [OF this assms(2)] assms(6) show ?thesis by simp
qed

end
