(* ===== verification/Diagnosis_Run.thy ===== *)
theory Diagnosis_Run
  imports Job_Worker
begin

text \<open>
  A diagnosis from end to end: the request that creates a job (\<^verbatim>\<open>job-service.ts\<close>), the worker that claims it, finds
  the resources of its workspace, asks the diagnostics service, stores what it answers and reports
  (\<^verbatim>\<open>processor.ts\<close>, \<^verbatim>\<open>queue.ts\<close>), and the request that reads the job afterwards.
\<close>

section \<open>Storing findings always comes to an end\<close>

context reliable_mongo
begin

text \<open>An upsert whose filter covers the unique index returns.\<close>

lemma upsert_returns:
  assumes "\<And>i. key (mk i) = i" "\<And>i e. e \<in> set (get s) \<Longrightarrow> clash (mk i) e \<Longrightarrow> p e"
  obtains s' d where "tell get upd (drv_upsert drv p f mk) s = (s', Inr d)"
proof (cases "drv_upsert drv p f mk (get s)")
  case (Inl e)
  then have "e = DuplicateKey" by (rule upsert_answers)
  with Inl upsert_Dup [OF _ assms(1)] assms(2) show ?thesis by blast
next
  case (Inr r)
  then show ?thesis using that by (cases r) (simp add: tell_def)
qed

end

context reliable_store
begin

lemma store_finding_returns:
  obtains s' v where "store_finding env clk w j c acc x s = (s', Inr v)"
proof -
  obtain n m where acc: "acc = (n, m)" by (cases acc)
  let ?t = "\<lambda>i. clk (3 * n + i)"
  obtain s1 d where d: "tell db_findings db_findings_update (drv_upsert (e_findings env)
      (matches_finding w j x) (set_finding c x) (new_finding w j c (?t 0) x)) s = (s1, Inr d)"
    by (rule findings.upsert_returns [where mk = "new_finding w j c (?t 0) x" and get = db_findings and s = s
        and p = "matches_finding w j x" and f = "set_finding c x" and upd = db_findings_update])
      (auto simp: finding_clash_def new_finding_def matches_finding_def)
  obtain s2 r where r: "tell db_recommendations db_recommendations_update (drv_upsert (e_recommendations env)
      (matches_recommendation w (f_id d)) (set_recommendation j c x)
      (new_recommendation w j c (?t 1) x (f_id d))) s1 = (s2, Inr r)"
    by (rule recommendations.upsert_returns [where mk = "new_recommendation w j c (?t 1) x (f_id d)"
        and get = db_recommendations and s = s1 and p = "matches_recommendation w (f_id d)"
        and f = "set_recommendation j c x" and upd = db_recommendations_update])
      (auto simp: recommendation_clash_def new_recommendation_def matches_recommendation_def)
  obtain h where "drv_create (e_healthChecks env) (new_health_check w (?t 2) x) (db_healthChecks s2) = Inr h"
    by (rule healthChecks.create_fresh [where mk = "new_health_check w (?t 2) x" and s = "db_healthChecks s2"])
      (auto simp: new_health_check_def no_clash_def)
  then obtain s3 k where h: "tell db_healthChecks db_healthChecks_update (drv_create (e_healthChecks env)
      (new_health_check w (?t 2) x)) s2 = (s3, Inr k)"
    by (cases h) (simp add: tell_def)
  show ?thesis
    using d r h by (intro that) (simp add: acc store_finding_def bind_io_def)
qed

lemma store_findings_returns:
  obtains s' v where "for_io (store_finding env clk w j c) acc xs s = (s', Inr v)"
proof -
  have "\<exists>s' v. for_io (store_finding env clk w j c) acc xs s = (s', Inr v)"
  proof (induction xs arbitrary: acc s)
    case (Cons x xs)
    obtain s1 v where "store_finding env clk w j c acc x s = (s1, Inr v)" by (rule store_finding_returns)
    with Cons.IH [of v s1] show ?case by (simp add: bind_io_def)
  qed simp
  with that show ?thesis by blast
qed

end


section \<open>The queue does not touch what is found\<close>

definition found_part :: "db \<Rightarrow> finding list \<times> recommendation list \<times> cloud_resource list" where
  "found_part s = (db_findings s, db_recommendations s, db_resources s)"

lemma found_part_kept:
  "keeps (\<lambda>s. found_part s = X) (create_job env svc clk w a c inp)"
  "keeps (\<lambda>s. found_part s = X) (claim env qc i now)"
  "keeps (\<lambda>s. found_part s = X) (for_io (beat wk j) u beats)"
  "keeps (\<lambda>s. found_part s = X) (report wk now rnd j outcome)"
  unfolding create_job_def create_job_insert_def record_audit_def claim_def beat_def heartbeat_def report_def
    complete_def fail_def
  by (intro keeps_for keeps_bind keeps_catch keeps_ask keeps_case_option keeps_case_sum keeps_if keeps_throw keeps_ret
      keeps_tell_frame; simp add: found_part_def)+

lemma found_partD: "keeps (\<lambda>s. found_part s = found_part s0) m \<Longrightarrow> m s0 = (s', r) \<Longrightarrow>
    db_findings s' = db_findings s0 \<and> db_recommendations s' = db_recommendations s0 \<and> db_resources s' = db_resources s0"
  by (drule keepsD [where s = s0]) (simp_all add: found_part_def)


section \<open>A run in time\<close>

context reliable_store
begin

lemma run_job_returns:
  assumes "wk_env wk = env" "cb_state (maybeHalfOpen now b) \<noteq> Open" "indexed s"
    and "\<And>q. analyze_fn (wk_client wk) (wk_fetch wk) q = Inr (diag q)" "distinct (map r_id (db_resources s))"
    and "\<And>q. distinct (map dq_id (dr_resources q)) \<Longrightarrow> distinct (map diag_key (diag q))"
  obtains rs xs s' where "mset rs = filter_mset (in_scope j) (mset (db_resources s))" "xs = diag (job_request j rs)"
    "run_job wk now later j (b, s) = ((onSuccess (maybeHalfOpen now b), s'),
      Inr \<lparr>sm_resourcesScanned = length rs, sm_findingsCreated = length xs, sm_recommendationsCreated = length xs\<rparr>)"
    "\<forall>x \<in> set xs. stored (j_workspaceId j) (j_id j) (j_correlationId j) s' x"
    "of_other_jobs (j_workspaceId j) (j_id j) (db_findings s') = of_other_jobs (j_workspaceId j) (j_id j) (db_findings s)"
    "job_keys (j_workspaceId j) (j_id j) s' = job_keys (j_workspaceId j) (j_id j) s \<union> diag_key ` set xs"
proof -
  obtain rs where rs: "drv_find (e_resources env) (in_scope j) (db_resources s) = Inr rs"
    by (rule resources.find_total)
  let ?xs = "diag (job_request j rs)"
  have ids: "distinct (map dq_id (dr_resources (job_request j rs)))"
    using resources.find_distinct [OF rs assms(5)] by (simp add: job_request_def diag_payload_def comp_def)
  obtain s' v where st: "for_io (store_finding env (wk_clock wk) (j_workspaceId j) (j_id j) (j_correlationId j))
      (0, 0) ?xs s = (s', Inr v)" by (rule store_findings_returns)
  have eff: "v = (length ?xs, length ?xs) \<and>
      (\<forall>x \<in> set ?xs. stored (j_workspaceId j) (j_id j) (j_correlationId j) s' x) \<and>
      of_other_jobs (j_workspaceId j) (j_id j) (db_findings s') = of_other_jobs (j_workspaceId j) (j_id j) (db_findings s)"
    using store_list [OF st assms(3), of "[]"] assms(6) [OF ids] by simp
  have an: "analyze (wk_client wk) (wk_fetch wk) now later (job_request j rs) (b, s) =
      ((onSuccess (maybeHalfOpen now b), s), Inr ?xs)"
    using assms(2) by (simp add: analyze_def exec_def assms(4) Let_def)
  have run: "run_job wk now later j (b, s) = ((onSuccess (maybeHalfOpen now b), s'),
      Inr \<lparr>sm_resourcesScanned = length rs, sm_findingsCreated = length ?xs, sm_recommendationsCreated = length ?xs\<rparr>)"
    using eff
    by (simp add: run_job_def bind_io_def on_db_def ask_def assms(1) rs an store_findings_def st)
  have keys: "job_keys (j_workspaceId j) (j_id j) s' = job_keys (j_workspaceId j) (j_id j) s \<union> diag_key ` set ?xs"
    using store_list_keys [OF st] store_list_keeps_keys [OF st] eff stored_key by blast
  show ?thesis using that [OF resources.find_Inr [OF rs] refl] run eff keys by blast
qed

end

text \<open>
  A diagnosis runs through. When a request has created a job, no other job is waiting, and the database and the
  diagnostics service answer, the next turn of any worker takes that job and completes it: reading the job then shows it
  completed, with the numbers of the resources in its scope and of the findings; every finding that the
  service has reported on exactly these resources is stored for the job with its recommendation, findings of
  other jobs are as they were, and the breaker is closed.
\<close>

theorem created_job_is_diagnosed:
  assumes "reliable_store (wk_env wk)" "distinct (map j_id (db_jobs s))" "indexed s"
    and "\<forall>e \<in> set (db_jobs s). \<not> claimable t0 e"
    and "create_job (wk_env wk) svc clk w a c inp s = (s1, Inr (j, False))" "clk 0 \<le> t0"
    and "cb_state (maybeHalfOpen t1 b) \<noteq> Open"
    and "\<And>q. analyze_fn (wk_client wk) (wk_fetch wk) q = Inr (diag q)" "distinct (map r_id (db_resources s))"
    and "\<And>q. distinct (map dq_id (dr_resources q)) \<Longrightarrow> distinct (map diag_key (diag q))"
    and "processNext wk InTime t0 t1 t2 t3 beats rnd (b, s1) = ((b', s2), r)"
  shows "r = Inr True \<and> cb_state b' = Closed \<and> (\<exists>rs xs k.
    mset rs = filter_mset (in_scope j) (mset (db_resources s)) \<and> xs = diag (job_request j rs) \<and>
    get_job (wk_env wk) w (j_id j) s2 = (s2, Inr (Some k)) \<and> j_status k = Completed \<and>
    j_resultSummary k = Some \<lparr>sm_resourcesScanned = length rs, sm_findingsCreated = length xs,
      sm_recommendationsCreated = length xs\<rparr> \<and>
    (\<forall>x \<in> set xs. stored w (j_id j) c s2 x) \<and>
    of_other_jobs w (j_id j) (db_findings s2) = of_other_jobs w (j_id j) (db_findings s) \<and>
    job_keys w (j_id j) s2 = job_keys w (j_id j) s \<union> diag_key ` set xs)"
proof -
  have st: "store (wk_env wk)" using assms(1) by (rule reliable_store_is_store)
  have "db_jobs s1 = db_jobs s @ [j] \<and> j = new_job svc clk w a c inp (j_id j) \<and> j_id j \<notin> j_id ` set (db_jobs s)"
    using st assms(5) by (cases rule: create_run_cases) auto
  then have new: "db_jobs s1 = db_jobs s @ [j]" "j = new_job svc clk w a c inp (j_id j)" "j_id j \<notin> j_id ` set (db_jobs s)"
    by blast+
  have f1: "db_findings s1 = db_findings s" "db_recommendations s1 = db_recommendations s" "db_resources s1 = db_resources s"
    using found_partD [OF found_part_kept(1) assms(5)] by simp_all
  have ids: "distinct (map j_id (db_jobs s1))" using new(1,3) assms(2) by simp
  show ?thesis
  proof (cases rule: worker_turn [OF assms(1) ids, where claimed = t0 and pace = InTime and sent = t1
      and answered = t2 and b = b and beats = beats])
    case 1
    have "claimable t0 j" using assms(6) by (subst new(2)) (simp add: claimable_def new_job_def)
    with 1(1) new(1) show ?thesis by simp
  next
    case (2 s3 i j1 b2 s4 outcome s5 k)
    have i: "i = j" using 2(1,2) new(1) assms(4) by auto
    note j1 = 2(3) [unfolded i]
    have fields: "j_workspaceId j = w" "j_correlationId j = c" by (subst new(2), simp add: new_job_def)+
    have same: "j_workspaceId j1 = w" "j_correlationId j1 = c" "j_id j1 = j_id j" "in_scope j1 = in_scope j"
      "job_request j1 = job_request j"
      using fields by (simp_all add: j1 claim_job_def in_scope_def [abs_def] job_request_def [abs_def])
    have f3: "db_findings s3 = db_findings s" "db_recommendations s3 = db_recommendations s"
      "db_resources s3 = db_resources s"
      using found_partD [OF found_part_kept(2) 2(4)] f1 by simp_all
    have ix: "indexed s3" using assms(3) store.stored_frame [OF st f3(1,2)] by blast
    obtain rs xs s' where run: "mset rs = filter_mset (in_scope j) (mset (db_resources s))" "xs = diag (job_request j rs)"
      "run_job wk t1 t2 j1 (b, s3) = ((onSuccess (maybeHalfOpen t1 b), s'),
        Inr \<lparr>sm_resourcesScanned = length rs, sm_findingsCreated = length xs, sm_recommendationsCreated = length xs\<rparr>)"
      "\<forall>x \<in> set xs. stored w (j_id j) c s' x"
      "of_other_jobs w (j_id j) (db_findings s') = of_other_jobs w (j_id j) (db_findings s)"
      "job_keys w (j_id j) s' = job_keys w (j_id j) s3 \<union> diag_key ` set xs"
      by (rule reliable_store.run_job_returns [OF assms(1) refl assms(7) ix assms(8) _ assms(10), where j = j1 and later = t2,
            unfolded same f3, OF assms(9)])
    let ?sm = "\<lparr>sm_resourcesScanned = length rs, sm_findingsCreated = length xs, sm_recommendationsCreated = length xs\<rparr>"
    have out: "b2 = onSuccess (maybeHalfOpen t1 b)" "s4 = s'" "outcome = Inr ?sm"
      using 2(5) run(3) by (simp_all add: run_in_time_def)
    have ids1: "j_id k = j_id j" "j_workspaceId k = w" using 2(8) same by (simp_all add: same_run_def)
    let ?k = "settled_as wk t3 rnd outcome k"
    obtain s6 where rep: "report wk t3 rnd j1 outcome s5 = (s6, Inr ())" "db_jobs s6 = with_job (j_id j) ?k (db_jobs s1)"
      using reliable_store.report_settles [OF assms(1) 2(7) [unfolded i] ids1(1) same(3) _ refl ids] 2(1) i by blast
    have ends: "s2 = s6" "r = Inr True" "b' = b2"
      using assms(11)
      by (simp_all add: processNext_def bind_io_def settled_def 2(5) on_db_def 2(4) 2(6) rep(1))
    have f6: "db_findings s2 = db_findings s'" "db_recommendations s2 = db_recommendations s'"
      using found_partD [OF found_part_kept(3) 2(6)] found_partD [OF found_part_kept(4) rep(1)] out(2) ends(1) by simp_all
    have k: "j_id ?k = j_id j" "j_workspaceId ?k = w" "j_status ?k = Completed" "j_resultSummary ?k = Some ?sm"
      using ids1 by (simp_all add: out(3) settled_as_def complete_job_def)
    have "?k \<in> set (db_jobs s2)" "distinct (map j_id (db_jobs s2))"
      using rep(2) ends(1) ids new(1) k(1) by (simp_all add: with_job_member with_job_ids)
    from reliable_store.job_found [OF assms(1) this(2,1)] k(1,2)
    have "get_job (wk_env wk) w (j_id j) s2 = (s2, Inr (Some ?k))" by (simp add: get_job_def ask_def)
    moreover have "\<forall>x \<in> set xs. stored w (j_id j) c s2 x" using run(4) store.stored_frame [OF st f6] by blast
    moreover have "cb_state b' = Closed" by (simp add: ends(3) out(1) onSuccess_def)
    moreover have "job_keys w (j_id j) s2 = job_keys w (j_id j) s \<union> diag_key ` set xs"
      using run(6) f3(1) f6(1) by (simp add: job_keys_def)
    moreover have "of_other_jobs w (j_id j) (db_findings s2) = of_other_jobs w (j_id j) (db_findings s)"
      using run(5) f6(1) by simp
    ultimately show ?thesis
      using ends(2) run(1,2) k(3,4)
      by (intro conjI exI [of _ rs] exI [of _ xs] exI [of _ ?k]) simp_all
  qed
qed

theorem created_job_is_diagnosed_witness:
  "\<exists>s1 j b' s2 k. create_job mem_env \<lparr>js_maxAttempts = 3, js_timeoutMs = 20000\<rparr> (\<lambda>_. 0) ''ws1'' ''u1'' ''c1''
       demo_input empty_db = (s1, Inr (j, False)) \<and>
     processNext demo_worker InTime 5 6 7 8 [6] 0 (CircuitBreaker 5 15000, s1) = ((b', s2), Inr True) \<and>
     get_job mem_env ''ws1'' (j_id j) s2 = (s2, Inr (Some k)) \<and> j_status k = Completed \<and>
     stored ''ws1'' (j_id j) ''c1'' s2 (demo_diag ''s3.public_access'')"
proof -
  obtain s1 j where c: "create_job (wk_env demo_worker) \<lparr>js_maxAttempts = 3, js_timeoutMs = 20000\<rparr> (\<lambda>_. 0) ''ws1'' ''u1'' ''c1''
      demo_input empty_db = (s1, Inr (j, False))"
    by (auto simp: demo_worker_def create_job_def create_job_insert_def catch_io_def bind_io_def ask_def tell_def
        empty_db_def mem_create_def record_audit_def no_clash_def Let_def)
  obtain b' s2 r where run: "processNext demo_worker InTime 5 6 7 8 [6] 0 (CircuitBreaker 5 15000, s1) = ((b', s2), r)"
    by (metis surj_pair)
  have w: "reliable_store (wk_env demo_worker)" and env: "wk_env demo_worker = mem_env"
    using mem_store.reliable_store_axioms by (simp_all add: demo_worker_def)
  have s: "distinct (map j_id (db_jobs empty_db))" "indexed empty_db" "\<forall>e \<in> set (db_jobs empty_db). \<not> claimable 5 e"
    "distinct (map r_id (db_resources empty_db))"
    by (simp_all add: empty_db_def indexed_def)
  have b: "cb_state (maybeHalfOpen 6 (CircuitBreaker 5 15000)) \<noteq> Open"
    by (simp add: maybeHalfOpen_def CircuitBreaker_def)
  have an: "analyze_fn (wk_client demo_worker) (wk_fetch demo_worker) q = Inr ((\<lambda>_. [demo_diag ''s3.public_access'']) q)"
    "distinct (map diag_key ((\<lambda>_. [demo_diag ''s3.public_access'']) q))" for q
    by (simp_all add: demo_worker_def analyze_fn_def withTimeout_def rsp_ok_def)
  have t: "(\<lambda>_::nat. 0::int) 0 \<le> 5" by simp
  show ?thesis
    using created_job_is_diagnosed [OF w s(1-3) c t b an(1) s(4) an(2) run] c run unfolding env by auto
qed

end
