(* ===== verification/Served_Diagnosis.thy ===== *)
theory Served_Diagnosis
  imports Diagnostics_Service Worker_Documents Diagnosis_Run
begin

text \<open>
  The worker and the diagnostics service together. The locale \<open>diagnosis_engine\<close> is what the worker relies on:
  findings are about the resources asked about, at most one for each resource and rule, and conform to the schemas;
  \<^verbatim>\<open>evaluate\<close> keeps it. The network between them is a parameter: \<open>served\<close> says that it delivers nothing but what
  the service has answered, \<open>available\<close> that it always delivers.
\<close>

section \<open>The interface\<close>

locale diagnosis_engine =
  fixes diagnose :: "diag_resource \<Rightarrow> diag_finding list"
  assumes about: "x \<in> set (diagnose r) \<Longrightarrow> df_resourceId x = dq_id r"
    and once: "distinct (map df_ruleId (diagnose r))"
    and conforming: "dq_id r \<noteq> [] \<Longrightarrow> x \<in> set (diagnose r) \<Longrightarrow> diag_conforms x"
begin

lemma answers_conform:
  "named q \<Longrightarrow> x \<in> set (concat (map diagnose (dr_resources q))) \<Longrightarrow> diag_conforms x"
  by (auto simp: named_def intro: conforming)

lemma keys_about: "diag_key ` set (concat (map diagnose rs)) =
    {(dq_id r, i) | r i. r \<in> set rs \<and> i \<in> df_ruleId ` set (diagnose r)}"
  by (auto simp: diag_key_def about image_iff; blast)

lemma keys_distinct: "distinct (map dq_id rs) \<Longrightarrow> distinct (map diag_key (concat (map diagnose rs)))"
proof (induction rs)
  case (Cons r rs)
  have "map diag_key (diagnose r) = map (Pair (dq_id r)) (map df_ruleId (diagnose r))"
    by (simp add: diag_key_def about)
  then have "distinct (map diag_key (diagnose r))" using once [of r] by (simp add: distinct_map inj_on_def)
  moreover have "diag_key ` set (diagnose r) \<inter> diag_key ` set (concat (map diagnose rs)) = {}"
  proof (rule ccontr)
    assume "\<not> ?thesis"
    then obtain k where "k \<in> diag_key ` set (diagnose r)" "k \<in> diag_key ` set (concat (map diagnose rs))" by blast
    then have "fst k = dq_id r" "fst k \<in> dq_id ` set rs" by (auto simp: diag_key_def about)
    with Cons.prems show False by simp
  qed
  moreover have "distinct (map diag_key (concat (map diagnose rs)))" using Cons by simp
  ultimately show ?case by (simp del: set_concat)
qed simp

end

lemma severities_known: "s \<in> set [''critical'', ''high'', ''medium'', ''low''] \<Longrightarrow> s \<in> set FINDING_SEVERITIES"
  by (auto simp: FINDING_SEVERITIES_def)

interpretation engine: diagnosis_engine evaluate
proof
  fix r x assume x: "x \<in> set (evaluate r)"
  show "df_resourceId x = dq_id r" by (rule evaluate_members(1) [OF x])
  assume "dq_id r \<noteq> []"
  then show "diag_conforms x"
    using evaluate_members [OF x] evaluate_rule_ids [OF x] severities_known
    unfolding diag_conforms_def by metis
qed (rule evaluate_rules_distinct)


section \<open>The network\<close>

definition served :: "fetch_post \<Rightarrow> bool" where
  "served fetch \<longleftrightarrow> (\<forall>q t rsp xs. fetch q t = Some (Inr rsp) \<and> rsp_ok rsp \<and> rsp_json rsp = Inr xs \<longrightarrow>
     (\<exists>started ended m. xs = as_findings (snd (analyze_endpoint started ended (hp_body q) m))))"

definition available :: "fetch_post \<Rightarrow> bool" where
  "available fetch \<longleftrightarrow> (\<forall>q t. \<exists>rsp started ended m. fetch q t = Some (Inr rsp) \<and> rsp_ok rsp \<and>
     rsp_json rsp = Inr (as_findings (snd (analyze_endpoint started ended (hp_body q) m))))"

lemma served_answers_conform: "served fetch \<Longrightarrow> diag_answers_conform fetch"
  unfolding served_def diag_answers_conform_def analyze_endpoint_findings
  by (metis engine.answers_conform service_findings_def)

lemma available_answers: "available fetch \<Longrightarrow> analyze_fn cl fetch q = Inr (service_findings q)"
proof -
  assume "available fetch"
  then obtain rsp where "fetch (analyze_request cl q) (dc_timeoutMs cl) = Some (Inr rsp)" "rsp_ok rsp"
    "rsp_json rsp = Inr (service_findings q)"
    unfolding available_def analyze_endpoint_findings by (force simp: analyze_request_def)
  then show ?thesis by (simp add: analyze_fn_def withTimeout_def)
qed

lemma service_keys:
  "diag_key ` set (service_findings (job_request j rs)) =
    {(r_id r, i) | r i a applies. r \<in> set rs \<and> (i, a, applies) \<in> set policy \<and> applies (diag_payload r)}"
proof -
  have rule: "i \<in> df_ruleId ` set (evaluate r) \<longleftrightarrow> (\<exists>a applies. (i, a, applies) \<in> set policy \<and> applies r)" for i r
    by (simp add: evaluate_rule_set)
  have image: "{(dq_id r, i) | r i. r \<in> f ` S \<and> P r i} = {(dq_id (f r), i) | r i. r \<in> S \<and> P (f r) i}"
    for f :: "cloud_resource \<Rightarrow> diag_resource" and S and P :: "diag_resource \<Rightarrow> string \<Rightarrow> bool" by blast
  have d: "dr_resources (job_request j rs) = map diag_payload rs" "dq_id (diag_payload r) = r_id r" for r
    by (simp_all add: job_request_def diag_payload_def)
  show ?thesis unfolding service_findings_def engine.keys_about rule d(1) set_map image d(2) by blast
qed


section \<open>A diagnosis by the service\<close>

text \<open>
  C14. With the diagnostics service of this repository behind the network, what the worker stores conforms to the
  schemas: whatever the network delivers or loses, and after time-outs in the middle, database errors and failed reports
  too, jobs, findings, recommendations and health checks conform after any \<^verbatim>\<open>processNext\<close> if they did before it and
  the resources have identifiers. Upserts are not validated, so this rests on the rules of the service.
\<close>

theorem served_documents_conform:
  assumes "store (wk_env wk)" "served (wk_fetch wk)" "worker_conforming s"
    and "processNext wk pace claimed sent answered reported beats rnd (b, s) = ((b', s'), r)"
  shows "worker_conforming s'"
  by (rule worker_documents_conform [OF assms(1) served_answers_conform [OF assms(2)] assms(3,4)])

text \<open>A worker whose requests are answered by the service, and two resources that it finds fault with.\<close>

definition service_fetch :: fetch_post where
  "service_fetch = (\<lambda>q t. Some (Inr \<lparr>rsp_status = 200, rsp_json =
     Inr (as_findings (snd (analyze_endpoint 0 1 (hp_body q) \<lparr>sv_requests = [], sv_durations = []\<rparr>)))\<rparr>))"

lemma service_fetch: "served service_fetch" "available service_fetch"
  by (auto simp: served_def available_def service_fetch_def rsp_ok_def)

definition served_worker :: worker where
  "served_worker = demo_worker\<lparr>wk_fetch := service_fetch\<rparr>"

definition audited_resource :: cloud_resource where
  "audited_resource = \<lparr>r_id = ''r1'', r_workspaceId = ''ws1'', r_provider = MockProvider, r_type = S3,
     r_region = ''us-east-1'', r_arn = ''arn:aws:s3:::assets'', r_name = ''assets'',
     r_tags = [(''Environment'', ''prod''), (''Service'', ''cdn'')],
     r_config = s3_config True True [''size''] True, r_metrics = no_metrics, r_lastSyncedAt = 0, r_version = 1\<rparr>"

definition audited_db :: db where
  "audited_db = empty_db\<lparr>db_resources := [audited_resource]\<rparr>"

theorem served_documents_conform_witness:
  "worker_conforming (snd (fst (processNext served_worker (LateStoring 1) 5 6 7 8 [6] 0
    (CircuitBreaker 5 15000, audited_db\<lparr>db_jobs := [demo_job]\<rparr>))))"
proof -
  have st: "store (wk_env served_worker)" by (simp add: served_worker_def demo_worker_def mem_store.store_axioms)
  have fetch: "served (wk_fetch served_worker)" by (simp add: served_worker_def service_fetch)
  have db: "worker_conforming (audited_db\<lparr>db_jobs := [demo_job]\<rparr>)"
    by (simp add: worker_conforming_def audited_db_def empty_db_def good_job_def diagnosticJobSchema_def demo_job_def
        new_job_def demo_input_def audited_resource_def)
  obtain b' s' r where run: "processNext served_worker (LateStoring 1) 5 6 7 8 [6] 0
      (CircuitBreaker 5 15000, audited_db\<lparr>db_jobs := [demo_job]\<rparr>) = ((b', s'), r)" by (metis surj_pair)
  from served_documents_conform [OF st fetch db run] run show ?thesis by simp
qed

lemma stored_recommends:
  assumes "stored w j c s x"
  shows "\<exists>f \<in> set (db_findings s). \<exists>m \<in> set (db_recommendations s). f_workspaceId f = w \<and> f_jobId f = j \<and>
    f_resourceId f = df_resourceId x \<and> f_ruleId f = df_ruleId x \<and> rec_workspaceId m = w \<and> rec_findingId m = f_id f \<and>
    rec_actionType m = df_actionType x"
proof -
  obtain f m where f: "f \<in> set (db_findings s)" "matches_finding w j x f" and m: "m \<in> set (db_recommendations s)"
    "matches_recommendation w (f_id f) m" "set_recommendation j c x m = m"
    using assms unfolding stored_def by blast
  have "rec_actionType m = df_actionType x"
    using arg_cong [OF m(3), of rec_actionType] by (simp add: set_recommendation_def)
  then show ?thesis
    using f m(1,2) unfolding matches_finding_def matches_recommendation_def by blast
qed

text \<open>
  C9. A diagnosis finds what the policy finds. When a request has created a job, no other job is waiting, and the database
  and the diagnostics service answer, the next turn of any worker takes that job and completes it: the findings of the job
  are then exactly the resources in its scope with the rules of the policy that apply to them, each with a recommendation
  of the action that the policy has for the rule; findings of other jobs are as they were, and the breaker is closed.
\<close>

theorem policy_is_diagnosed:
  assumes "reliable_store (wk_env wk)" "available (wk_fetch wk)"
    and "distinct (map j_id (db_jobs s))" "indexed s" "distinct (map r_id (db_resources s))"
    and "\<forall>e \<in> set (db_jobs s). \<not> claimable t0 e"
    and "create_job (wk_env wk) svc clk w a c inp s = (s1, Inr (j, False))" "clk 0 \<le> t0"
    and "cb_state (maybeHalfOpen t1 b) \<noteq> Open"
    and "processNext wk InTime t0 t1 t2 t3 beats rnd (b, s1) = ((b', s2), r)"
  shows "r = Inr True \<and> cb_state b' = Closed
    \<and> (\<exists>k. get_job (wk_env wk) w (j_id j) s2 = (s2, Inr (Some k)) \<and> j_status k = Completed)
    \<and> job_keys w (j_id j) s2 = job_keys w (j_id j) s \<union> {(r_id d, rule) | d rule action applies.
        d \<in> set (db_resources s) \<and> in_scope j d \<and> (rule, action, applies) \<in> set policy \<and> applies (diag_payload d)}
    \<and> (\<forall>d rule action applies. d \<in> set (db_resources s) \<and> in_scope j d \<and>
        (rule, action, applies) \<in> set policy \<and> applies (diag_payload d) \<longrightarrow>
        (\<exists>f \<in> set (db_findings s2). \<exists>m \<in> set (db_recommendations s2). f_workspaceId f = w \<and> f_jobId f = j_id j \<and>
          f_resourceId f = r_id d \<and> f_ruleId f = rule \<and> rec_workspaceId m = w \<and> rec_findingId m = f_id f \<and>
          rec_actionType m = action))
    \<and> of_other_jobs w (j_id j) (db_findings s2) = of_other_jobs w (j_id j) (db_findings s)"
proof -
  have distinct: "distinct (map diag_key (service_findings q))" if "distinct (map dq_id (dr_resources q))" for q
    unfolding service_findings_def by (rule engine.keys_distinct [OF that])
  obtain rs xs k where run: "r = Inr True" "cb_state b' = Closed"
    "mset rs = filter_mset (in_scope j) (mset (db_resources s))" "xs = service_findings (job_request j rs)"
    "get_job (wk_env wk) w (j_id j) s2 = (s2, Inr (Some k))" "j_status k = Completed"
    "\<forall>x \<in> set xs. stored w (j_id j) c s2 x"
    "of_other_jobs w (j_id j) (db_findings s2) = of_other_jobs w (j_id j) (db_findings s)"
    "job_keys w (j_id j) s2 = job_keys w (j_id j) s \<union> diag_key ` set xs"
    using created_job_is_diagnosed [OF assms(1,3,4,6-9) available_answers [OF assms(2)] assms(5) distinct assms(10)]
    by blast
  have rs: "d \<in> set rs \<longleftrightarrow> d \<in> set (db_resources s) \<and> in_scope j d" for d
    using filter_mset_mem [OF run(3)] .
  have "\<exists>f \<in> set (db_findings s2). \<exists>m \<in> set (db_recommendations s2). f_workspaceId f = w \<and> f_jobId f = j_id j \<and>
      f_resourceId f = r_id d \<and> f_ruleId f = rule \<and> rec_workspaceId m = w \<and> rec_findingId m = f_id f \<and> rec_actionType m = action"
    if policy: "d \<in> set (db_resources s)" "in_scope j d" "(rule, action, applies) \<in> set policy" "applies (diag_payload d)"
    for d rule action applies
  proof -
    obtain x where x: "x \<in> set (evaluate (diag_payload d))" "df_ruleId x = rule" "df_actionType x = action"
      using evaluate_iff policy(3,4) by blast
    then have "x \<in> set xs" using policy(1,2) by (auto simp: run(4) service_findings_def job_request_def rs)
    with run(7) have "stored w (j_id j) c s2 x" by blast
    moreover have "df_resourceId x = r_id d" using engine.about [OF x(1)] by (simp add: diag_payload_def)
    ultimately show ?thesis using stored_recommends x(2,3) by metis
  qed
  then show ?thesis using run(1,2,5,6,8,9) by (auto simp: service_keys run(4) rs)
qed

lemma audited_rules:
  "map df_ruleId (evaluate (diag_payload audited_resource)) = [''resource.missing_tags'', ''s3.public_access'']"
  by code_simp

theorem policy_is_diagnosed_witness:
  "\<exists>s1 j b' s2 k. create_job mem_env \<lparr>js_maxAttempts = 3, js_timeoutMs = 20000\<rparr> (\<lambda>_. 0) ''ws1'' ''u1'' ''c1''
       demo_input audited_db = (s1, Inr (j, False)) \<and>
     processNext served_worker InTime 5 6 7 8 [6] 0 (CircuitBreaker 5 15000, s1) = ((b', s2), Inr True) \<and>
     get_job mem_env ''ws1'' (j_id j) s2 = (s2, Inr (Some k)) \<and> j_status k = Completed \<and>
     job_keys ''ws1'' (j_id j) s2 = {(''r1'', ''resource.missing_tags''), (''r1'', ''s3.public_access'')}"
proof -
  have env: "wk_env served_worker = mem_env" by (simp add: served_worker_def demo_worker_def)
  have w: "reliable_store (wk_env served_worker)" unfolding env by (rule mem_store.reliable_store_axioms)
  have f: "available (wk_fetch served_worker)" by (simp add: served_worker_def service_fetch)
  obtain s1 j where c: "create_job (wk_env served_worker) \<lparr>js_maxAttempts = 3, js_timeoutMs = 20000\<rparr> (\<lambda>_. 0)
      ''ws1'' ''u1'' ''c1'' demo_input audited_db = (s1, Inr (j, False))"
    and j: "j_workspaceId j = ''ws1'' \<and> j_resourceIds j = None \<and> j_resourceTypes j = None"
    by (auto simp: env create_job_def create_job_insert_def catch_io_def bind_io_def ask_def tell_def audited_db_def
        empty_db_def mem_create_def record_audit_def no_clash_def Let_def new_job_def demo_input_def)
  from j have j': "in_scope j audited_resource" by (simp add: in_scope_def selected_def audited_resource_def)
  obtain b' s2 r where run: "processNext served_worker InTime 5 6 7 8 [6] 0 (CircuitBreaker 5 15000, s1) = ((b', s2), r)"
    by (metis surj_pair)
  have s: "distinct (map j_id (db_jobs audited_db))" "indexed audited_db" "distinct (map r_id (db_resources audited_db))"
    "\<forall>e \<in> set (db_jobs audited_db). \<not> claimable 5 e" "db_resources audited_db = [audited_resource]"
    "job_keys ''ws1'' (j_id j) audited_db = {}"
    by (simp_all add: audited_db_def empty_db_def indexed_def job_keys_def)
  have b: "cb_state (maybeHalfOpen 6 (CircuitBreaker 5 15000)) \<noteq> Open"
    by (simp add: maybeHalfOpen_def CircuitBreaker_def)
  have t: "(\<lambda>_::nat. 0::int) 0 \<le> 5" by simp
  have "{(r_id d, rule) | d rule action applies. d \<in> set (db_resources audited_db) \<and> in_scope j d \<and>
      (rule, action, applies) \<in> set policy \<and> applies (diag_payload d)} =
      Pair (r_id audited_resource) ` {rule. \<exists>action applies. (rule, action, applies) \<in> set policy \<and>
        applies (diag_payload audited_resource)}"
    unfolding s(5) using j' by auto
  also have "\<dots> = Pair (r_id audited_resource) ` set (map df_ruleId (evaluate (diag_payload audited_resource)))"
    unfolding set_map evaluate_rule_set ..
  also have "\<dots> = {(''r1'', ''resource.missing_tags''), (''r1'', ''s3.public_access'')}"
    unfolding audited_rules by (simp add: audited_resource_def)
  finally have found: "{(r_id d, rule) | d rule action applies. d \<in> set (db_resources audited_db) \<and> in_scope j d \<and>
      (rule, action, applies) \<in> set policy \<and> applies (diag_payload d)} =
      {(''r1'', ''resource.missing_tags''), (''r1'', ''s3.public_access'')}" .
  show ?thesis
    using policy_is_diagnosed [OF w f s(1-4) c t b run] c run unfolding env found s(6) by auto
qed

end
