(* ===== verification/Remediation_Run.thy ===== *)
theory Remediation_Run
  imports Remediation_Guarantees
begin

text \<open>
  A remediation from end to end (\<^verbatim>\<open>remediation-service.ts\<close>): the plan of a finding, its approval and its
  execution, as three requests of which each uses what the one before has answered.
\<close>

section \<open>Planning and approving\<close>

definition action_for :: "string \<Rightarrow> finding \<Rightarrow> action" where
  "action_for actionType f =
     \<lparr>a_actionType = actionType, a_resourceId = f_resourceId f, a_findingId = f_id f,
       a_params = defaultParams actionType (f_resourceId f)\<rparr>"

lemma plan_of_one:
  assumes "act \<in> set ALLOWLISTED_ACTIONS" "\<exists>r \<in> set recs. rec_findingId r = f_id f"
    and "\<forall>r \<in> set recs. rec_findingId r = f_id f \<longrightarrow> rec_actionType r = act"
  shows "plan_actions recs [f] = Inr [action_for act f]"
proof -
  have "recByFinding recs (f_id f) \<noteq> None"
  proof
    assume "recByFinding recs (f_id f) = None"
    with assms(2) show False by (force simp: recByFinding_def map_of_eq_None_iff)
  qed
  then obtain r where r: "recByFinding recs (f_id f) = Some r" by blast
  then have "r \<in> set recs \<and> rec_findingId r = f_id f"
    by (auto simp: recByFinding_def dest!: map_of_SomeD)
  with r assms(3) have "plan_action_type recs f = act" by (simp add: plan_action_type_def)
  moreover have "act \<noteq> ''manual_review''" using assms(1) by (auto simp: ALLOWLISTED_ACTIONS_def)
  ultimately show ?thesis
    using assms(1) by (simp add: plan_action_def action_for_def split: sum.split) (simp add: assertAllowlisted_def)
qed

context reliable_store
begin

lemma createPlan_answers:
  assumes "\<forall>p \<in> set (db_plans s). p_workspaceId p = w \<longrightarrow> p_idempotencyKey p \<noteq> pi_idempotencyKey inp"
    and "distinct (map f_id (db_findings s))" "f \<in> set (db_findings s)" "f_workspaceId f = w" "pi_findingIds inp = [f_id f]"
    and "act \<in> set ALLOWLISTED_ACTIONS"
    and "\<exists>r \<in> set (db_recommendations s). rec_workspaceId r = w \<and> rec_findingId r = f_id f"
    and "\<forall>r \<in> set (db_recommendations s). rec_workspaceId r = w \<and> rec_findingId r = f_id f \<longrightarrow> rec_actionType r = act"
  obtains s1 p where "createPlan env clk w a c inp s = (s1, Inr (p, False))"
    "p = new_plan w a c inp [action_for act f] (p_id p)" "db_plans s1 = db_plans s @ [p]"
    "db_tokens s1 = db_tokens s" "db_executions s1 = db_executions s" "db_resources s1 = db_resources s"
proof -
  obtain ex where ex: "drv_findOne (e_plans env) (\<lambda>p. p_workspaceId p = w \<and> p_idempotencyKey p = pi_idempotencyKey inp)
      (db_plans s) = Inr ex" by (rule plans.findOne_total)
  with assms(1) have "ex = None" using plans.findOne_Some by (cases ex) blast+
  note none = ex [unfolded this]
  obtain fs where fs: "drv_find (e_findings env) (\<lambda>g. f_workspaceId g = w \<and> f_id g \<in> set (pi_findingIds inp))
      (db_findings s) = Inr fs" by (rule findings.find_total)
  have mem: "g \<in> set fs \<longleftrightarrow> g = f" for g
    using findings.find_mem [OF fs, of g] assms(2-5) distinct_key_unique [of f_id "db_findings s" g f] by auto
  have "distinct fs" using findings.find_distinct [OF fs assms(2)] by (simp add: distinct_map)
  with mem have one: "fs = [f]"
    by (cases fs; cases "tl fs") (auto, metis list.set_intros(1))
  obtain recs where recs: "drv_find (e_recommendations env) (\<lambda>r. rec_workspaceId r = w \<and>
      rec_findingId r \<in> set (map f_id fs)) (db_recommendations s) = Inr recs" by (rule recommendations.find_total)
  have acts: "plan_actions recs fs = Inr [action_for act f]"
    unfolding one
    by (rule plan_of_one [OF assms(6)]) (use recommendations.find_mem [OF recs] assms(7,8) in \<open>auto simp: one\<close>)
  obtain p where p: "drv_create (e_plans env) (new_plan w a c inp [action_for act f]) (db_plans s) = Inr (db_plans s @ [p], p)"
    "p = new_plan w a c inp [action_for act f] (p_id p)"
    by (rule plans.create_fresh [where mk = "new_plan w a c inp [action_for act f]" and s = "db_plans s"])
      (use assms(1) in \<open>auto simp: new_plan_def plan_clash_def\<close>)
  let ?s = "db_plans_update (\<lambda>_. db_plans s @ [p]) s"
  obtain ev where au: "record_audit env (clk 0) w a ''remediation.plan'' ''RemediationPlan'' (Some (p_id p)) c
      (Some [(''dryRun'', JBool (pi_dryRun inp)), (''actions'', JNum (of_nat (length [action_for act f])))]) ?s =
      (db_audit_update (\<lambda>_. db_audit ?s @ [ev]) ?s, Inr ev)" by (rule record_audit_answers)
  have "createPlan env clk w a c inp s = (db_audit_update (\<lambda>_. db_audit ?s @ [ev]) ?s, Inr (p, False))"
    unfolding createPlan_def bind_io_def ask_def none
    by (simp add: fs [unfolded one assms(5), simplified] one assms(5) recs [unfolded one, simplified] acts [unfolded one] tell_def p(1) au [simplified]
        del: plan_actions.simps)
  then show ?thesis by (rule that) (use p(2) in simp_all)
qed

lemma approve_answers:
  assumes "distinct (map p_id (db_plans s))" "p \<in> set (db_plans s)" "p_workspaceId p = w" "p_status p = AwaitingApproval"
    and "\<forall>t \<in> set (db_tokens s). t_tokenHash t \<noteq> hash tok"
  obtains s2 ap t where "approve env cfg hash clk tok w (p_id p) a c s = (s2, Inr ap)" "ap_approvalToken ap = tok"
    "t = new_token cfg hash (clk 0) w (p_id p) a tok (t_id t)" "db_tokens s2 = db_tokens s @ [t]"
    "p\<lparr>p_status := Approved\<rparr> \<in> set (db_plans s2)" "db_executions s2 = db_executions s" "db_resources s2 = db_resources s"
proof -
  let ?p = "\<lambda>q. p_id q = p_id p \<and> p_workspaceId q = w"
  obtain q where "drv_findOne (e_plans env) ?p (db_plans s) = Inr (Some q)" "q \<in> set (db_plans s)" "?p q"
    using plans.findOne_finds [of p "db_plans s" ?p] assms(2,3) by blast
  with assms(1,2) have found: "drv_findOne (e_plans env) ?p (db_plans s) = Inr (Some p)"
    using distinct_key_unique [of p_id "db_plans s" q p] by simp
  obtain t where t: "drv_create (e_tokens env) (new_token cfg hash (clk 0) w (p_id p) a tok) (db_tokens s) =
      Inr (db_tokens s @ [t], t)" "t = new_token cfg hash (clk 0) w (p_id p) a tok (t_id t)"
    by (rule tokens.create_fresh [where mk = "new_token cfg hash (clk 0) w (p_id p) a tok" and s = "db_tokens s"])
      (use assms(5) in \<open>auto simp: new_token_def token_clash_def hashToken_def\<close>)
  let ?s1 = "db_tokens_update (\<lambda>_. db_tokens s @ [t]) s"
  let ?s2 = "db_plans_update (\<lambda>_. map (\<lambda>e. if p_id e = p_id p then e\<lparr>p_status := Approved\<rparr> else e) (db_plans s)) ?s1"
  have save: "save_doc db_plans db_plans_update (e_plans env) (\<lambda>e. p_id e = p_id p) (\<lambda>e. e\<lparr>p_status := Approved\<rparr>) ?s1 =
      (?s2, Inr ())"
    using plans.save_doc_answers [of p db_plans ?s1 db_plans_update "\<lambda>e. e\<lparr>p_status := Approved\<rparr>"] assms(1,2) by simp
  obtain ev where au: "record_audit env (clk 1) w a ''remediation.approve'' ''RemediationPlan'' (Some (p_id p)) c
      (Some [(''approvalTokenId'', JStr (t_id t))]) ?s2 = (db_audit_update (\<lambda>_. db_audit ?s2 @ [ev]) ?s2, Inr ev)"
    by (rule record_audit_answers)
  have ap: "approve_apply env cfg hash clk tok w (p_id p) a c p s = (db_audit_update (\<lambda>_. db_audit ?s2 @ [ev]) ?s2,
      Inr \<lparr>ap_plan = p\<lparr>p_status := Approved\<rparr>, ap_approvalToken = tok, ap_expiresAt = t_expiresAt t,
        ap_approvalTokenId = t_id t\<rparr>)"
    unfolding approve_apply_def bind_io_def by (simp add: tell_def t(1) save au [simplified])
  then have "approve env cfg hash clk tok w (p_id p) a c s = (db_audit_update (\<lambda>_. db_audit ?s2 @ [ev]) ?s2,
      Inr \<lparr>ap_plan = p\<lparr>p_status := Approved\<rparr>, ap_approvalToken = tok, ap_expiresAt = t_expiresAt t,
        ap_approvalTokenId = t_id t\<rparr>)"
    using assms(4) by (simp add: approve_def bind_io_def ask_def found)
  then show ?thesis
  proof (rule that)
    show "p\<lparr>p_status := Approved\<rparr> \<in> set (db_plans (db_audit_update (\<lambda>_. db_audit ?s2 @ [ev]) ?s2))"
      using assms(2) by force
  qed (use t(2) in simp_all)
qed

end

section \<open>Executing a plan of one action\<close>

lemma one_action_executes:
  assumes "reliable_store env" "rem_inv s" "distinct (map r_id (db_resources s))"
    and "plan \<in> set (db_plans s)" "p_workspaceId plan = w" "p_status plan = Approved" "p_actions plan = [b]" "\<not> p_dryRun plan"
    and "a_actionType b \<in> set ALLOWLISTED_ACTIONS" "r \<in> set (db_resources s)" "r_id r = a_resourceId b" "r_workspaceId r = w"
    and "\<forall>x \<in> set (db_executions s). x_workspaceId x = w \<longrightarrow> x_idempotencyKey x \<noteq> xi_idempotencyKey inp"
    and "\<forall>u \<in> set (db_tokens s). t_workspaceId u = w \<and> t_planId u = p_id plan \<and>
      t_tokenHash u = hash (xi_approvalToken inp) \<longleftrightarrow> u = t"
    and "t \<in> set (db_tokens s)" "t_usedAt t = None" "clk 0 \<le> t_expiresAt t" "rc_CLOUD_PROVIDER cfg = MockProvider"
  obtains s' x st where "execute env cfg hash clk w (p_id plan) a c inp s = (s', Inr (x, False))" "x_status x = Succeeded"
    "state_goal b st" "only_changes b (res_state_of r) st"
    "db_resources s' = map (\<lambda>d. if r_id d = r_id r then with_state st (r_version r + 1) r else d) (db_resources s)"
    "\<exists>res. applySimulatedAction (res_state_of r) b = Inr (st, res)"
proof -
  let ?rs = "db_resources s"
  have store: "store env" using assms(1) by (rule reliable_store_is_store)
  have run: "execute env cfg hash clk w (p_id plan) a c inp s = execute_apply env cfg clk w (p_id plan) a c inp plan t s"
    by (rule reliable_store.execute_applies [where hash = hash and clk = clk, OF assms(1,2,13,4-6,14-17)])
      (use assms(18) in simp)
  have "ready plan t (db_executions s) s"
    using assms(2,3) imageI [OF assms(4), of p_id] imageI [OF assms(15), of t_id] by (simp add: ready_def rem_inv_def)
  moreover have "\<forall>a \<in> set (p_actions plan). a_actionType a \<in> set ALLOWLISTED_ACTIONS" using assms(7,9) by simp
  ultimately obtain s' x where x: "execute_apply env cfg clk w (p_id plan) a c inp plan t s = (s', Inr (x, False))"
    by (rule reliable_store.apply_answers [OF assms(1) _ _ assms(13)])
  have eff: "x_status x = execution_status (x_results x)" "recorded cfg plan w ?rs (x_results x) (db_resources s')"
    using hoare_Inr [OF store.hoare_apply_effect [OF store assms(3)] refl x] by simp_all
  have "map ar_ok (x_results x) = [True]"
    using eff(2) assms(7,10-12) by (auto simp: recorded_def)
  then have st: "x_status x = Succeeded" using eff(1) by (auto simp: execution_status_iff Cons_eq_map_conv)
  obtain st msg where eng: "applySimulatedAction (res_state_of r) b = Inr (st, engine_result b msg)"
    "state_goal b st" "only_changes b (res_state_of r) st"
    by (rule apply_allowlisted [OF assms(9)])
  have one: "d = r" if "d \<in> set ?rs" "r_id d = r_id r" for d
    using distinct_key_unique [OF assms(3) that(1) assms(10) that(2)] .
  have "db_resources s' = map (\<lambda>d. if r_workspaceId d = w then apply_plan [b] d else d) ?rs"
    using eff(2) assms(7,8,18) by (simp add: recorded_def persists_def)
  also have "\<dots> = map (\<lambda>d. if r_id d = r_id r then with_state st (r_version r + 1) r else d) ?rs"
  proof (rule map_cong [OF refl])
    fix d assume d: "d \<in> set ?rs"
    show "(if r_workspaceId d = w then apply_plan [b] d else d) =
        (if r_id d = r_id r then with_state st (r_version r + 1) r else d)"
    proof (cases "r_id d = r_id r")
      case True
      then have "d = r" by (rule one [OF d])
      with assms(11,12) eng(1) show ?thesis by (simp add: apply_plan_def remediate_def)
    next
      case False
      then show ?thesis using assms(11) by (simp add: apply_plan_def)
    qed
  qed
  finally show ?thesis using that [OF _ st eng(2,3)] run x eng(1) by simp
qed

lemma remediation_runs:
  assumes "reliable_store env" "rem_inv s" "distinct (map f_id (db_findings s))" "distinct (map r_id (db_resources s))"
    and "f \<in> set (db_findings s)" "f_workspaceId f = w" "pi_findingIds inp = [f_id f]" "\<not> pi_dryRun inp"
    and "act \<in> set ALLOWLISTED_ACTIONS"
    and "\<exists>d \<in> set (db_recommendations s). rec_workspaceId d = w \<and> rec_findingId d = f_id f"
    and "\<forall>d \<in> set (db_recommendations s). rec_workspaceId d = w \<and> rec_findingId d = f_id f \<longrightarrow> rec_actionType d = act"
    and "r \<in> set (db_resources s)" "r_id r = f_resourceId f" "r_workspaceId r = w"
    and "\<forall>p \<in> set (db_plans s). p_workspaceId p = w \<longrightarrow> p_idempotencyKey p \<noteq> pi_idempotencyKey inp"
    and "\<forall>x \<in> set (db_executions s). x_workspaceId x = w \<longrightarrow> x_idempotencyKey x \<noteq> key"
    and "\<forall>t \<in> set (db_tokens s). t_tokenHash t \<noteq> hash tok"
    and "rc_CLOUD_PROVIDER cfg = MockProvider" "clk'' 0 \<le> clk' 0 + rc_APPROVAL_TTL_MS cfg"
  shows "\<exists>s1 p s2 ap s3 x st. createPlan env clk w a c inp s = (s1, Inr (p, False))
    \<and> approve env cfg hash clk' tok w (p_id p) a' c' s1 = (s2, Inr ap)
    \<and> execute env cfg hash clk'' w (p_id p) a'' c''
        \<lparr>xi_approvalToken = ap_approvalToken ap, xi_idempotencyKey = key\<rparr> s2 = (s3, Inr (x, False))
    \<and> x_status x = Succeeded \<and> p_actions p = [action_for act f]
    \<and> state_goal (action_for act f) st \<and> only_changes (action_for act f) (res_state_of r) st
    \<and> db_resources s3 = map (\<lambda>d. if r_id d = r_id r then with_state st (r_version r + 1) r else d) (db_resources s)
    \<and> (\<exists>res. applySimulatedAction (res_state_of r) (action_for act f) = Inr (st, res))"
proof -
  let ?act = "action_for act f" and ?inp = "\<lparr>xi_approvalToken = tok, xi_idempotencyKey = key\<rparr>"
  have store: "store env" using assms(1) by (rule reliable_store_is_store)
  obtain s1 p where p: "createPlan env clk w a c inp s = (s1, Inr (p, False))" "p = new_plan w a c inp [?act] (p_id p)"
    "db_plans s1 = db_plans s @ [p]" "db_tokens s1 = db_tokens s" "db_executions s1 = db_executions s"
    "db_resources s1 = db_resources s"
    by (rule reliable_store.createPlan_answers [OF assms(1,15,3,5-7,9-11)])
  have pf: "p_workspaceId p = w" "p_status p = AwaitingApproval" "p_actions p = [?act]" "\<not> p_dryRun p"
    using assms(8) by (subst p(2), simp add: new_plan_def)+
  have i1: "rem_inv s1" using keepsD [OF store.keeps_createPlan [OF store] assms(2)] p(1) by (metis fst_conv)
  have d1: "distinct (map p_id (db_plans s1))" "p \<in> set (db_plans s1)" using i1 p(3) by (simp_all add: rem_inv_def)
  have t1: "\<forall>t \<in> set (db_tokens s1). t_tokenHash t \<noteq> hash tok" using assms(17) by (simp add: p(4))
  obtain s2 ap t where ap: "approve env cfg hash clk' tok w (p_id p) a' c' s1 = (s2, Inr ap)" "ap_approvalToken ap = tok"
    "t = new_token cfg hash (clk' 0) w (p_id p) a' tok (t_id t)" "db_tokens s2 = db_tokens s1 @ [t]"
    "p\<lparr>p_status := Approved\<rparr> \<in> set (db_plans s2)" "db_executions s2 = db_executions s1" "db_resources s2 = db_resources s1"
    by (rule reliable_store.approve_answers [where s = s1 and p = p and hash = hash and tok = tok and clk = clk' and
          w = w and env = env and cfg = cfg and a = a' and c = c', OF assms(1) d1 pf(1,2) t1])
  have i2: "rem_inv s2" using keepsD [OF store.keeps_approve [OF store] i1] ap(1) by (metis fst_conv)
  have tf: "t_workspaceId t = w" "t_planId t = p_id p" "t_tokenHash t = hash tok" "t_usedAt t = None"
    "t_expiresAt t = clk' 0 + rc_APPROVAL_TTL_MS cfg"
    by (subst ap(3), simp add: new_token_def hashToken_def)+
  let ?plan = "p\<lparr>p_status := Approved\<rparr>"
  have fresh: "\<forall>x \<in> set (db_executions s2). x_workspaceId x = w \<longrightarrow> x_idempotencyKey x \<noteq> xi_idempotencyKey ?inp"
    using assms(16) by (simp add: ap(6) p(5))
  have tok: "\<forall>u \<in> set (db_tokens s2). t_workspaceId u = w \<and> t_planId u = p_id ?plan \<and>
      t_tokenHash u = hash (xi_approvalToken ?inp) \<longleftrightarrow> u = t"
    using tf assms(17) by (auto simp: ap(4) p(4))
  have rs: "db_resources s2 = db_resources s" by (simp add: ap(7) p(6))
  obtain s3 x st where "execute env cfg hash clk'' w (p_id ?plan) a'' c'' ?inp s2 = (s3, Inr (x, False))"
    "x_status x = Succeeded" "state_goal ?act st" "only_changes ?act (res_state_of r) st"
    "db_resources s3 = map (\<lambda>d. if r_id d = r_id r then with_state st (r_version r + 1) r else d) (db_resources s2)"
    "\<exists>res. applySimulatedAction (res_state_of r) ?act = Inr (st, res)"
    by (rule one_action_executes [where env = env and s = s2 and plan = ?plan and w = w and b = ?act and r = r and inp = ?inp
          and hash = hash and t = t and clk = clk'' and cfg = cfg and a = a'' and c = c'', OF assms(1) i2 _ ap(5)])
      (use pf assms(4,9,12-14,18,19) fresh tok tf rs ap(4) in \<open>simp_all add: action_for_def\<close>)
  with p(1) ap(1,2) pf(3) rs show ?thesis by auto
qed


text \<open>A public bucket, a finding about it and what the service recommends.\<close>

definition demo_recommendation :: recommendation where
  "demo_recommendation = \<lparr>rec_id = ''rec1'', rec_workspaceId = ''ws1'', rec_jobId = ''j1'', rec_findingId = ''f1'',
     rec_resourceId = ''r1'', rec_actionType = ''restrict_public_storage'', rec_explanation = ''e'',
     rec_estimatedImpact = ''i'', rec_confidence = 1 / 2, rec_correlationId = ''c1'', rec_createdAt = 0\<rparr>"

definition demo_found :: db where
  "demo_found = empty_db\<lparr>db_resources := [demo_resource], db_findings := [demo_finding],
     db_recommendations := [demo_recommendation]\<rparr>"


end
