(* ===== verification/Policy_Effects.thy ===== *)
theory Policy_Effects
  imports Served_Diagnosis Remediation_Run
begin

text \<open>
  What the policy of the diagnostics service means for the rest of the program: which rules the seeded inventory and an
  AWS inventory can break, that the constants of both languages agree, and what becomes of a finding when the
  action that it recommends has been carried out.
\<close>

section \<open>Rules that a stored resource breaks\<close>

definition breaks :: "cloud_resource \<Rightarrow> string \<Rightarrow> bool" where
  "breaks r rule \<longleftrightarrow> rule \<in> df_ruleId ` set (evaluate (diag_payload r))"

lemma breaks_policy: "breaks r rule \<longleftrightarrow> (\<exists>action applies. (rule, action, applies) \<in> set policy \<and> applies (diag_payload r))"
  by (simp add: breaks_def evaluate_rule_set)

lemma policy_entry:
  assumes "(rule, action, applies) \<in> set policy" "(rule, action', applies') \<in> set policy"
  shows "action' = action \<and> applies' = applies"
  using map_of_eq_Some_iff [OF policy_rules_distinct] assms by (metis option.inject prod.inject)

lemma breaks_entry: "(rule, action, applies) \<in> set policy \<Longrightarrow> breaks r rule \<longleftrightarrow> applies (diag_payload r)"
  using policy_entry unfolding breaks_policy by blast

lemma policy_length: "length policy = 9"
  by (simp add: policy_def)

text \<open>The conditions of the policy on a stored resource.\<close>

lemma payload_simps [simp]:
  "dq_id (diag_payload r) = r_id r" "dq_type (diag_payload r) = r_type r" "dq_name (diag_payload r) = r_name r"
  "dq_tags (diag_payload r) = r_tags r" "dq_config (diag_payload r) = r_config r"
  "dq_metrics (diag_payload r) = r_metrics r"
  by (simp_all add: diag_payload_def)

lemma breaks_simps:
  "breaks r ''ec2.low_utilization'' \<longleftrightarrow> r_type r = Ec2 \<and> with_default (m_cpuUtilizationAvg (r_metrics r)) 0 < 10 \<and>
     3 \<le> with_default (m_consecutiveLowUtilizationPeriods (r_metrics r)) 0"
  "breaks r ''resource.missing_tags'' \<longleftrightarrow> missing_tags (r_tags r) \<noteq> []"
  "breaks r ''s3.public_access'' \<longleftrightarrow> r_type r = S3 \<and> cf_publicAccess (r_config r) = Some True"
  "breaks r ''cloudwatch.missing_alarms'' \<longleftrightarrow> r_type r \<noteq> Cloudwatch \<and> is_prod (diag_payload r) \<and>
     with_default (cf_alarms (r_config r)) [] = []"
  "breaks r ''service.unhealthy'' \<longleftrightarrow> cf_healthCheckStatus (r_config r) = Some Unhealthy"
  "breaks r ''resource.missing_backup'' \<longleftrightarrow> r_type r \<in> {Ec2, S3} \<and> is_prod (diag_payload r) \<and>
     cf_backupEnabled (r_config r) = Some False"
  "breaks r ''app.repeated_errors'' \<longleftrightarrow> 5 / 100 < with_default (m_errorRate (r_metrics r)) 0 \<and>
     11 \<le> with_default (m_errorCount (r_metrics r)) 0"
  "breaks r ''api.elevated_latency'' \<longleftrightarrow> 1000 < with_default (m_p99LatencyMs (r_metrics r)) 0"
  "breaks r ''reliability.failure_rate_increase'' \<longleftrightarrow> 1 / 10 < with_default (m_failureRateDelta (r_metrics r)) 0"
proof -
  have entry: "breaks r (fst (policy ! n)) \<longleftrightarrow> snd (snd (policy ! n)) (diag_payload r)" if "n < 9" for n
    by (rule breaks_entry [where action = "fst (snd (policy ! n))"]) (use nth_mem [of n policy] that policy_length in simp)
  note e = entry [of 0] entry [of 1] entry [of 2] entry [of 3] entry [of 4] entry [of 5] entry [of 6] entry [of 7] entry [of 8]
  show "breaks r ''ec2.low_utilization'' \<longleftrightarrow> r_type r = Ec2 \<and> with_default (m_cpuUtilizationAvg (r_metrics r)) 0 < 10 \<and>
     3 \<le> with_default (m_consecutiveLowUtilizationPeriods (r_metrics r)) 0"
    using e(1) by (simp add: policy_def metric_def)
  show "breaks r ''resource.missing_tags'' \<longleftrightarrow> missing_tags (r_tags r) \<noteq> []"
    using e(2) by (simp add: policy_def metric_def)
  show "breaks r ''s3.public_access'' \<longleftrightarrow> r_type r = S3 \<and> cf_publicAccess (r_config r) = Some True"
    using e(3) by (simp add: policy_def metric_def)
  show "breaks r ''cloudwatch.missing_alarms'' \<longleftrightarrow> r_type r \<noteq> Cloudwatch \<and> is_prod (diag_payload r) \<and>
     with_default (cf_alarms (r_config r)) [] = []"
    using e(4) by (simp add: policy_def metric_def)
  show "breaks r ''service.unhealthy'' \<longleftrightarrow> cf_healthCheckStatus (r_config r) = Some Unhealthy"
    using e(5) by (simp add: policy_def metric_def)
  show "breaks r ''resource.missing_backup'' \<longleftrightarrow> r_type r \<in> {Ec2, S3} \<and> is_prod (diag_payload r) \<and>
     cf_backupEnabled (r_config r) = Some False"
    using e(6) by (simp add: policy_def metric_def)
  show "breaks r ''app.repeated_errors'' \<longleftrightarrow> 5 / 100 < with_default (m_errorRate (r_metrics r)) 0 \<and>
     11 \<le> with_default (m_errorCount (r_metrics r)) 0"
    using e(7) by (simp add: policy_def metric_def)
  show "breaks r ''api.elevated_latency'' \<longleftrightarrow> 1000 < with_default (m_p99LatencyMs (r_metrics r)) 0"
    using e(8) by (simp add: policy_def metric_def)
  show "breaks r ''reliability.failure_rate_increase'' \<longleftrightarrow> 1 / 10 < with_default (m_failureRateDelta (r_metrics r)) 0"
    using e(9) by (simp add: policy_def metric_def)
qed

lemma breaks_known: "breaks r rule \<Longrightarrow> rule \<in> set (map fst policy)"
  by (force simp: breaks_policy)

lemma policy_ids: "map fst policy = POLICY_RULE_IDS"
  by (simp add: policy_def POLICY_RULE_IDS_def)

lemma policy_actions: "map (\<lambda>(rule, action, _). (rule, action)) policy = ACTION_BY_RULE"
  by (simp add: policy_def ACTION_BY_RULE_def)


section \<open>The seeded inventory\<close>

text \<open>
  C29. The rules of the Python service and the constants of the TypeScript programs agree: the same rules in the same
  order, the same required tags, and for every rule the action that the remediation service falls back to. And the
  inventory of the mock provider, once stored, breaks every rule, as it is meant to, and no other is ever reported.
\<close>

theorem inventory_trips_every_rule:
  "map fst policy = POLICY_RULE_IDS \<and> map (\<lambda>(rule, action, _). (rule, action)) policy = ACTION_BY_RULE \<and>
    REQUIRED_TAGS_PY = REQUIRED_TAGS \<and>
    (\<Union>x \<in> set (buildMockInventory now w). {rule. breaks (new_resource x t i) rule}) = set POLICY_RULE_IDS"
proof -
  have sub: "{rule. breaks r rule} \<subseteq> set POLICY_RULE_IDS" for r
    using breaks_known policy_ids by auto
  let ?web = "mock_ec2 now w ! 0" and ?api = "mock_ec2 now w ! 1" and ?assets = "mock_s3 now w ! 0"
  have "\<forall>rule \<in> set POLICY_RULE_IDS. \<exists>x \<in> {?web, ?api, ?assets}. breaks (new_resource x t i) rule"
    by (simp add: POLICY_RULE_IDS_def breaks_simps new_resource_def mock_ec2_def mock_s3_def resource_def ec2_config_def
        ec2_metrics_def s3_config_def s3_metrics_def prod_tags_def missing_tags_def REQUIRED_TAGS_PY_def is_prod_def
        PRODUCTION_HINTS_def toLowerCase_def lower_char_def)
  moreover have "{?web, ?api, ?assets} \<subseteq> set (buildMockInventory now w)"
    by (simp add: buildMockInventory_def mock_ec2_def mock_s3_def)
  ultimately have "set POLICY_RULE_IDS \<subseteq>
      (\<Union>x \<in> set (buildMockInventory now w). {rule. breaks (new_resource x t i) rule})" by blast
  moreover have "REQUIRED_TAGS_PY = REQUIRED_TAGS" by (simp add: REQUIRED_TAGS_PY_def REQUIRED_TAGS_def)
  ultimately show ?thesis using sub policy_ids policy_actions by blast
qed


section \<open>An AWS inventory\<close>

lemma aws_item_shapes:
  assumes "aws_listResources aws now query = Inr items" "x \<in> set items"
  shows "(\<exists>a. x = ec2_item aws now a) \<or> (\<exists>b. x = s3_item aws now b) \<or> (\<exists>f. x = lambda_item aws now f) \<or>
    (\<exists>m. x = metric_item aws now m)"
proof -
  let ?ts = "with_default (iq_types query) [Ec2, S3, Lambda, Cloudwatch]"
  have "aws_collect aws now ?ts = Inr items"
    using assms(1) by (auto simp: aws_listResources_def split: sum.splits thrown.splits)
  then obtain a b c d where "items = a @ b @ c @ d"
    and parts: "(if Ec2 \<in> set ?ts then listEc2 aws now else Inr []) = Inr a"
      "(if S3 \<in> set ?ts then listS3 aws now else Inr []) = Inr b"
      "(if Lambda \<in> set ?ts then listLambda aws now else Inr []) = Inr c"
      "(if Cloudwatch \<in> set ?ts then listAlarms aws now else Inr []) = Inr d"
    by (auto simp: aws_collect_def split: sum.split_asm)
  moreover have "a = [] \<or> listEc2 aws now = Inr a" "b = [] \<or> listS3 aws now = Inr b"
    "c = [] \<or> listLambda aws now = Inr c" "d = [] \<or> listAlarms aws now = Inr d"
    using parts by (simp_all split: if_split_asm)
  moreover have "\<exists>i. y = ec2_item aws now i" if "listEc2 aws now = Inr ys" "y \<in> set ys" for y ys
    using that by (auto simp: listEc2_def split: sum.splits)
  moreover have "\<exists>i. y = s3_item aws now i" if "listS3 aws now = Inr ys" "y \<in> set ys" for y ys
    using that by (auto simp: listS3_def split: sum.splits)
  moreover have "\<exists>i. y = lambda_item aws now i" if "listLambda aws now = Inr ys" "y \<in> set ys" for y ys
    using that by (auto simp: listLambda_def split: sum.splits)
  moreover have "\<exists>i. y = metric_item aws now i" if "listAlarms aws now = Inr ys" "y \<in> set ys" for y ys
    using that by (auto simp: listAlarms_def split: sum.splits simp del: split_paired_Ex)
  ultimately show ?thesis using assms(2) by fastforce
qed

lemma health_not_unhealthy [simp]: "(if b then Healthy else UnknownHealth) \<noteq> Unhealthy"
  by simp

text \<open>
  C28. What a diagnosis can see of an AWS account. An item of an AWS inventory, once stored, never breaks the rules on
  utilization, health, errors, latency and failure rates, since the collector does not fill in what they look at;
  and every production resource that is no metric breaks the rule on alarms, every production instance or
  bucket the one on backups, whatever alarms and backups there are, since the collector writes that there are none.
\<close>

theorem aws_diagnosis_blind_spots:
  assumes "aws_listResources aws now query = Inr items" "x \<in> set items"
  shows "breaks (new_resource x t i) rule \<longleftrightarrow>
    rule = ''resource.missing_tags'' \<and> missing_tags (i_tags x) \<noteq> [] \<or>
    rule = ''s3.public_access'' \<and> i_type x = S3 \<and> cf_publicAccess (i_config x) = Some True \<or>
    rule = ''cloudwatch.missing_alarms'' \<and> i_type x \<noteq> Cloudwatch \<and> is_prod (diag_payload (new_resource x t i)) \<or>
    rule = ''resource.missing_backup'' \<and> i_type x \<in> {Ec2, S3} \<and> is_prod (diag_payload (new_resource x t i))"
proof (cases "rule \<in> set POLICY_RULE_IDS")
  case True
  have shape: "cf_healthCheckStatus (i_config x) \<noteq> Some Unhealthy" "with_default (m_consecutiveLowUtilizationPeriods (i_metrics x)) 0 = 0"
    "with_default (m_errorRate (i_metrics x)) 0 = 0" "with_default (m_p99LatencyMs (i_metrics x)) 0 = 0"
    "with_default (m_failureRateDelta (i_metrics x)) 0 = 0"
    "i_type x \<noteq> Cloudwatch \<Longrightarrow> with_default (cf_alarms (i_config x)) [] = []"
    "i_type x \<in> {Ec2, S3} \<Longrightarrow> cf_backupEnabled (i_config x) = Some False"
    using aws_item_shapes [OF assms]
    by (auto simp: ec2_item_def s3_item_def lambda_item_def metric_item_def no_config_def no_metrics_def Let_def)
  have stored: "r_type (new_resource x t i) = i_type x" "r_tags (new_resource x t i) = i_tags x"
    "r_config (new_resource x t i) = i_config x" "r_metrics (new_resource x t i) = i_metrics x"
    by (simp_all add: new_resource_def)
  from True show ?thesis
    unfolding POLICY_RULE_IDS_def list.set insert_iff empty_iff
    by (elim disjE; use shape in \<open>simp add: breaks_simps stored\<close>) blast+
next
  case False
  then have "\<not> breaks (new_resource x t i) rule" using breaks_known policy_ids by metis
  with False show ?thesis by (auto simp: POLICY_RULE_IDS_def)
qed

definition prod_bucket_aws :: aws_provider where
  "prod_bucket_aws = demo_aws\<lparr>aw_sdk := demo_sdk\<lparr>sdk_ListBuckets := (\<lambda>ms. Some (Inr (Some [Some ''logs-prod''])))\<rparr>\<rparr>"

theorem aws_diagnosis_blind_spots_witness:
  "\<exists>x. aws_listResources prod_bucket_aws 7 \<lparr>iq_types = Some [S3], iq_region = None\<rparr> = Inr [x] \<and>
    breaks (new_resource x 0 ''r1'') ''resource.missing_backup'' \<and>
    \<not> breaks (new_resource x 0 ''r1'') ''app.repeated_errors''"
proof -
  let ?x = "s3_item prod_bucket_aws 7 (Some ''logs-prod'')"
  have "listS3 prod_bucket_aws 7 = Inr [?x]"
    by (simp add: listS3_def send_def withTimeout_def prod_bucket_aws_def demo_aws_def demo_sdk_def)
  then have list: "aws_listResources prod_bucket_aws 7 \<lparr>iq_types = Some [S3], iq_region = None\<rparr> = Inr [?x]"
    by (simp add: aws_listResources_def aws_collect_def)
  have x: "?x \<in> set [?x]" by simp
  have "toLowerCase ''logs-prod'' = ''logs-prod''" by code_simp
  moreover have "sublist ''prod'' ''logs-prod''" by code_simp
  ultimately have "i_type ?x = S3" "is_prod (diag_payload (new_resource ?x 0 ''r1''))"
    by (simp_all add: s3_item_def Let_def is_prod_def new_resource_def)
  with list aws_diagnosis_blind_spots [OF list x, of 0 "''r1''"] show ?thesis by auto
qed


section \<open>What an action does to a finding\<close>

lemma missing_tags_update:
  "v \<noteq> [] \<Longrightarrow> missing_tags (AList.update k v ts) = filter (\<lambda>tag. tag \<noteq> k) (missing_tags ts)"
  unfolding missing_tags_def by (auto simp: update_conv' intro!: filter_cong)

lemma is_prod_with_state:
  assumes "map_of (rs_tags st) ''Environment'' = map_of (r_tags r) ''Environment''"
  shows "is_prod (diag_payload (with_state st v r)) = is_prod (diag_payload r)"
  using assms by (simp add: is_prod_def with_state_def)

text \<open>The rules whose findings stay although the recommended action has been carried out: an alarm does not lower a
  latency or a failure rate, and the tag that is added is always the owner.\<close>

definition stays :: "cloud_resource \<Rightarrow> string \<Rightarrow> bool" where
  "stays r rule \<longleftrightarrow> rule \<in> {''api.elevated_latency'', ''reliability.failure_rate_increase''} \<or>
     rule = ''resource.missing_tags'' \<and> missing_tags (r_tags r) \<noteq> [''Owner'']"

lemma with_state_fields [simp]:
  "r_id (with_state st v r) = r_id r" "r_type (with_state st v r) = r_type r" "r_tags (with_state st v r) = rs_tags st"
  "r_config (with_state st v r) = rs_config st" "r_metrics (with_state st v r) = rs_metrics st"
  by (simp_all add: with_state_def)

lemma missing_only_owner:
  assumes "missing_tags ts \<noteq> []"
  shows "filter (\<lambda>tag. tag \<noteq> ''Owner'') (missing_tags ts) \<noteq> [] \<longleftrightarrow> missing_tags ts \<noteq> [''Owner'']"
proof -
  have "distinct (missing_tags ts)" by (simp add: missing_tags_def REQUIRED_TAGS_PY_def)
  then have "filter (\<lambda>tag. tag \<noteq> x) xs = [] \<longleftrightarrow> xs = [x]" if "xs \<noteq> []" "distinct xs" for x and xs :: "string list"
    using that by (cases xs; cases "tl xs") (auto simp: filter_empty_conv)
  with assms \<open>distinct (missing_tags ts)\<close> show ?thesis by blast
qed

text \<open>The state that the action of a plan leaves.\<close>

definition listed_alarms :: "res_config \<Rightarrow> res_config" where
  "listed_alarms cf = cf\<lparr>cf_alarms := Some (with_default (cf_alarms cf) [])\<rparr>"

lemma default_action_cases:
  assumes "applySimulatedAction (res_state_of r)
      \<lparr>a_actionType = action, a_resourceId = i, a_findingId = fid, a_params = defaultParams action i\<rparr> = Inr (st, res)"
  obtains (tag) "action = ''add_missing_tag''" "rs_tags st = AList.update ''Owner'' ''platform'' (r_tags r)"
      "rs_config st = listed_alarms (r_config r)" "rs_metrics st = r_metrics r"
  | (alarm) alarms where "action = ''create_alarm''" "rs_tags st = r_tags r" "alarms \<noteq> []"
      "rs_config st = (r_config r)\<lparr>cf_alarms := Some alarms\<rparr>" "rs_metrics st = r_metrics r"
  | (backup) "action = ''enable_backup_policy''" "rs_tags st = r_tags r"
      "rs_config st = (listed_alarms (r_config r))\<lparr>cf_backupEnabled := Some True\<rparr>" "rs_metrics st = r_metrics r"
  | (restart) e where "action = ''restart_unhealthy_service''" "rs_tags st = r_tags r" "e \<le> 1 / 100"
      "rs_config st = (listed_alarms (r_config r))\<lparr>cf_healthCheckStatus := Some Healthy\<rparr>"
      "rs_metrics st = (r_metrics r)\<lparr>m_errorRate := Some e\<rparr>"
  | (restrict) "action = ''restrict_public_storage''" "rs_tags st = r_tags r"
      "rs_config st = (listed_alarms (r_config r))\<lparr>cf_publicAccess := Some False\<rparr>" "rs_metrics st = r_metrics r"
proof -
  have "action \<in> set ALLOWLISTED_ACTIONS"
    using assms by (auto simp: applySimulatedAction_def assertAllowlisted_def split: if_splits)
  note eng = assms [unfolded applySimulatedAction_def copy_state_def res_state_of_def] this
  from \<open>action \<in> set ALLOWLISTED_ACTIONS\<close> show ?thesis
  proof (rule allowlisted_cases)
    assume a: "action = ''add_missing_tag''"
    show ?thesis by (rule tag) (use eng a in \<open>auto simp: assertAllowlisted_def Let_def defaultParams_def param_def listed_alarms_def\<close>)
  next
    assume a: "action = ''create_alarm''"
    show ?thesis
      by (rule alarm [of "add_alarm (i @ ''-health'') (with_default (cf_alarms (r_config r)) [])"])
        (use eng a in \<open>auto simp: assertAllowlisted_def Let_def defaultParams_def param_def alarm_name_def add_alarm_def split: if_splits\<close>)
  next
    assume a: "action = ''enable_backup_policy''"
    show ?thesis by (rule backup) (use eng a in \<open>auto simp: assertAllowlisted_def Let_def listed_alarms_def\<close>)
  next
    assume a: "action = ''restart_unhealthy_service''"
    show ?thesis
      by (rule restart [of "min (with_default (m_errorRate (r_metrics r)) 0) (1 / 100)"])
        (use eng a in \<open>auto simp: assertAllowlisted_def Let_def listed_alarms_def\<close>)
  next
    assume a: "action = ''restrict_public_storage''"
    show ?thesis by (rule restrict) (use eng a in \<open>auto simp: assertAllowlisted_def Let_def listed_alarms_def\<close>)
  qed
qed

lemma same_environment:
  "map_of (AList.update ''Owner'' v ts) ''Environment'' = map_of ts ''Environment''"
  by (simp add: update_conv')

lemma breaks_cases:
  assumes "breaks r rule"
  obtains "rule = ''ec2.low_utilization''" | "rule = ''resource.missing_tags''" | "rule = ''s3.public_access''"
  | "rule = ''cloudwatch.missing_alarms''" | "rule = ''service.unhealthy''" | "rule = ''resource.missing_backup''"
  | "rule = ''app.repeated_errors''" | "rule = ''api.elevated_latency''" | "rule = ''reliability.failure_rate_increase''"
proof -
  have "rule \<in> set POLICY_RULE_IDS" using breaks_known [OF assms] by (simp only: policy_ids)
  then show ?thesis
    unfolding POLICY_RULE_IDS_def list.set insert_iff empty_iff by (elim disjE) (erule that | simp)+
qed

lemma default_action_prod:
  assumes "applySimulatedAction (res_state_of r)
      \<lparr>a_actionType = action, a_resourceId = i, a_findingId = fid, a_params = defaultParams action i\<rparr> = Inr (st, res)"
  shows "is_prod (diag_payload (with_state st v r)) = is_prod (diag_payload r)"
  using assms by (intro is_prod_with_state, cases rule: default_action_cases) (simp_all add: same_environment)

text \<open>No action makes a resource break a rule that it did not break before.\<close>

lemma action_breaks_nothing:
  assumes "applySimulatedAction (res_state_of r)
      \<lparr>a_actionType = action, a_resourceId = i, a_findingId = fid, a_params = defaultParams action i\<rparr> = Inr (st, res)"
    and "breaks (with_state st v r) rule"
  shows "breaks r rule"
proof -
  note prod = default_action_prod [OF assms(1)]
  show ?thesis
    using assms(2)
    by (cases rule: breaks_cases; cases rule: default_action_cases [OF assms(1)])
      (use assms(2) prod in \<open>simp_all add: breaks_simps listed_alarms_def missing_tags_update\<close>, auto)
qed

lemma policy_cases:
  assumes "(rule, action, applies) \<in> set policy"
  obtains "rule = ''ec2.low_utilization''" "action = ''manual_review''"
  | "rule = ''resource.missing_tags''" "action = ''add_missing_tag''"
  | "rule = ''s3.public_access''" "action = ''restrict_public_storage''"
  | "rule = ''cloudwatch.missing_alarms''" "action = ''create_alarm''"
  | "rule = ''service.unhealthy''" "action = ''restart_unhealthy_service''"
  | "rule = ''resource.missing_backup''" "action = ''enable_backup_policy''"
  | "rule = ''app.repeated_errors''" "action = ''restart_unhealthy_service''"
  | "rule = ''api.elevated_latency''" "action = ''create_alarm''"
  | "rule = ''reliability.failure_rate_increase''" "action = ''create_alarm''"
proof -
  have "(rule, action) \<in> set (map (\<lambda>(rule, action, _). (rule, action)) policy)" using assms by force
  then show ?thesis
    unfolding policy_actions ACTION_BY_RULE_def list.set insert_iff empty_iff prod.inject
    by (elim disjE conjE) (erule (1) that | simp)+
qed

text \<open>A finding whose action has been carried out is gone, except for those of \<open>stays\<close>.\<close>

lemma action_settles_finding:
  assumes "(rule, action, applies) \<in> set policy" "breaks r rule"
    and "applySimulatedAction (res_state_of r)
      \<lparr>a_actionType = action, a_resourceId = i, a_findingId = fid, a_params = defaultParams action i\<rparr> = Inr (st, res)"
  shows "breaks (with_state st v r) rule \<longleftrightarrow> stays r rule"
  using assms(1)
proof (cases rule: policy_cases)
  case 1
  with assms(3) show ?thesis by (auto simp: applySimulatedAction_def assertAllowlisted_def ALLOWLISTED_ACTIONS_def split: if_splits)
next
  case 2
  then have "missing_tags (r_tags r) \<noteq> []" using assms(2) by (simp add: breaks_simps)
  from missing_only_owner [OF this] 2 show ?thesis
    by (cases rule: default_action_cases [OF assms(3)]) (simp_all add: breaks_simps stays_def missing_tags_update)
qed (cases rule: default_action_cases [OF assms(3)];
    use assms(2) in \<open>simp add: breaks_simps stays_def default_action_prod [OF assms(3)]\<close>)+


section \<open>A finding that has been dealt with\<close>



end
