(* ===== verification/Metrics.thy ===== *)
theory Metrics
  imports Job_Worker
begin

text \<open>
  \<^verbatim>\<open>packages/shared/src/observability/metrics.ts\<close> and its users: \<^verbatim>\<open>apps/api/src/middleware/metrics.ts\<close>, the
  processor and the polling loop of the worker. The metrics of prom-client are declared by the registry; what
  the program does with them is the sequence of calls it makes, so an operation that reports metrics
  answers with its calls. Every call fits its declaration (prom-client throws otherwise), and the counters of the
  workers are exact: they agree with what happened to the jobs in the database.
\<close>

section \<open>The registry\<close>

datatype metric_kind = Counter | Gauge | Histogram

record metric_spec =
  ms_name :: string
  ms_kind :: metric_kind
  ms_help :: string
  ms_labelNames :: "string list"
  ms_buckets :: "rat list"

definition createMetricsRegistry :: "metric_spec list" where
  "createMetricsRegistry =
     [\<lparr> ms_name = ''http_request_duration_seconds'', ms_kind = Histogram,
        ms_help = ''HTTP request duration in seconds'', ms_labelNames = [''method'', ''route'', ''status_code''],
        ms_buckets = [1/100, 25/1000, 5/100, 1/10, 1/4, 1/2, 1, 5/2, 5] \<rparr>,
      \<lparr> ms_name = ''http_requests_total'', ms_kind = Counter,
        ms_help = ''Total HTTP requests'', ms_labelNames = [''method'', ''route'', ''status_code''], ms_buckets = [] \<rparr>,
      \<lparr> ms_name = ''http_errors_total'', ms_kind = Counter,
        ms_help = ''Total HTTP 5xx responses'', ms_labelNames = [''method'', ''route''], ms_buckets = [] \<rparr>,
      \<lparr> ms_name = ''job_processing_duration_seconds'', ms_kind = Histogram,
        ms_help = ''Time spent processing a diagnostic job'', ms_labelNames = [''status''],
        ms_buckets = [1/10, 1/4, 1/2, 1, 5/2, 5, 10, 20] \<rparr>,
      \<lparr> ms_name = ''job_retries_total'', ms_kind = Counter,
        ms_help = ''Jobs scheduled for retry'', ms_labelNames = [], ms_buckets = [] \<rparr>,
      \<lparr> ms_name = ''job_dead_letter_total'', ms_kind = Counter,
        ms_help = ''Jobs moved to dead-letter'', ms_labelNames = [], ms_buckets = [] \<rparr>,
      \<lparr> ms_name = ''worker_queue_depth'', ms_kind = Gauge,
        ms_help = ''Pending + retry_wait diagnostic jobs'', ms_labelNames = [], ms_buckets = [] \<rparr>,
      \<lparr> ms_name = ''remediation_success_total'', ms_kind = Counter,
        ms_help = ''Successful remediation actions'', ms_labelNames = [''action''], ms_buckets = [] \<rparr>,
      \<lparr> ms_name = ''remediation_failure_total'', ms_kind = Counter,
        ms_help = ''Failed remediation actions'', ms_labelNames = [''action''], ms_buckets = [] \<rparr>]"

type_synonym metric_labels = "(string \<times> string) list"

datatype metric_call =
    Inc (mc_name: string) (mc_labels: metric_labels)
  | Observe (mc_name: string) (mc_labels: metric_labels) (mc_value: rat)
  | SetTo (mc_name: string) (mc_labels: metric_labels) (mc_value: rat)

fun kind_of_call :: "metric_call \<Rightarrow> metric_kind" where
  "kind_of_call (Inc _ _) = Counter"
| "kind_of_call (Observe _ _ _) = Histogram"
| "kind_of_call (SetTo _ _ _) = Gauge"

definition well_declared :: "metric_call \<Rightarrow> bool" where
  "well_declared c \<longleftrightarrow> list_ex (\<lambda>m. ms_name m = mc_name c \<and> ms_kind m = kind_of_call c \<and>
     ms_labelNames m = map fst (mc_labels c)) createMetricsRegistry"

text \<open>What a counter shows, and how often a histogram was fed with certain labels.\<close>

definition counter :: "string \<Rightarrow> metric_call list \<Rightarrow> nat" where
  "counter n cs = length (filter (\<lambda>c. case c of Inc m _ \<Rightarrow> m = n | _ \<Rightarrow> False) cs)"

definition observations :: "string \<Rightarrow> (metric_labels \<Rightarrow> bool) \<Rightarrow> metric_call list \<Rightarrow> nat" where
  "observations n p cs = length (filter (\<lambda>c. case c of Observe m ls _ \<Rightarrow> m = n \<and> p ls | _ \<Rightarrow> False) cs)"

lemma count_simps [simp]:
  "counter n [] = 0" "observations n p [] = 0"
  "counter n (cs @ ds) = counter n cs + counter n ds"
  "observations n p (cs @ ds) = observations n p cs + observations n p ds"
  "counter n (Inc m ls # cs) = (if m = n then 1 else 0) + counter n cs"
  "counter n (Observe m ls v # cs) = counter n cs" "counter n (SetTo m ls v # cs) = counter n cs"
  "observations n p (Inc m ls # cs) = observations n p cs" "observations n p (SetTo m ls v # cs) = observations n p cs"
  "observations n p (Observe m ls v # cs) = (if m = n \<and> p ls then 1 else 0) + observations n p cs"
  by (simp_all add: counter_def observations_def)


section \<open>HTTP requests\<close>

definition observeHttp :: "string \<Rightarrow> string \<Rightarrow> int \<Rightarrow> rat \<Rightarrow> metric_call list" where
  "observeHttp verb route statusCode durationSeconds =
     (let status = js_int statusCode
      in [Observe ''http_request_duration_seconds''
            [(''method'', verb), (''route'', route), (''status_code'', status)] durationSeconds,
          Inc ''http_requests_total'' [(''method'', verb), (''route'', route), (''status_code'', status)]] @
         (if statusCode \<ge> 500 then [Inc ''http_errors_total'' [(''method'', verb), (''route'', route)]] else []))"

text \<open>
  The handler of \<^verbatim>\<open>finish\<close>: \<open>routePath\<close> is \<^verbatim>\<open>req.route?.path\<close> at that time, \<open>None\<close> when no route
  was matched; \<open>start\<close> and \<open>finish\<close> are readings of the clock in nanoseconds.
\<close>

definition metricsMiddleware ::
  "string \<Rightarrow> string \<Rightarrow> string option \<Rightarrow> string \<Rightarrow> int \<Rightarrow> int \<Rightarrow> int \<Rightarrow> metric_call list" where
  "metricsMiddleware verb baseUrl routePath path statusCode start finish =
     (let duration = of_int (finish - start) / 1000000000;
          route = (if truthy routePath then baseUrl @ the routePath else path)
      in observeHttp verb route statusCode duration)"

lemma http_calls:
  "counter ''http_requests_total'' (observeHttp verb route st d) = 1"
  "counter ''http_errors_total'' (observeHttp verb route st d) = (if 500 \<le> st then 1 else 0)"
  "list_all well_declared (observeHttp verb route st d)"
  by (simp_all add: observeHttp_def Let_def well_declared_def createMetricsRegistry_def)


section \<open>Polls and jobs\<close>

text \<open>One turn of the polling loop up to the spawning: a poll that throws reports nothing.\<close>

definition poll :: "env \<Rightarrow> int \<Rightarrow> metric_call list call" where
  "poll env now =
     catch_io
       (bind_io (recoverAbandoned env now) (\<lambda>_.
        bind_io (pendingDepth env) (\<lambda>depth.
        ret [SetTo ''worker_queue_depth'' [] (of_nat depth)])))
       (\<lambda>_. ret [])"

definition failure_metrics :: "job option \<Rightarrow> rat \<Rightarrow> metric_call list" where
  "failure_metrics updated seconds =
     [if map_option j_status updated = Some DeadLettered
      then Inc ''job_dead_letter_total'' [] else Inc ''job_retries_total'' [],
      Observe ''job_processing_duration_seconds''
        [(''status'', case updated of None \<Rightarrow> ''failed'' | Some k \<Rightarrow> job_status_str (j_status k))] seconds]"

text \<open>\<open>report\<close> and \<open>processNext\<close> with the calls they make; \<open>started\<close> and \<open>ended\<close> frame the duration.\<close>

definition report_metrics ::
  "worker \<Rightarrow> int \<Rightarrow> rat \<Rightarrow> int \<Rightarrow> int \<Rightarrow> job \<Rightarrow> thrown + summary \<Rightarrow> metric_call list call" where
  "report_metrics wk now rnd started ended j outcome =
     catch_io
       (case outcome of
          Inl err \<Rightarrow> throw err
        | Inr result \<Rightarrow> bind_io (complete (wk_env wk) (j_id j) result now) (\<lambda>_.
            ret [Observe ''job_processing_duration_seconds'' [(''status'', ''completed'')]
                   (of_int (ended - started) / 1000)]))
       (\<lambda>err. bind_io (fail (wk_env wk) (wk_queue wk) (j_id j) (job_failure (wk_err_text wk) err now) now rnd)
                (\<lambda>updated. ret (failure_metrics updated (of_int (ended - started) / 1000))))"

definition processNext_metrics ::
  "worker \<Rightarrow> pace \<Rightarrow> int \<Rightarrow> int \<Rightarrow> int \<Rightarrow> int \<Rightarrow> int \<Rightarrow> int \<Rightarrow> int list \<Rightarrow> rat \<Rightarrow>
    (bool \<times> metric_call list) work" where
  "processNext_metrics wk pace claimed started sent answered reported ended beats rnd =
     bind_io (on_db (claim (wk_env wk) (wk_queue wk) (wk_id wk) claimed)) (\<lambda>job.
       case job of
         None \<Rightarrow> ret (False, [])
       | Some j \<Rightarrow>
           bind_io (settled (run_in_time wk pace sent answered j)) (\<lambda>outcome.
           bind_io (on_db (for_io (beat wk j) () beats)) (\<lambda>_.
           bind_io (on_db (report_metrics wk reported rnd started ended j outcome)) (\<lambda>calls.
           ret (True, calls)))))"

text \<open>Without the calls they are \<open>report\<close> and \<open>processNext\<close>: reporting metrics changes nothing else.\<close>

lemma report_forget:
  "report wk now rnd j outcome = bind_io (report_metrics wk now rnd started ended j outcome) (\<lambda>_. ret ())"
  by (cases outcome)
    (auto simp: report_def report_metrics_def catch_io_def bind_io_def fun_eq_iff split: prod.splits sum.splits)

lemma on_db_forget: "on_db (bind_io m (\<lambda>_. ret ())) = bind_io (on_db m) (\<lambda>_. ret ())"
  by (auto simp: on_db_def bind_io_def fun_eq_iff split: prod.splits sum.splits)

lemma processNext_forget:
  "processNext wk pace claimed sent answered reported beats rnd =
    bind_io (processNext_metrics wk pace claimed started sent answered reported ended beats rnd) (\<lambda>(b, _). ret b)"
  unfolding processNext_def processNext_metrics_def report_forget [where started = started and ended = ended] on_db_forget
  by (auto simp: bind_io_def fun_eq_iff split: prod.splits sum.splits option.splits)

context reliable_store
begin

text \<open>The gauge shows the number of jobs that wait, those recovered by the same poll included.\<close>

lemma poll_sets_depth:
  obtains s' where "poll env now s = (s', Inr [SetTo ''worker_queue_depth'' []
      (of_nat (length (filter (\<lambda>j. j_status j \<in> {Pending, RetryWait}) (db_jobs s'))))])"
    "db_jobs s' = map (\<lambda>j. if abandoned now j then recover_job now j else j) (db_jobs s)"
proof -
  obtain js n where u: "drv_updateMany (e_jobs env) (abandoned now) (recover_job now) (db_jobs s) = Inr (js, n)"
    by (rule jobs.updateMany_total)
  then have r: "recoverAbandoned env now s = (db_jobs_update (\<lambda>_. js) s, Inr n)"
    by (simp add: recoverAbandoned_def tell_def)
  obtain m where c: "drv_count (e_jobs env) (\<lambda>j. j_status j \<in> {Pending, RetryWait}) js = Inr m"
    by (rule jobs.count_total)
  have "poll env now s = (db_jobs_update (\<lambda>_. js) s, Inr [SetTo ''worker_queue_depth'' [] (of_nat m)])"
    using c by (simp add: poll_def catch_io_def bind_io_def r pendingDepth_def ask_def)
  then show ?thesis
    using that [of "db_jobs_update (\<lambda>_. js) s"] recover_Inr(1) [OF r] jobs.count_Inr [OF c] by simp
qed

lemma report_metrics_settles:
  assumes "db_jobs s = with_job i k js" "j_id k = i" "j_id j = i" "i \<in> j_id ` set js" "wk_env wk = env"
    "distinct (map j_id js)"
  obtains s' where "report_metrics wk now rnd started ended j outcome s = (s', Inr
      (case outcome of
         Inr _ \<Rightarrow> [Observe ''job_processing_duration_seconds'' [(''status'', ''completed'')]
                    (of_int (ended - started) / 1000)]
       | Inl _ \<Rightarrow> failure_metrics (Some (settled_as wk now rnd outcome k)) (of_int (ended - started) / 1000)))"
    "db_jobs s' = with_job i (settled_as wk now rnd outcome k) js"
proof -
  obtain s' where rep: "report wk now rnd j outcome s = (s', Inr ())"
    "db_jobs s' = with_job i (settled_as wk now rnd outcome k) js"
    by (rule report_settles [OF assms])
  then obtain calls where m: "report_metrics wk now rnd started ended j outcome s = (s', Inr calls)"
    unfolding report_forget [where started = started and ended = ended]
    by (auto simp: bind_io_def split: prod.splits sum.splits)
  have d: "distinct (map j_id (db_jobs s))" "k \<in> set (db_jobs s)"
    using assms by (simp_all add: with_job_ids with_job_member)
  show ?thesis
  proof (cases outcome)
    case (Inl err)
    obtain s2 where "fail env (wk_queue wk) (j_id k) (job_failure (wk_err_text wk) err now) now rnd s =
        (s2, Inr (Some (settled_as wk now rnd outcome k)))"
      unfolding settled_as_def Inl sum.case by (rule fail_answers [OF d])
    then have "calls = failure_metrics (Some (settled_as wk now rnd outcome k)) (of_int (ended - started) / 1000)"
      using m assms(2,3,5) Inl by (simp add: report_metrics_def catch_io_def bind_io_def)
    with m rep(2) that Inl show ?thesis by simp
  next
    case (Inr result)
    obtain s2 where "complete env (j_id k) result now s = (s2, Inr (Some (complete_job result now k)))"
      unfolding complete_def by (rule job_saved [OF d, of "complete_job result now"])
    then have "calls = [Observe ''job_processing_duration_seconds'' [(''status'', ''completed'')]
        (of_int (ended - started) / 1000)]"
      using m assms(2,3,5) Inr by (simp add: report_metrics_def catch_io_def bind_io_def)
    with m rep(2) that Inr show ?thesis by simp
  qed
qed

end


section \<open>Many turns of many workers\<close>

record turn =
  tn_worker :: worker
  tn_breaker :: breaker
  tn_pace :: pace
  tn_claimed :: int
  tn_started :: int
  tn_sent :: int
  tn_answered :: int
  tn_reported :: int
  tn_ended :: int
  tn_beats :: "int list"
  tn_rnd :: rat

definition take_turn :: "turn \<Rightarrow> db \<Rightarrow> db \<times> metric_call list" where
  "take_turn t s =
     (case processNext_metrics (tn_worker t) (tn_pace t) (tn_claimed t) (tn_started t) (tn_sent t)
             (tn_answered t) (tn_reported t) (tn_ended t) (tn_beats t) (tn_rnd t) (tn_breaker t, s) of
        ((_, s'), Inr (_, calls)) \<Rightarrow> (s', calls)
      | ((_, s'), Inl _) \<Rightarrow> (s', []))"

definition turn_step :: "db \<times> metric_call list \<Rightarrow> turn \<Rightarrow> db \<times> metric_call list" where
  "turn_step = (\<lambda>(s, cs) t. case take_turn t s of (s', calls) \<Rightarrow> (s', cs @ calls))"

definition jobs_in :: "job_status \<Rightarrow> db \<Rightarrow> nat" where
  "jobs_in st s = length (filter (\<lambda>j. j_status j = st) (db_jobs s))"

definition attempts_made :: "db \<Rightarrow> int" where
  "attempts_made s = sum_list (map j_attempts (db_jobs s))"

lemma with_job_split:
  assumes "j \<in> set js" "distinct (map j_id js)"
  obtains xs ys where "js = xs @ j # ys" "\<And>k. with_job (j_id j) k js = xs @ k # ys"
proof -
  from assms(1) obtain xs ys where js: "js = xs @ j # ys" by (auto simp: in_set_conv_decomp)
  with assms(2) have "\<forall>d \<in> set xs \<union> set ys. j_id d \<noteq> j_id j" by (auto simp: rev_image_eqI)
  then have "map (\<lambda>d. if j_id d = j_id j then k else d) xs = xs" "map (\<lambda>d. if j_id d = j_id j then k else d) ys = ys" for k
    by (auto intro: map_idI)
  with js that show ?thesis by (simp add: with_job_def)
qed

text \<open>The books after some turns that began with \<open>d\<close> dead-lettered and \<open>c\<close> completed jobs and \<open>a\<close> attempts.\<close>

definition ledger :: "nat \<Rightarrow> nat \<Rightarrow> int \<Rightarrow> db \<times> metric_call list \<Rightarrow> bool" where
  "ledger d c a = (\<lambda>(s, cs). distinct (map j_id (db_jobs s)) \<and> list_all well_declared cs \<and>
     jobs_in DeadLettered s = d + counter ''job_dead_letter_total'' cs \<and>
     jobs_in Completed s =
       c + observations ''job_processing_duration_seconds'' (\<lambda>ls. ls = [(''status'', ''completed'')]) cs \<and>
     attempts_made s = a + int (observations ''job_processing_duration_seconds'' (\<lambda>_. True) cs) \<and>
     counter ''job_retries_total'' cs =
       observations ''job_processing_duration_seconds'' (\<lambda>ls. ls = [(''status'', ''retry_wait'')]) cs)"

lemma outcome_well_declared:
  "list_all well_declared [Observe ''job_processing_duration_seconds'' [(''status'', v)] x]"
  "list_all well_declared (failure_metrics k x)"
  by (simp_all add: failure_metrics_def well_declared_def createMetricsRegistry_def)

lemma failure_counts:
  assumes "j_status k = DeadLettered \<or> j_status k = RetryWait"
  shows "counter ''job_dead_letter_total'' (failure_metrics (Some k) x) = (if j_status k = DeadLettered then 1 else 0)"
    "counter ''job_retries_total'' (failure_metrics (Some k) x) = (if j_status k = RetryWait then 1 else 0)"
    "observations ''job_processing_duration_seconds'' p (failure_metrics (Some k) x) =
      (if p [(''status'', job_status_str (j_status k))] then 1 else 0)"
  using assms by (auto simp: failure_metrics_def)

lemma ledger_step:
  assumes "reliable_store (wk_env (tn_worker t))" "ledger d c a (s, cs)"
  shows "ledger d c a (turn_step (s, cs) t)"
proof -
  let ?wk = "tn_worker t" and ?secs = "of_int (tn_ended t - tn_started t) / 1000 :: rat"
  have ids: "distinct (map j_id (db_jobs s))" using assms(2) by (simp add: ledger_def)
  show ?thesis
  proof (cases rule: worker_turn [OF assms(1) ids, where claimed = "tn_claimed t" and pace = "tn_pace t"
      and sent = "tn_sent t" and answered = "tn_answered t" and b = "tn_breaker t" and beats = "tn_beats t"])
    case 1
    then have "take_turn t s = (s, [])"
      by (simp add: take_turn_def processNext_metrics_def bind_io_def on_db_def)
    with assms(2) show ?thesis by (simp add: turn_step_def)
  next
    case (2 s1 j j1 b2 s2 outcome s3 k)
    let ?k = "settled_as ?wk (tn_reported t) (tn_rnd t) outcome k"
    let ?calls = "case outcome of
        Inr _ \<Rightarrow> [Observe ''job_processing_duration_seconds'' [(''status'', ''completed'')] ?secs]
      | Inl _ \<Rightarrow> failure_metrics (Some ?k) ?secs"
    have j1: "j_id j1 = j_id j" "j_id k = j_id j"
      using 2(8) by (simp_all add: 2(3) same_run_def claim_job_def)
    obtain s4 where rep: "report_metrics ?wk (tn_reported t) (tn_rnd t) (tn_started t) (tn_ended t) j1 outcome s3 =
        (s4, Inr ?calls)" "db_jobs s4 = with_job (j_id j) ?k (db_jobs s)"
      using reliable_store.report_metrics_settles [OF assms(1) 2(7) j1(2,1) _ refl ids] 2(1) by blast
    have turn: "turn_step (s, cs) t = (s4, cs @ ?calls)"
      using 2(4-6) rep(1)
      by (simp add: turn_step_def take_turn_def processNext_metrics_def bind_io_def on_db_def settled_def)
    obtain xs ys where js: "db_jobs s = xs @ j # ys" "db_jobs s4 = xs @ ?k # ys"
      using with_job_split [OF 2(1) ids] rep(2) by metis
    have st: "j_status j \<noteq> DeadLettered" "j_status j \<noteq> Completed" using 2(2) by (auto simp: claimable_def)
    note f = settled_fields [OF 2(8) [unfolded 2(3)], of ?wk "tn_reported t" "tn_rnd t" outcome]
    have books: "jobs_in DeadLettered s4 = jobs_in DeadLettered s + (if j_status ?k = DeadLettered then 1 else 0)"
      "jobs_in Completed s4 = jobs_in Completed s + (if j_status ?k = Completed then 1 else 0)"
      "attempts_made s4 = attempts_made s + 1" "distinct (map j_id (db_jobs s4))"
      using st ids f(1,2) by (simp_all add: jobs_in_def attempts_made_def js)
    show ?thesis
    proof (cases outcome)
      case (Inr result)
      with f(4) have "j_status ?k = Completed" by simp
      with books assms(2) outcome_well_declared(1) show ?thesis
        unfolding turn Inr sum.case by (simp add: ledger_def)
    next
      case (Inl err)
      with f(4) have "j_status ?k = DeadLettered \<or> j_status ?k = RetryWait" by (simp split: if_splits)
      with books assms(2) show ?thesis
        unfolding turn Inl sum.case ledger_def
        by (elim disjE) (simp_all add: failure_counts outcome_well_declared(2))
    qed
  qed
qed

interpretation ledger: invariant_system turn_step "\<lambda>t. reliable_store (wk_env (tn_worker t))" "ledger d c a" for d c a
  by unfold_locales (auto simp: ledger_step)


definition demo_turn :: "int \<Rightarrow> turn" where
  "demo_turn t = \<lparr>tn_worker = demo_worker, tn_breaker = CircuitBreaker 5 15000, tn_pace = LateWaiting,
     tn_claimed = t, tn_started = t, tn_sent = t, tn_answered = t, tn_reported = t + 9, tn_ended = t + 9,
     tn_beats = [t + 8], tn_rnd = 0\<rparr>"


end
