(* ===== verification/Worker_Loop.thy ===== *)
theory Worker_Loop
  imports Prelude
begin

text \<open>
  \<^verbatim>\<open>apps/worker/src/index.ts\<close>: the polling loop, the set of processors in flight and the graceful
  shutdown. What can happen between two turns of the event loop is a step: a poll whose database
  calls answered or threw, a processor that settled, a signal, the loop noticing that it has to stop,
  and the exit of the process. \<open>fill\<close> is the inner \<^verbatim>\<open>while\<close>, which spawns processors up to the
  concurrency limit without giving up control.
\<close>

record loop_state =
  ls_running :: bool
  ls_inflight :: "nat set"
  ls_spawned :: nat
  ls_awaited :: "nat set option"
  ls_loopDone :: bool
  ls_exited :: bool

definition loop_init :: loop_state where
  "loop_init =
     \<lparr> ls_running = True, ls_inflight = {}, ls_spawned = 0, ls_awaited = None,
       ls_loopDone = False, ls_exited = False \<rparr>"

text \<open>\<^verbatim>\<open>spawn\<close> adds the promise of a new processor; promises are numbered in the order of creation.\<close>

definition spawn :: "loop_state \<Rightarrow> loop_state" where
  "spawn s = s\<lparr>ls_inflight := insert (ls_spawned s) (ls_inflight s), ls_spawned := ls_spawned s + 1\<rparr>"

fun fill :: "nat \<Rightarrow> int \<Rightarrow> loop_state \<Rightarrow> loop_state" where
  "fill 0 concurrency s = s"
| "fill (Suc fuel) concurrency s =
     (if ls_running s \<and> int (card (ls_inflight s)) < concurrency
      then fill fuel concurrency (spawn s) else s)"

inductive loop_step :: "int \<Rightarrow> loop_state \<Rightarrow> loop_state \<Rightarrow> bool" for concurrency where
  poll: "\<not> ls_loopDone s \<Longrightarrow> loop_step concurrency s (fill (nat concurrency) concurrency s)"
| poll_threw: "\<not> ls_loopDone s \<Longrightarrow> loop_step concurrency s s"
| settle: "i \<in> ls_inflight s \<Longrightarrow> loop_step concurrency s (s\<lparr>ls_inflight := ls_inflight s - {i}\<rparr>)"
| signal: "loop_step concurrency s (s\<lparr>ls_running := False, ls_awaited := Some (ls_inflight s)\<rparr>)"
| stop: "\<not> ls_running s \<Longrightarrow> loop_step concurrency s (s\<lparr>ls_loopDone := True\<rparr>)"
| exits: "ls_awaited s = Some W \<Longrightarrow> W \<inter> ls_inflight s = {} \<Longrightarrow> ls_loopDone s \<Longrightarrow>
    loop_step concurrency s (s\<lparr>ls_exited := True\<rparr>)"

inductive reachable :: "int \<Rightarrow> loop_state \<Rightarrow> bool" for concurrency where
  start: "reachable concurrency loop_init"
| step: "reachable concurrency s \<Longrightarrow> loop_step concurrency s s' \<Longrightarrow> reachable concurrency s'"

text \<open>
  The inner loop needs no more turns than the limit: each one adds a processor, so \<open>nat concurrency\<close>
  of fuel is enough for it to stop by its own condition.
\<close>

definition loop_inv :: "int \<Rightarrow> loop_state \<Rightarrow> bool" where
  "loop_inv concurrency s \<longleftrightarrow>
     finite (ls_inflight s) \<and> (\<forall>i \<in> ls_inflight s. i < ls_spawned s) \<and>
     int (card (ls_inflight s)) \<le> max 0 concurrency \<and>
     (case ls_awaited s of None \<Rightarrow> ls_running s \<and> \<not> ls_loopDone s \<and> \<not> ls_exited s
      | Some W \<Rightarrow> \<not> ls_running s \<and> ls_inflight s \<subseteq> W) \<and>
     (ls_exited s \<longrightarrow> ls_loopDone s \<and> ls_inflight s = {})"

lemma spawn_card:
  assumes "finite (ls_inflight s)" "\<forall>i \<in> ls_inflight s. i < ls_spawned s"
  shows "card (ls_inflight (spawn s)) = card (ls_inflight s) + 1"
    "finite (ls_inflight (spawn s))" "\<forall>i \<in> ls_inflight (spawn s). i < ls_spawned (spawn s)"
  using assms by (auto simp: spawn_def)

lemma fill_enough:
  assumes "finite (ls_inflight s)" "\<forall>i \<in> ls_inflight s. i < ls_spawned s"
    and "nat (concurrency - int (card (ls_inflight s))) \<le> fuel"
  shows "\<not> (ls_running (fill fuel concurrency s) \<and>
    int (card (ls_inflight (fill fuel concurrency s))) < concurrency)"
  using assms
proof (induction fuel arbitrary: s)
  case 0
  then show ?case by auto
next
  case (Suc fuel)
  have "nat (concurrency - int (card (ls_inflight (spawn s)))) \<le> fuel"
    using Suc.prems(3) spawn_card(1) [OF Suc.prems(1,2)] by simp
  from Suc.IH [OF spawn_card(2,3) [OF Suc.prems(1,2)] this] show ?case by simp
qed

lemma fill_inv: "loop_inv concurrency s \<Longrightarrow> loop_inv concurrency (fill fuel concurrency s)"
proof (induction fuel arbitrary: s)
  case (Suc fuel)
  show ?case
  proof (cases "ls_running s \<and> int (card (ls_inflight s)) < concurrency")
    case True
    with Suc.prems have "loop_inv concurrency (spawn s)"
      using spawn_card [of s] by (auto simp: loop_inv_def split: option.splits) (auto simp: spawn_def)
    from Suc.IH [OF this] True show ?thesis by simp
  next
    case False
    then have "fill (Suc fuel) concurrency s = s" by (simp only: fill.simps if_False)
    with Suc.prems show ?thesis by simp
  qed
qed simp

lemma loop_step_inv:
  assumes "loop_step concurrency s s'" "loop_inv concurrency s"
  shows "loop_inv concurrency s'"
  using assms
proof (induction rule: loop_step.induct)
  case (poll s)
  then show ?case by (simp add: fill_inv)
next
  case (settle i s)
  then have "card (ls_inflight s - {i}) \<le> card (ls_inflight s)"
    by (simp add: card_mono loop_inv_def)
  with settle show ?case by (auto simp: loop_inv_def split: option.splits)
next
  case (exits s W)
  then have "ls_inflight s = {}" by (auto simp: loop_inv_def)
  with exits show ?case by (simp add: loop_inv_def)
qed (auto simp: loop_inv_def split: option.splits)

lemma reachable_inv: "reachable concurrency s \<Longrightarrow> loop_inv concurrency s"
proof (induction rule: reachable.induct)
  case start
  show ?case by (simp add: loop_inv_def loop_init_def)
next
  case (step s s')
  then show ?case by (blast intro: loop_step_inv)
qed

lemma fill_stopped: "\<not> ls_running s \<Longrightarrow> fill fuel concurrency s = s"
  by (cases fuel) simp_all

text \<open>
  C25. The worker never has more processors in flight than \<^verbatim>\<open>WORKER_CONCURRENCY\<close>, and a poll of a running
  worker tops them up to exactly that number. Once a signal has arrived no processor is started any
  more, and the process exits only when all of them have settled: a graceful shutdown abandons no
  job.
\<close>

theorem worker_concurrency_and_drain:
  assumes "reachable concurrency s" "0 \<le> concurrency"
  shows "int (card (ls_inflight s)) \<le> concurrency
    \<and> (ls_running s \<longrightarrow> int (card (ls_inflight (fill (nat concurrency) concurrency s))) = concurrency)
    \<and> (ls_awaited s \<noteq> None \<longrightarrow> (\<forall>s'. loop_step concurrency s s' \<longrightarrow> ls_inflight s' \<subseteq> ls_inflight s))
    \<and> (ls_exited s \<longrightarrow> ls_inflight s = {})"
proof -
  have inv: "loop_inv concurrency s" using assms(1) by (rule reachable_inv)
  let ?f = "fill (nat concurrency) concurrency s"
  have "int (card (ls_inflight ?f)) = concurrency" if "ls_running s"
  proof -
    have run: "ls_running (fill n concurrency s') = ls_running s'" for n s'
      by (induction n arbitrary: s') (simp_all add: spawn_def)
    have "\<not> int (card (ls_inflight ?f)) < concurrency"
      using fill_enough [of s concurrency "nat concurrency"] inv that by (auto simp: loop_inv_def run)
    moreover have "int (card (ls_inflight ?f)) \<le> concurrency"
      using fill_inv [OF inv] assms(2) by (simp add: loop_inv_def)
    ultimately show ?thesis by simp
  qed
  moreover have "ls_inflight s' \<subseteq> ls_inflight s" if "ls_awaited s \<noteq> None" "loop_step concurrency s s'" for s'
  proof -
    have "\<not> ls_running s" using inv that(1) by (auto simp: loop_inv_def)
    with that(2) show ?thesis by (cases rule: loop_step.cases) (auto simp: fill_stopped)
  qed
  ultimately show ?thesis using inv assms(2) by (auto simp: loop_inv_def)
qed

theorem worker_concurrency_and_drain_witness:
  "int (card (ls_inflight (fill 2 2 loop_init))) \<le> 2 \<and> int (card (ls_inflight (fill 2 2 loop_init))) = 2"
proof -
  have "loop_step 2 loop_init (fill (nat 2) 2 loop_init)"
    by (rule loop_step.poll) (simp add: loop_init_def)
  then have "reachable 2 (fill (nat 2) 2 loop_init)" by (blast intro: reachable.intros)
  from worker_concurrency_and_drain [OF this]
    worker_concurrency_and_drain [OF reachable.start, of 2] show ?thesis
    by (simp add: loop_init_def)
qed

end
