(* ===== verification/Process_Lifecycle.thy ===== *)
theory Process_Lifecycle
  imports Seed Api_Router Worker_Loop
begin

text \<open>
  The two processes around the components: what \<^verbatim>\<open>createApp\<close> and the \<^verbatim>\<open>main\<close> functions of
  \<^verbatim>\<open>apps/api/src/index.ts\<close> and \<^verbatim>\<open>apps/worker/src/index.ts\<close> put together before they serve anything, the
  document of \<^verbatim>\<open>swagger.ts\<close>, the worker's health server, the log line of \<^verbatim>\<open>connectMongo\<close>, and the graceful
  shutdown of the API as a step relation. Binding a port is an action of the operating system, so it is a parameter;
  whatever is thrown on the way ends the process with exit code 1.
\<close>

section \<open>The log line of a connection\<close>

text \<open>
  \<^verbatim>\<open>uri.replace(/\/\/.*@/, '//***@')\<close>: the leftmost \<^verbatim>\<open>//\<close> with an \<^verbatim>\<open>@\<close> behind it on the same line, up to
  the last such \<^verbatim>\<open>@\<close>, since \<^verbatim>\<open>.*\<close> is greedy.
\<close>

definition line_end :: "char \<Rightarrow> bool" where
  "line_end c \<longleftrightarrow> c = CHR 0x0A \<or> c = CHR 0x0D"

fun after_last_at :: "string \<Rightarrow> string option" where
  "after_last_at [] = None"
| "after_last_at (c # cs) =
     (if line_end c then None
      else case after_last_at cs of
             Some rest \<Rightarrow> Some rest
           | None \<Rightarrow> if c = CHR ''@'' then Some cs else None)"

fun mask_uri :: "string \<Rightarrow> string" where
  "mask_uri [] = []"
| "mask_uri (c # cs) =
     (case (if c = CHR ''/'' \<and> cs \<noteq> [] \<and> hd cs = CHR ''/'' then after_last_at (tl cs) else None) of
        Some rest \<Rightarrow> ''//***@'' @ rest
      | None \<Rightarrow> c # mask_uri cs)"

lemma after_last_at_append:
  "\<forall>c \<in> set creds. \<not> line_end c \<Longrightarrow>
    after_last_at (creds @ CHR ''@'' # rest) = Some (with_default (after_last_at rest) rest)"
  by (induction creds) (auto simp: with_default_def line_end_def split: option.splits)

lemma mask_uri_credentials:
  assumes "CHR ''/'' \<notin> set scheme" "\<forall>c \<in> set creds. \<not> line_end c"
  shows "mask_uri (scheme @ ''//'' @ creds @ ''@'' @ rest) =
    scheme @ ''//***@'' @ with_default (after_last_at rest) rest"
  using assms by (induction scheme) (auto simp: after_last_at_append)

text \<open>Two addresses that differ only in their credentials give the same line.\<close>

theorem logged_uri_hides_credentials:
  assumes "CHR ''/'' \<notin> set scheme" "\<forall>c \<in> set creds. \<not> line_end c" "\<forall>c \<in> set creds'. \<not> line_end c"
  shows "mask_uri (scheme @ ''//'' @ creds @ ''@'' @ rest) = mask_uri (scheme @ ''//'' @ creds' @ ''@'' @ rest)"
  by (simp only: mask_uri_credentials [OF assms(1,2)] mask_uri_credentials [OF assms(1,3)])

lemma mask_uri_example:
  "mask_uri ''mongodb://app:s3/cret@db:27017/cloudops'' = ''mongodb://***@db:27017/cloudops''"
  "mask_uri ''mongodb://localhost:27017/cloudops'' = ''mongodb://localhost:27017/cloudops''"
  by (simp_all add: line_end_def)

definition connected_log :: "string \<Rightarrow> (string \<times> string) list \<times> string" where
  "connected_log uri = ([(''uri'', mask_uri uri)], ''connected to mongodb'')"

definition isMongoReady :: "int \<Rightarrow> bool" where
  "isMongoReady readyState \<longleftrightarrow> readyState = 1"


section \<open>The API document\<close>

text \<open>\<open>resolve\<close>, \<open>read_file\<close> and \<open>parse_yaml\<close> are Node's and the YAML package's.\<close>

definition spec_candidates :: "(string \<Rightarrow> string \<Rightarrow> string) \<Rightarrow> string \<Rightarrow> string \<Rightarrow> string list" where
  "spec_candidates resolve dirname cwd =
     [resolve dirname ''../../../docs/openapi.yaml'', resolve cwd ''docs/openapi.yaml'',
      resolve cwd ''../../docs/openapi.yaml'']"

fun first_parsed :: "(string \<Rightarrow> thrown + json) \<Rightarrow> string list \<Rightarrow> json option" where
  "first_parsed load [] = None"
| "first_parsed load (file # files) =
     (case load file of Inr doc \<Rightarrow> Some doc | Inl _ \<Rightarrow> first_parsed load files)"

definition loadOpenApiSpec ::
  "(string \<Rightarrow> string \<Rightarrow> string) \<Rightarrow> (string \<Rightarrow> thrown + string) \<Rightarrow> (string \<Rightarrow> thrown + json) \<Rightarrow> string \<Rightarrow> string \<Rightarrow> json" where
  "loadOpenApiSpec resolve read_file parse_yaml dirname cwd =
     with_default
       (first_parsed (\<lambda>file. case read_file file of Inl err \<Rightarrow> Inl err | Inr text \<Rightarrow> parse_yaml text)
          (spec_candidates resolve dirname cwd))
       (JObj [(''openapi'', JStr ''3.0.3''),
              (''info'', JObj [(''title'', JStr ''CloudOps Sentinel API''), (''version'', JStr ''1.0.0'')]),
              (''paths'', JObj [])])"

text \<open>The first candidate that can be read and parsed is served; the fallback only when there is none.\<close>

lemma first_parsed_at:
  "\<forall>x \<in> set xs. isl (load x) \<Longrightarrow> load f = Inr doc \<Longrightarrow> first_parsed load (xs @ f # ys) = Some doc"
  by (induction xs) (auto split: sum.splits)

lemma first_parsed_None: "first_parsed load files = None \<longleftrightarrow> (\<forall>x \<in> set files. isl (load x))"
  by (induction files) (auto split: sum.splits)


section \<open>The worker's health server\<close>

definition worker_http :: "string \<Rightarrow> bool \<Rightarrow> string \<Rightarrow> string \<Rightarrow> int \<times> string option \<times> string" where
  \<open>worker_http url mongoReady contentType metrics =
     (if url = ''/health/live'' then (200, Some ''application/json'', ''{"status":"live"}'')
      else if url = ''/health/ready'' then
        (if mongoReady then 200 else 503, Some ''application/json'',
         if mongoReady then ''{"status":"ready"}'' else ''{"status":"not_ready"}'')
      else if url = ''/metrics'' then (200, Some contentType, metrics)
      else (404, None, []))\<close>


section \<open>Starting\<close>

text \<open>Node accepts a whole number below \<open>2 ^ 16\<close> for a port and throws otherwise.\<close>

definition valid_port :: "env_number \<Rightarrow> int option" where
  "valid_port n =
     (case n of Finite x \<Rightarrow> if x = of_int \<lfloor>x\<rfloor> \<and> 0 \<le> x \<and> x \<le> 65535 then Some \<lfloor>x\<rfloor> else None | _ \<Rightarrow> None)"

datatype 'a started = ExitCode int | Serving int 'a

text \<open>
  Counts and times are whole, so a bound on them can be rounded up; a bound at infinity is never reached and has no
  number here.
\<close>

fun round_up :: "env_number \<Rightarrow> int option" where
  "round_up (Finite x) = Some \<lceil>x\<rceil>"
| "round_up _ = None"

definition breaker_of :: "env_number \<Rightarrow> env_number \<Rightarrow> breaker option" where
  "breaker_of failureThreshold resetTimeoutMs = do {
     n \<leftarrow> round_up failureThreshold;
     t \<leftarrow> round_up resetTimeoutMs;
     Some (CircuitBreaker n t)
   }"

definition client_of :: "string \<Rightarrow> env_number \<Rightarrow> diag_client option" where
  "client_of baseUrl timeoutMs = do {
     ms \<leftarrow> whole_ms timeoutMs;
     Some \<lparr>dc_baseUrl = baseUrl, dc_timeoutMs = ms\<rparr>
   }"

record api_parts =
  pp_config :: ApiConfig
  pp_breaker :: "breaker option"
  pp_diagnostics :: "diag_client option"
  pp_spec :: json

definition createApp :: "json \<Rightarrow> ApiConfig \<Rightarrow> api_parts" where
  "createApp spec config =
     \<lparr> pp_config = config,
       pp_breaker = breaker_of (ev_CB_FAILURE_THRESHOLD config) (ev_CB_RESET_TIMEOUT_MS config),
       pp_diagnostics = client_of (ev_DIAGNOSTICS_URL config) (ev_DIAGNOSTICS_TIMEOUT_MS config),
       pp_spec = spec \<rparr>"

record worker_parts =
  wp_config :: WorkerConfig
  wp_queue :: "queue_config option"
  wp_breaker :: "breaker option"
  wp_diagnostics :: "diag_client option"
  wp_loop :: loop_state

definition createWorker :: "WorkerConfig \<Rightarrow> worker_parts" where
  "createWorker config =
     \<lparr> wp_config = config, wp_queue = queue_config_of config,
       wp_breaker = breaker_of (wv_CB_FAILURE_THRESHOLD config) (wv_CB_RESET_TIMEOUT_MS config),
       wp_diagnostics = client_of (wv_DIAGNOSTICS_URL config) (wv_DIAGNOSTICS_TIMEOUT_MS config),
       wp_loop = loop_init \<rparr>"

text \<open>
  \<open>binds p\<close> is whether the system lets the process have the port \<open>p\<close>. When it does not, Node raises an error event that
  nobody listens to, which ends the process as well (the worker may have begun its first poll by then).
\<close>

definition serve :: "(int \<Rightarrow> bool) \<Rightarrow> env_number \<Rightarrow> 'a \<Rightarrow> 'a started" where
  "serve binds port parts =
     (case valid_port port of None \<Rightarrow> ExitCode 1 | Some p \<Rightarrow> if binds p then Serving p parts else ExitCode 1)"

definition api_main ::
  "environment \<Rightarrow> (string \<Rightarrow> int \<Rightarrow> thrown + unit) \<Rightarrow> (int \<Rightarrow> rat) \<Rightarrow> (int \<Rightarrow> bool) \<Rightarrow> json \<Rightarrow> api_parts started" where
  "api_main vars connect rnd binds spec =
     (case loadConfig vars (\<lambda>_. None) of
        None \<Rightarrow> ExitCode 1
      | Some config \<Rightarrow>
          let parts = createApp spec config
          in (case fst (connectMongo (connect (ev_MONGODB_URI config)) rnd) of
                Inl _ \<Rightarrow> ExitCode 1
              | Inr _ \<Rightarrow> serve binds (ev_API_PORT config) parts))"

definition worker_main ::
  "environment \<Rightarrow> (string \<Rightarrow> int \<Rightarrow> thrown + unit) \<Rightarrow> (int \<Rightarrow> rat) \<Rightarrow> (int \<Rightarrow> bool) \<Rightarrow>
    worker_parts started" where
  "worker_main vars connect rnd binds =
     (case loadWorkerConfig vars (\<lambda>_. None) of
        None \<Rightarrow> ExitCode 1
      | Some config \<Rightarrow>
          (case fst (connectMongo (connect (wv_MONGODB_URI config)) rnd) of
             Inl _ \<Rightarrow> ExitCode 1
           | Inr _ \<Rightarrow> serve binds (wv_WORKER_METRICS_PORT config) (createWorker config)))"

text \<open>Retrying connects exactly when one of the first eight attempts succeeds.\<close>

lemma connectMongo_iff:
  "(\<exists>u. fst (connectMongo connect rnd) = Inr u) \<longleftrightarrow> (\<exists>k. 1 \<le> k \<and> k \<le> 8 \<and> connect k = Inr ())"
proof
  assume ok: "\<exists>u. fst (connectMongo connect rnd) = Inr u"
  show "\<exists>k. 1 \<le> k \<and> k \<le> 8 \<and> connect k = Inr ()"
  proof (rule ccontr)
    assume none: "\<not> ?thesis"
    have "connect i = Inl (projl (connect i))" if "1 \<le> i" "i \<le> 8" for i
      using none that by (cases "connect i") auto
    from connect_gives_up [of connect "\<lambda>i. projl (connect i)", OF this] ok show False by simp
  qed
next
  assume "\<exists>k. 1 \<le> k \<and> k \<le> 8 \<and> connect k = Inr ()"
  then obtain k where k: "1 \<le> k \<and> k \<le> 8 \<and> connect k = Inr ()" by blast
  define P where "P n \<longleftrightarrow> 1 \<le> int n \<and> int n \<le> 8 \<and> connect (int n) = Inr ()" for n
  have "P (nat k)" using k by (simp add: P_def)
  then have l: "P (LEAST n. P n)" by (rule LeastI)
  have before: "\<exists>e. connect i = Inl e" if "1 \<le> i" "i < int (LEAST n. P n)" for i
  proof -
    have "\<not> P (nat i)" using that by (intro not_less_Least) (simp add: nat_less_iff)
    with that l show ?thesis by (cases "connect i") (auto simp: P_def)
  qed
  have "fst (connectMongo connect rnd) = Inr ()"
    by (rule connects [OF _ _ _ before]) (use l in \<open>simp_all add: P_def\<close>)
  then show "\<exists>u. fst (connectMongo connect rnd) = Inr u" by blast
qed

lemma connected_cases:
  "(case fst (connectMongo connect rnd) of Inl _ \<Rightarrow> x | Inr _ \<Rightarrow> y) =
    (if \<exists>k. 1 \<le> k \<and> k \<le> 8 \<and> connect k = Inr () then y else x)"
  unfolding connectMongo_iff [symmetric, where rnd = rnd] by (cases "fst (connectMongo connect rnd)") auto



section \<open>Stopping the API\<close>

text \<open>
  The listening process: time passes, connections are accepted and end, signals arrive, and of what a signal
  has started either the callback of \<^verbatim>\<open>server.close\<close> runs (no connection is left) or one of the timers. A
  timer may fire late, never early.
\<close>

record api_process =
  pr_listening :: bool
  pr_open :: nat
  pr_deadlines :: "int list"
  pr_now :: int
  pr_exit :: "int option"

definition api_listening :: "int \<Rightarrow> api_process" where
  "api_listening now = \<lparr>pr_listening = True, pr_open = 0, pr_deadlines = [], pr_now = now, pr_exit = None\<rparr>"

definition shutdown :: "api_process \<Rightarrow> api_process" where
  "shutdown s = s\<lparr>pr_listening := False, pr_deadlines := pr_deadlines s @ [pr_now s + 10000]\<rparr>"

inductive api_step :: "api_process \<Rightarrow> api_process \<Rightarrow> bool" where
  passes: "pr_exit s = None \<Longrightarrow> 0 \<le> d \<Longrightarrow> api_step s (s\<lparr>pr_now := pr_now s + d\<rparr>)"
| accepts: "pr_exit s = None \<Longrightarrow> pr_listening s \<Longrightarrow> api_step s (s\<lparr>pr_open := pr_open s + 1\<rparr>)"
| ends: "pr_exit s = None \<Longrightarrow> pr_open s = Suc n \<Longrightarrow> api_step s (s\<lparr>pr_open := n\<rparr>)"
| signals: "pr_exit s = None \<Longrightarrow> api_step s (shutdown s)"
| drained: "pr_exit s = None \<Longrightarrow> pr_deadlines s \<noteq> [] \<Longrightarrow> pr_open s = 0 \<Longrightarrow> api_step s (s\<lparr>pr_exit := Some 0\<rparr>)"
| overdue: "pr_exit s = None \<Longrightarrow> d \<in> set (pr_deadlines s) \<Longrightarrow> d \<le> pr_now s \<Longrightarrow>
    api_step s (s\<lparr>pr_exit := Some 1\<rparr>)"

inductive_cases api_stepE: "api_step s s'"

definition api_inv :: "int \<Rightarrow> api_process \<Rightarrow> bool" where
  "api_inv t0 s \<longleftrightarrow> t0 \<le> pr_now s \<and> (pr_listening s \<longleftrightarrow> pr_deadlines s = []) \<and>
     (\<forall>d \<in> set (pr_deadlines s). t0 + 10000 \<le> d \<and> d \<le> pr_now s + 10000) \<and>
     (case pr_exit s of
        None \<Rightarrow> True
      | Some c \<Rightarrow> pr_deadlines s \<noteq> [] \<and>
          (c = 0 \<and> pr_open s = 0 \<or> c = 1 \<and> (\<exists>d \<in> set (pr_deadlines s). d \<le> pr_now s)))"

lemma api_step_inv: "api_step s s' \<Longrightarrow> api_inv t0 s \<Longrightarrow> api_inv t0 s'"
  by (erule api_stepE) (auto simp: api_inv_def shutdown_def)

lemma api_steps_inv: "api_step\<^sup>*\<^sup>* s s' \<Longrightarrow> api_inv t0 s \<Longrightarrow> api_inv t0 s'"
  by (induction rule: rtranclp_induct) (auto intro: api_step_inv)

text \<open>A process that has been signalled can always end in order, as its connections do.\<close>

lemma can_drain:
  "pr_exit s = None \<Longrightarrow> pr_deadlines s \<noteq> [] \<Longrightarrow> \<exists>s'. api_step\<^sup>*\<^sup>* s s' \<and> pr_exit s' = Some 0"
proof (induction "pr_open s" arbitrary: s)
  case 0
  then have "api_step s (s\<lparr>pr_exit := Some 0\<rparr>)" by (intro api_step.drained) simp_all
  then show ?case by (intro exI [of _ "s\<lparr>pr_exit := Some 0\<rparr>"]) auto
next
  case (Suc n)
  let ?s = "s\<lparr>pr_open := n\<rparr>"
  have "api_step s ?s" using Suc.prems(1) Suc.hyps(2) by (intro api_step.ends) simp_all
  moreover obtain s' where "api_step\<^sup>*\<^sup>* ?s s'" "pr_exit s' = Some 0"
    using Suc.hyps(1) [of ?s] Suc.prems by auto
  ultimately show ?case by (meson converse_rtranclp_into_rtranclp)
qed

text \<open>
  C26. The API stops gracefully. From the first signal on it accepts no connection; it ends with code 0 only when
  all its connections have ended, and with code 1 only when ten seconds have passed since a signal; unless it has ended it
  can always still drain and end with code 0. It never ends without a signal.
\<close>

theorem api_graceful_shutdown:
  assumes "api_step\<^sup>*\<^sup>* (api_listening t0) s"
  shows "(pr_deadlines s \<noteq> [] \<longrightarrow> \<not> pr_listening s \<and> (\<forall>s'. api_step s s' \<longrightarrow> pr_open s' \<le> pr_open s))
    \<and> (case pr_exit s of
         None \<Rightarrow> pr_deadlines s \<noteq> [] \<longrightarrow> (\<exists>s'. api_step\<^sup>*\<^sup>* s s' \<and> pr_exit s' = Some 0)
       | Some c \<Rightarrow> pr_deadlines s \<noteq> [] \<and>
           (c = 0 \<and> pr_open s = 0 \<or> c = 1 \<and> (\<exists>t. t0 \<le> t \<and> t + 10000 \<in> set (pr_deadlines s) \<and> t + 10000 \<le> pr_now s)))"
proof -
  have inv: "api_inv t0 s"
    using assms by (rule api_steps_inv) (simp add: api_inv_def api_listening_def)
  have "pr_open s' \<le> pr_open s" if "pr_deadlines s \<noteq> []" "api_step s s'" for s'
    using that(2) by (rule api_stepE) (use inv that(1) in \<open>auto simp: api_inv_def shutdown_def\<close>)
  moreover have "\<exists>t. t0 \<le> t \<and> t + 10000 \<in> set (pr_deadlines s) \<and> t + 10000 \<le> pr_now s"
    if "d \<in> set (pr_deadlines s)" "d \<le> pr_now s" for d
    using inv that by (intro exI [of _ "d - 10000"]) (auto simp: api_inv_def)
  ultimately show ?thesis
    using inv can_drain [of s] by (auto simp: api_inv_def split: option.splits)
qed

theorem api_graceful_shutdown_witness:
  "\<exists>s'. api_step\<^sup>*\<^sup>* (shutdown (api_listening 5)) s' \<and> pr_exit s' = Some 0"
proof -
  have "api_step (api_listening 5) (shutdown (api_listening 5))"
    by (rule api_step.signals) (simp add: api_listening_def)
  then have "api_step\<^sup>*\<^sup>* (api_listening 5) (shutdown (api_listening 5))" by simp
  from api_graceful_shutdown [OF this] show ?thesis by (simp add: shutdown_def api_listening_def)
qed

text \<open>
  What \<^verbatim>\<open>/health/ready\<close> says of the breaker says nothing of the diagnostics service: the breaker of the API
  guards no call, so it is closed for ever.
\<close>

lemma readiness_breaker_is_closed:
  assumes "cb_state b = Closed"
  shows "health_ready mongoUp cl fetch now b = (b, fst (snd (health_ready mongoUp cl fetch now b)),
    snd (snd (health_ready mongoUp cl fetch now b)))"
    "rd_circuitBreaker (snd (snd (health_ready mongoUp cl fetch now b))) = Closed"
  using assms by (simp_all add: health_ready_def getState_def maybeHalfOpen_def Let_def)

end
