(* ===== verification/Application.thy ===== *)
theory Application
  imports Process_Lifecycle Api_Isolation
begin

text \<open>
  The Express application of \<^verbatim>\<open>apps/api/src/app.ts\<close>: the middleware in its order, the endpoints outside
  \<^verbatim>\<open>/api/v1\<close> and the mounting of the API. The third-party middleware is a parameter: \<open>wa_cors\<close> says which requests
  \<^verbatim>\<open>cors\<close> answers itself and how, \<open>wr_body\<close> what \<^verbatim>\<open>express.json\<close> makes of a body (or throws), \<open>wa_limit\<close> is the
  counting of the rate limiter on a state of its own, \<open>wa_swagger\<close> the pages of the documentation. Security headers and
  log lines are left out.
\<close>

section \<open>Requests and the application\<close>

record web_request =
  wr_method :: string
  wr_path :: "string list"
  wr_authorization :: "string option"
  wr_correlationHeader :: "string option"
  wr_requestIdHeader :: "string option"
  wr_query :: query
  wr_body :: "thrown + json"

text \<open>A body that cannot be read is reported before the request has a correlation id.\<close>

datatype web_reply =
    PreflightR
  | UnreadableR string string "(string \<times> string) list option"
  | TooManyR
  | LiveR string
  | ReadyR readiness
  | MetricsR string string
  | DocsR json
  | SwaggerR string
  | ApiR reply

record web_response =
  wp_status :: int
  wp_correlationId :: "string option"
  wp_reply :: web_reply

record 'l web_app =
  wa_config :: ApiConfig
  wa_api :: api_config
  wa_client :: diag_client
  wa_spec :: json
  wa_cors :: "web_request \<Rightarrow> int option"
  wa_limit :: "env_number \<Rightarrow> env_number \<Rightarrow> 'l \<Rightarrow> web_request \<Rightarrow> 'l \<times> bool"
  wa_swagger :: "web_request \<Rightarrow> int \<times> string"
  wa_contentType :: string
  wa_exposition :: string

text \<open>What a request meets: the draws of the API, the clock, the state of the connection to the database, the network.\<close>

record web_draws =
  wd_api :: draws
  wd_now :: int
  wd_readyState :: int
  wd_fetch :: fetch_get


section \<open>The endpoints\<close>

text \<open>The segments below \<^verbatim>\<open>/api/v1\<close>.\<close>

definition below_api :: "string list \<Rightarrow> string list option" where
  "below_api path = (case path of a # b # rest \<Rightarrow> if seg a ''api'' \<and> seg b ''v1'' then Some rest else None | _ \<Rightarrow> None)"

definition as_api_request :: "web_request \<Rightarrow> json \<Rightarrow> string list \<Rightarrow> request" where
  "as_api_request req body path =
     \<lparr> aq_method = wr_method req, aq_path = path, aq_authorization = wr_authorization req,
       aq_correlationHeader = wr_correlationHeader req, aq_requestIdHeader = wr_requestIdHeader req,
       aq_query = wr_query req, aq_body = body \<rparr>"

text \<open>\<^verbatim>\<open>path\<close> is \<^verbatim>\<open>/a\<close> or \<^verbatim>\<open>/a/b\<close>.\<close>

fun is_path :: "string list \<Rightarrow> string list \<Rightarrow> bool" where
  "is_path [] [] \<longleftrightarrow> True"
| "is_path (a # as) (f # fs) \<longleftrightarrow> seg a f \<and> is_path as fs"
| "is_path _ _ \<longleftrightarrow> False"

definition routed ::
  "'l web_app \<Rightarrow> web_draws \<Rightarrow> web_request \<Rightarrow> json \<Rightarrow> breaker \<times> db \<Rightarrow> (breaker \<times> db) \<times> int \<times> web_reply" where
  "routed app dw req body = (\<lambda>(b, s).
     let get = is_get (wr_method req); path = wr_path req in
     if get \<and> is_path path [''health'', ''live''] then ((b, s), 200, LiveR ''live'')
     else if get \<and> is_path path [''health'', ''ready''] then
       (let (b', status, body) = health_ready (isMongoReady (wd_readyState dw)) (wa_client app) (wd_fetch dw) (wd_now dw) b
        in ((b', s), status, ReadyR body))
     else if get \<and> is_path path [''metrics''] then ((b, s), 200, MetricsR (wa_contentType app) (wa_exposition app))
     else if get \<and> is_path path [''docs.json''] then ((b, s), 200, DocsR (wa_spec app))
     else if path \<noteq> [] \<and> seg (hd path) ''docs'' then
       (let (status, page) = wa_swagger app req in ((b, s), status, SwaggerR page))
     else (case below_api path of
         Some rest \<Rightarrow>
           (case api_request (wa_api app) (wd_api dw) (as_api_request req body rest) s of
              (s', Inr (status, reply)) \<Rightarrow> ((b, s'), status, ApiR reply)
            | (s', Inl err) \<Rightarrow> ((b, s'), 500, ApiR NoRouteR))
       | None \<Rightarrow> ((b, s), 404, ApiR NoRouteR)))"


section \<open>The chain of the middleware\<close>

text \<open>Behind the correlation id \<open>i\<close>: the rate limiter and what it lets through.\<close>

definition limited ::
  "'l web_app \<Rightarrow> web_draws \<Rightarrow> web_request \<Rightarrow> json \<Rightarrow> string \<Rightarrow> 'l \<times> breaker \<times> db \<Rightarrow> ('l \<times> breaker \<times> db) \<times> web_response" where
  "limited app dw req body i = (\<lambda>(l, b, s).
     let (l', allowed) = wa_limit app (ev_RATE_LIMIT_WINDOW_MS (wa_config app)) (ev_RATE_LIMIT_MAX (wa_config app)) l req
     in if \<not> allowed then ((l', b, s), \<lparr>wp_status = 429, wp_correlationId = Some i, wp_reply = TooManyR\<rparr>)
        else (case routed app dw req body (b, s) of
            ((b', s'), status, reply) \<Rightarrow>
              ((l', b', s'), \<lparr>wp_status = status, wp_correlationId = Some i, wp_reply = reply\<rparr>)))"

definition handle_web ::
  "'l web_app \<Rightarrow> web_draws \<Rightarrow> web_request \<Rightarrow> 'l \<times> breaker \<times> db \<Rightarrow> ('l \<times> breaker \<times> db) \<times> web_response" where
  "handle_web app dw req st =
     (case wa_cors app req of
       Some status \<Rightarrow> (st, \<lparr>wp_status = status, wp_correlationId = None, wp_reply = PreflightR\<rparr>)
     | None \<Rightarrow>
         (case wr_body req of
            Inl err \<Rightarrow>
              (case error_response [] err of
                 (status, ErrorR code message details _) \<Rightarrow>
                   (st, \<lparr>wp_status = status, wp_correlationId = None, wp_reply = UnreadableR code message details\<rparr>)
               | (status, reply) \<Rightarrow> (st, \<lparr>wp_status = status, wp_correlationId = None, wp_reply = ApiR reply\<rparr>))
          | Inr body \<Rightarrow>
              limited app dw req body (correlation_id (dw_uuid (wd_api dw)) (as_api_request req body (wr_path req))) st))"

text \<open>The probes of the orchestrator and the scrapes of the metrics count towards the rate limit like any other request.\<close>

lemma probe_is_limited:
  assumes "wa_cors app req = None" "wr_body req = Inr body"
    and "wa_limit app (ev_RATE_LIMIT_WINDOW_MS (wa_config app)) (ev_RATE_LIMIT_MAX (wa_config app)) l req = (l', False)"
  shows "wp_status (snd (handle_web app dw req (l, b, s))) = 429"
  using assms by (simp add: handle_web_def limited_def)

text \<open>A body that is no JSON: the error is not an \<^verbatim>\<open>AppError\<close>, so the answer is 500, without a correlation id.\<close>

lemma unreadable_body:
  assumes "wa_cors app req = None" "wr_body req = Inl (JsErr name message)"
  shows "handle_web app dw req st = (st, \<lparr>wp_status = 500, wp_correlationId = None,
    wp_reply = UnreadableR ''INTERNAL_ERROR'' ''Internal server error'' None\<rparr>)"
  using assms by (simp add: handle_web_def error_response_def AppError_def)


section \<open>What a request can do\<close>

definition admitted :: "'l web_app \<Rightarrow> 'l \<Rightarrow> web_request \<Rightarrow> json \<Rightarrow> bool" where
  "admitted app l req body \<longleftrightarrow> wa_cors app req = None \<and> wr_body req = Inr body \<and>
     snd (wa_limit app (ev_RATE_LIMIT_WINDOW_MS (wa_config app)) (ev_RATE_LIMIT_MAX (wa_config app)) l req)"

text \<open>An admitted request below \<^verbatim>\<open>/api/v1\<close> is a request to the API; any other leaves the database alone.\<close>

lemma handle_web_cases:
  assumes "handle_web app dw req (l, b, s) = ((l', b', s'), rsp)"
  obtains (api) body rest reply where "admitted app l req body" "below_api (wr_path req) = Some rest"
      "api_request (wa_api app) (wd_api dw) (as_api_request req body rest) s = (s', Inr (wp_status rsp, reply))"
      "wp_reply rsp = ApiR reply"
  | (missing) "s' = s" "wp_status rsp = 404" "wp_reply rsp = ApiR NoRouteR"
  | (other) "s' = s" "\<And>reply. wp_reply rsp \<noteq> ApiR reply"
proof (cases "\<exists>body. admitted app l req body")
  case False
  then have "s' = s \<and> (\<forall>reply. wp_reply rsp \<noteq> ApiR reply)"
    using assms
    by (auto simp: handle_web_def limited_def admitted_def error_response_def Let_def split: option.splits sum.splits prod.splits if_splits)
  with other show ?thesis by blast
next
  case True
  then obtain body where a: "admitted app l req body" by blast
  obtain b1 s1 status reply where r: "routed app dw req body (b, s) = ((b1, s1), status, reply)"
    by (metis surj_pair)
  have rsp: "s' = s1" "wp_status rsp = status" "wp_reply rsp = reply"
    using assms a r by (auto simp: handle_web_def limited_def admitted_def Let_def split: prod.splits)
  show ?thesis
  proof (cases "below_api (wr_path req)")
    case None
    with r have "s1 = s \<and> ((\<forall>x. reply \<noteq> ApiR x) \<or> status = 404 \<and> reply = ApiR NoRouteR)"
      by (auto simp: routed_def Let_def split: prod.splits if_splits)
    with rsp missing other show ?thesis by blast
  next
    case (Some rest)
    obtain s2 resp where q: "api_request (wa_api app) (wd_api dw) (as_api_request req body rest) s = (s2, Inr resp)"
      by (metis api_request_cases surj_pair)
    obtain st x where "resp = (st, x)" by (cases resp)
    with q r Some have "s1 = s \<and> (\<forall>x. reply \<noteq> ApiR x) \<or> s1 = s2 \<and> status = st \<and> reply = ApiR x"
      by (auto simp: routed_def Let_def split: prod.splits if_splits)
    with rsp q \<open>resp = (st, x)\<close> api [OF a Some, of x] other show ?thesis by metis
  qed
qed

text \<open>
  C2. Tenant isolation of the whole application. Only a request that the middleware admits (no preflight, a readable body,
  within the rate limit), that carries a token that verifies and goes to a writing route below \<^verbatim>\<open>/api/v1\<close> whose role gate
  lists the caller's role can change the database, and then nothing of any other workspace; probes, metrics,
  documentation and refused requests change nothing. What the API shows is documents of the caller's workspace
  only, at most 100 of them in a list; without a token that verifies it answers 401, or 404 outside the API, to anything but
  a login.
\<close>

theorem web_tenant_isolation:
  assumes "store (ap_env (wa_api app))" "unique_ids s" "handle_web app dw req (l, b, s) = ((l', b', s'), rsp)"
    and "auth = authMiddleware (ap_jwt_verify (wa_api app)) (ac_JWT_SECRET (ap_auth (wa_api app))) (wr_authorization req)"
  shows "(s' = s \<or> (\<exists>body rest c route. admitted app l req body \<and> below_api (wr_path req) = Some rest \<and> auth = Inr c \<and>
      confined (claim_text (c_workspaceId c)) s s' \<and> find_route (wr_method req) rest = Some route \<and> writing route \<and>
      c_role c \<in> (JStr \<circ> role_str) ` set (writers route)))
    \<and> (\<forall>reply. wp_reply rsp = ApiR reply \<longrightarrow>
      (\<exists>body rest. below_api (wr_path req) = Some rest \<and> is_login (as_api_request req body rest)) \<or>
      (case auth of Inl e \<Rightarrow> wp_status rsp = 401 \<or> wp_status rsp = 404
       | Inr c \<Rightarrow> shown (claim_text (c_workspaceId c)) (wp_status rsp, reply)))"
  using assms(3)
proof (cases rule: handle_web_cases)
  case (api body rest reply)
  let ?req = "as_api_request req body rest"
  have fields: "aq_method ?req = wr_method req" "aq_path ?req = rest" "aq_authorization ?req = wr_authorization req"
    by (simp_all add: as_api_request_def)
  have iso: "if is_login ?req then s' = s
     else case auth of Inl e \<Rightarrow> s' = s \<and> wp_status rsp = 401
     | Inr c \<Rightarrow> confined (claim_text (c_workspaceId c)) s s' \<and> shown (claim_text (c_workspaceId c)) (wp_status rsp, reply) \<and>
         (s' = s \<or> (\<exists>route. find_route (wr_method req) rest = Some route \<and> writing route \<and>
            c_role c \<in> (JStr \<circ> role_str) ` set (writers route)))"
    using api_tenant_isolation [OF assms(1,2) api(3)] unfolding fields assms(4) [symmetric] by (auto split: sum.splits)
  show ?thesis
  proof (cases "is_login ?req")
    case True
    with iso api(2) show ?thesis by auto
  next
    case False
    show ?thesis
    proof (cases auth)
      case (Inl e)
      with iso False show ?thesis by simp
    next
      case (Inr c)
      with iso False api(1,2,4) show ?thesis by auto
    qed
  qed
next
  case missing
  then show ?thesis by (auto simp: shown_def shows_only_def split: sum.splits)
qed simp

definition demo_web :: "ApiConfig \<Rightarrow> nat web_app" where
  "demo_web config =
     \<lparr> wa_config = config, wa_api = demo_api, wa_client = \<lparr>dc_baseUrl = ''http://d'', dc_timeoutMs = 5000\<rparr>,
       wa_spec = JObj [], wa_cors = (\<lambda>req. if wr_method req = ''OPTIONS'' then Some 204 else None),
       wa_limit = (\<lambda>window most n req. (n + 1, n < 120)), wa_swagger = (\<lambda>_. (200, [])),
       wa_contentType = ''text/plain'', wa_exposition = [] \<rparr>"

definition demo_web_request :: web_request where
  "demo_web_request =
     \<lparr> wr_method = ''POST'', wr_path = [''api'', ''v1'', ''diagnostics''],
       wr_authorization = Some (''Bearer '' @ demo_sign (claims_json (user_claims demo_user)) [] []),
       wr_correlationHeader = None, wr_requestIdHeader = None, wr_query = [],
       wr_body = Inr (JObj [(''idempotencyKey'', JStr ''diag-2024'')]) \<rparr>"

definition demo_web_draws :: web_draws where
  "demo_web_draws = \<lparr>wd_api = demo_draws, wd_now = 5, wd_readyState = 1, wd_fetch = (\<lambda>u t. None)\<rparr>"

theorem web_tenant_isolation_witness:
  "\<forall>config. \<exists>l b s rsp reply. handle_web (demo_web config) demo_web_draws demo_web_request (0, CircuitBreaker 5 15000, demo_users) =
      ((l, b, s), rsp) \<and> confined ''ws1'' demo_users s \<and> wp_reply rsp = ApiR reply \<and> shown ''ws1'' (wp_status rsp, reply)"
proof
  fix config
  let ?app = "demo_web config"
  obtain l b s rsp where run: "handle_web ?app demo_web_draws demo_web_request (0, CircuitBreaker 5 15000, demo_users) =
      ((l, b, s), rsp)" by (metis surj_pair)
  obtain reply where reply: "wp_reply rsp = ApiR reply"
  proof -
    obtain s2 st x where "api_request demo_api demo_draws (as_api_request demo_web_request
        (JObj [(''idempotencyKey'', JStr ''diag-2024'')]) [''diagnostics'']) demo_users = (s2, Inr (st, x))"
      by (metis api_request_cases surj_pair)
    with run have "wp_reply rsp = ApiR x"
      by (auto simp: handle_web_def limited_def routed_def demo_web_def demo_web_request_def demo_web_draws_def below_api_def seg_def
          toLowerCase_def lower_char_def is_get_def)
    with that show ?thesis by blast
  qed
  have st: "store (ap_env (wa_api ?app))" by (simp add: demo_web_def demo_api_def mem_store.store_axioms)
  have ids: "unique_ids demo_users" by (simp add: unique_ids_def demo_users_def res_indexed_def empty_db_def)
  have auth: "Inr (claims_values (user_claims demo_user)) = authMiddleware (ap_jwt_verify (wa_api ?app))
      (ac_JWT_SECRET (ap_auth (wa_api ?app))) (wr_authorization demo_web_request)"
    using demo_bearer [of "ac_JWT_SECRET demo_auth"] by (simp add: demo_web_def demo_api_def demo_web_request_def)
  have w: "claim_text (c_workspaceId (claims_values (user_claims demo_user))) = ''ws1''"
    by (simp add: claim_text_def claims_values_def user_claims_def demo_user_def)
  have login: "\<not> is_login (as_api_request demo_web_request body rest)"
    if "below_api (wr_path demo_web_request) = Some rest" for body rest
    using that by (auto simp: is_login_def as_api_request_def below_api_def demo_web_request_def split: if_splits)
  from web_tenant_isolation [OF st ids run auth] have "s = demo_users \<or> confined ''ws1'' demo_users s"
    "shown ''ws1'' (wp_status rsp, reply)"
    using reply login w by auto
  moreover have "confined ''ws1'' demo_users demo_users" using ids by (simp add: confined_def unique_ids_def)
  ultimately show "\<exists>l b s rsp reply. handle_web (demo_web config) demo_web_draws demo_web_request
      (0, CircuitBreaker 5 15000, demo_users) = ((l, b, s), rsp) \<and> confined ''ws1'' demo_users s \<and>
      wp_reply rsp = ApiR reply \<and> shown ''ws1'' (wp_status rsp, reply)"
    using run reply by blast
qed

end
