(* ===== verification/Spec2Isabelle.thy ===== *)
theory Spec2Isabelle
  imports Api_Documents Configured_Runs Policy_Effects Metrics Application
begin

text \<open>
  CloudOps Sentinel: an HTTP API (\<^verbatim>\<open>apps/api\<close>), a worker (\<^verbatim>\<open>apps/worker\<close>), the package both
  share (\<^verbatim>\<open>packages/shared\<close>), and a diagnostics service in Python (\<^verbatim>\<open>services/diagnostics\<close>) that the workers ask. Tenants (workspaces) list their cloud resources, have them diagnosed by
  background jobs, and remedy the findings through plans that an administrator approves with a
  one-time token. All state is in MongoDB; the API and any number of workers run against it.

  \<^bold>\<open>Program and theories.\<close> In the order in which they build on each other:

  \<^item> \<open>Prelude\<close>: computations that carry a state and may throw (\<open>io\<close>, \<open>call\<close>), and lists updated by key.
  \<^item> \<open>Mongo_Driver\<close>: what the program relies on when it calls a collection, as the locales \<open>collection\<close>
    and its extensions, with an in-memory collection that satisfies them. A failing database is part of
    the contract: every call may throw.
  \<^item> \<open>Domain\<close>: \<^verbatim>\<open>constants.ts\<close>, \<^verbatim>\<open>errors.ts\<close>, \<^verbatim>\<open>types/index.ts\<close>, the unique indexes of \<^verbatim>\<open>db/models\<close>.
  \<^item> \<open>Store\<close>: the database as a record of collections, the environment \<open>env\<close> of their drivers, the locales
    \<open>store\<close> and \<open>reliable_store\<close> (no call fails), interpreted on the in-memory drivers; \<^verbatim>\<open>audit/record.ts\<close>.
  \<^item> \<open>Backoff\<close>, \<open>Circuit_Breaker\<close>: \<^verbatim>\<open>observability/retry.ts\<close> and \<^verbatim>\<open>circuit-breaker.ts\<close>.
  \<^item> \<open>Job_Queue\<close>, \<open>Job_Service\<close>: \<^verbatim>\<open>jobs/queue.ts\<close> and \<^verbatim>\<open>job-service.ts\<close>; \<open>Job_Lifecycle\<close> and \<open>Job_Progress\<close>
    hold the theorems on any interleaving of their operations.
  \<^item> \<open>Diagnostics_Client\<close>, \<open>Job_Processor\<close>, \<open>Worker_Loop\<close>: \<^verbatim>\<open>diagnostics/client.ts\<close>, the worker's
    \<^verbatim>\<open>processor.ts\<close> and \<^verbatim>\<open>index.ts\<close>; \<open>Job_Findings\<close> and \<open>Job_Worker\<close> prove what a turn of a worker does,
    \<open>Diagnosis_Run\<close> what becomes of a request for a diagnosis.
  \<^item> \<open>Diagnostics_Service\<close>: \<^verbatim>\<open>services/diagnostics/app\<close>, the rules and the endpoint, with the policy they implement as
    a table; \<open>Served_Diagnosis\<close> puts the service behind the network of the worker (the locale
    \<open>diagnosis_engine\<close> is what the worker relies on), \<open>Policy_Effects\<close> follows the policy into the inventories and the
    remediations.
  \<^item> \<open>Serialize\<close>, \<open>Auth\<close>: \<^verbatim>\<open>serialize.ts\<close>, \<^verbatim>\<open>auth/index.ts\<close>, \<^verbatim>\<open>middleware/auth.ts\<close>, the login.
  \<^item> \<open>Remediation_Engine\<close>, \<open>Remediation_Service\<close>: \<^verbatim>\<open>remediation/engine.ts\<close> and \<^verbatim>\<open>remediation-service.ts\<close>;
    \<open>Remediation_Safety\<close>, \<open>Remediation_Effects\<close>, \<open>Remediation_Guarantees\<close> and \<open>Remediation_Run\<close> hold their theorems.
  \<^item> \<open>Mock_Provider\<close>, \<open>Aws_Provider\<close>, \<open>Resource_Service\<close>, \<open>Query_Service\<close>: \<^verbatim>\<open>providers\<close> with the factory,
    \<^verbatim>\<open>resource-service.ts\<close>, \<^verbatim>\<open>query-service.ts\<close>; \<open>Resource_Catalog\<close> proves the sync and the search.
  \<^item> \<open>Schemas\<close>, \<open>Api_Router\<close>: \<^verbatim>\<open>schemas.ts\<close>, \<^verbatim>\<open>middleware\<close>, \<^verbatim>\<open>routes\<close>;
    \<open>Api_Tenancy\<close> and \<open>Api_Isolation\<close> compose the services into the guarantee of the whole interface, and
    \<open>Application\<close> is the chain of \<^verbatim>\<open>app.ts\<close> around them.
  \<^item> \<open>Configuration\<close>: both \<^verbatim>\<open>config.ts\<close>, and the settings that the components get from them;
    \<open>Configured_Runs\<close> follows them into the executions.
  \<^item> \<open>Seed\<close>: \<^verbatim>\<open>seed.ts\<close> and \<^verbatim>\<open>connectMongo\<close>.
  \<^item> \<open>Document_Schemas\<close>: what the Mongoose schemas of \<^verbatim>\<open>db/models\<close> demand; \<open>Api_Documents\<close> and
    \<open>Worker_Documents\<close> prove that the processes store nothing else.
  \<^item> \<open>Metrics\<close>: \<^verbatim>\<open>metrics.ts\<close> and its middleware, the metric calls of the processor and of the polling loop.
  \<^item> \<open>Process_Lifecycle\<close>: both \<^verbatim>\<open>main\<close> functions, \<^verbatim>\<open>swagger.ts\<close>, the log line of a connection, the worker's
    health server, the shutdown of the API.

  \<^bold>\<open>How the code is rendered.\<close> A class is a record, a method a definition that takes the record; a document is a
  record with a field per field, \<^verbatim>\<open>null\<close> and a missing value are \<open>None\<close>. An operation on the
  database has type \<open>db \<Rightarrow> db \<times> (thrown + 'a)\<close>: a thrown error is \<open>Inl\<close>, and the changes made before it stay.
  Time is an integer in milliseconds: an operation takes the time it reads, or a clock \<open>nat \<Rightarrow> int\<close> when it reads
  several; random numbers are rationals in the unit interval. JavaScript numbers are integers or
  rationals, without rounding. A promise is a function from the milliseconds waited to what it settled with, or
  \<open>None\<close>; \<open>withTimeout\<close> reads it at its limit. Strings are lists of characters, read as
  UTF-16 units. Database calls are atomic, as single-document operations of MongoDB are; calls of different
  requests interleave as events of a list (\<open>job_step\<close>, \<open>rem_step\<close>), at the granularity of a request, and for
  the execution of a plan also between its checks and its effects. A run that exceeds its time-out goes on in the
  background; \<open>pace\<close> says how far it comes before the worker reports.

  \<^bold>\<open>Parameters.\<close> SHA-256, bcrypt and JWT, the AWS SDK, \<^verbatim>\<open>fetch\<close>, the regular expressions of MongoDB, the e-mail
  syntax and the issue texts of zod, cors, body parsing, the counting of the rate limiter and Swagger UI are arguments of the definitions that use them. Theorems state what
  they rely on as hypotheses, and each has a witness in which a concrete function satisfies them.

  \<^bold>\<open>What the theorems show.\<close>
  \<^item> Jobs: every reachable job is well-formed; a lease is exclusive; a failing job is tried exactly as often
    as configured and dead-lettered; creation is idempotent; claims make progress; a worker that claims a
    job settles it, and processing a job again stores no finding twice.
  \<^item> Diagnoses: the rules of the service implement a table of nine policies; a requested diagnosis runs through, and its
    findings are exactly the resources and rules of that table; the seeded inventory breaks every rule, an AWS inventory
    can break only four.
  \<^item> Remediation: a plan executes at most once, only approved, with its own token; an execution changes
    exactly what the plan says; actions reach their goals and are idempotent; a finding with an
    allowlisted recommendation is remediated by three requests, and which findings the next diagnosis repeats is
    settled.
  \<^item> Resources: a sync refines an update of an abstract catalog; inventories are complete or refused; lists are
    slices of the tenant's documents; searching is literal.
  \<^item> The interface: whatever the request to the application, only the caller's workspace can change or be shown, and only
    through the role gates.
  \<^item> Infrastructure: the breaker refines a count of failures, delays are bounded, retries end, the worker
    keeps its limit and drains before it exits.
  \<^item> Documents: what the API stores conforms to the schemas, and what the workers store does because the
    diagnostics service keeps its contract.
  \<^item> Operation: a process serves exactly when its environment, its database and its port allow it, and stops
    gracefully; on AWS no resource is ever changed; after seeding everybody printed can log in; the
    workers' counters agree with the database.
  \<^item> Flaws the model exhibits: recoveries ignore the limit of attempts, a late report reopens a completed job, two
    concurrent requests execute one plan, equal e-mail addresses in two workspaces shut a user out, some findings come back after their remediation, and a
    diagnosis of an AWS account is blind to five rules.

  \<^bold>\<open>Bounds and fuel.\<close> All recursion is structural or by a measure. The only fuel is that of \<open>Worker_Loop.fill\<close>, and
  \<open>nat concurrency\<close> of it is shown to be enough.

  \<^bold>\<open>Not modelled.\<close> The timestamps that Mongoose keeps, raw provider payloads, casting and \<^verbatim>\<open>minimize\<close> of Mongoose
  (an invalid identifier makes the real query throw), objects with repeated keys, security
  headers and the options of the logger (third-party middleware and output), the
  registries behind the metric calls of both languages, FastAPI and pydantic, rounding of floating-point numbers,
  disconnecting from MongoDB, type declarations and module indexes, and the load-test script.
\<close>

end
